(* ===== verification/Prelude.thy ===== *)
theory Prelude
  imports Main "HOL-Library.Word" "HOL-Library.State_Monad"
begin

text \<open>
  What every theory of the development shares: machine integers and byte strings, Go errors
  and outcomes as values, byte-slice access as the Go code writes it (\<open>copy\<close>,
  \<open>PutUint16\<close>, \<open>Uint32\<close> on a little-endian buffer), the weakest-precondition calculus
  for stateful code over \<open>HOL-Library.State_Monad\<close>, and the named collections the
  component proofs use.
\<close>

unbundle bit_operations_syntax

section \<open>Named collections\<close>

named_theorems slice_simps \<open>reading a field of a byte buffer after writes\<close>
named_theorems wp_simps \<open>weakest preconditions of the monad's combinators\<close>

section \<open>Machine integers and bytes\<close>

type_synonym u8 = "8 word"
type_synonym u16 = "16 word"
type_synonym u32 = "32 word"
type_synonym u64 = "64 word"
type_synonym bytes = "8 word list"

text \<open>A Go string is a byte sequence: \<open>string\<close> here, one \<open>char\<close> per byte.\<close>

definition bytes_of :: "string \<Rightarrow> bytes" where
  "bytes_of s = map (\<lambda>c. of_char c) s"

definition string_of :: "bytes \<Rightarrow> string" where
  "string_of bs = map (\<lambda>b. char_of (unat b)) bs"

section \<open>Errors and outcomes\<close>

text \<open>
  A Go error is its format string with the arguments in order, plus the wrapped error of
  \<open>%w\<close>; \<open>ExtErr\<close> is an error made outside the program (the operating system, grout's
  peer, a plugin); \<open>NewError\<close> is a CNI error with its code, message and details.
  \<open>outcome\<close> is what a handler can do: return a value, return an error,
  or panic.
\<close>

datatype arg = AStr string | ANum int | ABytes bytes | ANet bytes bytes

datatype error =
    ExtErr string
  | Errorf string "arg list"
  | Wrapf string "arg list" error
  | NewError nat error string

datatype 'a outcome = Ret 'a | Err error | Panic

section \<open>Byte buffers\<close>

definition make_bytes :: "nat \<Rightarrow> bytes" where
  "make_bytes n = replicate n 0"

text \<open>\<open>buf[off : off+w]\<close>, for a range inside the buffer.\<close>

definition slice :: "nat \<Rightarrow> nat \<Rightarrow> 'a list \<Rightarrow> 'a list" where
  "slice off w buf = take w (drop off buf)"

text \<open>\<open>copy(buf[off : off+w], src)\<close>: at most \<open>w\<close> bytes of \<open>src\<close> overwrite the window.\<close>

definition copy_at :: "nat \<Rightarrow> nat \<Rightarrow> 'a list \<Rightarrow> 'a list \<Rightarrow> 'a list" where
  "copy_at off w src buf =
     take off buf @ take w src @ drop (off + min w (length src)) buf"

text \<open>\<open>buf[off] = v\<close>.\<close>

definition put8 :: "nat \<Rightarrow> u8 \<Rightarrow> bytes \<Rightarrow> bytes" where
  "put8 off v buf = copy_at off 1 [v] buf"

text \<open>The little-endian byte order (\<open>binary.LittleEndian\<close>).\<close>

definition le16 :: "u16 \<Rightarrow> bytes" where
  "le16 v = [ucast v, ucast (drop_bit 8 v)]"

definition le32 :: "u32 \<Rightarrow> bytes" where
  "le32 v = [ucast v, ucast (drop_bit 8 v), ucast (drop_bit 16 v), ucast (drop_bit 24 v)]"

fun un_le16 :: "bytes \<Rightarrow> u16" where
  "un_le16 (a # b # _) = ucast a OR push_bit 8 (ucast b)"
| "un_le16 _ = 0"

fun un_le32 :: "bytes \<Rightarrow> u32" where
  "un_le32 (a # b # c # d # _) =
     ucast a OR push_bit 8 (ucast b) OR push_bit 16 (ucast c) OR push_bit 24 (ucast d)"
| "un_le32 _ = 0"

definition put16 :: "nat \<Rightarrow> u16 \<Rightarrow> bytes \<Rightarrow> bytes" where
  "put16 off v buf = copy_at off 2 (le16 v) buf"

definition put32 :: "nat \<Rightarrow> u32 \<Rightarrow> bytes \<Rightarrow> bytes" where
  "put32 off v buf = copy_at off 4 (le32 v) buf"

definition get8 :: "nat \<Rightarrow> bytes \<Rightarrow> u8" where
  "get8 off buf = buf ! off"

definition get16 :: "nat \<Rightarrow> bytes \<Rightarrow> u16" where
  "get16 off buf = un_le16 (slice off 2 buf)"

definition get32 :: "nat \<Rightarrow> bytes \<Rightarrow> u32" where
  "get32 off buf = un_le32 (slice off 4 buf)"

section \<open>Weakest preconditions of stateful code\<close>

text \<open>
  Stateful Go code is a \<^typ>\<open>('w, 'a) state\<close>. \<open>wp m Q w\<close> says that running \<open>m\<close>
  from \<open>w\<close> ends in a result and a state that satisfy \<open>Q\<close>.
\<close>

definition wp :: "('w, 'a) state \<Rightarrow> ('a \<Rightarrow> 'w \<Rightarrow> bool) \<Rightarrow> 'w \<Rightarrow> bool" where
  "wp m Q w = (case run_state m w of (a, w') \<Rightarrow> Q a w')"

text \<open>
  The two shapes of Go's \<open>if err != nil { return \<dots> }\<close>: after a call that returns only an
  error, and after one that returns a value or an error.
\<close>

definition try_op ::
  "('w, error option) state \<Rightarrow> (error \<Rightarrow> 'b) \<Rightarrow> ('w, 'b) state \<Rightarrow> ('w, 'b) state" where
  "try_op m onerr k = do {
     e \<leftarrow> m;
     case e of Some err \<Rightarrow> State_Monad.return (onerr err) | None \<Rightarrow> k
   }"

definition try_val ::
  "('w, error + 'a) state \<Rightarrow> (error \<Rightarrow> 'b) \<Rightarrow> ('a \<Rightarrow> ('w, 'b) state) \<Rightarrow> ('w, 'b) state" where
  "try_val m onerr k = do {
     r \<leftarrow> m;
     case r of Inl err \<Rightarrow> State_Monad.return (onerr err) | Inr x \<Rightarrow> k x
   }"

section \<open>Lemmas\<close>

subsection \<open>Strings and bytes\<close>

lemma length_bytes_of [simp]: "length (bytes_of s) = length s"
  by (simp add: bytes_of_def)

lemma length_string_of [simp]: "length (string_of bs) = length bs"
  by (simp add: string_of_def)

lemma bytes_of_append [simp]: "bytes_of (s @ t) = bytes_of s @ bytes_of t"
  by (simp add: bytes_of_def)

lemma unat_of_char [simp]: "unat (of_char c :: u8) = of_char c"
proof -
  have "unat (word_of_nat (of_char c) :: u8) = of_char c"
    using nat_of_char_less_256 [of c] by (simp only: unat_of_nat) simp
  then show ?thesis by (simp only: of_nat_of_char)
qed

lemma string_of_bytes_of [simp]: "string_of (bytes_of s) = s"
  by (simp add: string_of_def bytes_of_def comp_def)

lemma inj_bytes_of: "inj bytes_of"
  by (metis injI string_of_bytes_of)

lemma of_char_eq_0_iff [simp]: "(of_char c :: u8) = 0 \<longleftrightarrow> c = char_of (0::nat)"
proof
  assume "(of_char c :: u8) = 0"
  then have "unat (of_char c :: u8) = 0" by simp
  then have "(of_char c :: nat) = 0" by simp
  then show "c = char_of (0::nat)" by (metis char_of_char)
next
  assume "c = char_of (0::nat)"
  then have "(of_char c :: nat) = 0" by simp
  then have "unat (of_char c :: u8) = 0" by simp
  then show "(of_char c :: u8) = 0" by (simp only: unat_eq_zero)
qed

subsection \<open>Buffers\<close>

lemma length_make_bytes [simp]: "length (make_bytes n) = n"
  by (simp add: make_bytes_def)

lemma take_drop_chunks [simp]: "take a xs @ take n (drop a xs) @ drop (n + a) xs = xs"
  by (metis append_take_drop_id drop_drop)

lemma length_slice: "off + w \<le> length buf \<Longrightarrow> length (slice off w buf) = w"
  by (simp add: slice_def)

lemma slice_make_bytes [slice_simps]:
  "off + w \<le> n \<Longrightarrow> slice off w (make_bytes n) = replicate w 0"
  by (simp add: slice_def make_bytes_def)

lemma length_copy_at [slice_simps]:
  "off + min w (length src) \<le> length buf \<Longrightarrow> length (copy_at off w src buf) = length buf"
  by (auto simp: copy_at_def)

lemma nth_copy_at:
  assumes "off + min w (length src) \<le> length buf" and "i < length buf"
  shows "copy_at off w src buf ! i =
    (if off \<le> i \<and> i < off + min w (length src) then src ! (i - off) else buf ! i)"
  using assms by (auto simp: copy_at_def nth_append min_def)

lemma slice_copy_same [slice_simps]:
  "length src = w \<Longrightarrow> off + w \<le> length buf \<Longrightarrow> slice off w (copy_at off w src buf) = src"
  by (simp add: slice_def copy_at_def)

lemma slice_copy_disjoint [slice_simps]:
  assumes "off' + w' \<le> off \<or> off + min w (length src) \<le> off'"
    and "off + min w (length src) \<le> length buf" and "off' + w' \<le> length buf"
  shows "slice off' w' (copy_at off w src buf) = slice off' w' buf"
proof (rule nth_equalityI)
  show "length (slice off' w' (copy_at off w src buf)) = length (slice off' w' buf)"
    using assms by (simp add: length_slice length_copy_at)
  fix i assume "i < length (slice off' w' (copy_at off w src buf))"
  then have "i < w'" by (simp add: slice_def)
  then show "slice off' w' (copy_at off w src buf) ! i = slice off' w' buf ! i"
    using assms by (auto simp: slice_def nth_copy_at length_copy_at)
qed

lemma slice_copy_padded:
  assumes "length src \<le> w" and "off + w \<le> length buf"
    and "slice off w buf = replicate w z"
  shows "slice off w (copy_at off w src buf) = src @ replicate (w - length src) z"
proof -
  have "drop (length src) (slice off w buf) = replicate (w - length src) z"
    by (simp add: assms(3))
  then have "take (w - length src) (drop (off + length src) buf) = replicate (w - length src) z"
    by (simp add: slice_def drop_take add.commute)
  then show ?thesis
    using assms(1,2) by (simp add: slice_def copy_at_def)
qed

lemma length_le16 [simp]: "length (le16 v) = 2"
  by (simp add: le16_def)

lemma length_le32 [simp]: "length (le32 v) = 4"
  by (simp add: le32_def)

lemma un_le16_le16 [simp]: "un_le16 (le16 v @ rest) = v"
  by (rule bit_word_eqI) (auto simp: le16_def bit_simps)

lemma un_le32_le32 [simp]: "un_le32 (le32 v @ rest) = v"
proof (rule bit_word_eqI)
  fix n assume "n < LENGTH(32)"
  then consider "n < 8" | "8 \<le> n" "n < 16" | "16 \<le> n" "n < 24" | "24 \<le> n" "n < 32"
    by force
  then show "bit (un_le32 (le32 v @ rest)) n = bit v n"
    by cases (auto simp: le32_def bit_simps)
qed

lemma un_le16_le16' [simp]: "un_le16 (le16 v) = v"
  using un_le16_le16 [of v "[]"] by simp

lemma un_le32_le32' [simp]: "un_le32 (le32 v) = v"
  using un_le32_le32 [of v "[]"] by simp

lemma length_puts [slice_simps]:
  "off + 1 \<le> length buf \<Longrightarrow> length (put8 off b buf) = length buf"
  "off + 2 \<le> length buf \<Longrightarrow> length (put16 off v buf) = length buf"
  "off + 4 \<le> length buf \<Longrightarrow> length (put32 off x buf) = length buf"
  by (simp_all add: put8_def put16_def put32_def length_copy_at)

lemma slice_put8_same [slice_simps]:
  "off + 1 \<le> length buf \<Longrightarrow> slice off 1 (put8 off b buf) = [b]"
  by (simp add: put8_def slice_copy_same)

lemma slice_put8_Suc [slice_simps]:
  "off + 1 \<le> length buf \<Longrightarrow> slice off (Suc 0) (put8 off b buf) = [b]"
  using slice_put8_same by simp

lemma slice_put8_disjoint [slice_simps]:
  "off' + w' \<le> off \<or> off + 1 \<le> off' \<Longrightarrow> off + 1 \<le> length buf \<Longrightarrow> off' + w' \<le> length buf \<Longrightarrow>
   slice off' w' (put8 off b buf) = slice off' w' buf"
  by (simp add: put8_def slice_copy_disjoint)

lemma slice_put16_same [slice_simps]:
  "off + 2 \<le> length buf \<Longrightarrow> slice off 2 (put16 off v buf) = le16 v"
  by (simp add: put16_def slice_copy_same)

lemma slice_put16_disjoint [slice_simps]:
  "off' + w' \<le> off \<or> off + 2 \<le> off' \<Longrightarrow> off + 2 \<le> length buf \<Longrightarrow> off' + w' \<le> length buf \<Longrightarrow>
   slice off' w' (put16 off v buf) = slice off' w' buf"
  by (simp add: put16_def slice_copy_disjoint)

lemma slice_put32_same [slice_simps]:
  "off + 4 \<le> length buf \<Longrightarrow> slice off 4 (put32 off v buf) = le32 v"
  by (simp add: put32_def slice_copy_same)

lemma slice_put32_disjoint [slice_simps]:
  "off' + w' \<le> off \<or> off + 4 \<le> off' \<Longrightarrow> off + 4 \<le> length buf \<Longrightarrow> off' + w' \<le> length buf \<Longrightarrow>
   slice off' w' (put32 off v buf) = slice off' w' buf"
  by (simp add: put32_def slice_copy_disjoint)

lemma get8_slice: "off < length buf \<Longrightarrow> get8 off buf = hd (slice off 1 buf)"
  by (simp add: get8_def slice_def hd_drop_conv_nth)

subsection \<open>Weakest preconditions\<close>

lemma wp_return [wp_simps]: "wp (State_Monad.return a) Q w = Q a w"
  by (simp add: wp_def)

lemma wp_bind [wp_simps]:
  "wp (State_Monad.bind m f) Q w = wp m (\<lambda>a w'. wp (f a) Q w') w"
  by (simp add: wp_def split: prod.split)

lemma wp_case_sum [wp_simps]:
  "wp (case r of Inl e \<Rightarrow> f e | Inr x \<Rightarrow> g x) Q w =
   (case r of Inl e \<Rightarrow> wp (f e) Q w | Inr x \<Rightarrow> wp (g x) Q w)"
  by (simp split: sum.split)

lemma wp_case_option [wp_simps]:
  "wp (case r of None \<Rightarrow> f | Some x \<Rightarrow> g x) Q w =
   (case r of None \<Rightarrow> wp f Q w | Some x \<Rightarrow> wp (g x) Q w)"
  by (simp split: option.split)

lemma wp_case_outcome [wp_simps]:
  "wp (case r of Ret x \<Rightarrow> f x | Err e \<Rightarrow> g e | Panic \<Rightarrow> h) Q w =
   (case r of Ret x \<Rightarrow> wp (f x) Q w | Err e \<Rightarrow> wp (g e) Q w | Panic \<Rightarrow> wp h Q w)"
  by (simp split: outcome.split)

lemma wp_case_prod [wp_simps]:
  "wp (case p of (x, y) \<Rightarrow> f x y) Q w = (case p of (x, y) \<Rightarrow> wp (f x y) Q w)"
  by (simp split: prod.split)

lemma wp_if [wp_simps]:
  "wp (if b then f else g) Q w = (if b then wp f Q w else wp g Q w)"
  by simp

lemma wp_try_op [wp_simps]:
  "wp (try_op m onerr k) Q w =
     wp m (\<lambda>e w'. case e of Some err \<Rightarrow> Q (onerr err) w' | None \<Rightarrow> wp k Q w') w"
  by (simp add: try_op_def wp_bind wp_case_option wp_return cong: option.case_cong)

lemma wp_try_val [wp_simps]:
  "wp (try_val m onerr k) Q w =
     wp m (\<lambda>r w'. case r of Inl err \<Rightarrow> Q (onerr err) w' | Inr x \<Rightarrow> wp (k x) Q w') w"
  by (simp add: try_val_def wp_bind wp_case_sum wp_return cong: sum.case_cong)

lemma wp_mono: "wp m Q w \<Longrightarrow> (\<And>a w'. Q a w' \<Longrightarrow> Q' a w') \<Longrightarrow> wp m Q' w"
  by (auto simp: wp_def)

lemma wp_conj: "wp m (\<lambda>a w'. P a w' \<and> Q a w') w \<longleftrightarrow> wp m P w \<and> wp m Q w"
  by (auto simp: wp_def split: prod.split)

lemma wpI: "(\<And>a w'. run_state m w = (a, w') \<Longrightarrow> Q a w') \<Longrightarrow> wp m Q w"
  by (auto simp: wp_def split: prod.split)

lemma wpD: "wp m Q w \<Longrightarrow> run_state m w = (a, w') \<Longrightarrow> Q a w'"
  by (simp add: wp_def)

end
