(* ===== verification/GoStrings.thy ===== *)
theory GoStrings
  imports Prelude
begin

text \<open>
  The parts of Go's \<open>strings\<close>, \<open>bytes\<close>, \<open>fmt\<close> and \<open>path/filepath\<close> packages that
  the program calls, on byte strings. \<open>strings.ToLower\<close> and \<open>strings.TrimSpace\<close> have an
  ASCII fast path and a Unicode one; the Unicode tables are a parameter
  (\<open>unicode_tables\<close>), the control flow between the two paths is modelled. The lemmas
  describe the ASCII path and the shape of cleaned paths.
\<close>

section \<open>Definitions\<close>

subsection \<open>Bytes of a string\<close>

definition is_ascii :: "char \<Rightarrow> bool" where
  "is_ascii c \<longleftrightarrow> (of_char c :: nat) < 128"

text \<open>Tab, newline, vertical tab, form feed, carriage return and space.\<close>

definition ascii_space :: "char \<Rightarrow> bool" where
  "ascii_space c \<longleftrightarrow> (of_char c :: nat) \<in> {9, 10, 11, 12, 13, 32}"

definition ascii_lower :: "char \<Rightarrow> char" where
  "ascii_lower c =
     (if 65 \<le> (of_char c :: nat) \<and> (of_char c :: nat) \<le> 90
      then char_of ((of_char c :: nat) + 32) else c)"

definition lower_or_digit :: "char \<Rightarrow> bool" where
  "lower_or_digit c \<longleftrightarrow>
     (97 \<le> (of_char c :: nat) \<and> (of_char c :: nat) \<le> 122) \<or>
     (48 \<le> (of_char c :: nat) \<and> (of_char c :: nat) \<le> 57)"

subsection \<open>Package strings\<close>

text \<open>
  \<open>map_lower\<close> is \<open>strings.Map(unicode.ToLower, s)\<close>, \<open>trim_func\<close> and
  \<open>trim_right_func\<close> are \<open>TrimFunc\<close> and \<open>TrimRightFunc\<close> with \<open>unicode.IsSpace\<close>:
  what the library does once it has met a byte outside ASCII.
\<close>

record unicode_tables =
  map_lower :: "string \<Rightarrow> string"
  trim_func :: "string \<Rightarrow> string"
  trim_right_func :: "string \<Rightarrow> string"

definition strings_ToLower :: "unicode_tables \<Rightarrow> string \<Rightarrow> string" where
  "strings_ToLower u s = (if list_all is_ascii s then map ascii_lower s else map_lower u s)"

definition strings_TrimSpace :: "unicode_tables \<Rightarrow> string \<Rightarrow> string" where
  "strings_TrimSpace u s =
     (let r = dropWhile ascii_space s in
      case r of
        [] \<Rightarrow> []
      | c # _ \<Rightarrow>
          if \<not> is_ascii c then trim_func u r
          else let t = rev (dropWhile ascii_space (rev r)) in
            if \<not> is_ascii (last t) then trim_right_func u t else t)"

definition strings_HasPrefix :: "string \<Rightarrow> string \<Rightarrow> bool" where
  "strings_HasPrefix s p \<longleftrightarrow> length p \<le> length s \<and> take (length p) s = p"

fun strings_Join :: "string list \<Rightarrow> string \<Rightarrow> string" where
  "strings_Join [] sep = []"
| "strings_Join [s] sep = s"
| "strings_Join (s # ss) sep = s @ sep @ strings_Join ss sep"

subsection \<open>Numbers in text\<close>

definition digit_char :: "nat \<Rightarrow> char" where
  "digit_char d = (if d < 10 then char_of (48 + d) else char_of (87 + d))"

fun show_nat :: "nat \<Rightarrow> string" where
  "show_nat n = (if n < 10 then [digit_char n] else show_nat (n div 10) @ [digit_char (n mod 10)])"

declare show_nat.simps [simp del]

text \<open>\<open>%04x\<close> of a number below 65536.\<close>

definition hex4 :: "nat \<Rightarrow> string" where
  "hex4 n = map digit_char
     [n div 4096 mod 16, n div 256 mod 16, n div 16 mod 16, n mod 16]"

text \<open>\<open>%02x\<close> of a byte.\<close>

definition hex2 :: "u8 \<Rightarrow> string" where
  "hex2 b = map digit_char [unat b div 16, unat b mod 16]"

subsection \<open>Package path/filepath on Unix\<close>

fun split_slash :: "string \<Rightarrow> string list" where
  "split_slash [] = [[]]"
| "split_slash (c # cs) =
     (if c = CHR ''/'' then [] # split_slash cs
      else case split_slash cs of [] \<Rightarrow> [[c]] | p # ps \<Rightarrow> (c # p) # ps)"

text \<open>One path element of \<open>filepath.Clean\<close>; the stack holds the kept elements, last first.\<close>

definition clean_push :: "bool \<Rightarrow> string \<Rightarrow> string list \<Rightarrow> string list" where
  "clean_push rooted p st =
     (if p = [] \<or> p = ''.'' then st
      else if p = ''..'' then
        (case st of
           [] \<Rightarrow> (if rooted then [] else [''..''])
         | q # qs \<Rightarrow> (if q = ''..'' then ''..'' # q # qs else qs))
      else p # st)"

definition clean_stack :: "string \<Rightarrow> string list" where
  "clean_stack s =
     fold (clean_push (s \<noteq> [] \<and> hd s = CHR ''/'')) (split_slash s) []"

definition filepath_Clean :: "string \<Rightarrow> string" where
  "filepath_Clean s =
     (if s = [] then ''.''
      else if hd s = CHR ''/'' then ''/'' @ strings_Join (rev (clean_stack s)) ''/''
      else if clean_stack s = [] then ''.''
      else strings_Join (rev (clean_stack s)) ''/'')"

text \<open>Everything up to and including the last slash, cleaned.\<close>

definition filepath_Dir :: "string \<Rightarrow> string" where
  "filepath_Dir s = filepath_Clean (rev (dropWhile (\<lambda>c. c \<noteq> CHR ''/'') (rev s)))"

definition filepath_Join :: "string list \<Rightarrow> string" where
  "filepath_Join es =
     (case dropWhile (\<lambda>e. e = []) es of
        [] \<Rightarrow> []
      | es' \<Rightarrow> filepath_Clean (strings_Join es' ''/''))"

section \<open>Lemmas\<close>

lemma HasPrefix_append [simp]: "strings_HasPrefix (p @ s) p"
  by (simp add: strings_HasPrefix_def)

lemma HasPrefix_iff: "strings_HasPrefix s p \<longleftrightarrow> (\<exists>t. s = p @ t)"
  by (metis append_take_drop_id strings_HasPrefix_def append_eq_conv_conj length_append le_add1)

lemma length_hex4 [simp]: "length (hex4 n) = 4"
  by (simp add: hex4_def)

lemma length_hex2 [simp]: "length (hex2 b) = 2"
  by (simp add: hex2_def)

lemma ascii_lower_id: "lower_or_digit c \<Longrightarrow> ascii_lower c = c"
  by (auto simp: lower_or_digit_def ascii_lower_def)

lemma ToLower_lower_id:
  "\<forall>c \<in> set s. is_ascii c \<and> ascii_lower c = c \<Longrightarrow> strings_ToLower u s = s"
  by (simp add: strings_ToLower_def list_all_iff map_idI)

subsection \<open>Splitting and cleaning paths\<close>

lemma split_slash_nonempty [simp]: "split_slash s \<noteq> []"
  by (induction s) (auto split: list.splits)

lemma split_slash_noslash: "CHR ''/'' \<notin> set s \<Longrightarrow> split_slash s = [s]"
  by (induction s) auto

lemma split_slash_append:
  "split_slash (s @ CHR ''/'' # t) = split_slash s @ split_slash t"
  by (induction s) (auto split: list.splits simp: Cons_eq_append_conv)

lemma clean_push_plain:
  "p \<noteq> [] \<Longrightarrow> p \<noteq> ''.'' \<Longrightarrow> p \<noteq> ''..'' \<Longrightarrow> clean_push r p st = p # st"
  by (simp add: clean_push_def)

lemma strings_Join_snoc:
  "ss \<noteq> [] \<Longrightarrow> strings_Join (ss @ [s]) sep = strings_Join ss sep @ sep @ s"
proof (induction ss)
  case (Cons a ss)
  then show ?case by (cases ss) auto
qed simp

text \<open>Appending a plain path element to a path adds it at the end of the cleaned path.\<close>

lemma clean_stack_snoc:
  assumes "d \<noteq> []" "CHR ''/'' \<notin> set p" "p \<noteq> []" "p \<noteq> ''.''" "p \<noteq> ''..''"
  shows "clean_stack (d @ ''/'' @ p) = p # clean_stack d"
  using assms
  by (simp add: clean_stack_def split_slash_append split_slash_noslash clean_push_plain)

lemma clean_push_nonempty:
  assumes "[] \<notin> set st"
  shows "[] \<notin> set (clean_push r p st)"
proof (cases "p = [] \<or> p = ''.'' \<or> p = ''..''")
  case True
  then show ?thesis using assms by (cases st) (auto simp: clean_push_def)
next
  case False
  then have "clean_push r p st = p # st" by (simp add: clean_push_plain)
  then show ?thesis using assms False by auto
qed

lemma fold_clean_push_nonempty:
  "[] \<notin> set st \<Longrightarrow> [] \<notin> set (fold (clean_push r) ps st)"
  by (induction ps arbitrary: st) (simp_all add: clean_push_nonempty)

lemma strings_Join_eq_Nil: "strings_Join ss sep = [] \<Longrightarrow> ss = [] \<or> [] \<in> set ss"
  by (induction ss sep rule: strings_Join.induct) auto

lemma filepath_Clean_nonempty [simp]: "filepath_Clean s \<noteq> []"
proof -
  have "[] \<notin> set (rev (clean_stack s))"
    by (simp add: clean_stack_def fold_clean_push_nonempty)
  then show ?thesis
    using strings_Join_eq_Nil [of "rev (clean_stack s)" "''/''"]
    by (auto simp: filepath_Clean_def)
qed

lemma filepath_Dir_nonempty [simp]: "filepath_Dir s \<noteq> []"
  by (simp add: filepath_Dir_def)

end
