(* ===== verification/GoNet.thy ===== *)
theory GoNet
  imports GoStrings
begin

text \<open>
  Go's \<open>net.IP\<close>, \<open>net.IPMask\<close> and \<open>net.IPNet\<close> as byte lists, with the methods the
  program calls: \<open>To4\<close>, \<open>To16\<close>, \<open>Mask\<close>, \<open>Equal\<close>, \<open>IPMask.Size\<close> and
  \<open>HardwareAddr.String\<close>. A method that may return a nil slice returns an option.
\<close>

section \<open>Definitions\<close>

type_synonym IP = bytes
type_synonym IPMask = bytes
type_synonym HardwareAddr = bytes

record IPNet =
  IP :: IP
  Mask :: IPMask

definition v4InV6Prefix :: bytes where
  "v4InV6Prefix = [0, 0, 0, 0, 0, 0, 0, 0, 0, 0, 0xff, 0xff]"

definition IP_To4 :: "IP \<Rightarrow> IP option" where
  "IP_To4 ip =
     (if length ip = 4 then Some ip
      else if length ip = 16 \<and> take 12 ip = v4InV6Prefix then Some (drop 12 ip)
      else None)"

definition IP_To16 :: "IP \<Rightarrow> IP option" where
  "IP_To16 ip =
     (if length ip = 4 then Some (v4InV6Prefix @ ip)
      else if length ip = 16 then Some ip
      else None)"

definition IP_Mask :: "IP \<Rightarrow> IPMask \<Rightarrow> IP option" where
  "IP_Mask ip m =
     (let m' = (if length m = 16 \<and> length ip = 4 \<and> take 12 m = replicate 12 0xff
                   then drop 12 m else m);
          ip' = (if length m' = 4 \<and> length ip = 16 \<and> take 12 ip = v4InV6Prefix
                 then drop 12 ip else ip)
      in if length ip' = length m' then Some (map2 (AND) ip' m') else None)"

definition IP_Equal :: "IP \<Rightarrow> IP \<Rightarrow> bool" where
  "IP_Equal ip x \<longleftrightarrow>
     (if length ip = length x then ip = x
      else if length ip = 4 \<and> length x = 16 then take 12 x = v4InV6Prefix \<and> ip = drop 12 x
      else if length ip = 16 \<and> length x = 4 then take 12 ip = v4InV6Prefix \<and> drop 12 ip = x
      else False)"

text \<open>
  \<open>simpleMaskLength\<close>: whole \<open>0xff\<close> bytes, then the leading ones of the next byte, after
  which only zero bits may follow; \<open>None\<close> is the library's \<open>-1\<close>.
\<close>

definition leading_ones :: "u8 \<Rightarrow> nat" where
  "leading_ones v = length (takeWhile (\<lambda>i. bit v (7 - i)) [0..<8])"

fun simpleMaskLength :: "IPMask \<Rightarrow> nat option" where
  "simpleMaskLength [] = Some 0"
| "simpleMaskLength (v # vs) =
     (if v = 0xff then map_option ((+) 8) (simpleMaskLength vs)
      else if push_bit (leading_ones v) v \<noteq> 0 \<or> (\<exists>w \<in> set vs. w \<noteq> 0) then None
      else Some (leading_ones v))"

text \<open>The first result of \<open>IPMask.Size\<close>: 0 for a mask that is not a prefix.\<close>

definition IPMask_Size :: "IPMask \<Rightarrow> nat" where
  "IPMask_Size m = (case simpleMaskLength m of None \<Rightarrow> 0 | Some n \<Rightarrow> n)"

definition HardwareAddr_String :: "HardwareAddr \<Rightarrow> string" where
  "HardwareAddr_String a = strings_Join (map hex2 a) '':''"

text \<open>\<open>net.CIDRMask(ones, 8 * n)\<close>, for the statements about prefix masks.\<close>

definition prefix_mask :: "nat \<Rightarrow> nat \<Rightarrow> IPMask" where
  "prefix_mask n ones =
     map (\<lambda>i. if 8 * i + 8 \<le> ones then 0xff
              else push_bit (8 - (ones - 8 * i)) 0xff) [0..<n]"

section \<open>Lemmas\<close>

lemma length_v4InV6Prefix [simp]: "length v4InV6Prefix = 12"
  by (simp add: v4InV6Prefix_def)

lemma To4_length: "IP_To4 ip = Some x \<Longrightarrow> length x = 4"
  by (auto simp: IP_To4_def split: if_splits)

lemma To16_length: "IP_To16 ip = Some x \<Longrightarrow> length x = 16"
  by (auto simp: IP_To16_def split: if_splits)

lemma To4_of_4 [simp]: "length ip = 4 \<Longrightarrow> IP_To4 ip = Some ip"
  by (simp add: IP_To4_def)

lemma To4_None_To16: "IP_To4 ip = None \<Longrightarrow> IP_To16 ip = Some x \<Longrightarrow> x = ip \<and> length ip = 16"
  by (auto simp: IP_To4_def IP_To16_def split: if_splits)

lemma IP_Equal_refl [simp]: "IP_Equal ip ip"
  by (simp add: IP_Equal_def)

lemma IP_Equal_sym: "IP_Equal a b = IP_Equal b a"
  by (auto simp: IP_Equal_def)

text \<open>Two addresses are equal exactly when their 16-byte forms are.\<close>

lemma append_drop_iff:
  "length p = n \<Longrightarrow> p @ y = x \<longleftrightarrow> take n x = p \<and> y = drop n x"
  by (auto simp: append_eq_conv_conj)

lemma IP_Equal_To16:
  assumes "IP_To16 a = Some a'" and "IP_To16 b = Some b'"
  shows "IP_Equal a b \<longleftrightarrow> a' = b'"
proof -
  have a: "length a = 4 \<and> a' = v4InV6Prefix @ a \<or> length a = 16 \<and> a' = a"
    using assms(1) by (simp add: IP_To16_def split: if_splits)
  have b: "length b = 4 \<and> b' = v4InV6Prefix @ b \<or> length b = 16 \<and> b' = b"
    using assms(2) by (simp add: IP_To16_def split: if_splits)
  have "v4InV6Prefix @ y = x \<longleftrightarrow> take 12 x = v4InV6Prefix \<and> y = drop 12 x" for x y
    by (rule append_drop_iff) simp
  moreover have "x = v4InV6Prefix @ y \<longleftrightarrow> take 12 x = v4InV6Prefix \<and> drop 12 x = y" for x y
    by (metis append_drop_iff length_v4InV6Prefix)
  ultimately show ?thesis
    using a b by (elim disjE conjE; hypsubst) (simp_all add: IP_Equal_def)
qed

lemma IP_Mask_length: "IP_Mask ip m = Some x \<Longrightarrow> length x \<in> {length ip, 4}"
  by (auto simp: IP_Mask_def Let_def split: if_splits)

lemma length_prefix_mask [simp]: "length (prefix_mask n ones) = n"
  by (simp add: prefix_mask_def)

end
