(* ===== verification/Protocol.thy ===== *)
theory Protocol
  imports GoNet
begin

text \<open>
  The wire protocol of grout's control socket (\<open>src/pkg/groutapi/protocol.go\<close>): message
  types, request and response headers, \<open>writeRequest\<close> and \<open>readResponse\<close>.

  A connection (\<open>Conn\<close>) is the state of its peer and the bytes the peer has sent that
  are still unread. The peer (grout, or whatever listens on the socket) is the parameter
  \<open>Net\<close>: how it reacts to each \<open>Write\<close>, with a write error or with further bytes.
  Reading past the last byte is the end of the stream.
\<close>

section \<open>Constants\<close>

definition maxMsgLen :: u32 where "maxMsgLen = 128 * 1024"

definition apiVersion :: u32 where "apiVersion = 3"

definition DefaultSocketPath :: string where "DefaultSocketPath = ''/run/grout/grout.sock''"

definition moduleMain :: u32 where "moduleMain = 0xcafe"
definition moduleInfra :: u32 where "moduleInfra = 0xacdc"
definition moduleIP4 :: u32 where "moduleIP4 = 0xf00d"
definition moduleIP6 :: u32 where "moduleIP6 = 0xfeed"
definition moduleL2 :: u32 where "moduleL2 = 0xbabe"

text \<open>\<open>GR_MSG_TYPE(module, id)\<close>.\<close>

definition msg_type :: "u32 \<Rightarrow> u32 \<Rightarrow> u32" where
  "msg_type m i = push_bit 16 m OR i"

definition TypeHello :: u32 where "TypeHello = msg_type moduleMain 0x1981"
definition TypeIfaceAdd :: u32 where "TypeIfaceAdd = msg_type moduleInfra 0x0001"
definition TypeIfaceDel :: u32 where "TypeIfaceDel = msg_type moduleInfra 0x0002"
definition TypeIfaceList :: u32 where "TypeIfaceList = msg_type moduleInfra 0x0004"
definition TypeIP4RouteAdd :: u32 where "TypeIP4RouteAdd = msg_type moduleIP4 0x0001"
definition TypeIP4RouteDel :: u32 where "TypeIP4RouteDel = msg_type moduleIP4 0x0002"
definition TypeIP4AddrAdd :: u32 where "TypeIP4AddrAdd = msg_type moduleIP4 0x0005"
definition TypeIP4AddrDel :: u32 where "TypeIP4AddrDel = msg_type moduleIP4 0x0006"
definition TypeIP4AddrFlush :: u32 where "TypeIP4AddrFlush = msg_type moduleIP4 0x0008"
definition TypeIP6RouteAdd :: u32 where "TypeIP6RouteAdd = msg_type moduleIP6 0x0001"
definition TypeIP6RouteDel :: u32 where "TypeIP6RouteDel = msg_type moduleIP6 0x0002"
definition TypeIP6AddrAdd :: u32 where "TypeIP6AddrAdd = msg_type moduleIP6 0x0005"
definition TypeIP6AddrDel :: u32 where "TypeIP6AddrDel = msg_type moduleIP6 0x0006"
definition TypeIP6AddrFlush :: u32 where "TypeIP6AddrFlush = msg_type moduleIP6 0x0008"
definition TypeFloodAdd :: u32 where "TypeFloodAdd = msg_type moduleL2 0x0007"
definition TypeFloodDel :: u32 where "TypeFloodDel = msg_type moduleL2 0x0008"
definition TypeFloodList :: u32 where "TypeFloodList = msg_type moduleL2 0x0009"

lemmas msg_type_defs =
  TypeHello_def TypeIfaceAdd_def TypeIfaceDel_def TypeIfaceList_def
  TypeIP4RouteAdd_def TypeIP4RouteDel_def TypeIP4AddrAdd_def TypeIP4AddrDel_def
  TypeIP4AddrFlush_def TypeIP6RouteAdd_def TypeIP6RouteDel_def TypeIP6AddrAdd_def
  TypeIP6AddrDel_def TypeIP6AddrFlush_def TypeFloodAdd_def TypeFloodDel_def TypeFloodList_def
  msg_type_def moduleMain_def moduleInfra_def moduleIP4_def moduleIP6_def moduleL2_def

section \<open>Headers\<close>

record RequestHeader =
  req_ID :: u32
  req_Type :: u32
  req_PayloadLen :: u32

record ResponseHeader =
  rsp_ForID :: u32
  rsp_Status :: u32
  rsp_PayloadLen :: u32

text \<open>\<open>binary.Write\<close> and \<open>binary.Read\<close> of a header: its fields in order, little-endian.\<close>

definition encode_request_header :: "RequestHeader \<Rightarrow> bytes" where
  "encode_request_header h = le32 (req_ID h) @ le32 (req_Type h) @ le32 (req_PayloadLen h)"

definition decode_request_header :: "bytes \<Rightarrow> RequestHeader" where
  "decode_request_header bs =
     \<lparr>req_ID = get32 0 bs, req_Type = get32 4 bs, req_PayloadLen = get32 8 bs\<rparr>"

definition encode_response_header :: "ResponseHeader \<Rightarrow> bytes" where
  "encode_response_header h = le32 (rsp_ForID h) @ le32 (rsp_Status h) @ le32 (rsp_PayloadLen h)"

definition decode_response_header :: "bytes \<Rightarrow> ResponseHeader" where
  "decode_response_header bs =
     \<lparr>rsp_ForID = get32 0 bs, rsp_Status = get32 4 bs, rsp_PayloadLen = get32 8 bs\<rparr>"

section \<open>Connections\<close>

record 'g Net =
  net_dial :: "string \<Rightarrow> 'g \<Rightarrow> error + 'g"
  peer_recv :: "bytes \<Rightarrow> 'g \<Rightarrow> error option \<times> bytes \<times> 'g"
  net_close :: "'g \<Rightarrow> error option \<times> 'g"

record 'g Conn =
  peer :: 'g
  inq :: bytes

definition conn_Write :: "'g Net \<Rightarrow> bytes \<Rightarrow> ('g Conn, error option) state" where
  "conn_Write net bs = State (\<lambda>c.
     case peer_recv net bs (peer c) of (e, out, g) \<Rightarrow>
       (e, c\<lparr>peer := g, inq := inq c @ out\<rparr>))"

definition io_EOF :: error where "io_EOF = ExtErr ''EOF''"
definition io_ErrUnexpectedEOF :: error where "io_ErrUnexpectedEOF = ExtErr ''unexpected EOF''"

definition io_ReadFull :: "nat \<Rightarrow> ('g Conn, error + bytes) state" where
  "io_ReadFull n = State (\<lambda>c.
     if n \<le> length (inq c) then (Inr (take n (inq c)), c\<lparr>inq := drop n (inq c)\<rparr>)
     else if inq c = [] then (Inl io_EOF, c)
     else (Inl io_ErrUnexpectedEOF, c\<lparr>inq := []\<rparr>))"

section \<open>Requests and responses\<close>

definition writeRequest ::
  "'g Net \<Rightarrow> u32 \<Rightarrow> u32 \<Rightarrow> bytes \<Rightarrow> ('g Conn, error option) state" where
  "writeRequest net i msgType payload = do {
     let hdr = \<lparr>req_ID = i, req_Type = msgType, req_PayloadLen = word_of_nat (length payload)\<rparr>;
     e \<leftarrow> conn_Write net (encode_request_header hdr);
     case e of
       Some err \<Rightarrow> State_Monad.return (Some (Wrapf ''writing request header: %w'' [] err))
     | None \<Rightarrow>
         if length payload > 0 then do {
           e \<leftarrow> conn_Write net payload;
           case e of
             Some err \<Rightarrow> State_Monad.return (Some (Wrapf ''writing request payload: %w'' [] err))
           | None \<Rightarrow> State_Monad.return None
         }
         else State_Monad.return None
   }"

definition readResponse :: "('g Conn, error + ResponseHeader \<times> bytes) state" where
  "readResponse = do {
     r \<leftarrow> io_ReadFull 12;
     case r of
       Inl err \<Rightarrow> State_Monad.return (Inl (Wrapf ''reading response header: %w'' [] err))
     | Inr hb \<Rightarrow>
         let hdr = decode_response_header hb in
         if rsp_PayloadLen hdr > maxMsgLen then
           State_Monad.return
             (Inl (Errorf ''response payload too large: %d'' [ANum (uint (rsp_PayloadLen hdr))]))
         else if rsp_PayloadLen hdr > 0 then do {
           r \<leftarrow> io_ReadFull (unat (rsp_PayloadLen hdr));
           case r of
             Inl err \<Rightarrow> State_Monad.return (Inl (Wrapf ''reading response payload: %w'' [] err))
           | Inr payload \<Rightarrow> State_Monad.return (Inr (hdr, payload))
         }
         else State_Monad.return (Inr (hdr, []))
   }"

text \<open>The bytes of one response, as a peer sends it.\<close>

definition response_bytes :: "u32 \<Rightarrow> u32 \<Rightarrow> bytes \<Rightarrow> bytes" where
  "response_bytes i status payload =
     encode_response_header
       \<lparr>rsp_ForID = i, rsp_Status = status, rsp_PayloadLen = word_of_nat (length payload)\<rparr>
     @ payload"

section \<open>Lemmas\<close>

lemma get32_split:
  "get32 0 (le32 a @ le32 b @ le32 c @ rest) = a"
  "get32 4 (le32 a @ le32 b @ le32 c @ rest) = b"
  "get32 8 (le32 a @ le32 b @ le32 c @ rest) = c"
  by (simp_all add: get32_def slice_def)

lemma decode_encode_request_header [simp]:
  "decode_request_header (encode_request_header h @ rest) = h"
  by (simp add: decode_request_header_def encode_request_header_def get32_split)

lemma decode_encode_response_header [simp]:
  "decode_response_header (encode_response_header h @ rest) = h"
  by (simp add: decode_response_header_def encode_response_header_def get32_split)

lemma decode_encode_response_header' [simp]:
  "decode_response_header (encode_response_header h) = h"
  using decode_encode_response_header [of h "[]"] by simp

lemma length_encode_headers [simp]:
  "length (encode_request_header rq) = 12"
  "length (encode_response_header rs) = 12"
  by (simp_all add: encode_request_header_def encode_response_header_def)

lemma wp_conn_Write [wp_simps]:
  "wp (conn_Write net bs) Q c =
     (case peer_recv net bs (peer c) of (e, out, g) \<Rightarrow>
        Q e (c\<lparr>peer := g, inq := inq c @ out\<rparr>))"
  by (simp add: wp_def conn_Write_def split: prod.split)

lemma wp_io_ReadFull [wp_simps]:
  "wp (io_ReadFull n) Q c =
     (if n \<le> length (inq c) then Q (Inr (take n (inq c))) (c\<lparr>inq := drop n (inq c)\<rparr>)
      else if inq c = [] then Q (Inl io_EOF) c
      else Q (Inl io_ErrUnexpectedEOF) (c\<lparr>inq := []\<rparr>))"
  by (simp add: wp_def io_ReadFull_def)

text \<open>A response that was read consumed at least its header and exactly its payload.\<close>

lemma readResponse_consumes:
  assumes "run_state readResponse c = (Inr (hdr, payload), c')"
  shows "inq c = take 12 (inq c) @ payload @ inq c' \<and> 12 \<le> length (inq c)
    \<and> decode_response_header (take 12 (inq c)) = hdr
    \<and> length payload = unat (rsp_PayloadLen hdr) \<and> rsp_PayloadLen hdr \<le> maxMsgLen
    \<and> peer c' = peer c"
proof -
  have "wp readResponse (\<lambda>r c'. \<forall>hdr payload. r = Inr (hdr, payload) \<longrightarrow>
      inq c = take 12 (inq c) @ payload @ inq c' \<and> 12 \<le> length (inq c)
      \<and> decode_response_header (take 12 (inq c)) = hdr
      \<and> length payload = unat (rsp_PayloadLen hdr) \<and> rsp_PayloadLen hdr \<le> maxMsgLen
      \<and> peer c' = peer c) c"
    by (auto simp: readResponse_def wp_simps Let_def not_less word_gt_0)
  then show ?thesis using assms by (simp add: wp_def)
qed

lemma readResponse_shrinks:
  "run_state readResponse c = (Inr hp, c') \<Longrightarrow> length (inq c') < length (inq c)"
proof (cases hp)
  case (Pair hdr payload)
  assume "run_state readResponse c = (Inr hp, c')"
  with Pair have "inq c = take 12 (inq c) @ payload @ inq c' \<and> 12 \<le> length (inq c)"
    using readResponse_consumes by blast
  then have "length (inq c) = 12 + length payload + length (inq c')"
    by (metis add.assoc length_append length_take min.absorb2)
  then show ?thesis by simp
qed

text \<open>Reading what a peer sent as one response gives back its header fields and payload.\<close>

lemma readResponse_response_bytes:
  assumes "length payload \<le> unat maxMsgLen"
  shows "run_state readResponse \<lparr>peer = g, inq = response_bytes i st payload @ rest\<rparr> =
    (Inr (\<lparr>rsp_ForID = i, rsp_Status = st, rsp_PayloadLen = word_of_nat (length payload)\<rparr>, payload),
     \<lparr>peer = g, inq = rest\<rparr>)"
proof -
  let ?n = "word_of_nat (length payload) :: u32"
  have len: "unat ?n = length payload"
    using assms by (simp add: maxMsgLen_def unat_of_nat)
  then have le: "\<not> ?n > maxMsgLen"
    using assms by (simp add: word_less_nat_alt)
  have "0 < ?n \<longleftrightarrow> payload \<noteq> []"
    using len by (simp add: word_less_nat_alt)
  then show ?thesis
    using len le
    by (simp add: readResponse_def io_ReadFull_def State_Monad.bind_def response_bytes_def Let_def)
qed

end
