(* ===== verification/GoHash.thy ===== *)
theory GoHash
  imports GoStrings
begin

text \<open>
  Go's \<open>hash/fnv\<close> (FNV-1a, 32 and 64 bits), \<open>crypto/sha256\<close> (FIPS 180-4) and
  \<open>encoding/base32\<close> (standard alphabet, no padding), as far as the program uses them:
  executable functions on byte lists, with the lemmas on lengths and alphabets that the
  names derived from them need.
\<close>

section \<open>FNV-1a\<close>

definition fnv32a :: "bytes \<Rightarrow> u32" where
  "fnv32a bs = foldl (\<lambda>h b. (h XOR ucast b) * 16777619) 2166136261 bs"

definition fnv64a :: "bytes \<Rightarrow> u64" where
  "fnv64a bs = foldl (\<lambda>h b. (h XOR ucast b) * 1099511628211) 14695981039346656037 bs"

section \<open>SHA-256\<close>

definition rotr32 :: "nat \<Rightarrow> u32 \<Rightarrow> u32" where
  "rotr32 n x = drop_bit n x OR push_bit (32 - n) x"

text \<open>
  The constants, as FIPS 180-4 (4.2.2 and 5.3.3) specifies them: the first 32 bits of the
  fractional parts of the cube roots of the first 64 primes, and of the square roots of the
  first 8. \<open>root_floor n x\<close> is the integer \<open>n\<close>-th root, found bit by bit; 36 bits are enough
  for \<open>2 ^ 32\<close> times the cube root of 311 and the square root of 19, both below 8.
\<close>

definition sha_primes :: "nat list" where
  "sha_primes = filter (\<lambda>p. list_all (\<lambda>d. p mod d \<noteq> 0) [2..<p]) [2..<312]"

definition root_floor :: "nat \<Rightarrow> int \<Rightarrow> int" where
  "root_floor n x =
     foldl (\<lambda>r b. if (r + 2 ^ b) ^ n \<le> x then r + 2 ^ b else r) 0 (rev [0..<36])"

definition frac_root :: "nat \<Rightarrow> nat \<Rightarrow> u32" where
  "frac_root n p = word_of_int (root_floor n (int p * 2 ^ (32 * n)))"

definition sha_k :: "u32 list" where
  "sha_k = map (frac_root 3) sha_primes"

type_synonym sha_state = "u32 \<times> u32 \<times> u32 \<times> u32 \<times> u32 \<times> u32 \<times> u32 \<times> u32"

definition sha_init :: sha_state where
  "sha_init =
     (case map (frac_root 2) (take 8 sha_primes) of
        [a, b, c, d, e, f, g, h] \<Rightarrow> (a, b, c, d, e, f, g, h)
      | _ \<Rightarrow> (0, 0, 0, 0, 0, 0, 0, 0))"

text \<open>Big-endian encodings.\<close>

definition be32 :: "u32 \<Rightarrow> bytes" where
  "be32 v = [ucast (drop_bit 24 v), ucast (drop_bit 16 v), ucast (drop_bit 8 v), ucast v]"

definition be64 :: "u64 \<Rightarrow> bytes" where
  "be64 v = map (\<lambda>i. ucast (drop_bit (56 - 8 * i) v)) [0..<8]"

fun un_be32s :: "bytes \<Rightarrow> u32 list" where
  "un_be32s (a # b # c # d # rest) =
     (push_bit 24 (ucast a) OR push_bit 16 (ucast b) OR push_bit 8 (ucast c) OR ucast d)
     # un_be32s rest"
| "un_be32s _ = []"

definition sha_pad :: "bytes \<Rightarrow> bytes" where
  "sha_pad m = m @ [0x80] @ replicate ((119 - length m mod 64) mod 64) 0
     @ be64 (word_of_nat (8 * length m))"

text \<open>
  The message schedule as a sliding window: \<open>w\<close> holds \<open>W[t-16 .. t-1]\<close>; each round
  consumes its first word and appends the next one.
\<close>

definition sha_sched :: "u32 list \<Rightarrow> u32 list" where
  "sha_sched w =
     (let s0 = (\<lambda>x. rotr32 7 x XOR rotr32 18 x XOR drop_bit 3 x);
          s1 = (\<lambda>x. rotr32 17 x XOR rotr32 19 x XOR drop_bit 10 x)
      in tl w @ [s1 (w ! 14) + w ! 9 + s0 (w ! 1) + w ! 0])"

definition sha_round :: "u32 \<Rightarrow> u32 \<Rightarrow> sha_state \<Rightarrow> sha_state" where
  "sha_round k w st =
     (case st of (a, b, c, d, e, f, g, h) \<Rightarrow>
      let t1 = h + (rotr32 6 e XOR rotr32 11 e XOR rotr32 25 e)
               + ((e AND f) XOR (NOT e AND g)) + k + w;
          t2 = (rotr32 2 a XOR rotr32 13 a XOR rotr32 22 a)
               + ((a AND b) XOR (a AND c) XOR (b AND c))
      in (t1 + t2, a, b, c, d + t1, e, f, g))"

fun sha_rounds :: "u32 list \<Rightarrow> u32 list \<Rightarrow> sha_state \<Rightarrow> sha_state" where
  "sha_rounds [] w st = st"
| "sha_rounds (k # ks) w st = sha_rounds ks (sha_sched w) (sha_round k (hd w) st)"

definition sha_block :: "sha_state \<Rightarrow> u32 list \<Rightarrow> sha_state" where
  "sha_block st w =
     (case (st, sha_rounds sha_k w st) of
        ((a, b, c, d, e, f, g, h), (a', b', c', d', e', f', g', h')) \<Rightarrow>
        (a + a', b + b', c + c', d + d', e + e', f + f', g + g', h + h'))"

fun sha_blocks :: "nat \<Rightarrow> u32 list \<Rightarrow> sha_state \<Rightarrow> sha_state" where
  "sha_blocks 0 ws st = st"
| "sha_blocks (Suc n) ws st = sha_blocks n (drop 16 ws) (sha_block st (take 16 ws))"

definition sha256 :: "bytes \<Rightarrow> bytes" where
  "sha256 m =
     (let p = sha_pad m in
      case sha_blocks (length p div 64) (un_be32s p) sha_init of
        (a, b, c, d, e, f, g, h) \<Rightarrow> concat (map be32 [a, b, c, d, e, f, g, h]))"

section \<open>Base32\<close>

definition base32_char :: "nat \<Rightarrow> char" where
  "base32_char v = (if v < 26 then char_of (65 + v) else char_of (24 + v))"

text \<open>The bits of a byte, most significant first.\<close>

definition byte_bits :: "u8 \<Rightarrow> bool list" where
  "byte_bits b = map (\<lambda>i. bit b (7 - i)) [0..<8]"

definition bits_val :: "bool list \<Rightarrow> nat" where
  "bits_val bs = foldl (\<lambda>n b. 2 * n + of_bool b) 0 bs"

text \<open>Five bits per character; a last short group is filled with zero bits.\<close>

fun base32_groups :: "bool list \<Rightarrow> nat list" where
  "base32_groups (a # b # c # d # e # rest) = bits_val [a, b, c, d, e] # base32_groups rest"
| "base32_groups [] = []"
| "base32_groups bs = [bits_val (bs @ replicate (5 - length bs) False)]"

definition base32_encode :: "bytes \<Rightarrow> string" where
  "base32_encode bs = map base32_char (base32_groups (concat (map byte_bits bs)))"

section \<open>Lemmas\<close>

lemma length_be32 [simp]: "length (be32 v) = 4"
  by (simp add: be32_def)

lemma length_sha256 [simp]: "length (sha256 m) = 32"
  by (simp add: sha256_def Let_def split: prod.split)

lemma length_byte_bits [simp]: "length (byte_bits b) = 8"
  by (simp add: byte_bits_def)

lemma length_base32_groups: "length (base32_groups bs) = (length bs + 4) div 5"
  by (induction bs rule: base32_groups.induct) auto

lemma bits_val_less: "length bs \<le> 5 \<Longrightarrow> bits_val bs < 32"
proof -
  have "foldl (\<lambda>n b. 2 * n + of_bool b) n bs < Suc n * 2 ^ length bs" for n :: nat and bs
  proof (induction bs arbitrary: n)
    case (Cons b bs)
    have "foldl (\<lambda>n b. 2 * n + of_bool b) (2 * n + of_bool b) bs
        < Suc (2 * n + of_bool b) * 2 ^ length bs" by (rule Cons.IH)
    also have "\<dots> \<le> (2 * Suc n) * 2 ^ length bs" by (intro mult_le_mono1) simp
    finally show ?case by simp
  qed simp
  from this [of 0 bs] have "bits_val bs < 2 ^ length bs" by (simp add: bits_val_def)
  moreover assume "length bs \<le> 5"
  then have "(2::nat) ^ length bs \<le> 2 ^ 5" by (intro power_increasing) simp_all
  ultimately show ?thesis by simp
qed

lemma base32_groups_bound: "v \<in> set (base32_groups bs) \<Longrightarrow> v < 32"
  by (induction bs rule: base32_groups.induct) (auto intro!: bits_val_less)

lemma length_base32_encode: "length (base32_encode bs) = (8 * length bs + 4) div 5"
proof -
  have "length (concat (map byte_bits bs)) = 8 * length bs"
    by (induction bs) auto
  then show ?thesis by (simp add: base32_encode_def length_base32_groups)
qed

text \<open>Lower-cased base32 text uses only \<open>a-z\<close> and \<open>2-7\<close>.\<close>

lemma base32_char_lower:
  assumes "v < 32"
  shows "is_ascii (base32_char v) \<and> lower_or_digit (ascii_lower (base32_char v))"
proof (cases "v < 26")
  case True
  then have "(of_char (base32_char v) :: nat) = 65 + v" by (simp add: base32_char_def)
  with True show ?thesis
    by (simp add: is_ascii_def lower_or_digit_def ascii_lower_def)
next
  case False
  with assms have "(of_char (base32_char v) :: nat) = 24 + v" by (simp add: base32_char_def)
  with False assms show ?thesis
    by (simp add: is_ascii_def lower_or_digit_def ascii_lower_def)
qed

lemma base32_lower_chars:
  "c \<in> set (strings_ToLower u (base32_encode bs)) \<Longrightarrow> is_ascii c \<and> lower_or_digit c"
proof -
  assume c: "c \<in> set (strings_ToLower u (base32_encode bs))"
  have "list_all is_ascii (base32_encode bs)"
    using base32_groups_bound base32_char_lower by (fastforce simp: base32_encode_def list_all_iff)
  with c obtain v where "v < 32" "c = ascii_lower (base32_char v)"
    using base32_groups_bound by (auto simp: strings_ToLower_def base32_encode_def)
  then have "lower_or_digit c" using base32_char_lower by simp
  then show ?thesis by (auto simp: is_ascii_def lower_or_digit_def)
qed

end
