(* ===== verification/Client.thy ===== *)
theory Client
  imports Protocol GoHash
begin

text \<open>
  The grout API client (\<open>src/pkg/groutapi/types.go\<close>, \<open>src/pkg/groutapi/client.go\<close>):
  request types, the client's state, the request and response-stream exchanges, and one
  operation per API call with its wire layout.

  The client's mutex serialises the exchanges of one client; an exchange is one step of the
  model. Interface indices and offsets are those of the source; a payload is built by the
  same sequence of writes into a zeroed buffer.
\<close>

section \<open>Request and response types\<close>

type_synonym InterfaceType = u8

definition InterfaceTypeUndef :: InterfaceType where "InterfaceTypeUndef = 0"
definition InterfaceTypeVRF :: InterfaceType where "InterfaceTypeVRF = 1"
definition InterfaceTypePort :: InterfaceType where "InterfaceTypePort = 2"
definition InterfaceTypeTAP :: InterfaceType where "InterfaceTypeTAP = 2"
definition InterfaceTypeVLAN :: InterfaceType where "InterfaceTypeVLAN = 3"
definition InterfaceTypeIPIP :: InterfaceType where "InterfaceTypeIPIP = 4"
definition InterfaceTypeBond :: InterfaceType where "InterfaceTypeBond = 5"
definition InterfaceTypeBridge :: InterfaceType where "InterfaceTypeBridge = 6"
definition InterfaceTypeVXLAN :: InterfaceType where "InterfaceTypeVXLAN = 7"

record VXLANConfig =
  vx_VNI :: u32
  vx_EncapVRFID :: u16
  vx_DstPort :: u16
  vx_LocalAddr :: IP

record InterfaceAddRequest =
  ia_Name :: string
  ia_Type :: InterfaceType
  ia_DomainID :: u16
  ia_MTU :: u16
  ia_VhostUserPath :: string
  ia_VXLAN :: "VXLANConfig option"

record InterfaceInfo =
  if_ID :: u16
  if_Type :: InterfaceType
  if_Name :: string
  if_Domain :: u16

record AddressAddRequest =
  aa_IfaceID :: u16
  aa_Address :: IPNet
  aa_ExistOK :: bool

record AddressDelRequest =
  ad_IfaceID :: u16
  ad_Address :: IPNet
  ad_MissingOK :: bool

record RouteAddRequest =
  ra_VRFID :: u16
  ra_Destination :: IPNet
  ra_NextHop :: IP
  ra_IfaceID :: u16
  ra_ExistOK :: bool

record RouteDelRequest =
  rd_VRFID :: u16
  rd_Destination :: IPNet
  rd_MissingOK :: bool

record FloodAddRequest =
  fa_VRFID :: u16
  fa_VNI :: u32
  fa_Addr :: IP
  fa_ExistOK :: bool

record FloodDelRequest =
  fd_VRFID :: u16
  fd_VNI :: u32
  fd_Addr :: IP
  fd_MissingOK :: bool

record FloodVTEPInfo =
  fv_VNI :: u32
  fv_Addr :: "IP option"

section \<open>Layout constants\<close>

definition ifNameSize :: nat where "ifNameSize = 16"
definition ifDescSize :: nat where "ifDescSize = 256"
definition portDevargsSize :: nat where "portDevargsSize = 128"
definition portDriverSize :: nat where "portDriverSize = 32"
definition ifaceBaseSize :: nat where "ifaceBaseSize = 20"
definition ifaceSize :: nat where "ifaceSize = ifaceBaseSize + ifNameSize + ifDescSize"
definition portInfoBaseSize :: nat where "portInfoBaseSize = 14"
definition portInfoSize :: nat where
  "portInfoSize = portInfoBaseSize + portDevargsSize + portDriverSize"
definition bridgeMaxMembers :: nat where "bridgeMaxMembers = 64"
definition bridgeInfoBase :: nat where "bridgeInfoBase = 12"
definition bridgeInfoSize :: nat where "bridgeInfoSize = bridgeInfoBase + bridgeMaxMembers * 2"
definition offBridgeInfoMAC :: nat where "offBridgeInfoMAC = 4"
definition l3AddrSize :: nat where "l3AddrSize = 20"
definition offL3AddrAF :: nat where "offL3AddrAF = 0"
definition offL3AddrIPv4 :: nat where "offL3AddrIPv4 = 4"
definition vxlanInfoSize :: nat where "vxlanInfoSize = 36"
definition offVxlanVNI :: nat where "offVxlanVNI = 0"
definition offVxlanEncapVRF :: nat where "offVxlanEncapVRF = 4"
definition offVxlanDstPort :: nat where "offVxlanDstPort = 6"
definition offVxlanLocal :: nat where "offVxlanLocal = 8"
definition floodEntrySize :: nat where "floodEntrySize = 28"
definition floodReqSize :: nat where "floodReqSize = 32"
definition offFloodType :: nat where "offFloodType = 0"
definition offFloodVRFID :: nat where "offFloodVRFID = 2"
definition offFloodVTEPVNI :: nat where "offFloodVTEPVNI = 4"
definition offFloodVTEPAddr :: nat where "offFloodVTEPAddr = 8"
definition offIfaceID :: nat where "offIfaceID = 0"
definition offIfaceType :: nat where "offIfaceType = 2"
definition offIfaceFlags :: nat where "offIfaceFlags = 4"
definition offIfaceMTU :: nat where "offIfaceMTU = 8"
definition offIfaceDomain :: nat where "offIfaceDomain = 12"
definition offIfaceName :: nat where "offIfaceName = 20"
definition offIfaceInfo :: nat where "offIfaceInfo = 292"
definition offPortDevargs :: nat where "offPortDevargs = offIfaceInfo + portInfoBaseSize"
definition ip6AddrReqSize :: nat where "ip6AddrReqSize = 22"
definition offIP6IfaceID :: nat where "offIP6IfaceID = 0"
definition offIP6Addr :: nat where "offIP6Addr = 2"
definition offIP6Prefix :: nat where "offIP6Prefix = 18"
definition offIP6Flag :: nat where "offIP6Flag = 20"
definition ip6RouteAddReqSize :: nat where "ip6RouteAddReqSize = 44"
definition offIP6RteVRF :: nat where "offIP6RteVRF = 0"
definition offIP6RteDest :: nat where "offIP6RteDest = 2"
definition offIP6RteDestPfx :: nat where "offIP6RteDestPfx = 18"
definition offIP6RteNH :: nat where "offIP6RteNH = 19"
definition offIP6RteOrigin :: nat where "offIP6RteOrigin = 40"
definition offIP6RteExistOK :: nat where "offIP6RteExistOK = 41"
definition ip6RouteDelReqSize :: nat where "ip6RouteDelReqSize = 20"
definition offIP6RteDelMissing :: nat where "offIP6RteDelMissing = 19"

definition afIP4 :: u8 where "afIP4 = 2"
definition floodTypeVTEP :: u8 where "floodTypeVTEP = 1"
definition grIfaceIDUndef :: u16 where "grIfaceIDUndef = 0"
definition grIfaceFlagUp :: u16 where "grIfaceFlagUp = 1"
definition grVRFDefaultID :: u16 where "grVRFDefaultID = 1"

lemmas layout_defs [simp] =
  ifaceBaseSize_def portInfoBaseSize_def bridgeMaxMembers_def bridgeInfoBase_def
  ifNameSize_def ifDescSize_def portDevargsSize_def portDriverSize_def ifaceSize_def
  portInfoSize_def bridgeInfoSize_def offBridgeInfoMAC_def l3AddrSize_def offL3AddrAF_def
  offL3AddrIPv4_def vxlanInfoSize_def offVxlanVNI_def offVxlanEncapVRF_def
  offVxlanDstPort_def offVxlanLocal_def floodEntrySize_def floodReqSize_def
  offFloodType_def offFloodVRFID_def offFloodVTEPVNI_def offFloodVTEPAddr_def
  offIfaceID_def offIfaceType_def offIfaceFlags_def offIfaceMTU_def offIfaceDomain_def
  offIfaceName_def offIfaceInfo_def offPortDevargs_def ip6AddrReqSize_def
  offIP6IfaceID_def offIP6Addr_def offIP6Prefix_def offIP6Flag_def ip6RouteAddReqSize_def
  offIP6RteVRF_def offIP6RteDest_def offIP6RteDestPfx_def offIP6RteNH_def
  offIP6RteOrigin_def offIP6RteExistOK_def ip6RouteDelReqSize_def offIP6RteDelMissing_def

section \<open>The client and its exchanges\<close>

record 'g Client =
  conn :: "'g Conn"
  reqID :: u32

definition on_conn :: "('g Conn, 'a) state \<Rightarrow> ('g Client, 'a) state" where
  "on_conn m = State (\<lambda>c. case run_state m (conn c) of (r, cn) \<Rightarrow> (r, c\<lparr>conn := cn\<rparr>))"

definition nextID :: "('g Client, u32) state" where
  "nextID = State (\<lambda>c. (reqID c + 1, c\<lparr>reqID := reqID c + 1\<rparr>))"

text \<open>
  \<open>resp\<close> is the size of the structure the response is decoded into, or \<open>None\<close> for a nil
  target. The result is what was decoded: the empty list when the response carries no
  payload, in which case the target keeps its zero value.
\<close>

definition request ::
  "'g Net \<Rightarrow> u32 \<Rightarrow> bytes \<Rightarrow> nat option \<Rightarrow> ('g Client, error + bytes) state" where
  "request net msgType payload resp = do {
     i \<leftarrow> nextID;
     e \<leftarrow> on_conn (writeRequest net i msgType payload);
     case e of
       Some err \<Rightarrow> State_Monad.return (Inl err)
     | None \<Rightarrow> do {
         r \<leftarrow> on_conn readResponse;
         case r of
           Inl err \<Rightarrow> State_Monad.return (Inl err)
         | Inr (hdr, respPayload) \<Rightarrow>
             State_Monad.return
               (if rsp_ForID hdr \<noteq> i then
                  Inl (Errorf ''response ID mismatch: got %d, want %d''
                        [ANum (uint (rsp_ForID hdr)), ANum (uint i)])
                else if rsp_Status hdr \<noteq> 0 then
                  Inl (Errorf ''grout error: status %d'' [ANum (uint (rsp_Status hdr))])
                else case resp of
                  None \<Rightarrow> Inr []
                | Some n \<Rightarrow>
                    if length respPayload > 0 then
                      (if length respPayload < n
                       then Inl (Wrapf ''decoding response: %w'' [] io_ErrUnexpectedEOF)
                       else Inr (take n respPayload))
                    else Inr [])
       }
   }"

text \<open>The response loop of \<open>requestStream\<close>; every item read shortens the unread input.\<close>

function stream_loop :: "u32 \<Rightarrow> bytes list \<Rightarrow> 'g Conn \<Rightarrow> (error + bytes list) \<times> 'g Conn" where
  "stream_loop i items c =
     (case run_state readResponse c of
        (Inl err, c') \<Rightarrow> (Inl err, c')
      | (Inr (hdr, respPayload), c') \<Rightarrow>
          if rsp_ForID hdr \<noteq> i then
            (Inl (Errorf ''response ID mismatch: got %d, want %d''
                   [ANum (uint (rsp_ForID hdr)), ANum (uint i)]), c')
          else if rsp_Status hdr \<noteq> 0 then
            (Inl (Errorf ''grout error: status %d'' [ANum (uint (rsp_Status hdr))]), c')
          else if rsp_PayloadLen hdr = 0 then (Inr items, c')
          else stream_loop i (items @ [respPayload]) c')"
  by pat_completeness auto
termination
  by (relation "measure (\<lambda>(i, items, c). length (inq c))")
    (auto dest!: readResponse_shrinks [OF sym])

declare stream_loop.simps [simp del]

definition requestStream ::
  "'g Net \<Rightarrow> u32 \<Rightarrow> bytes \<Rightarrow> ('g Client, error + bytes list) state" where
  "requestStream net msgType payload = do {
     i \<leftarrow> nextID;
     e \<leftarrow> on_conn (writeRequest net i msgType payload);
     case e of
       Some err \<Rightarrow> State_Monad.return (Inl err)
     | None \<Rightarrow> on_conn (State (stream_loop i []))
   }"

definition hello :: "'g Net \<Rightarrow> ('g Client, error + bytes) state" where
  "hello net =
     request net TypeHello
       (copy_at 4 128 (bytes_of ''grout-k-cni'') (put32 0 apiVersion (make_bytes (4 + 128)))) None"

text \<open>
  A failed handshake closes the connection; the error comes with the peer's state after it.
\<close>

definition Dial :: "'g Net \<Rightarrow> string \<Rightarrow> 'g \<Rightarrow> (error \<times> 'g) + 'g Client" where
  "Dial net socketPath g =
     (case net_dial net socketPath g of
        Inl err \<Rightarrow> Inl (Wrapf ''connecting to grout: %w'' [] err, g)
      | Inr g' \<Rightarrow>
          (case run_state (hello net) \<lparr>conn = \<lparr>peer = g', inq = []\<rparr>, reqID = 0\<rparr> of
             (Inl err, c) \<Rightarrow>
               Inl (Wrapf ''grout handshake: %w'' [] err, snd (net_close net (peer (conn c))))
           | (Inr _, c) \<Rightarrow> Inr c))"

definition Client_Close :: "'g Net \<Rightarrow> 'g Client \<Rightarrow> error option \<times> 'g" where
  "Client_Close net c = net_close net (peer (conn c))"

section \<open>Interfaces\<close>

definition cString :: "bytes \<Rightarrow> string" where
  "cString b = string_of (takeWhile (\<lambda>x. x \<noteq> 0) b)"

definition decode_iface :: "bytes \<Rightarrow> InterfaceInfo" where
  "decode_iface data =
     \<lparr>if_ID = get16 offIfaceID data, if_Type = get8 offIfaceType data,
      if_Name = cString (slice offIfaceName ifNameSize data),
      if_Domain = get16 offIfaceDomain data\<rparr>"

definition InterfaceList ::
  "'g Net \<Rightarrow> InterfaceType \<Rightarrow> ('g Client, error + InterfaceInfo list) state" where
  "InterfaceList net reqType = do {
     r \<leftarrow> requestStream net TypeIfaceList [reqType];
     State_Monad.return
       (case r of
          Inl err \<Rightarrow> Inl (Wrapf ''interface list: %w'' [] err)
        | Inr items \<Rightarrow> Inr (map decode_iface (filter (\<lambda>data. \<not> length data < ifaceSize) items)))
   }"

text \<open>\<open>02:xx:xx:xx:xx:xx\<close> from the low 40 bits of the name's 64-bit FNV-1a hash.\<close>

definition bridgeMAC :: "string \<Rightarrow> bytes" where
  "bridgeMAC name =
     (let s = fnv64a (bytes_of name) in
      [0x02, ucast s, ucast (drop_bit 8 s), ucast (drop_bit 16 s),
       ucast (drop_bit 24 s), ucast (drop_bit 32 s)])"

definition vdevID :: "unicode_tables \<Rightarrow> string \<Rightarrow> string" where
  "vdevID u name = filter lower_or_digit (strings_ToLower u name)"

definition tapDevargs :: "unicode_tables \<Rightarrow> string \<Rightarrow> string" where
  "tapDevargs u name = ''net_tap_'' @ vdevID u name @ '',iface='' @ name"

definition vhostDevargs :: "unicode_tables \<Rightarrow> string \<Rightarrow> string \<Rightarrow> string" where
  "vhostDevargs u name socketPath = ''net_vhost_'' @ vdevID u name @ '',iface='' @ socketPath"

text \<open>
  \<open>putL3AddrIPv4(buf[off:off+20], ip)\<close> on the buffer that holds the slice.
\<close>

definition putL3AddrIPv4 :: "nat \<Rightarrow> IP \<Rightarrow> bytes \<Rightarrow> error + bytes" where
  "putL3AddrIPv4 off ip buf =
     (case IP_To4 ip of
        None \<Rightarrow> Inl (Errorf ''not an IPv4 address: %s'' [ABytes ip])
      | Some ip4 \<Rightarrow>
          Inr (copy_at (off + offL3AddrIPv4) 4 ip4 (put8 (off + offL3AddrAF) afIP4 buf)))"

definition l3AddrIPv4 :: "bytes \<Rightarrow> IP option" where
  "l3AddrIPv4 buf =
     (if get8 offL3AddrAF buf \<noteq> afIP4 then None else Some (slice offL3AddrIPv4 4 buf))"

text \<open>The \<open>gr_iface\<close> base that every \<open>InterfaceAdd\<close> payload of \<open>sz\<close> bytes starts with.\<close>

definition iface_base :: "nat \<Rightarrow> InterfaceAddRequest \<Rightarrow> bytes" where
  "iface_base sz req =
     (let p = make_bytes sz;
          p = put16 offIfaceID grIfaceIDUndef p;
          p = put8 offIfaceType (ia_Type req) p;
          p = put16 offIfaceFlags grIfaceFlagUp p;
          p = (if ia_DomainID req \<noteq> 0 then put16 offIfaceDomain (ia_DomainID req) p else p);
          p = (if ia_MTU req \<noteq> 0 then put16 offIfaceMTU (ia_MTU req) p else p)
      in copy_at offIfaceName ifNameSize (bytes_of (ia_Name req)) p)"

definition iface_add_size :: "InterfaceAddRequest \<Rightarrow> nat" where
  "iface_add_size req =
     ifaceSize +
     (if ia_Type req = InterfaceTypeBridge then bridgeInfoSize
      else if ia_Type req = InterfaceTypeVXLAN then vxlanInfoSize
      else portInfoSize)"

definition port_devargs :: "unicode_tables \<Rightarrow> InterfaceAddRequest \<Rightarrow> string" where
  "port_devargs u req =
     (if ia_VhostUserPath req \<noteq> [] then vhostDevargs u (ia_Name req) (ia_VhostUserPath req)
      else tapDevargs u (ia_Name req))"

text \<open>The payload of \<open>InterfaceAdd\<close>, or the error it returns before it sends anything.\<close>

definition iface_add_payload :: "unicode_tables \<Rightarrow> InterfaceAddRequest \<Rightarrow> error + bytes" where
  "iface_add_payload u req =
     (let payload = iface_base (iface_add_size req) req in
      if ia_Type req = InterfaceTypeBridge then
        Inr (copy_at (offIfaceInfo + offBridgeInfoMAC) (bridgeInfoSize - offBridgeInfoMAC)
              (bridgeMAC (ia_Name req)) payload)
      else if ia_Type req = InterfaceTypeVXLAN then
        (case ia_VXLAN req of
           None \<Rightarrow> Inl (Errorf ''interface add %q: VXLAN config required for a VXLAN interface''
                         [AStr (ia_Name req)])
         | Some vx \<Rightarrow>
             let p = put32 (offIfaceInfo + offVxlanVNI) (vx_VNI vx) payload;
                 p = put16 (offIfaceInfo + offVxlanEncapVRF) (vx_EncapVRFID vx) p;
                 p = put16 (offIfaceInfo + offVxlanDstPort) (vx_DstPort vx) p
             in case putL3AddrIPv4 (offIfaceInfo + offVxlanLocal) (vx_LocalAddr vx) p of
                  Inl err \<Rightarrow> Inl (Wrapf ''interface add %q: VXLAN local address: %w''
                                [AStr (ia_Name req)] err)
                | Inr p \<Rightarrow> Inr p)
      else
        (let devargs = port_devargs u req in
         if length devargs \<ge> portDevargsSize then
           Inl (Errorf ''interface add %q: devargs too long (%d >= %d)''
                 [AStr (ia_Name req), ANum (int (length devargs)), ANum (int portDevargsSize)])
         else Inr (copy_at offPortDevargs portDevargsSize (bytes_of devargs) payload)))"

definition InterfaceAdd ::
  "'g Net \<Rightarrow> unicode_tables \<Rightarrow> InterfaceAddRequest \<Rightarrow> ('g Client, error + u16) state" where
  "InterfaceAdd net u req =
     (case iface_add_payload u req of
        Inl err \<Rightarrow> State_Monad.return (Inl err)
      | Inr payload \<Rightarrow> do {
          r \<leftarrow> request net TypeIfaceAdd payload (Some 2);
          State_Monad.return
            (case r of
               Inl err \<Rightarrow> Inl (Wrapf ''interface add %q: %w'' [AStr (ia_Name req)] err)
             | Inr bs \<Rightarrow> Inr (un_le16 bs))
        })"

definition InterfaceDel :: "'g Net \<Rightarrow> u16 \<Rightarrow> ('g Client, error option) state" where
  "InterfaceDel net ifaceID = do {
     r \<leftarrow> request net TypeIfaceDel (put16 0 ifaceID (make_bytes 2)) None;
     State_Monad.return
       (case r of
          Inl err \<Rightarrow> Some (Wrapf ''interface del %d: %w'' [ANum (uint ifaceID)] err)
        | Inr _ \<Rightarrow> None)
   }"

section \<open>Addresses\<close>

text \<open>
  The IPv4 and IPv6 payloads of \<open>AddressAdd\<close> and \<open>AddressDel\<close>; \<open>flag\<close> is
  \<open>exist_ok\<close> or \<open>missing_ok\<close>.
\<close>

definition ip4_addr_payload :: "u16 \<Rightarrow> IP \<Rightarrow> nat \<Rightarrow> bool \<Rightarrow> bytes" where
  "ip4_addr_payload ifaceID ip4 ones flag =
     (let p = make_bytes 16;
          p = put16 0 ifaceID p;
          p = copy_at 4 4 ip4 p;
          p = put8 8 (word_of_nat ones) p
      in if flag then put8 12 1 p else p)"

definition ip6_addr_payload :: "u16 \<Rightarrow> IP \<Rightarrow> nat \<Rightarrow> bool \<Rightarrow> bytes" where
  "ip6_addr_payload ifaceID ip6 ones flag =
     (let p = make_bytes ip6AddrReqSize;
          p = put16 offIP6IfaceID ifaceID p;
          p = copy_at offIP6Addr 16 ip6 p;
          p = put8 offIP6Prefix (word_of_nat ones) p
      in if flag then put8 offIP6Flag 1 p else p)"

text \<open>An exchange without a response payload, its error wrapped.\<close>

definition send ::
  "'g Net \<Rightarrow> u32 \<Rightarrow> bytes \<Rightarrow> (error \<Rightarrow> error) \<Rightarrow> ('g Client, error option) state" where
  "send net msgType payload wrap = do {
     r \<leftarrow> request net msgType payload None;
     State_Monad.return (case r of Inl err \<Rightarrow> Some (wrap err) | Inr _ \<Rightarrow> None)
   }"

definition AddressAdd :: "'g Net \<Rightarrow> AddressAddRequest \<Rightarrow> ('g Client, error option) state" where
  "AddressAdd net req =
     (let ip = IP (aa_Address req);
          ones = IPMask_Size (Mask (aa_Address req));
          wrap = Wrapf ''address add %s on iface %d: %w''
                   [ANet ip (Mask (aa_Address req)), ANum (uint (aa_IfaceID req))]
      in case IP_To4 ip of
           Some ip4 \<Rightarrow>
             send net TypeIP4AddrAdd
               (ip4_addr_payload (aa_IfaceID req) ip4 ones (aa_ExistOK req)) wrap
         | None \<Rightarrow>
             (case IP_To16 ip of
                None \<Rightarrow> State_Monad.return
                  (Some (Errorf ''address add: invalid IP address: %s'' [ABytes ip]))
              | Some ip6 \<Rightarrow>
                  send net TypeIP6AddrAdd
                    (ip6_addr_payload (aa_IfaceID req) ip6 ones (aa_ExistOK req)) wrap))"

definition AddressDel :: "'g Net \<Rightarrow> AddressDelRequest \<Rightarrow> ('g Client, error option) state" where
  "AddressDel net req =
     (let ip = IP (ad_Address req);
          ones = IPMask_Size (Mask (ad_Address req));
          wrap = Wrapf ''address del %s on iface %d: %w''
                   [ANet ip (Mask (ad_Address req)), ANum (uint (ad_IfaceID req))]
      in case IP_To4 ip of
           Some ip4 \<Rightarrow>
             send net TypeIP4AddrDel
               (ip4_addr_payload (ad_IfaceID req) ip4 ones (ad_MissingOK req)) wrap
         | None \<Rightarrow>
             (case IP_To16 ip of
                None \<Rightarrow> State_Monad.return
                  (Some (Errorf ''address del: invalid IP address: %s'' [ABytes ip]))
              | Some ip6 \<Rightarrow>
                  send net TypeIP6AddrDel
                    (ip6_addr_payload (ad_IfaceID req) ip6 ones (ad_MissingOK req)) wrap))"

definition AddressFlush :: "'g Net \<Rightarrow> u16 \<Rightarrow> ('g Client, error option) state" where
  "AddressFlush net ifaceID = do {
     e \<leftarrow> send net TypeIP4AddrFlush (put16 0 ifaceID (make_bytes 2))
            (Wrapf ''IPv4 address flush on iface %d: %w'' [ANum (uint ifaceID)]);
     case e of
       Some err \<Rightarrow> State_Monad.return (Some err)
     | None \<Rightarrow> send net TypeIP6AddrFlush (put16 0 ifaceID (make_bytes 2))
                 (Wrapf ''IPv6 address flush on iface %d: %w'' [ANum (uint ifaceID)])
   }"

section \<open>Routes\<close>

definition vrf_or_default :: "u16 \<Rightarrow> u16" where
  "vrf_or_default vrf = (if vrf = 0 then grVRFDefaultID else vrf)"

definition ip4_route_add_payload :: "u16 \<Rightarrow> IP \<Rightarrow> nat \<Rightarrow> IP \<Rightarrow> bool \<Rightarrow> bytes" where
  "ip4_route_add_payload vrf dest ones nh existOK =
     (let p = make_bytes 24;
          p = put16 0 vrf p;
          p = copy_at 4 4 dest p;
          p = put8 8 (word_of_nat ones) p;
          p = copy_at 12 4 nh p;
          p = put8 20 4 p
      in if existOK then put8 21 1 p else p)"

definition ip6_route_add_payload :: "u16 \<Rightarrow> IP \<Rightarrow> nat \<Rightarrow> IP \<Rightarrow> bool \<Rightarrow> bytes" where
  "ip6_route_add_payload vrf dest ones nh existOK =
     (let p = make_bytes ip6RouteAddReqSize;
          p = put16 offIP6RteVRF vrf p;
          p = copy_at offIP6RteDest 16 dest p;
          p = put8 offIP6RteDestPfx (word_of_nat ones) p;
          p = copy_at offIP6RteNH 16 nh p;
          p = put8 offIP6RteOrigin 4 p
      in if existOK then put8 offIP6RteExistOK 1 p else p)"

definition RouteAdd :: "'g Net \<Rightarrow> RouteAddRequest \<Rightarrow> ('g Client, error option) state" where
  "RouteAdd net req =
     (let dest = IP (ra_Destination req);
          ones = IPMask_Size (Mask (ra_Destination req));
          vrf = vrf_or_default (ra_VRFID req);
          wrap = Wrapf ''route add %s via %s: %w''
                   [ANet dest (Mask (ra_Destination req)), ABytes (ra_NextHop req)]
      in case IP_To4 dest of
           Some dest4 \<Rightarrow>
             (case IP_To4 (ra_NextHop req) of
                None \<Rightarrow> State_Monad.return
                  (Some (Errorf ''route add: IPv4 destination with non-IPv4 next hop: %s''
                          [ABytes (ra_NextHop req)]))
              | Some nh4 \<Rightarrow>
                  send net TypeIP4RouteAdd
                    (ip4_route_add_payload vrf dest4 ones nh4 (ra_ExistOK req)) wrap)
         | None \<Rightarrow>
             (case IP_To16 dest of
                None \<Rightarrow> State_Monad.return
                  (Some (Errorf ''route add: invalid destination: %s'' [ABytes dest]))
              | Some dest6 \<Rightarrow>
                  (case IP_To16 (ra_NextHop req) of
                     None \<Rightarrow> State_Monad.return
                       (Some (Errorf ''route add: invalid next hop: %s'' [ABytes (ra_NextHop req)]))
                   | Some nh6 \<Rightarrow>
                       send net TypeIP6RouteAdd
                         (ip6_route_add_payload vrf dest6 ones nh6 (ra_ExistOK req)) wrap)))"

definition ip4_route_del_payload :: "u16 \<Rightarrow> IP \<Rightarrow> nat \<Rightarrow> bool \<Rightarrow> bytes" where
  "ip4_route_del_payload vrf dest ones missingOK =
     (let p = make_bytes 16;
          p = put16 0 vrf p;
          p = copy_at 4 4 dest p;
          p = put8 8 (word_of_nat ones) p
      in if missingOK then put8 12 1 p else p)"

definition ip6_route_del_payload :: "u16 \<Rightarrow> IP \<Rightarrow> nat \<Rightarrow> bool \<Rightarrow> bytes" where
  "ip6_route_del_payload vrf dest ones missingOK =
     (let p = make_bytes ip6RouteDelReqSize;
          p = put16 offIP6RteVRF vrf p;
          p = copy_at offIP6RteDest 16 dest p;
          p = put8 offIP6RteDestPfx (word_of_nat ones) p
      in if missingOK then put8 offIP6RteDelMissing 1 p else p)"

definition RouteDel :: "'g Net \<Rightarrow> RouteDelRequest \<Rightarrow> ('g Client, error option) state" where
  "RouteDel net req =
     (let dest = IP (rd_Destination req);
          ones = IPMask_Size (Mask (rd_Destination req));
          vrf = vrf_or_default (rd_VRFID req);
          wrap = Wrapf ''route del %s: %w'' [ANet dest (Mask (rd_Destination req))]
      in case IP_To4 dest of
           Some dest4 \<Rightarrow>
             send net TypeIP4RouteDel (ip4_route_del_payload vrf dest4 ones (rd_MissingOK req)) wrap
         | None \<Rightarrow>
             (case IP_To16 dest of
                None \<Rightarrow> State_Monad.return
                  (Some (Errorf ''route del: invalid destination: %s'' [ABytes dest]))
              | Some dest6 \<Rightarrow>
                  send net TypeIP6RouteDel
                    (ip6_route_del_payload vrf dest6 ones (rd_MissingOK req)) wrap))"

section \<open>Flood lists\<close>

definition encodeFloodEntry :: "bytes \<Rightarrow> u16 \<Rightarrow> u32 \<Rightarrow> IP \<Rightarrow> error + bytes" where
  "encodeFloodEntry buf vrf vni addr =
     (let b = put8 offFloodType floodTypeVTEP buf;
          b = put16 offFloodVRFID vrf b;
          b = put32 offFloodVTEPVNI vni b
      in putL3AddrIPv4 offFloodVTEPAddr addr b)"

definition FloodAdd :: "'g Net \<Rightarrow> FloodAddRequest \<Rightarrow> ('g Client, error option) state" where
  "FloodAdd net req =
     (let wrap = Wrapf ''flood add vni %d addr %s: %w''
                   [ANum (uint (fa_VNI req)), ABytes (fa_Addr req)]
      in case encodeFloodEntry (make_bytes floodReqSize) (vrf_or_default (fa_VRFID req))
                (fa_VNI req) (fa_Addr req) of
           Inl err \<Rightarrow> State_Monad.return (Some (wrap err))
         | Inr payload \<Rightarrow>
             send net TypeFloodAdd
               (if fa_ExistOK req then put8 floodEntrySize 1 payload else payload) wrap)"

definition FloodDel :: "'g Net \<Rightarrow> FloodDelRequest \<Rightarrow> ('g Client, error option) state" where
  "FloodDel net req =
     (let wrap = Wrapf ''flood del vni %d addr %s: %w''
                   [ANum (uint (fd_VNI req)), ABytes (fd_Addr req)]
      in case encodeFloodEntry (make_bytes floodReqSize) (vrf_or_default (fd_VRFID req))
                (fd_VNI req) (fd_Addr req) of
           Inl err \<Rightarrow> State_Monad.return (Some (wrap err))
         | Inr payload \<Rightarrow>
             send net TypeFloodDel
               (if fd_MissingOK req then put8 floodEntrySize 1 payload else payload) wrap)"

definition decode_flood :: "bytes \<Rightarrow> FloodVTEPInfo" where
  "decode_flood data =
     \<lparr>fv_VNI = get32 offFloodVTEPVNI data,
      fv_Addr = l3AddrIPv4 (slice offFloodVTEPAddr l3AddrSize data)\<rparr>"

definition FloodList :: "'g Net \<Rightarrow> u16 \<Rightarrow> ('g Client, error + FloodVTEPInfo list) state" where
  "FloodList net vrfID = do {
     r \<leftarrow> requestStream net TypeFloodList
            (put16 offFloodVRFID (vrf_or_default vrfID)
              (put8 offFloodType floodTypeVTEP (make_bytes 4)));
     State_Monad.return
       (case r of
          Inl err \<Rightarrow> Inl (Wrapf ''flood list: %w'' [] err)
        | Inr items \<Rightarrow> Inr (map decode_flood (filter (\<lambda>data. \<not> length data < floodEntrySize) items)))
   }"

end
