(* ===== verification/PortName.thy ===== *)
theory PortName
  imports Client
begin

text \<open>
  Deterministic port names (\<open>src/pkg/cni/portname.go\<close>). The name of an attachment's grout
  port is a prefix and eleven lower-case base32 characters of the SHA-256 of its container id
  and interface name, so that every CNI verb can recompute it. The lemmas give the shape of
  the names, which the wire format, the DPDK device ids and GC's prefix test rely on.
\<close>

section \<open>Definitions\<close>

definition portPrefix :: string where "portPrefix = ''grk-''"

definition groutPortName :: "unicode_tables \<Rightarrow> string \<Rightarrow> string \<Rightarrow> string" where
  "groutPortName u containerID ifName =
     (let sum = sha256 (bytes_of (containerID @ [CHR 0x00] @ ifName))
      in portPrefix @ take 11 (strings_ToLower u (base32_encode sum)))"

definition findPortByName :: "InterfaceInfo list \<Rightarrow> string \<Rightarrow> InterfaceInfo option" where
  "findPortByName ifaces name = find (\<lambda>iface. if_Name iface = name) ifaces"

section \<open>Lemmas\<close>

lemma base32_encode_sha256_ascii: "list_all is_ascii (base32_encode (sha256 m))"
  using base32_groups_bound base32_char_lower
  by (fastforce simp: base32_encode_def list_all_iff)

lemma groutPortName_tables: "groutPortName u c i = groutPortName u' c i"
  using base32_encode_sha256_ascii
  by (simp add: groutPortName_def strings_ToLower_def Let_def)

lemma groutPortName_shape:
  obtains t where "groutPortName u c i = portPrefix @ t" and "length t = 11"
    and "\<forall>x \<in> set t. is_ascii x \<and> lower_or_digit x"
proof
  let ?s = "strings_ToLower u (base32_encode (sha256 (bytes_of (c @ [CHR 0x00] @ i))))"
  show "groutPortName u c i = portPrefix @ take 11 ?s"
    by (simp add: groutPortName_def Let_def)
  have "length ?s = 52"
    using base32_encode_sha256_ascii
    by (simp add: strings_ToLower_def length_base32_encode)
  then show "length (take 11 ?s) = 11" by simp
  show "\<forall>x \<in> set (take 11 ?s). is_ascii x \<and> lower_or_digit x"
    using base32_lower_chars by (metis in_set_takeD)
qed

lemma length_groutPortName [simp]: "length (groutPortName u c i) = 15"
proof -
  obtain t where "groutPortName u c i = portPrefix @ t" "length t = 11"
    using groutPortName_shape by blast
  then show ?thesis by (simp add: portPrefix_def)
qed

lemma HasPrefix_groutPortName [simp]: "strings_HasPrefix (groutPortName u c i) portPrefix"
  by (simp add: groutPortName_def Let_def)

lemma findPortByName_Some:
  "findPortByName ifs n = Some p \<Longrightarrow> p \<in> set ifs \<and> if_Name p = n"
  by (auto simp: findPortByName_def find_Some_iff in_set_conv_nth)

lemma findPortByName_None_iff:
  "findPortByName ifs n = None \<longleftrightarrow> n \<notin> if_Name ` set ifs"
  by (auto simp: findPortByName_def find_None_iff)

end
