(* ===== verification/Config.thy ===== *)
theory Config
  imports Protocol GoHash
begin

text \<open>
  The plugin's configuration (\<open>src/pkg/cni/config.go\<close>), its log levels
  (\<open>src/pkg/cni/logging.go\<close>) and the CNI data it works on.

  The CNI libraries are not part of the repository. Their types appear with the fields the
  program reads or writes; their functions are the parameter \<open>Lib\<close>, with the dynamic type of
  a \<open>types.Result\<close> as a type variable. Routes, DNS settings and the raw previous result are
  only passed on, so they are opaque here.
\<close>

section \<open>CNI data\<close>

record IPConfig =
  ipc_Interface :: "int option"
  ipc_Address :: IPNet
  ipc_Gateway :: "IP option"

record Interface =
  int_Name :: string
  int_Mac :: string
  int_Sandbox :: string
  int_SocketPath :: string

text \<open>The IPs are pointers, so an element may be nil.\<close>

record Result =
  res_CNIVersion :: string
  res_Interfaces :: "Interface list"
  res_IPs :: "IPConfig option list"
  res_Routes :: "bytes list"
  res_DNS :: bytes

record GCAttachment =
  gca_ContainerID :: string
  gca_IfName :: string

record IPAM =
  ipam_Type :: string

record 'r PluginConf =
  conf_Name :: string
  conf_IPAM :: IPAM
  conf_RawPrevResult :: "bytes option"
  conf_PrevResult :: "'r option"
  conf_ValidAttachments :: "GCAttachment list"
  conf_GroutSocketPath :: string
  conf_Bridge :: string
  conf_MTU :: int
  conf_InterfaceType :: string
  conf_LogLevel :: string

record CmdArgs =
  args_ContainerID :: string
  args_Netns :: string
  args_IfName :: string
  args_StdinData :: bytes

record 'r Lib =
  json_Unmarshal :: "bytes \<Rightarrow> 'r PluginConf \<Rightarrow> error + 'r PluginConf"
  IPAM_IsEmpty :: "IPAM \<Rightarrow> bool"
  NewResultFromResult :: "'r \<Rightarrow> error + Result"
  ParsePrevResult :: "'r PluginConf \<Rightarrow> error + 'r PluginConf"

section \<open>Log levels\<close>

datatype Level = LevelDebug | LevelInfo | LevelWarn | LevelError

definition parseLogLevel :: "unicode_tables \<Rightarrow> string \<Rightarrow> Level" where
  "parseLogLevel u s =
     (let l = strings_ToLower u (strings_TrimSpace u s) in
      if l = ''debug'' then LevelDebug
      else if l = ''info'' then LevelInfo
      else if l = ''warn'' \<or> l = ''warning'' then LevelWarn
      else if l = ''error'' then LevelError
      else LevelWarn)"

definition validLogLevel :: "unicode_tables \<Rightarrow> string \<Rightarrow> bool" where
  "validLogLevel u s =
     (strings_ToLower u (strings_TrimSpace u s)
        \<in> {''debug'', ''info'', ''warn'', ''warning'', ''error''})"

section \<open>Configuration\<close>

definition grIfaceNameSize :: nat where [simp]: "grIfaceNameSize = 16"

definition ErrPluginNotAvailable :: nat where "ErrPluginNotAvailable = 50"

definition InterfaceTypeTAP :: string where "InterfaceTypeTAP = ''tap''"
definition InterfaceTypeVirtio :: string where "InterfaceTypeVirtio = ''virtio''"

definition bridgeNameFor :: "string \<Rightarrow> string" where
  "bridgeNameFor network =
     (let name = ''br-'' @ network;
          maxLen = grIfaceNameSize - 1
      in if length name \<le> maxLen then name
         else
           let suffix = ''-'' @ hex4 (unat (fnv32a (bytes_of network) AND 0xffff));
               head = maxLen - length suffix;
               head = (if head < length ''br-'' then length ''br-'' else head)
           in take head name @ suffix)"

definition zero_conf :: "'r PluginConf" where
  "zero_conf =
     \<lparr>conf_Name = [], conf_IPAM = \<lparr>ipam_Type = []\<rparr>, conf_RawPrevResult = None,
      conf_PrevResult = None, conf_ValidAttachments = [], conf_GroutSocketPath = [],
      conf_Bridge = [], conf_MTU = 0, conf_InterfaceType = [], conf_LogLevel = []\<rparr>"

definition LoadConfig ::
  "unicode_tables \<Rightarrow> 'r Lib \<Rightarrow> bytes \<Rightarrow> error + 'r PluginConf" where
  "LoadConfig u lib stdin =
     (case json_Unmarshal lib stdin (zero_conf\<lparr>conf_GroutSocketPath := DefaultSocketPath\<rparr>) of
        Inl err \<Rightarrow> Inl (Wrapf ''parsing CNI config: %w'' [] err)
      | Inr conf \<Rightarrow>
          if IPAM_IsEmpty lib (conf_IPAM conf) then
            Inl (Errorf ''IPAM configuration is required (specify an ipam section)'' [])
          else if conf_Name conf = [] then Inl (Errorf ''network name is required'' [])
          else if conf_MTU conf < 0 \<or> conf_MTU conf > 65535 then
            Inl (Errorf ''mtu must be between 0 and 65535, got %d'' [ANum (conf_MTU conf)])
          else if conf_Bridge conf \<noteq> [] \<and> length (conf_Bridge conf) \<ge> grIfaceNameSize then
            Inl (Errorf ''bridge name %q exceeds %d bytes''
                  [AStr (conf_Bridge conf), ANum (int (grIfaceNameSize - 1))])
          else
            let conf = (if conf_Bridge conf = []
                        then conf\<lparr>conf_Bridge := bridgeNameFor (conf_Name conf)\<rparr> else conf) in
            if conf_InterfaceType conf \<notin> {[], InterfaceTypeTAP, InterfaceTypeVirtio} then
              Inl (Errorf ''interfaceType must be %q or %q, got %q''
                    [AStr InterfaceTypeTAP, AStr InterfaceTypeVirtio,
                     AStr (conf_InterfaceType conf)])
            else
              let conf = (if conf_InterfaceType conf = []
                          then conf\<lparr>conf_InterfaceType := InterfaceTypeTAP\<rparr> else conf) in
              if conf_LogLevel conf \<noteq> [] \<and> \<not> validLogLevel u (conf_LogLevel conf) then
                Inl (Errorf ''logLevel must be one of debug, info, warn, error, got %q''
                      [AStr (conf_LogLevel conf)])
              else Inr conf)"

section \<open>What a loaded configuration promises\<close>

definition conf_ok :: "unicode_tables \<Rightarrow> 'r Lib \<Rightarrow> 'r PluginConf \<Rightarrow> bool" where
  "conf_ok u lib conf \<longleftrightarrow>
     \<not> IPAM_IsEmpty lib (conf_IPAM conf) \<and> conf_Name conf \<noteq> [] \<and>
     0 \<le> conf_MTU conf \<and> conf_MTU conf \<le> 65535 \<and>
     conf_Bridge conf \<noteq> [] \<and> length (conf_Bridge conf) \<le> 15 \<and>
     conf_InterfaceType conf \<in> {InterfaceTypeTAP, InterfaceTypeVirtio} \<and>
     (conf_LogLevel conf = [] \<or> validLogLevel u (conf_LogLevel conf))"

section \<open>Lemmas\<close>

lemma bridgeNameFor_short:
  "length network \<le> 12 \<Longrightarrow> bridgeNameFor network = ''br-'' @ network"
  by (simp add: bridgeNameFor_def Let_def)

lemma bridgeNameFor_long:
  "12 < length network \<Longrightarrow>
   bridgeNameFor network =
     ''br-'' @ take 7 network @ ''-'' @ hex4 (unat (fnv32a (bytes_of network) AND 0xffff))"
  by (simp add: bridgeNameFor_def Let_def numeral_eq_Suc)

lemma length_bridgeNameFor_le: "length (bridgeNameFor network) \<le> 15"
  by (cases "length network \<le> 12")
    (simp_all add: bridgeNameFor_short bridgeNameFor_long)

lemma bridgeNameFor_nonempty [simp]: "bridgeNameFor network \<noteq> []"
  by (cases "length network \<le> 12")
    (simp_all add: bridgeNameFor_short bridgeNameFor_long)

lemma LoadConfig_ok: "LoadConfig u lib stdin = Inr conf \<Longrightarrow> conf_ok u lib conf"
  by (auto simp: LoadConfig_def conf_ok_def Let_def length_bridgeNameFor_le
      split: sum.splits if_splits)

end
