(* ===== verification/System.thy ===== *)
theory System
  imports PortName Config
begin

text \<open>
  What the CNI handlers rely on and the repository does not contain: the operating system's
  file and lock calls, the CNI plugin delegation, netlink and network namespaces. Each is an
  operation on a world of an arbitrary type, and a field of the parameter \<open>Env\<close>; the
  handlers are written against it. The grout client is the Go interface \<open>GroutClient\<close> of
  \<open>src/pkg/cni/handler.go\<close>, a record of operations on the same world. The function types
  injected for tests are declared with the records that carry them.
\<close>

section \<open>The environment\<close>

text \<open>
  \<open>FileLock.Lock\<close> races a blocking \<open>flock\<close> against a timer: either \<open>flock\<close> returned
  first, with its error if it had one, or the timer fired.
\<close>

datatype flock_wait = FlockDone "error option" | FlockTimeout

record Link =
  link_Index :: int
  link_Up :: bool
  link_HardwareAddr :: HardwareAddr

text \<open>
  The namespace a netlink call runs in: the plugin's own, or the pod's, by its handle. The CNI
  library's \<open>NetNS.Do\<close> is documented to run a closure in the namespace of the handle and to
  restore the caller's namespace before it returns; the switch and the return are the operations
  \<open>ns_Enter\<close>, which may fail, and \<open>ns_Leave\<close>.
\<close>

datatype netns = HostNS | PodNS int

record ('w, 'r) Env =
  env_lib :: "'r Lib"
  env_unicode :: unicode_tables
  os_MkdirAll :: "string \<Rightarrow> ('w, error option) state"
  os_Remove :: "string \<Rightarrow> ('w, error option) state"
  os_Stat :: "string \<Rightarrow> ('w, error option) state"
  unix_Open :: "string \<Rightarrow> ('w, error + int) state"
  unix_Flock_EX :: "int \<Rightarrow> ('w, flock_wait) state"
  unix_Flock_UN :: "int \<Rightarrow> ('w, error option) state"
  unix_Close :: "int \<Rightarrow> ('w, error option) state"
  DelegateAdd :: "string \<Rightarrow> bytes \<Rightarrow> ('w, error + 'r) state"
  DelegateDel :: "string \<Rightarrow> bytes \<Rightarrow> ('w, error option) state"
  DelegateGC :: "string \<Rightarrow> bytes \<Rightarrow> ('w, error option) state"
  ns_GetNS :: "string \<Rightarrow> ('w, error + int) state"
  ns_Close :: "int \<Rightarrow> ('w, error option) state"
  ns_Enter :: "int \<Rightarrow> ('w, error option) state"
  ns_Leave :: "int \<Rightarrow> ('w, unit) state"
  LinkByName :: "netns \<Rightarrow> string \<Rightarrow> ('w, error + Link) state"
  LinkSetNsFd :: "Link \<Rightarrow> int \<Rightarrow> ('w, error option) state"
  LinkSetDown :: "netns \<Rightarrow> Link \<Rightarrow> ('w, error option) state"
  LinkSetName :: "netns \<Rightarrow> Link \<Rightarrow> string \<Rightarrow> ('w, error option) state"
  LinkSetMTU :: "netns \<Rightarrow> Link \<Rightarrow> int \<Rightarrow> ('w, error option) state"
  LinkSetHardwareAddr :: "netns \<Rightarrow> Link \<Rightarrow> HardwareAddr \<Rightarrow> ('w, error option) state"
  ConfigureIface :: "netns \<Rightarrow> string \<Rightarrow> Result \<Rightarrow> ('w, error option) state"
  AddrList :: "netns \<Rightarrow> Link \<Rightarrow> ('w, error + IPNet option list) state"
  slog_SetDefault :: "Level \<Rightarrow> ('w, unit) state"

section \<open>The grout client interface and the handlers' inputs\<close>

record 'w GroutClient =
  gc_InterfaceList :: "InterfaceType \<Rightarrow> ('w, error + InterfaceInfo list) state"
  gc_InterfaceAdd :: "InterfaceAddRequest \<Rightarrow> ('w, error + u16) state"
  gc_InterfaceDel :: "u16 \<Rightarrow> ('w, error option) state"
  gc_AddressAdd :: "AddressAddRequest \<Rightarrow> ('w, error option) state"
  gc_AddressFlush :: "u16 \<Rightarrow> ('w, error option) state"

type_synonym ('w, 'r) IPAMAddFunc = "'r PluginConf \<Rightarrow> CmdArgs \<Rightarrow> ('w, error + 'r) state"
type_synonym ('w, 'r) IPAMDelFunc = "'r PluginConf \<Rightarrow> CmdArgs \<Rightarrow> ('w, unit) state"
type_synonym ('w, 'r) IPAMGCFunc = "'r PluginConf \<Rightarrow> CmdArgs \<Rightarrow> ('w, error option) state"
type_synonym 'w MoveLinkFunc = "string \<Rightarrow> string \<Rightarrow> ('w, error option) state"
type_synonym 'w ConfigurePodIfaceFunc =
  "string \<Rightarrow> string \<Rightarrow> string \<Rightarrow> int \<Rightarrow> Result \<Rightarrow> ('w, error + Result) state"
type_synonym 'w VerifyPodIfaceFunc = "string \<Rightarrow> string \<Rightarrow> IPNet list \<Rightarrow> ('w, error option) state"

record ('w, 'r) AddConfig =
  ac_Client :: "'w GroutClient"
  ac_Config :: "'r PluginConf"
  ac_Args :: CmdArgs
  ac_IPAMAdd :: "('w, 'r) IPAMAddFunc option"
  ac_IPAMDel :: "('w, 'r) IPAMDelFunc option"
  ac_MoveLink :: "'w MoveLinkFunc option"
  ac_ConfigurePodIface :: "'w ConfigurePodIfaceFunc option"

record ('w, 'r) DelConfig =
  dc_Client :: "'w GroutClient"
  dc_Config :: "'r PluginConf"
  dc_Args :: CmdArgs
  dc_IPAMDel :: "('w, 'r) IPAMDelFunc option"
  dc_VerifyPodIface :: "'w VerifyPodIfaceFunc option"

record ('w, 'r) GCConfig =
  gcc_Client :: "'w GroutClient"
  gcc_Config :: "'r PluginConf"
  gcc_Args :: CmdArgs
  gcc_IPAMGC :: "('w, 'r) IPAMGCFunc option"

end
