(* ===== verification/Lock.thy ===== *)
theory Lock
  imports System
begin

text \<open>
  The node-wide CNI lock (\<open>src/pkg/cni/lock.go\<close>) and the locking prologue that every
  handler of \<open>src/pkg/cni/handler.go\<close> starts with.
\<close>

section \<open>Definitions\<close>

definition defaultLockPath :: string where "defaultLockPath = ''/var/run/grout-k-cni.lock''"

record FileLock =
  fl_fd :: int

definition NewFileLock :: "('w, 'r) Env \<Rightarrow> string \<Rightarrow> ('w, error + FileLock) state" where
  "NewFileLock env path =
     (let path = (if path = [] then defaultLockPath else path);
          dir = filepath_Dir path
      in try_op (if dir \<noteq> [] then os_MkdirAll env dir else State_Monad.return None)
           (\<lambda>err. Inl (Wrapf ''creating lock directory %s: %w'' [AStr dir] err))
           (try_val (unix_Open env path)
             (\<lambda>err. Inl (Wrapf ''opening lock file %s: %w'' [AStr path] err))
             (\<lambda>fd. State_Monad.return (Inr \<lparr>fl_fd = fd\<rparr>))))"

definition FileLock_Lock :: "('w, 'r) Env \<Rightarrow> FileLock \<Rightarrow> ('w, error option) state" where
  "FileLock_Lock env l = do {
     r \<leftarrow> unix_Flock_EX env (fl_fd l);
     State_Monad.return
       (case r of
          FlockDone None \<Rightarrow> None
        | FlockDone (Some err) \<Rightarrow> Some (Wrapf ''acquiring exclusive lock: %w'' [] err)
        | FlockTimeout \<Rightarrow> Some (Errorf ''timed out waiting for lock after %v'' [AStr ''1m0s'']))
   }"

definition FileLock_Unlock :: "('w, 'r) Env \<Rightarrow> FileLock \<Rightarrow> ('w, error option) state" where
  "FileLock_Unlock env l = unix_Flock_UN env (fl_fd l)"

definition FileLock_Close :: "('w, 'r) Env \<Rightarrow> FileLock \<Rightarrow> ('w, error option) state" where
  "FileLock_Close env l = unix_Close env (fl_fd l)"

definition lockPathForSocket :: "string \<Rightarrow> string" where
  "lockPathForSocket socketPath =
     (if socketPath = [] then DefaultSocketPath else socketPath) @ ''.lock''"

text \<open>
  The prologue of a handler and its deferred release. The deferred calls run when the body
  returns and when it panics.
\<close>

definition with_lock ::
  "('w, 'r) Env \<Rightarrow> string \<Rightarrow> ('w, 'a outcome) state \<Rightarrow> ('w, 'a outcome) state" where
  "with_lock env socketPath body =
     try_val (NewFileLock env (lockPathForSocket socketPath))
       (\<lambda>err. Err (Wrapf ''creating lock: %w'' [] err))
       (\<lambda>lock. do {
          e \<leftarrow> FileLock_Lock env lock;
          case e of
            Some err \<Rightarrow> do {
              _ \<leftarrow> FileLock_Close env lock;
              State_Monad.return (Err (Wrapf ''acquiring lock: %w'' [] err))
            }
          | None \<Rightarrow> do {
              r \<leftarrow> body;
              _ \<leftarrow> FileLock_Unlock env lock;
              _ \<leftarrow> FileLock_Close env lock;
              State_Monad.return r
            }
        })"

end
