(* ===== verification/Netns.thy ===== *)
theory Netns
  imports Lock
begin

text \<open>
  Pod-side interface handling (\<open>src/pkg/cni/netns.go\<close>): moving a TAP link into the pod's
  network namespace, configuring and verifying it there, and the pod MAC address derived from
  the allocated addresses. Netlink and namespaces are operations of the environment.
\<close>

section \<open>Definitions\<close>

definition moveLinkToNamespace :: "('w, 'r) Env \<Rightarrow> 'w MoveLinkFunc" where
  "moveLinkToNamespace env linkName netnsPath =
     try_val (LinkByName env HostNS linkName)
       (\<lambda>err. Some (Wrapf ''finding link %q: %w'' [AStr linkName] err))
       (\<lambda>link. try_val (ns_GetNS env netnsPath)
          (\<lambda>err. Some (Wrapf ''opening netns %s: %w'' [AStr netnsPath] err))
          (\<lambda>h. do {
             e \<leftarrow> LinkSetNsFd env link h;
             _ \<leftarrow> ns_Close env h;
             State_Monad.return
               (case e of
                  Some err \<Rightarrow> Some (Wrapf ''moving link %q to netns %s: %w''
                                [AStr linkName, AStr netnsPath] err)
                | None \<Rightarrow> None)
           }))"

text \<open>The first address of each family that has one; nil elements are skipped.\<close>

fun first_ip :: "(IP \<Rightarrow> IP option) \<Rightarrow> IPConfig option list \<Rightarrow> IP option" where
  "first_ip conv [] = None"
| "first_ip conv (None # ips) = first_ip conv ips"
| "first_ip conv (Some ipc # ips) =
     (case conv (IP (ipc_Address ipc)) of
        Some ip \<Rightarrow> Some ip
      | None \<Rightarrow> first_ip conv ips)"

definition podMACFromResult :: "Result option \<Rightarrow> HardwareAddr option" where
  "podMACFromResult result =
     (case result of
        None \<Rightarrow> None
      | Some res \<Rightarrow>
          (case first_ip IP_To4 (res_IPs res) of
             Some ip4 \<Rightarrow> Some [0x02, 0x00, ip4 ! 0, ip4 ! 1, ip4 ! 2, ip4 ! 3]
           | None \<Rightarrow>
               (case first_ip IP_To16 (res_IPs res) of
                  Some ip6 \<Rightarrow> Some [0x02, 0x00, ip6 ! 12, ip6 ! 13, ip6 ! 14, ip6 ! 15]
                | None \<Rightarrow> None)))"

text \<open>
  The closure that \<open>configurePodInterface\<close> runs inside the pod's namespace. Its value is the
  MAC address it read back, if the last lookup found the link.
\<close>

definition configure_in_ns ::
  "('w, 'r) Env \<Rightarrow> netns \<Rightarrow> string \<Rightarrow> string \<Rightarrow> int \<Rightarrow> Result \<Rightarrow> ('w, error + string option) state"
where
  "configure_in_ns env ns hostIfName podIfName mtu result =
     try_val (LinkByName env ns hostIfName)
       (\<lambda>err. Inl (Wrapf ''finding moved link %q in pod netns: %w'' [AStr hostIfName] err))
       (\<lambda>link. try_val
          (if hostIfName \<noteq> podIfName then
             try_op (LinkSetDown env ns link)
               (\<lambda>err. Inl (Wrapf ''setting %q down for rename: %w'' [AStr hostIfName] err))
               (try_op (LinkSetName env ns link podIfName)
                 (\<lambda>err. Inl (Wrapf ''renaming %q to %q: %w'' [AStr hostIfName, AStr podIfName] err))
                 (try_val (LinkByName env ns podIfName)
                   (\<lambda>err. Inl (Wrapf ''re-finding renamed link %q: %w'' [AStr podIfName] err))
                   (\<lambda>l. State_Monad.return (Inr l))))
           else State_Monad.return (Inr link))
          Inl
          (\<lambda>link. try_op
             (if mtu > 0 then LinkSetMTU env ns link mtu else State_Monad.return None)
             (\<lambda>err. Inl (Wrapf ''setting MTU %d on %q: %w'' [ANum mtu, AStr podIfName] err))
             (try_op
                (case podMACFromResult (Some result) of
                   Some mac \<Rightarrow> LinkSetHardwareAddr env ns link mac
                 | None \<Rightarrow> State_Monad.return None)
                (\<lambda>err. Inl (Wrapf ''setting MAC on %q: %w'' [AStr podIfName] err))
                (try_op (ConfigureIface env ns podIfName result)
                   (\<lambda>err. Inl (Wrapf ''configuring pod interface %q: %w'' [AStr podIfName] err))
                   (do {
                      r \<leftarrow> LinkByName env ns podIfName;
                      State_Monad.return
                        (Inr (case r of
                                Inr l \<Rightarrow> if res_Interfaces result \<noteq> []
                                  then Some (HardwareAddr_String (link_HardwareAddr l)) else None
                              | Inl _ \<Rightarrow> None))
                    })))))"

text \<open>\<open>result.Interfaces[0].Mac = mac\<close>.\<close>

definition set_mac :: "string option \<Rightarrow> Result \<Rightarrow> Result" where
  "set_mac mac result =
     (case (mac, res_Interfaces result) of
        (Some m, i # is) \<Rightarrow> result\<lparr>res_Interfaces := i\<lparr>int_Mac := m\<rparr> # is\<rparr>
      | _ \<Rightarrow> result)"

text \<open>
  \<open>NetNS.Do\<close>: the closure runs between entering and leaving the namespace, and its result is the
  result; if the namespace cannot be entered it does not run.
\<close>

definition ns_Do :: "('w, 'r) Env \<Rightarrow> int \<Rightarrow> ('w, error + 'a) state \<Rightarrow> ('w, error + 'a) state" where
  "ns_Do env h toRun =
     try_op (ns_Enter env h) Inl (do {
       r \<leftarrow> toRun;
       _ \<leftarrow> ns_Leave env h;
       State_Monad.return r
     })"

definition configurePodInterface :: "('w, 'r) Env \<Rightarrow> 'w ConfigurePodIfaceFunc" where
  "configurePodInterface env netnsPath hostIfName podIfName mtu result =
     try_val (ns_GetNS env netnsPath)
       (\<lambda>err. Inl (Wrapf ''opening netns %s: %w'' [AStr netnsPath] err))
       (\<lambda>h. do {
          r \<leftarrow> ns_Do env h (configure_in_ns env (PodNS h) hostIfName podIfName mtu result);
          _ \<leftarrow> ns_Close env h;
          State_Monad.return
            (case r of Inl err \<Rightarrow> Inl err | Inr mac \<Rightarrow> Inr (set_mac mac result))
        })"

definition addrPresent :: "IPNet option list \<Rightarrow> IP \<Rightarrow> bool" where
  "addrPresent addrs ip =
     list_ex (\<lambda>a. case a of None \<Rightarrow> False | Some n \<Rightarrow> IP_Equal (IP n) ip) addrs"

text \<open>The loop over the expected addresses: the first missing one is the error.\<close>

fun missing_addr :: "IPNet option list \<Rightarrow> IPNet list \<Rightarrow> IPNet option" where
  "missing_addr addrs [] = None"
| "missing_addr addrs (want # wants) =
     (if \<not> addrPresent addrs (IP want) then Some want else missing_addr addrs wants)"

definition verify_in_ns ::
  "('w, 'r) Env \<Rightarrow> netns \<Rightarrow> string \<Rightarrow> string \<Rightarrow> IPNet list \<Rightarrow> ('w, error + string option) state"
where
  "verify_in_ns env ns netnsPath podIfName expectedIPs =
     try_val (LinkByName env ns podIfName)
       (\<lambda>err. Inl (Wrapf ''pod interface %q not found in netns %s: %w''
                [AStr podIfName, AStr netnsPath] err))
       (\<lambda>link.
          if \<not> link_Up link then
            State_Monad.return
              (Inl (Errorf ''pod interface %q is not administratively up'' [AStr podIfName]))
          else if length expectedIPs = 0 then State_Monad.return (Inr None)
          else try_val (AddrList env ns link)
            (\<lambda>err. Inl (Wrapf ''listing addresses on %q: %w'' [AStr podIfName] err))
            (\<lambda>addrs. State_Monad.return
               (case missing_addr addrs expectedIPs of
                  Some want \<Rightarrow> Inl (Errorf ''pod interface %q missing expected address %s''
                                 [AStr podIfName, ANet (IP want) (Mask want)])
                | None \<Rightarrow> Inr None)))"

definition verifyPodInterface :: "('w, 'r) Env \<Rightarrow> 'w VerifyPodIfaceFunc" where
  "verifyPodInterface env netnsPath podIfName expectedIPs =
     try_val (ns_GetNS env netnsPath)
       (\<lambda>err. Some (Wrapf ''opening netns %s: %w'' [AStr netnsPath] err))
       (\<lambda>h. do {
          r \<leftarrow> ns_Do env h (verify_in_ns env (PodNS h) netnsPath podIfName expectedIPs);
          _ \<leftarrow> ns_Close env h;
          State_Monad.return (case r of Inl err \<Rightarrow> Some err | Inr _ \<Rightarrow> None)
        })"

definition linkExists :: "('w, 'r) Env \<Rightarrow> string \<Rightarrow> ('w, bool) state" where
  "linkExists env linkName = do {
     r \<leftarrow> LinkByName env HostNS linkName;
     State_Monad.return (case r of Inl _ \<Rightarrow> False | Inr _ \<Rightarrow> True)
   }"

definition fileExists :: "('w, 'r) Env \<Rightarrow> string \<Rightarrow> ('w, bool) state" where
  "fileExists env path = do {
     e \<leftarrow> os_Stat env path;
     State_Monad.return (e = None)
   }"

end
