(* ===== verification/Handler.thy ===== *)
theory Handler
  imports Netns
begin

text \<open>
  The CNI verbs ADD, DEL, CHECK and GC (\<open>src/pkg/cni/handler.go\<close>), over an arbitrary grout
  client and environment. Logging calls have no effect on the modelled state and are left
  out; the errors that are only logged are the ones the definitions discard.
\<close>

section \<open>Building the CNI result\<close>

definition vhostSocketPath :: "string \<Rightarrow> string \<Rightarrow> string" where
  "vhostSocketPath groutSocketPath tapName =
     filepath_Join [filepath_Dir groutSocketPath, ''vhost'', tapName @ ''.sock'']"

text \<open>
  \<open>ipc.Interface = &ifaceIdx\<close> for every IP, with \<open>ifaceIdx = 0\<close>; a nil element panics.
\<close>

fun point_ips :: "IPConfig option list \<Rightarrow> IPConfig option list outcome" where
  "point_ips [] = Ret []"
| "point_ips (None # ips) = Panic"
| "point_ips (Some ipc # ips) =
     (case point_ips ips of
        Ret ips' \<Rightarrow> Ret (Some (ipc\<lparr>ipc_Interface := Some 0\<rparr>) # ips')
      | Err err \<Rightarrow> Err err
      | Panic \<Rightarrow> Panic)"

definition result_for :: "Interface \<Rightarrow> Result \<Rightarrow> Result outcome" where
  "result_for iface ipamResult =
     (case point_ips (res_IPs ipamResult) of
        Ret ips \<Rightarrow>
          Ret \<lparr>res_CNIVersion = res_CNIVersion ipamResult, res_Interfaces = [iface],
               res_IPs = ips, res_Routes = res_Routes ipamResult, res_DNS = res_DNS ipamResult\<rparr>
      | Err err \<Rightarrow> Err err
      | Panic \<Rightarrow> Panic)"

definition vhostResult :: "CmdArgs \<Rightarrow> Result \<Rightarrow> string \<Rightarrow> Result outcome" where
  "vhostResult args ipamResult socketPath =
     result_for \<lparr>int_Name = args_IfName args, int_Mac = [], int_Sandbox = [],
                 int_SocketPath = socketPath\<rparr> ipamResult"

definition podResult :: "CmdArgs \<Rightarrow> Result \<Rightarrow> Result outcome" where
  "podResult args ipamResult =
     result_for \<lparr>int_Name = args_IfName args, int_Mac = [], int_Sandbox = args_Netns args,
                 int_SocketPath = []\<rparr> ipamResult"

section \<open>Bridges\<close>

definition findBridgeID :: "InterfaceInfo list \<Rightarrow> string \<Rightarrow> u16 option" where
  "findBridgeID ifaces name =
     map_option if_ID
       (find (\<lambda>iface. if_Name iface = name \<and> if_Type iface = InterfaceTypeBridge) ifaces)"

definition findByName :: "InterfaceInfo list \<Rightarrow> string \<Rightarrow> u16 option" where
  "findByName ifaces name = map_option if_ID (find (\<lambda>iface. if_Name iface = name) ifaces)"

definition summarizeIfaces :: "InterfaceInfo list \<Rightarrow> string" where
  "summarizeIfaces ifaces =
     strings_Join
       (map (\<lambda>iface. if_Name iface @ ''(id='' @ show_nat (unat (if_ID iface))
               @ '',type='' @ show_nat (unat (if_Type iface))
               @ '',domain='' @ show_nat (unat (if_Domain iface)) @ '')'') ifaces)
       '', ''"

definition bridge_request :: "string \<Rightarrow> InterfaceAddRequest" where
  "bridge_request name =
     \<lparr>ia_Name = name, ia_Type = InterfaceTypeBridge, ia_DomainID = 0, ia_MTU = 0,
      ia_VhostUserPath = [], ia_VXLAN = None\<rparr>"

definition ensureBridge :: "'w GroutClient \<Rightarrow> string \<Rightarrow> ('w, error + u16) state" where
  "ensureBridge client name =
     try_val (gc_InterfaceList client InterfaceTypeUndef)
       (\<lambda>err. Inl (Wrapf ''listing interfaces: %w'' [] err))
       (\<lambda>ifaces.
          case findBridgeID ifaces name of
            Some i \<Rightarrow> State_Monad.return (Inr i)
          | None \<Rightarrow> do {
              resp \<leftarrow> gc_InterfaceAdd client (bridge_request name);
              case resp of
                Inr i \<Rightarrow> State_Monad.return (Inr i)
              | Inl err \<Rightarrow> do {
                  relist \<leftarrow> gc_InterfaceList client InterfaceTypeUndef;
                  State_Monad.return
                    (case relist of
                       Inr ifaces2 \<Rightarrow>
                         (case findByName ifaces2 name of
                            Some i \<Rightarrow> Inr i
                          | None \<Rightarrow> Inl (Wrapf ''creating bridge (interfaces seen: %s): %w''
                                          [AStr (summarizeIfaces ifaces2)] err))
                     | Inl _ \<Rightarrow> Inl (Wrapf ''creating bridge (interfaces seen: %s): %w''
                                      [AStr (summarizeIfaces ifaces)] err))
                }
            })"

text \<open>
  The gateway of one address: the one IPAM supplied, or the masked address with its last byte
  incremented. A nil or empty masked address panics on the index.
\<close>

definition gateway_of :: "IPConfig \<Rightarrow> IP outcome" where
  "gateway_of ip =
     (case ipc_Gateway ip of
        Some gw \<Rightarrow> Ret gw
      | None \<Rightarrow>
          (case IP_Mask (IP (ipc_Address ip)) (Mask (ipc_Address ip)) of
             None \<Rightarrow> Panic
           | Some gw \<Rightarrow> if gw = [] then Panic else Ret (butlast gw @ [last gw + 1])))"

fun gateways_loop ::
  "IPConfig option list \<Rightarrow> bool \<Rightarrow> bool \<Rightarrow> IPNet list \<Rightarrow> IPNet list outcome" where
  "gateways_loop [] seen4 seen6 gws = Ret gws"
| "gateways_loop (None # ips) seen4 seen6 gws = Panic"
| "gateways_loop (Some ip # ips) seen4 seen6 gws =
     (let isV4 = (IP_To4 (IP (ipc_Address ip)) \<noteq> None) in
      if isV4 \<and> seen4 \<or> \<not> isV4 \<and> seen6 then gateways_loop ips seen4 seen6 gws
      else case gateway_of ip of
        Ret gw \<Rightarrow>
          gateways_loop ips (seen4 \<or> isV4) (seen6 \<or> \<not> isV4)
            (gws @ [\<lparr>IP = gw, Mask = Mask (ipc_Address ip)\<rparr>])
      | Err err \<Rightarrow> Err err
      | Panic \<Rightarrow> Panic)"

definition gatewaysFor :: "Result \<Rightarrow> IPNet list outcome" where
  "gatewaysFor result = gateways_loop (res_IPs result) False False []"

section \<open>IPAM delegation\<close>

definition delegateIPAMAdd :: "('w, 'r) Env \<Rightarrow> ('w, 'r) IPAMAddFunc" where
  "delegateIPAMAdd env config args =
     try_val (DelegateAdd env (ipam_Type (conf_IPAM config)) (args_StdinData args))
       (\<lambda>err. Inl (Wrapf ''invoking IPAM plugin %q: %w'' [AStr (ipam_Type (conf_IPAM config))] err))
       (\<lambda>result. State_Monad.return (Inr result))"

definition delegateIPAMDel :: "('w, 'r) Env \<Rightarrow> ('w, 'r) IPAMDelFunc" where
  "delegateIPAMDel env config args = do {
     _ \<leftarrow> DelegateDel env (ipam_Type (conf_IPAM config)) (args_StdinData args);
     State_Monad.return ()
   }"

definition delegateIPAMGC :: "('w, 'r) Env \<Rightarrow> ('w, 'r) IPAMGCFunc" where
  "delegateIPAMGC env config args =
     try_op (DelegateGC env (ipam_Type (conf_IPAM config)) (args_StdinData args))
       (\<lambda>err. Some (Wrapf ''invoking IPAM plugin %q GC: %w''
                 [AStr (ipam_Type (conf_IPAM config))] err))
       (State_Monad.return None)"

definition ipamDel ::
  "('w, 'r) Env \<Rightarrow> ('w, 'r) IPAMDelFunc option \<Rightarrow> ('w, 'r) IPAMDelFunc" where
  "ipamDel env fn config args =
     (case fn of None \<Rightarrow> delegateIPAMDel env config args | Some f \<Rightarrow> f config args)"

definition gcIPAM ::
  "('w, 'r) Env \<Rightarrow> ('w, 'r) IPAMGCFunc option \<Rightarrow> 'r PluginConf \<Rightarrow> CmdArgs \<Rightarrow> ('w, unit) state" where
  "gcIPAM env fn config args = do {
     _ \<leftarrow> (case fn of None \<Rightarrow> delegateIPAMGC env config args | Some f \<Rightarrow> f config args);
     State_Monad.return ()
   }"

definition convertResult :: "'r Lib \<Rightarrow> 'r \<Rightarrow> error + Result" where
  "convertResult lib result =
     (case NewResultFromResult lib result of
        Inl err \<Rightarrow> Inl (Wrapf ''converting result to 1.0.0 format: %w'' [] err)
      | Inr res \<Rightarrow> Inr res)"

section \<open>ADD\<close>

definition cleanupAfterAddFailure ::
  "('w, 'r) Env \<Rightarrow> ('w, 'r) AddConfig \<Rightarrow> u16 \<Rightarrow> ('w, unit) state" where
  "cleanupAfterAddFailure env cfg ifaceID = do {
     _ \<leftarrow> gc_InterfaceDel (ac_Client cfg) ifaceID;
     ipamDel env (ac_IPAMDel cfg) (ac_Config cfg) (ac_Args cfg)
   }"

text \<open>The gateways are assigned in order; the first failure stops the loop.\<close>

fun add_gateways :: "'w GroutClient \<Rightarrow> u16 \<Rightarrow> IPNet list \<Rightarrow> ('w, error option) state" where
  "add_gateways client bridgeID [] = State_Monad.return None"
| "add_gateways client bridgeID (gw # gws) =
     try_op (gc_AddressAdd client \<lparr>aa_IfaceID = bridgeID, aa_Address = gw, aa_ExistOK = True\<rparr>)
       (\<lambda>err. Some (Wrapf ''grout bridge address add: %w'' [] err))
       (add_gateways client bridgeID gws)"

definition port_request ::
  "'r PluginConf \<Rightarrow> string \<Rightarrow> u16 \<Rightarrow> string \<Rightarrow> InterfaceAddRequest" where
  "port_request conf tapName bridgeID sockPath =
     \<lparr>ia_Name = tapName, ia_Type = Client.InterfaceTypeTAP, ia_DomainID = bridgeID,
      ia_MTU = word_of_int (conf_MTU conf), ia_VhostUserPath = sockPath, ia_VXLAN = None\<rparr>"

text \<open>Moving and configuring the TAP link, with the rollback of each failure.\<close>

definition setup_pod_link ::
  "('w, 'r) Env \<Rightarrow> ('w, 'r) AddConfig \<Rightarrow> string \<Rightarrow> u16 \<Rightarrow> Result \<Rightarrow> ('w, Result outcome) state" where
  "setup_pod_link env cfg tapName ifaceID podRes =
     (let args = ac_Args cfg;
          moveFn = (case ac_MoveLink cfg of None \<Rightarrow> moveLinkToNamespace env | Some f \<Rightarrow> f);
          configureFn = (case ac_ConfigurePodIface cfg of
                           None \<Rightarrow> configurePodInterface env | Some f \<Rightarrow> f)
      in do {
        e \<leftarrow> moveFn tapName (args_Netns args);
        case e of
          Some err \<Rightarrow> do {
            _ \<leftarrow> cleanupAfterAddFailure env cfg ifaceID;
            State_Monad.return (Err (Wrapf ''moving TAP to pod namespace: %w'' [] err))
          }
        | None \<Rightarrow> do {
            r \<leftarrow> configureFn (args_Netns args) tapName (args_IfName args)
                   (conf_MTU (ac_Config cfg)) podRes;
            case r of
              Inl err \<Rightarrow> do {
                _ \<leftarrow> cleanupAfterAddFailure env cfg ifaceID;
                State_Monad.return (Err (Wrapf ''configuring pod interface: %w'' [] err))
              }
            | Inr podRes \<Rightarrow> State_Monad.return (Ret podRes)
          }
      })"

text \<open>
  From the pod's port on: create it as a member of the bridge, then build the result and, for
  a TAP with a namespace, set the link up in the pod.
\<close>

definition add_port ::
  "('w, 'r) Env \<Rightarrow> ('w, 'r) AddConfig \<Rightarrow> string \<Rightarrow> u16 \<Rightarrow> Result \<Rightarrow> ('w, Result outcome) state" where
  "add_port env cfg tapName bridgeID cniResult =
     (let conf = ac_Config cfg;
          args = ac_Args cfg;
          virtio = (conf_InterfaceType conf = InterfaceTypeVirtio);
          sockPath = (if virtio then vhostSocketPath (conf_GroutSocketPath conf) tapName else [])
      in do {
        e \<leftarrow> (if virtio then os_MkdirAll env (filepath_Dir sockPath)
             else State_Monad.return None);
        case e of
          Some err \<Rightarrow> do {
            _ \<leftarrow> ipamDel env (ac_IPAMDel cfg) conf args;
            State_Monad.return (Err (Wrapf ''creating vhost socket dir: %w'' [] err))
          }
        | None \<Rightarrow> do {
            addResp \<leftarrow> gc_InterfaceAdd (ac_Client cfg)
                         (port_request conf tapName bridgeID sockPath);
            case addResp of
              Inl err \<Rightarrow> do {
                _ \<leftarrow> ipamDel env (ac_IPAMDel cfg) conf args;
                State_Monad.return (Err (Wrapf ''grout interface add: %w'' [] err))
              }
            | Inr ifaceID \<Rightarrow>
                if virtio then State_Monad.return (vhostResult args cniResult sockPath)
                else (case podResult args cniResult of
                        Ret podRes \<Rightarrow>
                          if args_Netns args \<noteq> []
                          then setup_pod_link env cfg tapName ifaceID podRes
                          else State_Monad.return (Ret podRes)
                      | Err err \<Rightarrow> State_Monad.return (Err err)
                      | Panic \<Rightarrow> State_Monad.return Panic)
          }
      })"

text \<open>The bridge with its gateway addresses, then the port.\<close>

definition add_to_bridge ::
  "('w, 'r) Env \<Rightarrow> ('w, 'r) AddConfig \<Rightarrow> string \<Rightarrow> Result \<Rightarrow> ('w, Result outcome) state" where
  "add_to_bridge env cfg tapName cniResult =
     (let conf = ac_Config cfg;
          args = ac_Args cfg
      in do {
        r \<leftarrow> ensureBridge (ac_Client cfg) (conf_Bridge conf);
        case r of
          Inl err \<Rightarrow> do {
            _ \<leftarrow> ipamDel env (ac_IPAMDel cfg) conf args;
            State_Monad.return
              (Err (Wrapf ''ensuring grout bridge %q: %w'' [AStr (conf_Bridge conf)] err))
          }
        | Inr bridgeID \<Rightarrow>
            (case gatewaysFor cniResult of
               Panic \<Rightarrow> State_Monad.return Panic
             | Err err \<Rightarrow> State_Monad.return (Err err)
             | Ret gws \<Rightarrow> do {
                 e \<leftarrow> add_gateways (ac_Client cfg) bridgeID gws;
                 case e of
                   Some err \<Rightarrow> do {
                     _ \<leftarrow> ipamDel env (ac_IPAMDel cfg) conf args;
                     State_Monad.return (Err err)
                   }
                 | None \<Rightarrow> add_port env cfg tapName bridgeID cniResult
               })
      })"

definition HandleAdd ::
  "('w, 'r) Env \<Rightarrow> ('w, 'r) AddConfig \<Rightarrow> ('w, Result outcome) state" where
  "HandleAdd env cfg =
     (let conf = ac_Config cfg;
          args = ac_Args cfg;
          tapName = groutPortName (env_unicode env) (args_ContainerID args) (args_IfName args);
          ipamAddFn = (case ac_IPAMAdd cfg of None \<Rightarrow> delegateIPAMAdd env | Some f \<Rightarrow> f)
      in with_lock env (conf_GroutSocketPath conf)
           (try_val (ipamAddFn conf args)
              (\<lambda>err. Err (Wrapf ''IPAM add: %w'' [] err))
              (\<lambda>result.
                 case convertResult (env_lib env) result of
                   Inl err \<Rightarrow>
                     State_Monad.return (Err (Wrapf ''converting IPAM result: %w'' [] err))
                 | Inr cniResult \<Rightarrow> add_to_bridge env cfg tapName cniResult)))"

section \<open>DEL\<close>

definition removeVhostSocket :: "('w, 'r) Env \<Rightarrow> string \<Rightarrow> string \<Rightarrow> ('w, unit) state" where
  "removeVhostSocket env groutSocketPath portName = do {
     _ \<leftarrow> os_Remove env (vhostSocketPath groutSocketPath portName);
     State_Monad.return ()
   }"

text \<open>
  The scan of \<open>gcBridgeIfEmpty\<close>: whether the loop ends with the bridge found and without
  having returned early.
\<close>

fun gc_scan :: "u16 \<Rightarrow> InterfaceInfo list \<Rightarrow> bool \<Rightarrow> bool" where
  "gc_scan bridgeID [] bridgeFound = bridgeFound"
| "gc_scan bridgeID (iface # ifaces) bridgeFound =
     (if if_ID iface = bridgeID \<and> if_Type iface \<noteq> InterfaceTypeBridge then False
      else if if_Domain iface = bridgeID then False
      else gc_scan bridgeID ifaces (bridgeFound \<or> if_ID iface = bridgeID))"

definition gcBridgeIfEmpty :: "'w GroutClient \<Rightarrow> u16 \<Rightarrow> ('w, unit) state" where
  "gcBridgeIfEmpty client bridgeID =
     try_val (gc_InterfaceList client InterfaceTypeUndef) (\<lambda>_. ())
       (\<lambda>ifaces.
          if gc_scan bridgeID ifaces False then do {
            _ \<leftarrow> gc_AddressFlush client bridgeID;
            _ \<leftarrow> gc_InterfaceDel client bridgeID;
            State_Monad.return ()
          }
          else State_Monad.return ())"

definition HandleDel :: "('w, 'r) Env \<Rightarrow> ('w, 'r) DelConfig \<Rightarrow> ('w, unit outcome) state" where
  "HandleDel env cfg =
     (let conf = dc_Config cfg;
          args = dc_Args cfg;
          client = dc_Client cfg;
          name = groutPortName (env_unicode env) (args_ContainerID args) (args_IfName args)
      in with_lock env (conf_GroutSocketPath conf)
           (try_val (gc_InterfaceList client InterfaceTypeUndef)
              (\<lambda>err. Err (Wrapf ''listing interfaces: %w'' [] err))
              (\<lambda>ifaces. do {
                 _ \<leftarrow> (case findPortByName ifaces name of
                        Some port \<Rightarrow> do {
                          _ \<leftarrow> gc_InterfaceDel client (if_ID port);
                          _ \<leftarrow> removeVhostSocket env (conf_GroutSocketPath conf) name;
                          if if_Domain port \<noteq> 0 then gcBridgeIfEmpty client (if_Domain port)
                          else State_Monad.return ()
                        }
                      | None \<Rightarrow> State_Monad.return ());
                 _ \<leftarrow> ipamDel env (dc_IPAMDel cfg) conf args;
                 State_Monad.return (Ret ())
               })))"

section \<open>CHECK\<close>

definition expectedPodIPs :: "'r Lib \<Rightarrow> 'r PluginConf \<Rightarrow> error + IPNet list" where
  "expectedPodIPs lib conf =
     (case conf_RawPrevResult conf of
        None \<Rightarrow> Inr []
      | Some _ \<Rightarrow>
          (case ParsePrevResult lib conf of
             Inl err \<Rightarrow> Inl (Wrapf ''parsing prevResult: %w'' [] err)
           | Inr conf \<Rightarrow>
               (case conf_PrevResult conf of
                  None \<Rightarrow> Inr []
                | Some prev \<Rightarrow>
                    (case NewResultFromResult lib prev of
                       Inl err \<Rightarrow> Inl (Wrapf ''converting prevResult to 1.0.0 format: %w'' [] err)
                     | Inr result \<Rightarrow>
                         Inr (map ipc_Address (List.map_filter id (res_IPs result)))))))"

definition HandleCheck :: "('w, 'r) Env \<Rightarrow> ('w, 'r) DelConfig \<Rightarrow> ('w, unit outcome) state" where
  "HandleCheck env cfg =
     (let conf = dc_Config cfg;
          args = dc_Args cfg;
          name = groutPortName (env_unicode env) (args_ContainerID args) (args_IfName args);
          verifyFn = (case dc_VerifyPodIface cfg of None \<Rightarrow> verifyPodInterface env | Some f \<Rightarrow> f)
      in with_lock env (conf_GroutSocketPath conf)
           (try_val (gc_InterfaceList (dc_Client cfg) InterfaceTypeUndef)
              (\<lambda>err. Err (Wrapf ''listing interfaces: %w'' [] err))
              (\<lambda>ifaces.
                 if findPortByName ifaces name = None then
                   State_Monad.return
                     (Err (Errorf
                        ''grout port %q for container %s ifname %s is missing (grout lost state)''
                        [AStr name, AStr (args_ContainerID args), AStr (args_IfName args)]))
                 else if conf_InterfaceType conf = InterfaceTypeVirtio then do {
                   let sockPath = vhostSocketPath (conf_GroutSocketPath conf) name;
                   present \<leftarrow> fileExists env sockPath;
                   State_Monad.return
                     (if \<not> present then
                        Err (Errorf ''vhost-user socket %q for grout port %q is missing''
                              [AStr sockPath, AStr name])
                      else Ret ())
                 }
                 else if args_Netns args = [] then State_Monad.return (Ret ())
                 else (case expectedPodIPs (env_lib env) conf of
                         Inl err \<Rightarrow> State_Monad.return
                           (Err (Wrapf ''determining expected pod addresses: %w'' [] err))
                       | Inr expectedIPs \<Rightarrow>
                           try_op (verifyFn (args_Netns args) (args_IfName args) expectedIPs)
                             (\<lambda>err. Err (Wrapf ''verifying pod interface %q: %w''
                                      [AStr (args_IfName args)] err))
                             (State_Monad.return (Ret ()))))))"

section \<open>GC\<close>

definition valid_names :: "unicode_tables \<Rightarrow> GCAttachment list \<Rightarrow> string set" where
  "valid_names u as = (\<lambda>a. groutPortName u (gca_ContainerID a) (gca_IfName a)) ` set as"

text \<open>An interface that GC reaps: on the bridge, with the port prefix, not valid.\<close>

definition gc_stale :: "u16 \<Rightarrow> string set \<Rightarrow> InterfaceInfo \<Rightarrow> bool" where
  "gc_stale bridgeID valid iface \<longleftrightarrow>
     \<not> (if_Domain iface \<noteq> bridgeID \<or> \<not> strings_HasPrefix (if_Name iface) portPrefix) \<and>
     if_Name iface \<notin> valid"

fun gc_reap ::
  "('w, 'r) Env \<Rightarrow> 'w GroutClient \<Rightarrow> string \<Rightarrow> u16 \<Rightarrow> string set \<Rightarrow> InterfaceInfo list \<Rightarrow> bool
   \<Rightarrow> ('w, bool) state" where
  "gc_reap env client sock bridgeID valid [] reaped = State_Monad.return reaped"
| "gc_reap env client sock bridgeID valid (iface # ifaces) reaped =
     (if \<not> gc_stale bridgeID valid iface
      then gc_reap env client sock bridgeID valid ifaces reaped
      else do {
        e \<leftarrow> gc_InterfaceDel client (if_ID iface);
        case e of
          Some _ \<Rightarrow> gc_reap env client sock bridgeID valid ifaces reaped
        | None \<Rightarrow> do {
            _ \<leftarrow> removeVhostSocket env sock (if_Name iface);
            gc_reap env client sock bridgeID valid ifaces True
          }
      })"

definition HandleGC :: "('w, 'r) Env \<Rightarrow> ('w, 'r) GCConfig \<Rightarrow> ('w, unit outcome) state" where
  "HandleGC env cfg =
     (let conf = gcc_Config cfg;
          args = gcc_Args cfg;
          client = gcc_Client cfg;
          valid = valid_names (env_unicode env) (conf_ValidAttachments conf)
      in with_lock env (conf_GroutSocketPath conf)
           (try_val (gc_InterfaceList client InterfaceTypeUndef)
              (\<lambda>err. Err (Wrapf ''GC: listing interfaces: %w'' [] err))
              (\<lambda>ifaces.
                 case findBridgeID ifaces (conf_Bridge conf) of
                   None \<Rightarrow> do {
                     _ \<leftarrow> gcIPAM env (gcc_IPAMGC cfg) conf args;
                     State_Monad.return (Ret ())
                   }
                 | Some bridgeID \<Rightarrow> do {
                     reaped \<leftarrow> gc_reap env client (conf_GroutSocketPath conf) bridgeID valid
                                 ifaces False;
                     _ \<leftarrow> (if reaped then gcBridgeIfEmpty client bridgeID
                          else State_Monad.return ());
                     _ \<leftarrow> gcIPAM env (gcc_IPAMGC cfg) conf args;
                     State_Monad.return (Ret ())
                   })))"

end
