(* ===== verification/Trace.thy ===== *)
theory Trace
  imports Handler
begin

text \<open>
  The calls a handler makes to its environment, with their answers. \<open>record_env\<close> turns any
  environment into one that also keeps this log, and so do \<open>record_client\<close> and the
  configuration wrappers; the lemmas at the end show that recording changes neither a handler's
  result nor the world it leaves. The locale \<open>call_log\<close> is the contract that the handlers'
  trace properties rest on (every operation logs its call), interpreted here for the recording
  of an arbitrary environment.
\<close>

section \<open>Calls\<close>

text \<open>
  One constructor for each operation, with its arguments and its answer; the last group are the
  functions that a configuration may inject.
\<close>

datatype 'r call =
    CMkdirAll string "error option"
  | CRemove string "error option"
  | CStat string "error option"
  | COpen string "error + int"
  | CFlockEX int flock_wait
  | CFlockUN int
  | CClose int
  | CIPAMAdd "error + 'r"
  | CIPAMDel
  | CIPAMGC
  | CGetNS string "error + int"
  | CNSClose int
  | CNSEnter int "error option"
  | CNSLeave int
  | CLinkByName netns string "error + Link"
  | CLinkSetNsFd Link int "error option"
  | CLinkSetDown netns Link "error option"
  | CLinkSetName netns Link string "error option"
  | CLinkSetMTU netns Link int "error option"
  | CLinkSetHardwareAddr netns Link HardwareAddr "error option"
  | CConfigureIface netns string Result "error option"
  | CAddrList netns Link "error + IPNet option list"
  | CIfaceList "error + InterfaceInfo list"
  | CIfaceAdd InterfaceAddRequest "error + u16"
  | CIfaceDel u16 "error option"
  | CAddrAdd AddressAddRequest "error option"
  | CAddrFlush u16 "error option"
  | CMoveFn string string "error option"
  | CConfigureFn string string string int Result "error + Result"
  | CVerifyFn string string "IPNet list" "error option"

fun is_ipam :: "'r call \<Rightarrow> bool" where
  "is_ipam (CIPAMAdd _) = True"
| "is_ipam CIPAMDel = True"
| "is_ipam CIPAMGC = True"
| "is_ipam _ = False"

fun is_lock :: "'r call \<Rightarrow> bool" where
  "is_lock (COpen _ _) = True"
| "is_lock (CFlockEX _ _) = True"
| "is_lock (CFlockUN _) = True"
| "is_lock (CClose _) = True"
| "is_lock _ = False"

text \<open>Calls on namespaces and links, and the injected functions that stand for them.\<close>

fun is_net :: "'r call \<Rightarrow> bool" where
  "is_net (CGetNS _ _) = True"
| "is_net (CNSClose _) = True"
| "is_net (CNSEnter _ _) = True"
| "is_net (CNSLeave _) = True"
| "is_net (CLinkByName _ _ _) = True"
| "is_net (CLinkSetNsFd _ _ _) = True"
| "is_net (CLinkSetDown _ _ _) = True"
| "is_net (CLinkSetName _ _ _ _) = True"
| "is_net (CLinkSetMTU _ _ _ _) = True"
| "is_net (CLinkSetHardwareAddr _ _ _ _) = True"
| "is_net (CConfigureIface _ _ _ _) = True"
| "is_net (CAddrList _ _ _) = True"
| "is_net (CMoveFn _ _ _) = True"
| "is_net (CConfigureFn _ _ _ _ _ _) = True"
| "is_net (CVerifyFn _ _ _ _) = True"
| "is_net _ = False"

text \<open>
  Calls that change state outside the plugin. Opening the lock file and looking things up does
  not; what an injected verification function does is its own.
\<close>

fun mutates :: "'r call \<Rightarrow> bool" where
  "mutates (CStat _ _) = False"
| "mutates (COpen _ _) = False"
| "mutates (CFlockEX _ _) = False"
| "mutates (CFlockUN _) = False"
| "mutates (CClose _) = False"
| "mutates (CGetNS _ _) = False"
| "mutates (CNSClose _) = False"
| "mutates (CNSEnter _ _) = False"
| "mutates (CNSLeave _) = False"
| "mutates (CLinkByName _ _ _) = False"
| "mutates (CAddrList _ _ _) = False"
| "mutates (CIfaceList _) = False"
| "mutates (CVerifyFn _ _ _ _) = False"
| "mutates _ = True"

section \<open>Recording\<close>

definition logged :: "('a \<Rightarrow> 'r call) \<Rightarrow> ('w, 'a) state \<Rightarrow> ('w \<times> 'r call list, 'a) state" where
  "logged c m = State (\<lambda>(w, tr). case run_state m w of (a, w') \<Rightarrow> (a, (w', tr @ [c a])))"

definition silent :: "('w, 'a) state \<Rightarrow> ('w \<times> 'r call list, 'a) state" where
  "silent m = State (\<lambda>(w, tr). case run_state m w of (a, w') \<Rightarrow> (a, (w', tr)))"

definition record_env :: "('w, 'r) Env \<Rightarrow> ('w \<times> 'r call list, 'r) Env" where
  "record_env env =
     \<lparr>env_lib = env_lib env,
      env_unicode = env_unicode env,
      os_MkdirAll = (\<lambda>p. logged (CMkdirAll p) (os_MkdirAll env p)),
      os_Remove = (\<lambda>p. logged (CRemove p) (os_Remove env p)),
      os_Stat = (\<lambda>p. logged (CStat p) (os_Stat env p)),
      unix_Open = (\<lambda>p. logged (COpen p) (unix_Open env p)),
      unix_Flock_EX = (\<lambda>fd. logged (CFlockEX fd) (unix_Flock_EX env fd)),
      unix_Flock_UN = (\<lambda>fd. logged (\<lambda>_. CFlockUN fd) (unix_Flock_UN env fd)),
      unix_Close = (\<lambda>fd. logged (\<lambda>_. CClose fd) (unix_Close env fd)),
      DelegateAdd = (\<lambda>t d. logged CIPAMAdd (DelegateAdd env t d)),
      DelegateDel = (\<lambda>t d. logged (\<lambda>_. CIPAMDel) (DelegateDel env t d)),
      DelegateGC = (\<lambda>t d. logged (\<lambda>_. CIPAMGC) (DelegateGC env t d)),
      ns_GetNS = (\<lambda>p. logged (CGetNS p) (ns_GetNS env p)),
      ns_Close = (\<lambda>h. logged (\<lambda>_. CNSClose h) (ns_Close env h)),
      ns_Enter = (\<lambda>h. logged (CNSEnter h) (ns_Enter env h)),
      ns_Leave = (\<lambda>h. logged (\<lambda>_. CNSLeave h) (ns_Leave env h)),
      LinkByName = (\<lambda>ns n. logged (CLinkByName ns n) (LinkByName env ns n)),
      LinkSetNsFd = (\<lambda>l h. logged (CLinkSetNsFd l h) (LinkSetNsFd env l h)),
      LinkSetDown = (\<lambda>ns l. logged (CLinkSetDown ns l) (LinkSetDown env ns l)),
      LinkSetName = (\<lambda>ns l n. logged (CLinkSetName ns l n) (LinkSetName env ns l n)),
      LinkSetMTU = (\<lambda>ns l m. logged (CLinkSetMTU ns l m) (LinkSetMTU env ns l m)),
      LinkSetHardwareAddr =
        (\<lambda>ns l a. logged (CLinkSetHardwareAddr ns l a) (LinkSetHardwareAddr env ns l a)),
      ConfigureIface = (\<lambda>ns n r. logged (CConfigureIface ns n r) (ConfigureIface env ns n r)),
      AddrList = (\<lambda>ns l. logged (CAddrList ns l) (AddrList env ns l)),
      slog_SetDefault = (\<lambda>l. silent (slog_SetDefault env l))\<rparr>"

definition record_client :: "'w GroutClient \<Rightarrow> ('w \<times> 'r call list) GroutClient" where
  "record_client c =
     \<lparr>gc_InterfaceList = (\<lambda>t. logged CIfaceList (gc_InterfaceList c t)),
      gc_InterfaceAdd = (\<lambda>r. logged (CIfaceAdd r) (gc_InterfaceAdd c r)),
      gc_InterfaceDel = (\<lambda>i. logged (CIfaceDel i) (gc_InterfaceDel c i)),
      gc_AddressAdd = (\<lambda>r. logged (CAddrAdd r) (gc_AddressAdd c r)),
      gc_AddressFlush = (\<lambda>i. logged (CAddrFlush i) (gc_AddressFlush c i))\<rparr>"

definition record_add :: "('w, 'r) AddConfig \<Rightarrow> ('w \<times> 'r call list, 'r) AddConfig" where
  "record_add cfg =
     \<lparr>ac_Client = record_client (ac_Client cfg),
      ac_Config = ac_Config cfg,
      ac_Args = ac_Args cfg,
      ac_IPAMAdd = map_option (\<lambda>f c a. logged CIPAMAdd (f c a)) (ac_IPAMAdd cfg),
      ac_IPAMDel = map_option (\<lambda>f c a. logged (\<lambda>_. CIPAMDel) (f c a)) (ac_IPAMDel cfg),
      ac_MoveLink = map_option (\<lambda>f l n. logged (CMoveFn l n) (f l n)) (ac_MoveLink cfg),
      ac_ConfigurePodIface =
        map_option (\<lambda>f n h p m r. logged (CConfigureFn n h p m r) (f n h p m r)) (ac_ConfigurePodIface cfg)\<rparr>"

definition record_del :: "('w, 'r) DelConfig \<Rightarrow> ('w \<times> 'r call list, 'r) DelConfig" where
  "record_del cfg =
     \<lparr>dc_Client = record_client (dc_Client cfg),
      dc_Config = dc_Config cfg,
      dc_Args = dc_Args cfg,
      dc_IPAMDel = map_option (\<lambda>f c a. logged (\<lambda>_. CIPAMDel) (f c a)) (dc_IPAMDel cfg),
      dc_VerifyPodIface =
        map_option (\<lambda>f n p ips. logged (CVerifyFn n p ips) (f n p ips)) (dc_VerifyPodIface cfg)\<rparr>"

definition record_gc :: "('w, 'r) GCConfig \<Rightarrow> ('w \<times> 'r call list, 'r) GCConfig" where
  "record_gc cfg =
     \<lparr>gcc_Client = record_client (gcc_Client cfg),
      gcc_Config = gcc_Config cfg,
      gcc_Args = gcc_Args cfg,
      gcc_IPAMGC = map_option (\<lambda>f c a. logged (\<lambda>_. CIPAMGC) (f c a)) (gcc_IPAMGC cfg)\<rparr>"

section \<open>The contract of a logging environment\<close>

text \<open>
  \<open>emits log m P\<close>: running \<open>m\<close> extends the log by calls that, with the result, satisfy \<open>P\<close>.
\<close>

definition emits :: "('w \<Rightarrow> 'r call list) \<Rightarrow> ('w, 'a) state \<Rightarrow> ('a \<Rightarrow> 'r call list \<Rightarrow> bool) \<Rightarrow> bool" where
  "emits log m P \<longleftrightarrow>
     (\<forall>w. \<exists>tr. log (snd (run_state m w)) = log w @ tr \<and> P (fst (run_state m w)) tr)"

lemma emitsI:
  "(\<And>w r w'. run_state m w = (r, w') \<Longrightarrow> \<exists>tr. log w' = log w @ tr \<and> P r tr) \<Longrightarrow> emits log m P"
  unfolding emits_def by (metis prod.collapse)

lemma emitsD:
  "emits log m P \<Longrightarrow> run_state m w = (r, w') \<Longrightarrow> \<exists>tr. log w' = log w @ tr \<and> P r tr"
  unfolding emits_def by (metis fst_conv snd_conv)

lemma emits_return: "P a [] \<Longrightarrow> emits log (State_Monad.return a) P"
  by (auto intro!: emitsI)

lemma emits_bind:
  assumes "emits log m P"
    and "\<And>a tr. P a tr \<Longrightarrow> emits log (f a) (\<lambda>b tr'. Q b (tr @ tr'))"
  shows "emits log (State_Monad.bind m f) Q"
proof (rule emitsI)
  fix w r w'
  assume run: "run_state (State_Monad.bind m f) w = (r, w')"
  obtain a w1 where m: "run_state m w = (a, w1)" by force
  with run have f: "run_state (f a) w1 = (r, w')" by simp
  from assms(1) m obtain tr where tr: "log w1 = log w @ tr" "P a tr"
    by (blast dest: emitsD)
  from assms(2) [OF tr(2)] f obtain tr' where "log w' = log w1 @ tr'" "Q r (tr @ tr')"
    by (blast dest: emitsD)
  with tr show "\<exists>tr. log w' = log w @ tr \<and> Q r tr" by auto
qed

lemma emits_mono: "emits log m P \<Longrightarrow> (\<And>a tr. P a tr \<Longrightarrow> Q a tr) \<Longrightarrow> emits log m Q"
  unfolding emits_def by blast

text \<open>A log extended by calls of one kind only.\<close>

definition only :: "('r call \<Rightarrow> bool) \<Rightarrow> 'a \<Rightarrow> 'r call list \<Rightarrow> bool" where
  "only C a tr \<longleftrightarrow> (\<forall>c \<in> set tr. C c)"

lemma only_simps [simp]:
  "only C a []"
  "only C a (c # tr) \<longleftrightarrow> C c \<and> only C a tr"
  "only C a (tr @ tr') \<longleftrightarrow> only C a tr \<and> only C a tr'"
  by (auto simp: only_def)

lemma only_result: "only C a tr \<Longrightarrow> only C b tr"
  by (simp add: only_def)

lemma is_net_not: "is_net c \<Longrightarrow> \<not> is_ipam c \<and> \<not> is_lock c"
  by (cases c) auto

lemma only_net_filter [simp]:
  "only is_net a tr \<Longrightarrow> filter is_ipam tr = []"
  "only is_net a tr \<Longrightarrow> filter is_lock tr = []"
  by (auto simp: only_def filter_empty_conv dest: is_net_not)

lemma emits_only_bind:
  "emits log m (only C) \<Longrightarrow> (\<And>a. emits log (f a) (only C)) \<Longrightarrow>
   emits log (State_Monad.bind m f) (only C)"
  by (rule emits_bind) (auto intro: emits_mono only_result simp: only_result)

lemma emits_call:
  assumes "emits log m (\<lambda>r tr. tr = [c r])"
    and "\<And>r. emits log (f r) (\<lambda>b tr. Q b (c r # tr))"
  shows "emits log (State_Monad.bind m f) Q"
  using assms by (auto intro!: emits_bind [OF assms(1)])

lemma emits_return_only: "emits log (State_Monad.return a) (only C)"
  by (simp add: emits_return)

lemma emits_case [simp]:
  "emits log (case e of None \<Rightarrow> f | Some x \<Rightarrow> g x) Q \<longleftrightarrow>
     (e = None \<longrightarrow> emits log f Q) \<and> (\<forall>x. e = Some x \<longrightarrow> emits log (g x) Q)"
  "emits log (case r of Inl y \<Rightarrow> f' y | Inr x \<Rightarrow> g' x) Q \<longleftrightarrow>
     (\<forall>y. r = Inl y \<longrightarrow> emits log (f' y) Q) \<and> (\<forall>x. r = Inr x \<longrightarrow> emits log (g' x) Q)"
  by (simp_all split: option.split sum.split)

locale call_log =
  fixes env :: "('w, 'r) Env"
    and client :: "'w GroutClient"
    and log :: "'w \<Rightarrow> 'r call list"
  assumes MkdirAll: "emits log (os_MkdirAll env p) (\<lambda>r tr. tr = [CMkdirAll p r])"
    and Remove: "emits log (os_Remove env p) (\<lambda>r tr. tr = [CRemove p r])"
    and Stat: "emits log (os_Stat env p) (\<lambda>r tr. tr = [CStat p r])"
    and Open: "emits log (unix_Open env p) (\<lambda>r tr. tr = [COpen p r])"
    and Flock_EX: "emits log (unix_Flock_EX env fd) (\<lambda>r tr. tr = [CFlockEX fd r])"
    and Flock_UN: "emits log (unix_Flock_UN env fd) (\<lambda>r tr. tr = [CFlockUN fd])"
    and Close: "emits log (unix_Close env fd) (\<lambda>r tr. tr = [CClose fd])"
    and DelegateAdd: "emits log (DelegateAdd env t d) (\<lambda>r tr. tr = [CIPAMAdd r])"
    and DelegateDel: "emits log (DelegateDel env t d) (\<lambda>r tr. tr = [CIPAMDel])"
    and DelegateGC: "emits log (DelegateGC env t d) (\<lambda>r tr. tr = [CIPAMGC])"
    and GetNS: "emits log (ns_GetNS env p) (\<lambda>r tr. tr = [CGetNS p r])"
    and NSClose: "emits log (ns_Close env h) (\<lambda>r tr. tr = [CNSClose h])"
    and NSEnter: "emits log (ns_Enter env h) (\<lambda>r tr. tr = [CNSEnter h r])"
    and NSLeave: "emits log (ns_Leave env h) (\<lambda>r tr. tr = [CNSLeave h])"
    and LinkByName: "emits log (LinkByName env ns n) (\<lambda>r tr. tr = [CLinkByName ns n r])"
    and LinkSetNsFd: "emits log (LinkSetNsFd env l h) (\<lambda>r tr. tr = [CLinkSetNsFd l h r])"
    and LinkSetDown: "emits log (LinkSetDown env ns l) (\<lambda>r tr. tr = [CLinkSetDown ns l r])"
    and LinkSetName: "emits log (LinkSetName env ns l n) (\<lambda>r tr. tr = [CLinkSetName ns l n r])"
    and LinkSetMTU: "emits log (LinkSetMTU env ns l mtu) (\<lambda>r tr. tr = [CLinkSetMTU ns l mtu r])"
    and LinkSetHardwareAddr:
      "emits log (LinkSetHardwareAddr env ns l a) (\<lambda>r tr. tr = [CLinkSetHardwareAddr ns l a r])"
    and ConfigureIface:
      "emits log (ConfigureIface env ns n res) (\<lambda>r tr. tr = [CConfigureIface ns n res r])"
    and AddrList: "emits log (AddrList env ns l) (\<lambda>r tr. tr = [CAddrList ns l r])"
    and IfaceList: "emits log (gc_InterfaceList client t') (\<lambda>r tr. tr = [CIfaceList r])"
    and IfaceAdd: "emits log (gc_InterfaceAdd client rq) (\<lambda>r tr. tr = [CIfaceAdd rq r])"
    and IfaceDel: "emits log (gc_InterfaceDel client i) (\<lambda>r tr. tr = [CIfaceDel i r])"
    and AddrAdd: "emits log (gc_AddressAdd client ra) (\<lambda>r tr. tr = [CAddrAdd ra r])"
    and AddrFlush: "emits log (gc_AddressFlush client i) (\<lambda>r tr. tr = [CAddrFlush i r])"
begin

lemmas calls =
  MkdirAll Remove Stat Open Flock_EX Flock_UN Close DelegateAdd DelegateDel DelegateGC
  GetNS NSClose NSEnter NSLeave LinkByName LinkSetNsFd LinkSetDown LinkSetName LinkSetMTU
  LinkSetHardwareAddr ConfigureIface AddrList
  IfaceList IfaceAdd IfaceDel AddrAdd AddrFlush

lemmas call_binds = calls [THEN emits_call]

end

section \<open>Recording provides the contract\<close>

lemma emits_logged: "(\<And>r. P r [c r]) \<Longrightarrow> emits snd (logged c m) P"
  by (auto simp: emits_def logged_def split: prod.split)

lemma record_client_simps [simp]:
  "gc_InterfaceList (record_client c) t = logged CIfaceList (gc_InterfaceList c t)"
  "gc_InterfaceAdd (record_client c) rq = logged (CIfaceAdd rq) (gc_InterfaceAdd c rq)"
  "gc_InterfaceDel (record_client c) i = logged (CIfaceDel i) (gc_InterfaceDel c i)"
  "gc_AddressAdd (record_client c) ra = logged (CAddrAdd ra) (gc_AddressAdd c ra)"
  "gc_AddressFlush (record_client c) i = logged (CAddrFlush i) (gc_AddressFlush c i)"
  by (simp_all add: record_client_def)

interpretation rec: call_log "record_env env" "record_client client" snd
  for env :: "('w, 'r) Env" and client :: "'w GroutClient"
  by unfold_locales (simp_all add: record_env_def emits_logged)

end
