(* ===== verification/NetTrace.thy ===== *)
theory NetTrace
  imports Trace
begin

text \<open>
  The calls on namespaces and links: of moving the pod's link, of configuring it and of
  verifying it (\<open>src/pkg/cni/netns.go\<close>), with their answers and the result that follows from
  them.
\<close>

section \<open>Trace predicates\<close>

text \<open>Work in the namespace at \<open>path\<close>: \<open>P\<close> describes what is done inside, in terms of its handle.\<close>

definition in_namespace ::
  "string \<Rightarrow> (netns \<Rightarrow> error + 'a \<Rightarrow> 'r call list \<Rightarrow> bool) \<Rightarrow> error + 'a \<Rightarrow> 'r call list \<Rightarrow> bool" where
  "in_namespace path P r tr \<longleftrightarrow>
     (\<exists>e. tr = [CGetNS path (Inl e)] \<and> r = Inl (Wrapf ''opening netns %s: %w'' [AStr path] e))
     \<or> (\<exists>h e. tr = [CGetNS path (Inr h), CNSEnter h (Some e), CNSClose h] \<and> r = Inl e)
     \<or> (\<exists>h tr'. P (PodNS h) r tr' \<and>
          tr = [CGetNS path (Inr h), CNSEnter h None] @ tr' @ [CNSLeave h, CNSClose h])"

definition move_trace :: "string \<Rightarrow> string \<Rightarrow> error option \<Rightarrow> 'r call list \<Rightarrow> bool" where
  "move_trace link path r tr \<longleftrightarrow>
     (\<exists>e. tr = [CLinkByName HostNS link (Inl e)] \<and>
        r = Some (Wrapf ''finding link %q: %w'' [AStr link] e))
     \<or> (\<exists>l e. tr = [CLinkByName HostNS link (Inr l), CGetNS path (Inl e)] \<and>
        r = Some (Wrapf ''opening netns %s: %w'' [AStr path] e))
     \<or> (\<exists>l h e. tr = [CLinkByName HostNS link (Inr l), CGetNS path (Inr h), CLinkSetNsFd l h e,
                    CNSClose h] \<and>
        r = map_option (Wrapf ''moving link %q to netns %s: %w'' [AStr link, AStr path]) e)"

text \<open>
  A successful configuration makes all of these calls: the link is found, taken down, renamed
  and found again if its name differs, gets the MTU if one is configured and the MAC address if
  one is derived, is configured with the addresses and routes, and is looked up once more.
\<close>

definition configure_calls ::
  "netns \<Rightarrow> string \<Rightarrow> string \<Rightarrow> int \<Rightarrow> Result \<Rightarrow> Link \<Rightarrow> Link \<Rightarrow> error + Link \<Rightarrow> 'r call list" where
  "configure_calls ns host pod mtu res l l' x =
     [CLinkByName ns host (Inr l)]
     @ (if host \<noteq> pod
        then [CLinkSetDown ns l None, CLinkSetName ns l pod None, CLinkByName ns pod (Inr l')]
        else [])
     @ (if mtu > 0 then [CLinkSetMTU ns l' mtu None] else [])
     @ (case podMACFromResult (Some res) of
          Some mac \<Rightarrow> [CLinkSetHardwareAddr ns l' mac None] | None \<Rightarrow> [])
     @ [CConfigureIface ns pod res None, CLinkByName ns pod x]"

text \<open>The link operations of one namespace.\<close>

fun link_call :: "netns \<Rightarrow> 'r call \<Rightarrow> bool" where
  "link_call ns (CLinkByName ns' _ _) = (ns' = ns)"
| "link_call ns (CLinkSetDown ns' _ _) = (ns' = ns)"
| "link_call ns (CLinkSetName ns' _ _ _) = (ns' = ns)"
| "link_call ns (CLinkSetMTU ns' _ _ _) = (ns' = ns)"
| "link_call ns (CLinkSetHardwareAddr ns' _ _ _) = (ns' = ns)"
| "link_call ns (CConfigureIface ns' _ _ _) = (ns' = ns)"
| "link_call ns (CAddrList ns' _ _) = (ns' = ns)"
| "link_call ns _ = False"

text \<open>The result carries the MAC address that the last lookup shows.\<close>

definition configured ::
  "string \<Rightarrow> string \<Rightarrow> int \<Rightarrow> Result \<Rightarrow> netns \<Rightarrow> error + Result \<Rightarrow> 'r call list \<Rightarrow> bool" where
  "configured host pod mtu res ns r tr \<longleftrightarrow>
     list_all (link_call ns) tr \<and>
     (case r of
        Inl _ \<Rightarrow> True
      | Inr res' \<Rightarrow>
          (\<exists>l l' x. tr = configure_calls ns host pod mtu res l l' x \<and> (host = pod \<longrightarrow> l' = l) \<and>
             res' = (case x of
                       Inr lk \<Rightarrow> set_mac (Some (HardwareAddr_String (link_HardwareAddr lk))) res
                     | Inl _ \<Rightarrow> res)))"

text \<open>
  The verification of the pod's interface: it is found, up, and carries the expected addresses,
  which are only listed if there are any.
\<close>

definition verified ::
  "string \<Rightarrow> string \<Rightarrow> IPNet list \<Rightarrow> netns \<Rightarrow> error + unit \<Rightarrow> 'r call list \<Rightarrow> bool" where
  "verified path pod ips ns r tr \<longleftrightarrow>
     (\<exists>e. tr = [CLinkByName ns pod (Inl e)] \<and>
        r = Inl (Wrapf ''pod interface %q not found in netns %s: %w'' [AStr pod, AStr path] e))
     \<or> (\<exists>l. tr = [CLinkByName ns pod (Inr l)] \<and> \<not> link_Up l \<and>
        r = Inl (Errorf ''pod interface %q is not administratively up'' [AStr pod]))
     \<or> (\<exists>l. tr = [CLinkByName ns pod (Inr l)] \<and> link_Up l \<and> ips = [] \<and> r = Inr ())
     \<or> (\<exists>l e. tr = [CLinkByName ns pod (Inr l), CAddrList ns l (Inl e)] \<and> link_Up l \<and> ips \<noteq> [] \<and>
        r = Inl (Wrapf ''listing addresses on %q: %w'' [AStr pod] e))
     \<or> (\<exists>l addrs. tr = [CLinkByName ns pod (Inr l), CAddrList ns l (Inr addrs)] \<and> link_Up l \<and>
        ips \<noteq> [] \<and>
        r = (case find (\<lambda>want. \<not> addrPresent addrs (IP want)) ips of
               Some want \<Rightarrow> Inl (Errorf ''pod interface %q missing expected address %s''
                              [AStr pod, ANet (IP want) (Mask want)])
             | None \<Rightarrow> Inr ()))"

text \<open>
  Whether a configuration injects a function; the calls of the step are then one call of it.
\<close>

definition given :: "'a option \<Rightarrow> bool" where
  "given f \<longleftrightarrow> f \<noteq> None"

lemma given_simps [simp]: "\<not> given None" "given (Some f)" "given (map_option g x) = given x"
  by (simp_all add: given_def)

definition moved :: "bool \<Rightarrow> string \<Rightarrow> string \<Rightarrow> error option \<Rightarrow> 'r call list \<Rightarrow> bool" where
  "moved injected link path r tr \<longleftrightarrow>
     (if injected then tr = [CMoveFn link path r] else move_trace link path r tr)"

definition pod_configured ::
  "bool \<Rightarrow> string \<Rightarrow> string \<Rightarrow> string \<Rightarrow> int \<Rightarrow> Result \<Rightarrow> error + Result \<Rightarrow> 'r call list \<Rightarrow> bool" where
  "pod_configured injected path host pod mtu res r tr \<longleftrightarrow>
     (if injected then tr = [CConfigureFn path host pod mtu res r]
      else in_namespace path (configured host pod mtu res) r tr)"

definition pod_verified ::
  "bool \<Rightarrow> string \<Rightarrow> string \<Rightarrow> IPNet list \<Rightarrow> error option \<Rightarrow> 'r call list \<Rightarrow> bool" where
  "pod_verified injected path pod ips r tr \<longleftrightarrow>
     (if injected then tr = [CVerifyFn path pod ips r]
      else in_namespace path (verified path pod ips)
             (case r of None \<Rightarrow> Inr () | Some e \<Rightarrow> Inl e) tr)"

text \<open>
  The discipline of namespaces as an automaton: a handle is opened, used to enter the namespace
  or to move a link, and closed; link operations name the pod's namespace exactly while it is
  entered, and the plugin's own otherwise. Injected functions are called outside.
\<close>

fun injected_call :: "'r call \<Rightarrow> bool" where
  "injected_call (CMoveFn _ _ _) = True"
| "injected_call (CConfigureFn _ _ _ _ _ _) = True"
| "injected_call (CVerifyFn _ _ _ _) = True"
| "injected_call _ = False"

datatype ns_state = Outside | Handle int | Inside int

primrec ns_step :: "ns_state \<Rightarrow> 'r call \<Rightarrow> ns_state option" where
  "ns_step Outside c =
     (case c of
        CGetNS _ r \<Rightarrow> Some (case r of Inl _ \<Rightarrow> Outside | Inr h \<Rightarrow> Handle h)
      | _ \<Rightarrow> if link_call HostNS c \<or> injected_call c \<or> \<not> is_net c then Some Outside else None)"
| "ns_step (Handle h) c =
     (case c of
        CNSEnter h' e \<Rightarrow> if h' = h then Some (if e = None then Inside h else Handle h) else None
      | CLinkSetNsFd _ h' _ \<Rightarrow> if h' = h then Some (Handle h) else None
      | CNSClose h' \<Rightarrow> if h' = h then Some Outside else None
      | _ \<Rightarrow> None)"
| "ns_step (Inside h) c =
     (case c of
        CNSLeave h' \<Rightarrow> if h' = h then Some (Handle h) else None
      | _ \<Rightarrow> if link_call (PodNS h) c then Some (Inside h) else None)"

fun ns_run :: "ns_state \<Rightarrow> 'r call list \<Rightarrow> ns_state option" where
  "ns_run st [] = Some st"
| "ns_run st (c # cs) = (case ns_step st c of None \<Rightarrow> None | Some st' \<Rightarrow> ns_run st' cs)"

section \<open>Lemmas on traces\<close>

lemma link_call_net: "link_call ns c \<Longrightarrow> is_net c"
  by (cases c) auto

lemma ns_run_append:
  "ns_run st (xs @ ys) = (case ns_run st xs of None \<Rightarrow> None | Some st' \<Rightarrow> ns_run st' ys)"
  by (induction xs arbitrary: st) (auto split: option.split)

lemma ns_step_inside: "link_call (PodNS h) c \<Longrightarrow> ns_step (Inside h) c = Some (Inside h)"
  by (cases c) auto

lemma ns_run_inside: "list_all (link_call (PodNS h)) tr \<Longrightarrow> ns_run (Inside h) tr = Some (Inside h)"
  by (induction tr) (auto simp: ns_step_inside simp del: ns_step.simps)

lemma ns_step_outside: "\<not> is_net c \<Longrightarrow> ns_step Outside c = Some Outside"
  by (cases c) auto

lemma ns_run_outside: "filter is_net tr = [] \<Longrightarrow> ns_run Outside tr = Some Outside"
  by (induction tr) (auto simp: ns_step_outside simp del: ns_step.simps split: if_splits)

lemma verified_link: "verified path pod ips ns r tr \<Longrightarrow> list_all (link_call ns) tr"
  by (auto simp: verified_def)

lemma configured_link: "configured host pod mtu res ns r tr \<Longrightarrow> list_all (link_call ns) tr"
  by (simp add: configured_def)

lemma in_namespace_net:
  assumes "in_namespace path P r tr" "\<And>h r tr. P (PodNS h) r tr \<Longrightarrow> list_all (link_call (PodNS h)) tr"
  shows "only is_net () tr" "ns_run Outside tr = Some Outside"
proof -
  have inner: "only is_net () tr'" "ns_run (Inside h) tr' = Some (Inside h)" if "P (PodNS h) r tr'" for h tr'
    using assms(2) [OF that] by (auto simp: only_def list_all_iff ns_run_inside dest: link_call_net)
  show "only is_net () tr" "ns_run Outside tr = Some Outside"
    using assms(1) inner by (auto simp: in_namespace_def ns_run_append)
qed

lemma move_trace_net:
  "move_trace l n r tr \<Longrightarrow> only is_net () tr"
  "move_trace l n r tr \<Longrightarrow> ns_run Outside tr = Some Outside"
  by (auto simp: move_trace_def)

text \<open>Every step on the pod's link consists of such calls and ends outside.\<close>

definition net_step :: "'r call list \<Rightarrow> bool" where
  "net_step tr \<longleftrightarrow> only is_net () tr \<and> ns_run Outside tr = Some Outside"

lemma net_step_append: "net_step xs \<Longrightarrow> net_step ys \<Longrightarrow> net_step (xs @ ys)"
  by (simp add: net_step_def ns_run_append)

lemma moved_net: "moved b l n r tr \<Longrightarrow> net_step tr"
  by (simp add: moved_def net_step_def move_trace_net split: if_splits)

lemma pod_configured_net: "pod_configured b n h p mtu res r tr \<Longrightarrow> net_step tr"
  unfolding pod_configured_def net_step_def
  using in_namespace_net [OF _ configured_link] by (auto split: if_splits)

lemma pod_verified_net: "pod_verified b n p ips r tr \<Longrightarrow> net_step tr"
  unfolding pod_verified_def net_step_def
  using in_namespace_net [OF _ verified_link] by (auto split: if_splits)

section \<open>The calls of the functions\<close>

lemma missing_addr_find: "missing_addr addrs ips = find (\<lambda>want. \<not> addrPresent addrs (IP want)) ips"
  by (induction ips) auto

text \<open>The MAC address that the closure reads back.\<close>

definition readback :: "Result \<Rightarrow> error + Link \<Rightarrow> string option" where
  "readback res x =
     (case x of
        Inr l \<Rightarrow> if res_Interfaces res \<noteq> []
          then Some (HardwareAddr_String (link_HardwareAddr l)) else None
      | Inl _ \<Rightarrow> None)"

lemma configured_done:
  "(host = pod \<longrightarrow> l' = l) \<Longrightarrow>
   configured host pod mtu res ns (Inr (set_mac (readback res x) res))
     (configure_calls ns host pod mtu res l l' x)"
  unfolding configured_def
  by (auto simp: configure_calls_def readback_def set_mac_def
      split: sum.splits option.splits list.splits)

lemma configured_failed: "configured host pod mtu res ns (Inl e) tr \<longleftrightarrow> list_all (link_call ns) tr"
  by (simp add: configured_def)

context call_log
begin

lemma moveLink_emits: "emits log (moveLinkToNamespace env l n) (move_trace l n)"
  unfolding moveLinkToNamespace_def try_val_def
  by (auto simp: move_trace_def intro!: call_binds emits_return split: option.split)

lemma ns_Do_emits:
  assumes "emits log m P"
  shows "emits log (ns_Do env h m) (\<lambda>r tr.
    (\<exists>e. tr = [CNSEnter h (Some e)] \<and> r = Inl e)
    \<or> (\<exists>tr'. P r tr' \<and> tr = CNSEnter h None # tr' @ [CNSLeave h]))"
  unfolding ns_Do_def try_op_def
  by (auto intro!: call_binds emits_return emits_bind [OF assms])

lemma verify_in_ns_emits:
  "emits log (verify_in_ns env ns path pod ips) (\<lambda>r. verified path pod ips ns (map_sum id (\<lambda>_. ()) r))"
proof -
  have addrs: "verified path pod ips ns
      (map_sum id (\<lambda>_. ()) (case missing_addr addrs ips of
         Some want \<Rightarrow> Inl (Errorf ''pod interface %q missing expected address %s''
                        [AStr pod, ANet (IP want) (Mask want)])
       | None \<Rightarrow> Inr x)) [CLinkByName ns pod (Inr l), CAddrList ns l (Inr addrs)]"
    if "link_Up l" "ips \<noteq> []" for l addrs and x :: "'x"
    unfolding verified_def missing_addr_find
    using that by (intro disjI2 exI [of _ l] exI [of _ addrs]) (simp split: option.split)
  show ?thesis
    unfolding verify_in_ns_def try_val_def
    by (auto intro!: call_binds emits_return addrs) (auto simp: verified_def)
qed

lemma verifyPodInterface_emits:
  "emits log (verifyPodInterface env path pod ips) (pod_verified False path pod ips)"
  unfolding verifyPodInterface_def try_val_def
proof (rule emits_call [OF GetNS], goal_cases)
  case (1 r)
  show ?case
  proof (cases r)
    case (Inl e)
    then show ?thesis by (auto simp: pod_verified_def in_namespace_def intro!: emits_return)
  next
    case (Inr h)
    show ?thesis
      unfolding Inr sum.case
    proof (rule emits_bind [OF ns_Do_emits [OF verify_in_ns_emits]], rule emits_call [OF NSClose], goal_cases)
      case (1 r tr x)
      then show ?case
        by (cases r) (auto simp: pod_verified_def in_namespace_def intro!: emits_return)
    qed
  qed
qed

text \<open>Configuring the link in the pod's namespace: finding and renaming it, then the rest.\<close>

lemma rename_emits:
  "emits log
     (if host \<noteq> pod then
        try_op (LinkSetDown env ns link) f
          (try_op (LinkSetName env ns link pod) g
            (try_val (LinkByName env ns pod) h (\<lambda>l. State_Monad.return (Inr l))))
      else State_Monad.return (Inr link))
     (\<lambda>r tr. list_all (link_call ns) tr \<and>
        (\<forall>l'. r = Inr l' \<longrightarrow> tr =
          (if host \<noteq> pod
           then [CLinkSetDown ns link None, CLinkSetName ns link pod None, CLinkByName ns pod (Inr l')]
           else []) \<and> (host = pod \<longrightarrow> l' = link)))"
  if "\<And>e x. f e \<noteq> Inr x" "\<And>e x. g e \<noteq> Inr x" "\<And>e x. h e \<noteq> Inr x"
  unfolding try_op_def try_val_def
  by (auto intro!: call_binds emits_return simp: that)

lemma settle_emits:
  "emits log
     (try_op (if mtu > 0 then LinkSetMTU env ns link mtu else State_Monad.return None) f
        (try_op
           (case podMACFromResult (Some res) of
              Some mac \<Rightarrow> LinkSetHardwareAddr env ns link mac
            | None \<Rightarrow> State_Monad.return None) g
           (try_op (ConfigureIface env ns pod res) h
              (do { r \<leftarrow> LinkByName env ns pod; State_Monad.return (Inr (mac r)) }))))
     (\<lambda>r tr. list_all (link_call ns) tr \<and>
        (\<forall>m. r = Inr m \<longrightarrow> (\<exists>x. m = mac x \<and> tr =
          (if mtu > 0 then [CLinkSetMTU ns link mtu None] else [])
          @ (case podMACFromResult (Some res) of
               Some mac \<Rightarrow> [CLinkSetHardwareAddr ns link mac None] | None \<Rightarrow> [])
          @ [CConfigureIface ns pod res None, CLinkByName ns pod x])))"
  if "\<And>e x. f e \<noteq> Inr x" "\<And>e x. g e \<noteq> Inr x" "\<And>e x. h e \<noteq> Inr x"
  unfolding try_op_def
  by (cases "mtu > 0"; cases "podMACFromResult (Some res)")
    (auto intro!: call_binds emits_return simp: that)

lemma configure_in_ns_emits:
  "emits log (configure_in_ns env ns host pod mtu res)
     (\<lambda>r. configured host pod mtu res ns (map_sum id (\<lambda>mac. set_mac mac res) r))"
  unfolding configure_in_ns_def try_val_def [of "LinkByName env ns host"]
proof (rule emits_call [OF LinkByName], goal_cases)
  case (1 r)
  show ?case
  proof (cases r)
    case (Inl e)
    then show ?thesis by (simp add: emits_return configured_failed)
  next
    case (Inr l)
    show ?thesis
      unfolding Inr sum.case try_val_def [of "if host \<noteq> pod then _ else _"]
    proof (rule emits_bind [OF rename_emits], goal_cases)
      case rename: (4 r tr)
      show ?case
      proof (cases r)
        case (Inl e)
        with rename show ?thesis by (simp add: emits_return configured_failed)
      next
        case (Inr l')
        show ?thesis
          unfolding Inr sum.case
        proof (rule emits_mono [OF settle_emits], goal_cases)
          case (4 r' tr')
          then show ?case
          proof (cases r')
            case (Inl e)
            with 4 rename show ?thesis by (simp add: configured_failed)
          next
            case m: (Inr m)
            from 4 [THEN conjunct2, rule_format, OF m] obtain x where x: "m = readback res x"
              "tr' = (if mtu > 0 then [CLinkSetMTU ns l' mtu None] else [])
                @ (case podMACFromResult (Some res) of
                     Some mac \<Rightarrow> [CLinkSetHardwareAddr ns l' mac None] | None \<Rightarrow> [])
                @ [CConfigureIface ns pod res None, CLinkByName ns pod x]"
              unfolding readback_def by blast
            have "CLinkByName ns host (Inr l) # tr @ tr' = configure_calls ns host pod mtu res l l' x"
              using rename Inr unfolding x(2) configure_calls_def by simp
            then show ?thesis
              using configured_done [of host pod l' l mtu res ns x] rename Inr m x(1) by simp
          qed
        qed simp_all
      qed
    qed simp_all
  qed
qed

lemma configurePodInterface_emits:
  "emits log (configurePodInterface env path host pod mtu res) (pod_configured False path host pod mtu res)"
  unfolding configurePodInterface_def try_val_def
proof (rule emits_call [OF GetNS], goal_cases)
  case (1 r)
  show ?case
  proof (cases r)
    case (Inl e)
    then show ?thesis by (auto simp: pod_configured_def in_namespace_def intro!: emits_return)
  next
    case (Inr h)
    show ?thesis
      unfolding Inr sum.case
    proof (rule emits_bind [OF ns_Do_emits [OF configure_in_ns_emits]], rule emits_call [OF NSClose],
        goal_cases)
      case (1 r tr x)
      then show ?case
        by (cases r) (auto simp: pod_configured_def in_namespace_def intro!: emits_return)
    qed
  qed
qed

end

end
