(* ===== verification/HandlerTrace.thy ===== *)
theory HandlerTrace
  imports NetTrace
begin

text \<open>
  What the handlers do to their environment, for every environment that logs its calls
  (locale \<open>call_log\<close> and its extensions by a handler's configuration): the locking
  discipline, the pairing of IPAM allocation and release, the rollback of a port, and which
  interfaces DEL and GC delete.
\<close>

section \<open>Trace predicates\<close>

datatype lock_state = Unlocked | Opened int | Held int

text \<open>
  The locking discipline of the handlers of a control socket, as an automaton: before the lock is
  held, nothing but the directory of its file is created and nothing but its file is opened;
  after its release the file is only closed.
\<close>

primrec lock_step :: "string \<Rightarrow> lock_state \<Rightarrow> 'r call \<Rightarrow> lock_state option" where
  "lock_step sock Unlocked c =
     (case c of
        CMkdirAll p _ \<Rightarrow> if p = filepath_Dir (lockPathForSocket sock) then Some Unlocked else None
      | COpen p r \<Rightarrow>
          if p = lockPathForSocket sock
          then Some (case r of Inl _ \<Rightarrow> Unlocked | Inr fd \<Rightarrow> Opened fd) else None
      | _ \<Rightarrow> None)"
| "lock_step sock (Opened fd) c =
     (case c of
        CFlockEX fd' r \<Rightarrow>
          if fd' = fd then Some (if r = FlockDone None then Held fd else Opened fd) else None
      | CClose fd' \<Rightarrow> if fd' = fd then Some Unlocked else None
      | _ \<Rightarrow> None)"
| "lock_step sock (Held fd) c =
     (case c of
        CFlockUN fd' \<Rightarrow> if fd' = fd then Some (Opened fd) else None
      | _ \<Rightarrow> if is_lock c then None else Some (Held fd))"

fun lock_run :: "string \<Rightarrow> lock_state \<Rightarrow> 'r call list \<Rightarrow> lock_state option" where
  "lock_run sock st [] = Some st"
| "lock_run sock st (c # cs) =
     (case lock_step sock st c of None \<Rightarrow> None | Some st' \<Rightarrow> lock_run sock st' cs)"

text \<open>Every port created in the trace is deleted in it.\<close>

definition rolled_back :: "'r call list \<Rightarrow> bool" where
  "rolled_back tr \<longleftrightarrow>
     (\<forall>rq i. CIfaceAdd rq (Inr i) \<in> set tr \<and> ia_Type rq = Client.InterfaceTypeTAP \<longrightarrow>
        (\<exists>e. CIfaceDel i e \<in> set tr))"

definition no_del :: "'r call list \<Rightarrow> bool" where
  "no_del tr \<longleftrightarrow> (\<forall>i e. CIfaceDel i e \<notin> set tr)"

text \<open>
  The calls of \<open>gcBridgeIfEmpty\<close>: the bridge is flushed and then deleted exactly when the
  listing shows it as a bridge without members.
\<close>

definition gc_bridge_trace :: "u16 \<Rightarrow> 'r call list \<Rightarrow> bool" where
  "gc_bridge_trace b tr \<longleftrightarrow>
     (\<exists>e. tr = [CIfaceList (Inl e)])
     \<or> (\<exists>ifs. tr = [CIfaceList (Inr ifs)] \<and> \<not> gc_scan b ifs False)
     \<or> (\<exists>ifs f e. tr = [CIfaceList (Inr ifs), CAddrFlush b f, CIfaceDel b e] \<and>
          gc_scan b ifs False)"

text \<open>The calls of a DEL while it holds the lock.\<close>

definition del_trace :: "string \<Rightarrow> string \<Rightarrow> unit outcome \<Rightarrow> 'r call list \<Rightarrow> bool" where
  "del_trace sock name r tr \<longleftrightarrow>
     (\<exists>e e'. r = Err e' \<and> tr = [CIfaceList (Inl e)])
     \<or> (\<exists>ifs. r = Ret () \<and> findPortByName ifs name = None \<and>
          tr = [CIfaceList (Inr ifs), CIPAMDel])
     \<or> (\<exists>ifs port e e' gc. r = Ret () \<and> findPortByName ifs name = Some port \<and>
          (if if_Domain port = 0 then gc = [] else gc_bridge_trace (if_Domain port) gc) \<and>
          tr = [CIfaceList (Inr ifs), CIfaceDel (if_ID port) e,
                CRemove (vhostSocketPath sock name) e'] @ gc @ [CIPAMDel])"

text \<open>
  The reaping of a list of stale ports: each is deleted once, in order, and its socket is
  removed when the deletion succeeded; the flag says whether any deletion did.
\<close>

inductive reap_trace :: "string \<Rightarrow> InterfaceInfo list \<Rightarrow> bool \<Rightarrow> bool \<Rightarrow> 'r call list \<Rightarrow> bool"
  for sock where
  reap_nil: "reap_trace sock [] b b []"
| reap_failed: "reap_trace sock ifs b b' tr \<Longrightarrow>
    reap_trace sock (i # ifs) b b' (CIfaceDel (if_ID i) (Some e) # tr)"
| reap_done: "reap_trace sock ifs True b' tr \<Longrightarrow>
    reap_trace sock (i # ifs) b b'
      (CIfaceDel (if_ID i) None # CRemove (vhostSocketPath sock (if_Name i)) e # tr)"

inductive_cases reap_trace_NilE: "reap_trace sock [] b b' tr"
inductive_cases reap_trace_ConsE: "reap_trace sock (i # ifs) b b' tr"

text \<open>The calls of a GC while it holds the lock.\<close>

definition gc_trace ::
  "string \<Rightarrow> string \<Rightarrow> string set \<Rightarrow> unit outcome \<Rightarrow> 'r call list \<Rightarrow> bool" where
  "gc_trace sock bridge valid r tr \<longleftrightarrow>
     (\<exists>e e'. r = Err e' \<and> tr = [CIfaceList (Inl e)])
     \<or> (\<exists>ifs. r = Ret () \<and> findBridgeID ifs bridge = None \<and>
          tr = [CIfaceList (Inr ifs), CIPAMGC])
     \<or> (\<exists>ifs b reaped reap gc. r = Ret () \<and> findBridgeID ifs bridge = Some b \<and>
          reap_trace sock (filter (gc_stale b valid) ifs) False reaped reap \<and>
          (if reaped then gc_bridge_trace b gc else gc = []) \<and>
          tr = CIfaceList (Inr ifs) # reap @ gc @ [CIPAMGC])"

text \<open>
  The calls of a CHECK while it holds the lock, by the branch it takes: the port is not
  listed; a virtio port, whose socket is looked up; a TAP without a namespace; a TAP whose
  pod interface is verified.
\<close>

definition check_trace ::
  "'r Lib \<Rightarrow> 'r PluginConf \<Rightarrow> CmdArgs \<Rightarrow> bool \<Rightarrow> string \<Rightarrow> unit outcome \<Rightarrow> 'r call list \<Rightarrow> bool" where
  "check_trace lib conf args injected name r tr \<longleftrightarrow>
     (\<exists>e. r = Err (Wrapf ''listing interfaces: %w'' [] e) \<and> tr = [CIfaceList (Inl e)])
     \<or> (\<exists>ifs. findPortByName ifs name = None \<and> tr = [CIfaceList (Inr ifs)] \<and>
          r = Err (Errorf
            ''grout port %q for container %s ifname %s is missing (grout lost state)''
            [AStr name, AStr (args_ContainerID args), AStr (args_IfName args)]))
     \<or> (\<exists>ifs port tr'. findPortByName ifs name = Some port \<and> tr = CIfaceList (Inr ifs) # tr' \<and>
          (if conf_InterfaceType conf = InterfaceTypeVirtio then
             \<exists>e. tr' = [CStat (vhostSocketPath (conf_GroutSocketPath conf) name) e] \<and>
               r = (if e = None then Ret ()
                    else Err (Errorf ''vhost-user socket %q for grout port %q is missing''
                      [AStr (vhostSocketPath (conf_GroutSocketPath conf) name), AStr name]))
           else if args_Netns args = [] then tr' = [] \<and> r = Ret ()
           else case expectedPodIPs lib conf of
             Inl e \<Rightarrow> tr' = [] \<and> r = Err (Wrapf ''determining expected pod addresses: %w'' [] e)
           | Inr ips \<Rightarrow>
               \<exists>v. pod_verified injected (args_Netns args) (args_IfName args) ips v tr' \<and>
                 r = (case v of
                        None \<Rightarrow> Ret ()
                      | Some e \<Rightarrow> Err (Wrapf ''verifying pod interface %q: %w''
                                    [AStr (args_IfName args)] e))))"

section \<open>Lemmas on traces\<close>

lemma lock_run_append:
  "lock_run sock st (xs @ ys) =
     (case lock_run sock st xs of None \<Rightarrow> None | Some st' \<Rightarrow> lock_run sock st' ys)"
  by (induction xs arbitrary: st) (auto split: option.split)

lemma lock_step_held: "\<not> is_lock c \<Longrightarrow> lock_step sock (Held fd) c = Some (Held fd)"
  by (cases c) auto

lemma lock_run_held: "filter is_lock tr = [] \<Longrightarrow> lock_run sock (Held fd) tr = Some (Held fd)"
  by (induction tr) (auto simp: lock_step_held simp del: lock_step.simps split: if_splits)

lemma del_trace_found:
  "findPortByName ifs name = Some port \<Longrightarrow>
   (if if_Domain port = 0 then gc = [] else gc_bridge_trace (if_Domain port) gc) \<Longrightarrow>
   del_trace sock name (Ret ())
     (CIfaceList (Inr ifs) # CIfaceDel (if_ID port) e # CRemove (vhostSocketPath sock name) e'
      # gc @ [CIPAMDel])"
  unfolding del_trace_def by (intro disjI2 exI conjI) auto

lemma gc_trace_reaped:
  "findBridgeID ifs bridge = Some b \<Longrightarrow>
   reap_trace sock (filter (gc_stale b valid) ifs) False reaped reap \<Longrightarrow>
   (if reaped then gc_bridge_trace b gc else gc = []) \<Longrightarrow>
   gc_trace sock bridge valid (Ret ()) (CIfaceList (Inr ifs) # reap @ gc @ [CIPAMGC])"
  unfolding gc_trace_def by (intro disjI2 exI conjI) auto

section \<open>The lock\<close>

text \<open>
  The log of a handler that did not get the lock, and of one that made the calls \<open>P\<close> while it
  held the lock of the control socket \<open>sock\<close>.
\<close>

definition lock_only :: "string \<Rightarrow> 'r call list \<Rightarrow> bool" where
  "lock_only sock tr \<longleftrightarrow>
     lock_run sock Unlocked tr = Some Unlocked \<and> (\<forall>fd. CFlockEX fd (FlockDone None) \<notin> set tr) \<and>
     (\<forall>c \<in> set tr. is_lock c \<or> (\<exists>p e. c = CMkdirAll p e))"

definition bracketed :: "string \<Rightarrow> ('r call list \<Rightarrow> bool) \<Rightarrow> 'r call list \<Rightarrow> bool" where
  "bracketed sock P tr \<longleftrightarrow>
     (\<exists>fd tr'. P tr' \<and>
        tr = [CMkdirAll (filepath_Dir (lockPathForSocket sock)) None,
              COpen (lockPathForSocket sock) (Inr fd), CFlockEX fd (FlockDone None)]
             @ tr' @ [CFlockUN fd, CClose fd])"

lemma bracketed_lock_run:
  "bracketed sock P tr \<Longrightarrow> (\<And>tr'. P tr' \<Longrightarrow> filter is_lock tr' = []) \<Longrightarrow>
   lock_run sock Unlocked tr = Some Unlocked"
  by (auto simp: bracketed_def lock_run_append lock_run_held)

context call_log
begin

lemma NewFileLock_emits:
  "emits log (NewFileLock env (lockPathForSocket sock)) (\<lambda>r tr.
     case r of
       Inl _ \<Rightarrow> lock_only sock tr
     | Inr l \<Rightarrow>
         tr = [CMkdirAll (filepath_Dir (lockPathForSocket sock)) None,
               COpen (lockPathForSocket sock) (Inr (fl_fd l))])"
  unfolding NewFileLock_def try_op_def try_val_def Let_def
  by (auto intro!: call_binds emits_return simp: lock_only_def lockPathForSocket_def)

lemma FileLock_Lock_emits:
  "emits log (FileLock_Lock env l) (\<lambda>r tr.
     \<exists>x. tr = [CFlockEX (fl_fd l) x] \<and> (r = None \<longleftrightarrow> x = FlockDone None))"
  unfolding FileLock_Lock_def
  by (auto intro!: call_binds emits_return split: flock_wait.split option.split)

text \<open>
  A handler either fails to take the lock and then makes no other call, or runs its body
  between taking and releasing it.
\<close>

lemma with_lock_emits:
  assumes body: "emits log body P"
  shows "emits log (with_lock env sock body) (\<lambda>r tr.
    (\<exists>e. r = Err e) \<and> lock_only sock tr \<or> bracketed sock (P r) tr)"
proof -
  have held: "emits log (do { r \<leftarrow> body; _ \<leftarrow> FileLock_Unlock env l; _ \<leftarrow> FileLock_Close env l;
      State_Monad.return r })
      (\<lambda>r tr. \<exists>tr'. P r tr' \<and> tr = tr' @ [CFlockUN (fl_fd l), CClose (fl_fd l)])" for l
    unfolding FileLock_Unlock_def FileLock_Close_def
    by (rule emits_bind [OF body]) (auto intro!: call_binds emits_return)
  have failed: "emits log (do { _ \<leftarrow> FileLock_Close env l; State_Monad.return x })
      (\<lambda>r tr. r = x \<and> tr = [CClose (fl_fd l)])" for l and x :: "'b outcome"
    unfolding FileLock_Close_def by (auto intro!: call_binds emits_return)
  show ?thesis
    unfolding with_lock_def try_val_def
  proof (rule emits_bind [OF NewFileLock_emits], goal_cases)
    case (1 r tr)
    show ?case
    proof (cases r)
      case (Inl e)
      with 1 show ?thesis by (auto intro!: emits_return)
    next
      case (Inr l)
      with 1 have tr: "tr = [CMkdirAll (filepath_Dir (lockPathForSocket sock)) None,
          COpen (lockPathForSocket sock) (Inr (fl_fd l))]" by simp
      show ?thesis
        unfolding Inr sum.case
      proof (rule emits_bind [OF FileLock_Lock_emits], goal_cases)
        case (1 e tr2)
        then show ?case
          by (cases e)
            (auto simp: tr lock_only_def bracketed_def
              intro!: emits_mono [OF held] emits_mono [OF failed])
      qed
    qed
  qed
qed

end

section \<open>ADD\<close>

locale add_log = call_log env "ac_Client cfg" log
  for env :: "('w, 'r) Env" and cfg :: "('w, 'r) AddConfig" and log :: "'w \<Rightarrow> 'r call list" +
  assumes IPAMAddFn: "ac_IPAMAdd cfg = Some f \<Longrightarrow>
      emits log (f conf args) (\<lambda>r tr. tr = [CIPAMAdd r])"
    and IPAMDelFn: "ac_IPAMDel cfg = Some g \<Longrightarrow> emits log (g conf args) (\<lambda>r tr. tr = [CIPAMDel])"
    and MoveLinkFn: "ac_MoveLink cfg = Some mv \<Longrightarrow> emits log (mv l n) (\<lambda>r tr. tr = [CMoveFn l n r])"
    and ConfigureFn: "ac_ConfigurePodIface cfg = Some cf \<Longrightarrow>
      emits log (cf n h p mtu res) (\<lambda>r tr. tr = [CConfigureFn n h p mtu res r])"
begin

lemma ipamAdd_emits:
  "emits log ((case ac_IPAMAdd cfg of None \<Rightarrow> delegateIPAMAdd env | Some f \<Rightarrow> f) conf args)
     (\<lambda>r tr. \<exists>x. tr = [CIPAMAdd x] \<and> (case r of Inl _ \<Rightarrow> isl x | Inr ipam \<Rightarrow> x = Inr ipam))"
proof (cases "ac_IPAMAdd cfg")
  case None
  then show ?thesis
    by (auto simp: delegateIPAMAdd_def try_val_def intro!: call_binds emits_return)
next
  case (Some f)
  show ?thesis
    unfolding Some option.case by (rule emits_mono [OF IPAMAddFn [OF Some]]) (simp split: sum.split)
qed

lemma ipamDel_emits:
  "emits log (ipamDel env (ac_IPAMDel cfg) conf args) (\<lambda>r tr. tr = [CIPAMDel])"
  by (cases "ac_IPAMDel cfg")
    (auto simp: ipamDel_def delegateIPAMDel_def IPAMDelFn intro!: call_binds emits_return)

lemma release_emits:
  "emits log (do { _ \<leftarrow> ipamDel env (ac_IPAMDel cfg) conf args; State_Monad.return x })
     (\<lambda>r tr. r = x \<and> tr = [CIPAMDel])"
  by (rule emits_bind [OF ipamDel_emits]) (simp add: emits_return)

lemma rollback_emits:
  "emits log (do { _ \<leftarrow> cleanupAfterAddFailure env cfg i; State_Monad.return x })
     (\<lambda>r tr. \<exists>e. r = x \<and> tr = [CIfaceDel i e, CIPAMDel])"
  unfolding cleanupAfterAddFailure_def bind_assoc
  by (auto intro!: call_binds emits_mono [OF release_emits])

lemma move_emits:
  "emits log ((case ac_MoveLink cfg of None \<Rightarrow> moveLinkToNamespace env | Some f \<Rightarrow> f) l n)
     (moved (given (ac_MoveLink cfg)) l n)"
  by (cases "ac_MoveLink cfg") (auto simp: moved_def [abs_def] intro: moveLink_emits MoveLinkFn)

lemma configure_emits:
  "emits log ((case ac_ConfigurePodIface cfg of None \<Rightarrow> configurePodInterface env | Some f \<Rightarrow> f)
     n h p mtu res) (pod_configured (given (ac_ConfigurePodIface cfg)) n h p mtu res)"
proof (cases "ac_ConfigurePodIface cfg")
  case None
  then show ?thesis by (simp add: configurePodInterface_emits)
next
  case (Some f)
  then show ?thesis by (simp add: pod_configured_def [abs_def] ConfigureFn)
qed

end

section \<open>DEL and CHECK\<close>

context call_log
begin

lemma gcBridgeIfEmpty_emits:
  "emits log (gcBridgeIfEmpty client b) (\<lambda>_. gc_bridge_trace b)"
  unfolding gcBridgeIfEmpty_def try_val_def
  by (auto simp: gc_bridge_trace_def intro!: call_binds emits_return)

end

locale del_log = call_log env "dc_Client cfg" log
  for env :: "('w, 'r) Env" and cfg :: "('w, 'r) DelConfig" and log :: "'w \<Rightarrow> 'r call list" +
  assumes IPAMDelFn: "dc_IPAMDel cfg = Some g \<Longrightarrow> emits log (g conf args) (\<lambda>r tr. tr = [CIPAMDel])"
    and VerifyFn: "dc_VerifyPodIface cfg = Some v \<Longrightarrow> emits log (v n p ips) (\<lambda>r tr. tr = [CVerifyFn n p ips r])"
begin

abbreviation port_name :: string where
  "port_name \<equiv>
     groutPortName (env_unicode env) (args_ContainerID (dc_Args cfg)) (args_IfName (dc_Args cfg))"

lemma ipamDel_emits:
  "emits log (ipamDel env (dc_IPAMDel cfg) conf args) (\<lambda>r tr. tr = [CIPAMDel])"
  by (cases "dc_IPAMDel cfg")
    (auto simp: ipamDel_def delegateIPAMDel_def IPAMDelFn intro!: call_binds emits_return)

lemma port_removal_emits:
  "emits log
     (do { _ \<leftarrow> gc_InterfaceDel (dc_Client cfg) (if_ID port);
           _ \<leftarrow> removeVhostSocket env sock name;
           if if_Domain port \<noteq> 0 then gcBridgeIfEmpty (dc_Client cfg) (if_Domain port)
           else State_Monad.return () })
     (\<lambda>_ tr. \<exists>e e' gc.
        (if if_Domain port = 0 then gc = [] else gc_bridge_trace (if_Domain port) gc) \<and>
        tr = [CIfaceDel (if_ID port) e, CRemove (vhostSocketPath sock name) e'] @ gc)"
  unfolding removeVhostSocket_def bind_assoc
  by (auto intro!: call_binds emits_return emits_mono [OF gcBridgeIfEmpty_emits])

lemma HandleDel_emits:
  "emits log (HandleDel env cfg) (\<lambda>r tr.
     (\<exists>e. r = Err e) \<and> lock_only (conf_GroutSocketPath (dc_Config cfg)) tr
     \<or> bracketed (conf_GroutSocketPath (dc_Config cfg))
          (del_trace (conf_GroutSocketPath (dc_Config cfg)) port_name r) tr)"
  unfolding HandleDel_def Let_def try_val_def
proof (rule with_lock_emits, rule emits_call [OF IfaceList], goal_cases)
  case (1 r)
  show ?case
  proof (cases r)
    case (Inl e)
    then show ?thesis by (auto simp: del_trace_def intro!: emits_return)
  next
    case (Inr ifs)
    show ?thesis
      unfolding Inr sum.case
    proof (cases "findPortByName ifs port_name", goal_cases)
      case 1
      then show ?case
        by (auto simp: del_trace_def intro!: emits_bind [OF ipamDel_emits] emits_return)
    next
      case (2 port)
      show ?case
        unfolding 2 option.case
      proof (rule emits_bind [OF port_removal_emits], goal_cases)
        case (1 u tr)
        with 2 show ?case
          by (auto intro!: emits_bind [OF ipamDel_emits] emits_return del_trace_found
              simp del: if_split)
      qed
    qed
  qed
qed

lemma verify_emits:
  "emits log ((case dc_VerifyPodIface cfg of None \<Rightarrow> verifyPodInterface env | Some f \<Rightarrow> f) n p ips)
     (pod_verified (given (dc_VerifyPodIface cfg)) n p ips)"
proof (cases "dc_VerifyPodIface cfg")
  case None
  then show ?thesis by (simp add: verifyPodInterface_emits)
next
  case (Some f)
  then show ?thesis by (simp add: pod_verified_def [abs_def] VerifyFn)
qed

text \<open>The last branch of CHECK, the verification of the pod's interface.\<close>

lemma verify_verdict_emits:
  "emits log
     (try_op ((case dc_VerifyPodIface cfg of None \<Rightarrow> verifyPodInterface env | Some f \<Rightarrow> f) n p ips)
        onerr (State_Monad.return x))
     (\<lambda>r tr. \<exists>v. pod_verified (given (dc_VerifyPodIface cfg)) n p ips v tr \<and>
        r = (case v of None \<Rightarrow> x | Some e \<Rightarrow> onerr e))"
  unfolding try_op_def
proof (rule emits_bind [OF verify_emits], goal_cases)
  case (1 e tr)
  then show ?case by (cases e) (auto intro!: emits_return intro: exI [of _ e])
qed

lemma check_port_emits:
  assumes "findPortByName ifs port_name = Some port"
  shows "emits log
     (if conf_InterfaceType (dc_Config cfg) = InterfaceTypeVirtio then do {
        let sockPath = vhostSocketPath (conf_GroutSocketPath (dc_Config cfg)) port_name;
        present \<leftarrow> fileExists env sockPath;
        State_Monad.return
          (if \<not> present then
             Err (Errorf ''vhost-user socket %q for grout port %q is missing''
                   [AStr sockPath, AStr port_name])
           else Ret ())
      }
      else if args_Netns (dc_Args cfg) = [] then State_Monad.return (Ret ())
      else (case expectedPodIPs (env_lib env) (dc_Config cfg) of
              Inl err \<Rightarrow> State_Monad.return
                (Err (Wrapf ''determining expected pod addresses: %w'' [] err))
            | Inr expectedIPs \<Rightarrow>
                try_op ((case dc_VerifyPodIface cfg of None \<Rightarrow> verifyPodInterface env | Some f \<Rightarrow> f)
                    (args_Netns (dc_Args cfg)) (args_IfName (dc_Args cfg)) expectedIPs)
                  (\<lambda>err. Err (Wrapf ''verifying pod interface %q: %w''
                           [AStr (args_IfName (dc_Args cfg))] err))
                  (State_Monad.return (Ret ()))))
     (\<lambda>r tr. check_trace (env_lib env) (dc_Config cfg) (dc_Args cfg) (given (dc_VerifyPodIface cfg))
        port_name r (CIfaceList (Inr ifs) # tr))"
proof (cases "conf_InterfaceType (dc_Config cfg) = InterfaceTypeVirtio")
  case True
  with assms show ?thesis
    by (auto simp: check_trace_def fileExists_def bind_assoc Let_def intro!: call_binds emits_return)
next
  case virtio: False
  show ?thesis
  proof (cases "args_Netns (dc_Args cfg) = []")
    case True
    with virtio assms show ?thesis by (simp add: check_trace_def emits_return)
  next
    case netns: False
    show ?thesis
    proof (cases "expectedPodIPs (env_lib env) (dc_Config cfg)")
      case (Inl e)
      with virtio netns assms show ?thesis by (simp add: check_trace_def emits_return)
    next
      case (Inr ips)
      show ?thesis
        unfolding if_not_P [OF virtio] if_not_P [OF netns] Inr sum.case
        by (rule emits_mono [OF verify_verdict_emits]) (use virtio netns assms Inr in \<open>simp add: check_trace_def\<close>)
    qed
  qed
qed

lemma HandleCheck_emits:
  "emits log (HandleCheck env cfg) (\<lambda>r tr.
     (\<exists>e. r = Err e) \<and> lock_only (conf_GroutSocketPath (dc_Config cfg)) tr
     \<or> bracketed (conf_GroutSocketPath (dc_Config cfg))
          (check_trace (env_lib env) (dc_Config cfg) (dc_Args cfg) (given (dc_VerifyPodIface cfg))
            port_name r) tr)"
  unfolding HandleCheck_def Let_def [of "dc_Config cfg"] Let_def [of "dc_Args cfg"]
    Let_def [of "groutPortName _ _ _"] Let_def [of "case_option _ _ _"] try_val_def
proof (rule with_lock_emits, rule emits_call [OF IfaceList], goal_cases)
  case (1 r)
  show ?case
  proof (cases r)
    case (Inl e)
    then show ?thesis by (auto simp: check_trace_def intro!: emits_return)
  next
    case (Inr ifs)
    show ?thesis
    proof (cases "findPortByName ifs port_name")
      case None
      with Inr show ?thesis by (simp add: check_trace_def emits_return)
    next
      case (Some port)
      show ?thesis
        unfolding Inr sum.case Some option.distinct if_False
        using check_port_emits [OF Some] by simp
    qed
  qed
qed

end

section \<open>GC\<close>

locale gc_log = call_log env "gcc_Client cfg" log
  for env :: "('w, 'r) Env" and cfg :: "('w, 'r) GCConfig" and log :: "'w \<Rightarrow> 'r call list" +
  assumes IPAMGCFn: "gcc_IPAMGC cfg = Some g \<Longrightarrow> emits log (g conf args) (\<lambda>r tr. tr = [CIPAMGC])"
begin

lemma gcIPAM_emits:
  "emits log (gcIPAM env (gcc_IPAMGC cfg) conf args) (\<lambda>r tr. tr = [CIPAMGC])"
proof (cases "gcc_IPAMGC cfg")
  case None
  then show ?thesis
    by (auto simp: gcIPAM_def delegateIPAMGC_def try_op_def bind_assoc
        intro!: call_binds emits_return split: option.split)
next
  case (Some f)
  then show ?thesis
    by (auto simp: gcIPAM_def intro!: emits_bind [OF IPAMGCFn] emits_return)
qed

lemma gc_reap_emits:
  "emits log (gc_reap env (gcc_Client cfg) sock b valid ifs reaped) (\<lambda>reaped' tr.
     reap_trace sock (filter (gc_stale b valid) ifs) reaped reaped' tr)"
proof (induction ifs arbitrary: reaped)
  case Nil
  then show ?case by (auto intro!: emits_return reap_trace.intros)
next
  case (Cons i ifs)
  then show ?case
    by (auto simp: removeVhostSocket_def bind_assoc
        intro!: call_binds emits_mono [OF Cons.IH] reap_trace.intros)
qed

lemma HandleGC_emits:
  "emits log (HandleGC env cfg) (\<lambda>r tr.
     (\<exists>e. r = Err e) \<and> lock_only (conf_GroutSocketPath (gcc_Config cfg)) tr
     \<or> bracketed (conf_GroutSocketPath (gcc_Config cfg))
          (gc_trace (conf_GroutSocketPath (gcc_Config cfg)) (conf_Bridge (gcc_Config cfg))
          (valid_names (env_unicode env) (conf_ValidAttachments (gcc_Config cfg))) r) tr)"
  unfolding HandleGC_def Let_def try_val_def
proof (rule with_lock_emits, rule emits_call [OF IfaceList], goal_cases)
  case (1 r)
  show ?case
  proof (cases r)
    case (Inl e)
    then show ?thesis by (auto simp: gc_trace_def intro!: emits_return)
  next
    case (Inr ifs)
    show ?thesis
      unfolding Inr sum.case
    proof (cases "findBridgeID ifs (conf_Bridge (gcc_Config cfg))", goal_cases)
      case 1
      then show ?case
        by (auto simp: gc_trace_def intro!: emits_bind [OF gcIPAM_emits] emits_return)
    next
      case (2 b)
      show ?case
        unfolding 2 option.case
      proof (rule emits_bind [OF gc_reap_emits], goal_cases)
        case (1 reaped tr)
        have "emits log (if reaped then gcBridgeIfEmpty (gcc_Client cfg) b
            else State_Monad.return ())
            (\<lambda>_ gc. if reaped then gc_bridge_trace b gc else gc = [])"
          by (auto intro: gcBridgeIfEmpty_emits emits_return)
        with 1 2 show ?case
          by (elim emits_bind)
            (auto intro!: emits_bind [OF gcIPAM_emits] emits_return gc_trace_reaped)
      qed
    qed
  qed
qed

end

section \<open>Recorded handlers\<close>

lemma record_cfg_client [simp]:
  "ac_Client (record_add a) = record_client (ac_Client a)"
  "dc_Client (record_del d) = record_client (dc_Client d)"
  "gcc_Client (record_gc g) = record_client (gcc_Client g)"
  by (simp_all add: record_add_def record_del_def record_gc_def)

lemma record_cfg_same [simp]:
  "ac_Config (record_add a) = ac_Config a" "ac_Args (record_add a) = ac_Args a"
  "dc_Config (record_del d) = dc_Config d" "dc_Args (record_del d) = dc_Args d"
  "gcc_Config (record_gc g) = gcc_Config g" "gcc_Args (record_gc g) = gcc_Args g"
  "given (ac_MoveLink (record_add a)) = given (ac_MoveLink a)"
  "given (ac_ConfigurePodIface (record_add a)) = given (ac_ConfigurePodIface a)"
  "given (dc_VerifyPodIface (record_del d)) = given (dc_VerifyPodIface d)"
  "env_unicode (record_env env) = env_unicode env" "env_lib (record_env env) = env_lib env"
  by (simp_all add: record_add_def record_del_def record_gc_def record_env_def)

interpretation add: add_log "record_env env" "record_add cfg" snd
  for env :: "('w, 'r) Env" and cfg :: "('w, 'r) AddConfig"
proof (intro add_log.intro add_log_axioms.intro)
  show "call_log (record_env env) (ac_Client (record_add cfg)) snd"
    by (simp add: rec.call_log_axioms)
qed (auto simp: record_add_def intro!: emits_logged)

interpretation del: del_log "record_env env" "record_del cfg" snd
  for env :: "('w, 'r) Env" and cfg :: "('w, 'r) DelConfig"
proof (intro del_log.intro del_log_axioms.intro)
  show "call_log (record_env env) (dc_Client (record_del cfg)) snd"
    by (simp add: rec.call_log_axioms)
qed (auto simp: record_del_def intro!: emits_logged)

interpretation gc: gc_log "record_env env" "record_gc cfg" snd
  for env :: "('w, 'r) Env" and cfg :: "('w, 'r) GCConfig"
proof (intro gc_log.intro gc_log_axioms.intro)
  show "call_log (record_env env) (gcc_Client (record_gc cfg)) snd"
    by (simp add: rec.call_log_axioms)
qed (auto simp: record_gc_def intro!: emits_logged)

end
