(* ===== verification/Simulation.thy ===== *)
theory Simulation
  imports HandlerTrace
begin

text \<open>
  The handlers only act through their environment and client, so two environments related by a
  simulation give related runs. The locale \<open>env_sim\<close> states the relation operation by
  operation; its lemmas lift it to every handler. It is interpreted on the recording of an
  environment: a recorded handler returns what the handler returns and leaves the same world.
\<close>

section \<open>Simulation of stateful code\<close>

definition sim :: "('w \<Rightarrow> 'v \<Rightarrow> bool) \<Rightarrow> ('w, 'a) state \<Rightarrow> ('v, 'a) state \<Rightarrow> bool" where
  "sim R m m' \<longleftrightarrow>
     (\<forall>w v. R w v \<longrightarrow>
        fst (run_state m w) = fst (run_state m' v) \<and> R (snd (run_state m w)) (snd (run_state m' v)))"

lemma simD:
  assumes "sim R m m'" "R w v" "run_state m w = (a, w')" "run_state m' v = (b, v')"
  shows "a = b \<and> R w' v'"
  using assms unfolding sim_def by fastforce

lemma simI:
  assumes "\<And>w v a b w' v'. R w v \<Longrightarrow> run_state m w = (a, w') \<Longrightarrow> run_state m' v = (b, v') \<Longrightarrow>
    a = b \<and> R w' v'"
  shows "sim R m m'"
  using assms unfolding sim_def by (metis prod.collapse)

named_theorems sim_rules \<open>simulation of the combinators\<close>

lemma sim_return [sim_rules]: "sim R (State_Monad.return a) (State_Monad.return a)"
  by (simp add: sim_def)

lemma sim_bind [sim_rules]:
  assumes "sim R m m'" and "\<And>a. sim R (f a) (f' a)"
  shows "sim R (State_Monad.bind m f) (State_Monad.bind m' f')"
proof (rule simI)
  fix w v a b w' v'
  assume "R w v" "run_state (State_Monad.bind m f) w = (a, w')"
    "run_state (State_Monad.bind m' f') v = (b, v')"
  then show "a = b \<and> R w' v'"
    using assms by (auto split: prod.splits dest: simD)
qed

lemma sim_if [sim_rules]: "sim R a a' \<Longrightarrow> sim R b b' \<Longrightarrow> sim R (if c then a else b) (if c then a' else b')"
  by simp

lemma sim_option [sim_rules]:
  "sim R f f' \<Longrightarrow> (\<And>x. sim R (g x) (g' x)) \<Longrightarrow>
   sim R (case e of None \<Rightarrow> f | Some x \<Rightarrow> g x) (case e of None \<Rightarrow> f' | Some x \<Rightarrow> g' x)"
  by (simp split: option.split)

lemma sim_sum [sim_rules]:
  "(\<And>x. sim R (f x) (f' x)) \<Longrightarrow> (\<And>x. sim R (g x) (g' x)) \<Longrightarrow>
   sim R (case e of Inl x \<Rightarrow> f x | Inr x \<Rightarrow> g x) (case e of Inl x \<Rightarrow> f' x | Inr x \<Rightarrow> g' x)"
  by (simp split: sum.split)

lemma sim_outcome [sim_rules]:
  "(\<And>x. sim R (f x) (f' x)) \<Longrightarrow> (\<And>x. sim R (g x) (g' x)) \<Longrightarrow> sim R h h' \<Longrightarrow>
   sim R (case e of Ret x \<Rightarrow> f x | Err x \<Rightarrow> g x | Panic \<Rightarrow> h)
         (case e of Ret x \<Rightarrow> f' x | Err x \<Rightarrow> g' x | Panic \<Rightarrow> h')"
  by (simp split: outcome.split)

lemma sim_try_op [sim_rules]:
  "sim R m m' \<Longrightarrow> sim R k k' \<Longrightarrow> sim R (try_op m h k) (try_op m' h k')"
  unfolding try_op_def by (intro sim_rules)

lemma sim_try_val [sim_rules]:
  "sim R m m' \<Longrightarrow> (\<And>x. sim R (k x) (k' x)) \<Longrightarrow> sim R (try_val m h k) (try_val m' h k')"
  unfolding try_val_def by (intro sim_rules)

section \<open>Simulation of environments\<close>

locale env_sim =
  fixes R :: "'w \<Rightarrow> 'v \<Rightarrow> bool"
    and env :: "('w, 'r) Env" and env' :: "('v, 'r) Env"
    and client :: "'w GroutClient" and client' :: "'v GroutClient"
  assumes lib: "env_lib env = env_lib env'"
    and unicode: "env_unicode env = env_unicode env'"
    and MkdirAll: "sim R (os_MkdirAll env p) (os_MkdirAll env' p)"
    and Remove: "sim R (os_Remove env p) (os_Remove env' p)"
    and Stat: "sim R (os_Stat env p) (os_Stat env' p)"
    and Open: "sim R (unix_Open env p) (unix_Open env' p)"
    and Flock_EX: "sim R (unix_Flock_EX env fd) (unix_Flock_EX env' fd)"
    and Flock_UN: "sim R (unix_Flock_UN env fd) (unix_Flock_UN env' fd)"
    and Close: "sim R (unix_Close env fd) (unix_Close env' fd)"
    and DelegateAdd: "sim R (DelegateAdd env t d) (DelegateAdd env' t d)"
    and DelegateDel: "sim R (DelegateDel env t d) (DelegateDel env' t d)"
    and DelegateGC: "sim R (DelegateGC env t d) (DelegateGC env' t d)"
    and GetNS: "sim R (ns_GetNS env p) (ns_GetNS env' p)"
    and NSClose: "sim R (ns_Close env h) (ns_Close env' h)"
    and NSEnter: "sim R (ns_Enter env h) (ns_Enter env' h)"
    and NSLeave: "sim R (ns_Leave env h) (ns_Leave env' h)"
    and LinkByName: "sim R (LinkByName env ns n) (LinkByName env' ns n)"
    and LinkSetNsFd: "sim R (LinkSetNsFd env l h) (LinkSetNsFd env' l h)"
    and LinkSetDown: "sim R (LinkSetDown env ns l) (LinkSetDown env' ns l)"
    and LinkSetName: "sim R (LinkSetName env ns l n) (LinkSetName env' ns l n)"
    and LinkSetMTU: "sim R (LinkSetMTU env ns l mtu) (LinkSetMTU env' ns l mtu)"
    and LinkSetHardwareAddr:
      "sim R (LinkSetHardwareAddr env ns l a) (LinkSetHardwareAddr env' ns l a)"
    and ConfigureIface: "sim R (ConfigureIface env ns n res) (ConfigureIface env' ns n res)"
    and AddrList: "sim R (AddrList env ns l) (AddrList env' ns l)"
    and IfaceList: "sim R (gc_InterfaceList client t') (gc_InterfaceList client' t')"
    and IfaceAdd: "sim R (gc_InterfaceAdd client rq) (gc_InterfaceAdd client' rq)"
    and IfaceDel: "sim R (gc_InterfaceDel client i) (gc_InterfaceDel client' i)"
    and AddrAdd: "sim R (gc_AddressAdd client ra) (gc_AddressAdd client' ra)"
    and AddrFlush: "sim R (gc_AddressFlush client i) (gc_AddressFlush client' i)"
begin

lemmas ops =
  MkdirAll Remove Stat Open Flock_EX Flock_UN Close DelegateAdd DelegateDel DelegateGC
  GetNS NSClose NSEnter NSLeave LinkByName LinkSetNsFd LinkSetDown LinkSetName LinkSetMTU
  LinkSetHardwareAddr ConfigureIface AddrList IfaceList IfaceAdd IfaceDel AddrAdd AddrFlush

lemmas rules = sim_rules ops

lemma with_lock_sim: "sim R b b' \<Longrightarrow> sim R (with_lock env s b) (with_lock env' s b')"
  unfolding with_lock_def NewFileLock_def FileLock_Lock_def FileLock_Unlock_def
    FileLock_Close_def Let_def
  by (intro rules)

lemma moveLink_sim: "sim R (moveLinkToNamespace env l n) (moveLinkToNamespace env' l n)"
  unfolding moveLinkToNamespace_def by (intro rules)

lemma configure_sim:
  "sim R (configurePodInterface env n h p mtu res) (configurePodInterface env' n h p mtu res)"
  unfolding configurePodInterface_def configure_in_ns_def ns_Do_def by (intro rules)

lemma verify_sim: "sim R (verifyPodInterface env n p ips) (verifyPodInterface env' n p ips)"
  unfolding verifyPodInterface_def verify_in_ns_def ns_Do_def by (intro rules)

lemma ensureBridge_sim: "sim R (ensureBridge client name) (ensureBridge client' name)"
  unfolding ensureBridge_def by (intro rules)

lemma add_gateways_sim: "sim R (add_gateways client b gws) (add_gateways client' b gws)"
  by (induction gws) (simp_all add: rules)

lemma gcBridgeIfEmpty_sim: "sim R (gcBridgeIfEmpty client b) (gcBridgeIfEmpty client' b)"
  unfolding gcBridgeIfEmpty_def by (intro rules)

lemma gc_reap_sim:
  "sim R (gc_reap env client s b valid ifs r) (gc_reap env' client' s b valid ifs r)"
proof (induction ifs arbitrary: r)
  case (Cons i ifs)
  then show ?case
    unfolding gc_reap.simps removeVhostSocket_def by (intro rules)
qed (simp add: rules)

end

section \<open>Simulation of the handlers\<close>

locale add_sim = env_sim R env env' "ac_Client cfg" "ac_Client cfg'"
  for R :: "'w \<Rightarrow> 'v \<Rightarrow> bool" and env :: "('w, 'r) Env" and env' :: "('v, 'r) Env"
    and cfg :: "('w, 'r) AddConfig" and cfg' :: "('v, 'r) AddConfig" +
  assumes conf: "ac_Config cfg = ac_Config cfg'"
    and args: "ac_Args cfg = ac_Args cfg'"
    and IPAMAddFn: "rel_option (\<lambda>f f'. \<forall>c a. sim R (f c a) (f' c a)) (ac_IPAMAdd cfg) (ac_IPAMAdd cfg')"
    and IPAMDelFn: "rel_option (\<lambda>f f'. \<forall>c a. sim R (f c a) (f' c a)) (ac_IPAMDel cfg) (ac_IPAMDel cfg')"
    and MoveFn: "rel_option (\<lambda>f f'. \<forall>l n. sim R (f l n) (f' l n)) (ac_MoveLink cfg) (ac_MoveLink cfg')"
    and ConfigureFn: "rel_option (\<lambda>f f'. \<forall>n h p m r. sim R (f n h p m r) (f' n h p m r))
      (ac_ConfigurePodIface cfg) (ac_ConfigurePodIface cfg')"
begin

lemma ipamAdd_sim:
  "sim R ((case ac_IPAMAdd cfg of None \<Rightarrow> delegateIPAMAdd env | Some f \<Rightarrow> f) c a)
         ((case ac_IPAMAdd cfg' of None \<Rightarrow> delegateIPAMAdd env' | Some f \<Rightarrow> f) c a)"
  using IPAMAddFn by cases (auto simp: delegateIPAMAdd_def intro!: rules)

lemma ipamDel_sim:
  "sim R (ipamDel env (ac_IPAMDel cfg) c a) (ipamDel env' (ac_IPAMDel cfg') c a)"
  using IPAMDelFn by cases (auto simp: ipamDel_def delegateIPAMDel_def intro!: rules)

lemma move_sim:
  "sim R ((case ac_MoveLink cfg of None \<Rightarrow> moveLinkToNamespace env | Some f \<Rightarrow> f) l n)
         ((case ac_MoveLink cfg' of None \<Rightarrow> moveLinkToNamespace env' | Some f \<Rightarrow> f) l n)"
  using MoveFn by cases (auto intro: moveLink_sim)

lemma configureFn_sim:
  "sim R ((case ac_ConfigurePodIface cfg of None \<Rightarrow> configurePodInterface env | Some f \<Rightarrow> f) n h p m r)
         ((case ac_ConfigurePodIface cfg' of None \<Rightarrow> configurePodInterface env' | Some f \<Rightarrow> f) n h p m r)"
  using ConfigureFn by cases (auto intro: configure_sim)

lemma setup_pod_link_sim: "sim R (setup_pod_link env cfg t i r) (setup_pod_link env' cfg' t i r)"
  unfolding setup_pod_link_def cleanupAfterAddFailure_def Let_def conf args
  by (intro rules ipamDel_sim move_sim configureFn_sim)

lemma add_to_bridge_sim: "sim R (add_to_bridge env cfg t r) (add_to_bridge env' cfg' t r)"
  unfolding add_to_bridge_def add_port_def Let_def conf args
  by (intro rules ipamDel_sim ensureBridge_sim add_gateways_sim setup_pod_link_sim)

lemma HandleAdd_sim: "sim R (HandleAdd env cfg) (HandleAdd env' cfg')"
  unfolding HandleAdd_def Let_def conf args lib unicode
  by (intro rules with_lock_sim ipamAdd_sim add_to_bridge_sim)

end

locale del_sim = env_sim R env env' "dc_Client cfg" "dc_Client cfg'"
  for R :: "'w \<Rightarrow> 'v \<Rightarrow> bool" and env :: "('w, 'r) Env" and env' :: "('v, 'r) Env"
    and cfg :: "('w, 'r) DelConfig" and cfg' :: "('v, 'r) DelConfig" +
  assumes conf: "dc_Config cfg = dc_Config cfg'"
    and args: "dc_Args cfg = dc_Args cfg'"
    and IPAMDelFn: "rel_option (\<lambda>f f'. \<forall>c a. sim R (f c a) (f' c a)) (dc_IPAMDel cfg) (dc_IPAMDel cfg')"
    and VerifyFn: "rel_option (\<lambda>f f'. \<forall>n p i. sim R (f n p i) (f' n p i))
      (dc_VerifyPodIface cfg) (dc_VerifyPodIface cfg')"
begin

lemma ipamDel_sim:
  "sim R (ipamDel env (dc_IPAMDel cfg) c a) (ipamDel env' (dc_IPAMDel cfg') c a)"
  using IPAMDelFn by cases (auto simp: ipamDel_def delegateIPAMDel_def intro!: rules)

lemma verifyFn_sim:
  "sim R ((case dc_VerifyPodIface cfg of None \<Rightarrow> verifyPodInterface env | Some f \<Rightarrow> f) n p i)
         ((case dc_VerifyPodIface cfg' of None \<Rightarrow> verifyPodInterface env' | Some f \<Rightarrow> f) n p i)"
  using VerifyFn by cases (auto intro: verify_sim)

lemma HandleDel_sim: "sim R (HandleDel env cfg) (HandleDel env' cfg')"
  unfolding HandleDel_def removeVhostSocket_def Let_def conf args unicode
  by (intro rules with_lock_sim gcBridgeIfEmpty_sim ipamDel_sim)

lemma HandleCheck_sim: "sim R (HandleCheck env cfg) (HandleCheck env' cfg')"
  unfolding HandleCheck_def fileExists_def Let_def conf args unicode lib
  by (intro rules with_lock_sim verifyFn_sim)

end

locale gc_sim = env_sim R env env' "gcc_Client cfg" "gcc_Client cfg'"
  for R :: "'w \<Rightarrow> 'v \<Rightarrow> bool" and env :: "('w, 'r) Env" and env' :: "('v, 'r) Env"
    and cfg :: "('w, 'r) GCConfig" and cfg' :: "('v, 'r) GCConfig" +
  assumes conf: "gcc_Config cfg = gcc_Config cfg'"
    and args: "gcc_Args cfg = gcc_Args cfg'"
    and IPAMGCFn: "rel_option (\<lambda>f f'. \<forall>c a. sim R (f c a) (f' c a)) (gcc_IPAMGC cfg) (gcc_IPAMGC cfg')"
begin

lemma gcIPAM_sim: "sim R (gcIPAM env (gcc_IPAMGC cfg) c a) (gcIPAM env' (gcc_IPAMGC cfg') c a)"
  using IPAMGCFn by cases (auto simp: gcIPAM_def delegateIPAMGC_def intro!: rules)

lemma HandleGC_sim: "sim R (HandleGC env cfg) (HandleGC env' cfg')"
  unfolding HandleGC_def Let_def conf args unicode
  by (intro rules with_lock_sim gc_reap_sim gcBridgeIfEmpty_sim gcIPAM_sim)

end

section \<open>Recording is transparent\<close>

definition erased :: "'w \<times> 'r call list \<Rightarrow> 'w \<Rightarrow> bool" where
  "erased w v \<longleftrightarrow> fst w = v"

lemma sim_logged: "sim erased (logged c m) m"
  by (auto simp: sim_def erased_def logged_def split: prod.split)

interpretation erase: env_sim erased "record_env env" env "record_client client" client
  for env :: "('w, 'r) Env" and client :: "'w GroutClient"
  by unfold_locales (simp_all add: record_env_def sim_logged)

interpretation erase_add: add_sim erased "record_env env" env "record_add cfg" cfg
  for env :: "('w, 'r) Env" and cfg :: "('w, 'r) AddConfig"
proof (intro add_sim.intro add_sim_axioms.intro)
  show "env_sim erased (record_env env) env (ac_Client (record_add cfg)) (ac_Client cfg)"
    by (simp add: erase.env_sim_axioms)
qed (simp_all add: record_add_def option.rel_map sim_logged option.rel_refl)

interpretation erase_del: del_sim erased "record_env env" env "record_del cfg" cfg
  for env :: "('w, 'r) Env" and cfg :: "('w, 'r) DelConfig"
proof (intro del_sim.intro del_sim_axioms.intro)
  show "env_sim erased (record_env env) env (dc_Client (record_del cfg)) (dc_Client cfg)"
    by (simp add: erase.env_sim_axioms)
qed (simp_all add: record_del_def option.rel_map sim_logged option.rel_refl)

interpretation erase_gc: gc_sim erased "record_env env" env "record_gc cfg" cfg
  for env :: "('w, 'r) Env" and cfg :: "('w, 'r) GCConfig"
proof (intro gc_sim.intro gc_sim_axioms.intro)
  show "env_sim erased (record_env env) env (gcc_Client (record_gc cfg)) (gcc_Client cfg)"
    by (simp add: erase.env_sim_axioms)
qed (simp_all add: record_gc_def option.rel_map sim_logged option.rel_refl)

end
