(* ===== verification/AddTrace.thy ===== *)
theory AddTrace
  imports HandlerTrace
begin

text \<open>
  The calls of an ADD, exactly: their order, arguments and answers on every branch. The bridge
  is found or created, the gateways are assigned to it, the pod's port is created as its
  member; each failure ends with the calls that undo what came before.
\<close>

section \<open>Trace predicates\<close>

text \<open>
  The three ways to the id \<open>b\<close> of the bridge: listed as a bridge, created, or, after the
  creation failed, listed under its name.
\<close>

definition bridge_trace :: "string \<Rightarrow> u16 \<Rightarrow> 'r call list \<Rightarrow> bool" where
  "bridge_trace name b tr \<longleftrightarrow>
     (\<exists>ifs. findBridgeID ifs name = Some b \<and> tr = [CIfaceList (Inr ifs)])
     \<or> (\<exists>ifs. findBridgeID ifs name = None \<and>
          tr = [CIfaceList (Inr ifs), CIfaceAdd (bridge_request name) (Inr b)])
     \<or> (\<exists>ifs e ifs2. findBridgeID ifs name = None \<and> findByName ifs2 name = Some b \<and>
          tr = [CIfaceList (Inr ifs), CIfaceAdd (bridge_request name) (Inl e),
                CIfaceList (Inr ifs2)])"

definition bridge_failed :: "string \<Rightarrow> 'r call list \<Rightarrow> bool" where
  "bridge_failed name tr \<longleftrightarrow>
     (\<exists>e. tr = [CIfaceList (Inl e)])
     \<or> (\<exists>ifs e e'. findBridgeID ifs name = None \<and>
          tr = [CIfaceList (Inr ifs), CIfaceAdd (bridge_request name) (Inl e),
                CIfaceList (Inl e')])
     \<or> (\<exists>ifs e ifs2. findBridgeID ifs name = None \<and> findByName ifs2 name = None \<and>
          tr = [CIfaceList (Inr ifs), CIfaceAdd (bridge_request name) (Inl e),
                CIfaceList (Inr ifs2)])"

definition gateway_call :: "u16 \<Rightarrow> error option \<Rightarrow> IPNet \<Rightarrow> 'r call" where
  "gateway_call b e gw = CAddrAdd \<lparr>aa_IfaceID = b, aa_Address = gw, aa_ExistOK = True\<rparr> e"

definition gateways_failed :: "u16 \<Rightarrow> IPNet list \<Rightarrow> 'r call list \<Rightarrow> bool" where
  "gateways_failed b gws tr \<longleftrightarrow>
     (\<exists>pre gw post e. gws = pre @ gw # post \<and>
        tr = map (gateway_call b None) pre @ [gateway_call b (Some e) gw])"

definition port_sock :: "'r PluginConf \<Rightarrow> string \<Rightarrow> string" where
  "port_sock conf name =
     (if conf_InterfaceType conf = InterfaceTypeVirtio
      then vhostSocketPath (conf_GroutSocketPath conf) name else [])"

definition port_dir :: "'r PluginConf \<Rightarrow> string \<Rightarrow> error option \<Rightarrow> 'r call list" where
  "port_dir conf name e =
     (if conf_InterfaceType conf = InterfaceTypeVirtio
      then [CMkdirAll (filepath_Dir (port_sock conf name)) e] else [])"

text \<open>
  The pod's link: it is moved into the pod's namespace and configured there, and the result is
  the one the configuration gives; a failure of either is followed by the removal of the port
  and the release of the address. The flags say whether the functions for the two steps are
  injected.
\<close>

definition link_trace ::
  "bool \<times> bool \<Rightarrow> 'r PluginConf \<Rightarrow> CmdArgs \<Rightarrow> string \<Rightarrow> u16 \<Rightarrow> Result \<Rightarrow> Result outcome
   \<Rightarrow> 'r call list \<Rightarrow> bool" where
  "link_trace hooks conf args name i res r tr \<longleftrightarrow>
     (\<exists>e mt d. moved (fst hooks) name (args_Netns args) (Some e) mt \<and>
        r = Err (Wrapf ''moving TAP to pod namespace: %w'' [] e) \<and>
        tr = mt @ [CIfaceDel i d, CIPAMDel])
     \<or> (\<exists>x mt ct. moved (fst hooks) name (args_Netns args) None mt \<and>
        pod_configured (snd hooks) (args_Netns args) name (args_IfName args) (conf_MTU conf) res x ct \<and>
        (case x of
           Inl e \<Rightarrow> r = Err (Wrapf ''configuring pod interface: %w'' [] e) \<and>
             (\<exists>d. tr = mt @ ct @ [CIfaceDel i d, CIPAMDel])
         | Inr res' \<Rightarrow> r = Ret res' \<and> tr = mt @ ct))"

text \<open>What follows the creation of the port \<open>i\<close>.\<close>

definition created_trace ::
  "bool \<times> bool \<Rightarrow> 'r PluginConf \<Rightarrow> CmdArgs \<Rightarrow> string \<Rightarrow> Result \<Rightarrow> u16 \<Rightarrow> Result outcome
   \<Rightarrow> 'r call list \<Rightarrow> bool" where
  "created_trace hooks conf args name res i r tr \<longleftrightarrow>
     (if conf_InterfaceType conf = InterfaceTypeVirtio
      then tr = [] \<and> r = vhostResult args res (port_sock conf name)
      else
        (case podResult args res of
           Ret podRes \<Rightarrow>
             if args_Netns args = [] then tr = [] \<and> r = Ret podRes
             else link_trace hooks conf args name i podRes r tr
         | x \<Rightarrow> tr = [] \<and> r = x))"

definition port_trace ::
  "bool \<times> bool \<Rightarrow> 'r PluginConf \<Rightarrow> CmdArgs \<Rightarrow> string \<Rightarrow> u16 \<Rightarrow> Result \<Rightarrow> Result outcome \<Rightarrow> 'r call list \<Rightarrow> bool" where
  "port_trace hooks conf args name b res r tr \<longleftrightarrow>
     (\<exists>e err. conf_InterfaceType conf = InterfaceTypeVirtio \<and> r = Err err \<and>
        tr = port_dir conf name (Some e) @ [CIPAMDel])
     \<or> (\<exists>e err. r = Err err \<and>
          tr = port_dir conf name None
               @ [CIfaceAdd (port_request conf name b (port_sock conf name)) (Inl e), CIPAMDel])
     \<or> (\<exists>i tr'. created_trace hooks conf args name res i r tr' \<and>
          tr = port_dir conf name None
               @ CIfaceAdd (port_request conf name b (port_sock conf name)) (Inr i) # tr')"

text \<open>From the converted IPAM result on.\<close>

definition attach_trace ::
  "bool \<times> bool \<Rightarrow> 'r PluginConf \<Rightarrow> CmdArgs \<Rightarrow> string \<Rightarrow> Result \<Rightarrow> Result outcome \<Rightarrow> 'r call list \<Rightarrow> bool" where
  "attach_trace hooks conf args name res r tr \<longleftrightarrow>
     (\<exists>err bt. r = Err err \<and> bridge_failed (conf_Bridge conf) bt \<and> tr = bt @ [CIPAMDel])
     \<or> (\<exists>b bt. bridge_trace (conf_Bridge conf) b bt \<and> gatewaysFor res = Panic \<and>
          r = Panic \<and> tr = bt)
     \<or> (\<exists>b bt gws gt err. bridge_trace (conf_Bridge conf) b bt \<and> gatewaysFor res = Ret gws \<and>
          gateways_failed b gws gt \<and> r = Err err \<and> tr = bt @ gt @ [CIPAMDel])
     \<or> (\<exists>b bt gws pt. bridge_trace (conf_Bridge conf) b bt \<and> gatewaysFor res = Ret gws \<and>
          port_trace hooks conf args name b res r pt \<and>
          tr = bt @ map (gateway_call b None) gws @ pt)"

text \<open>The calls of an ADD while it holds the lock.\<close>

definition add_trace ::
  "bool \<times> bool \<Rightarrow> 'r Lib \<Rightarrow> 'r PluginConf \<Rightarrow> CmdArgs \<Rightarrow> string \<Rightarrow> Result outcome \<Rightarrow> 'r call list \<Rightarrow> bool" where
  "add_trace hooks lib conf args name r tr \<longleftrightarrow>
     (\<exists>e e'. r = Err (Wrapf ''IPAM add: %w'' [] e) \<and> tr = [CIPAMAdd (Inl e')])
     \<or> (\<exists>ipam e. convertResult lib ipam = Inl e \<and>
          r = Err (Wrapf ''converting IPAM result: %w'' [] e) \<and> tr = [CIPAMAdd (Inr ipam)])
     \<or> (\<exists>ipam res tr'. convertResult lib ipam = Inr res \<and> tr = CIPAMAdd (Inr ipam) # tr' \<and>
          attach_trace hooks conf args name res r tr')"

lemma attach_gateways_failed:
  "bridge_trace (conf_Bridge conf) b bt \<Longrightarrow> gatewaysFor res = Ret gws \<Longrightarrow> gateways_failed b gws gt \<Longrightarrow>
   attach_trace hooks conf args name res (Err err) (bt @ gt @ [CIPAMDel])"
  unfolding attach_trace_def by blast

lemma attach_port:
  "bridge_trace (conf_Bridge conf) b bt \<Longrightarrow> gatewaysFor res = Ret gws \<Longrightarrow>
   port_trace hooks conf args name b res r pt \<Longrightarrow>
   attach_trace hooks conf args name res r (bt @ map (gateway_call b None) gws @ pt)"
  unfolding attach_trace_def by blast

section \<open>No error where the source has none\<close>

lemma point_ips_not_Err: "point_ips ips \<noteq> Err e"
  by (induction ips rule: point_ips.induct) (auto split: outcome.splits)

lemma podResult_cases:
  obtains (Ret) pod where "podResult args res = Ret pod" | (Panic) "podResult args res = Panic"
  by (cases "podResult args res")
    (auto simp: podResult_def result_for_def point_ips_not_Err split: outcome.splits)

lemma gateways_loop_not_Err: "gateways_loop ips a b gws \<noteq> Err e"
  by (induction ips a b gws rule: gateways_loop.induct)
    (auto simp: Let_def gateway_of_def split: outcome.splits option.splits if_splits)

lemma gatewaysFor_cases:
  obtains (Ret) gws where "gatewaysFor res = Ret gws" | (Panic) "gatewaysFor res = Panic"
  by (cases "gatewaysFor res") (auto simp: gatewaysFor_def gateways_loop_not_Err)

section \<open>The bridge\<close>

lemma gateways_failed_now: "gateways_failed b (gw # gws) [gateway_call b (Some e) gw]"
  unfolding gateways_failed_def by (rule exI [of _ "[]"]) auto

lemma gateways_failed_later:
  assumes "gateways_failed b gws tr"
  shows "gateways_failed b (gw # gws) (gateway_call b None gw # tr)"
proof -
  obtain pre gw' post e where "gws = pre @ gw' # post"
    "tr = map (gateway_call b None) pre @ [gateway_call b (Some e) gw']"
    using assms unfolding gateways_failed_def by blast
  then show ?thesis
    unfolding gateways_failed_def by (intro exI [of _ "gw # pre"] exI [of _ gw'] exI [of _ post] exI) simp
qed

context call_log
begin

lemma ensureBridge_emits:
  "emits log (ensureBridge client name) (\<lambda>r tr.
     case r of Inl _ \<Rightarrow> bridge_failed name tr | Inr b \<Rightarrow> bridge_trace name b tr)"
  unfolding ensureBridge_def try_val_def
proof (rule emits_call [OF IfaceList], goal_cases)
  case (1 l)
  have relisted: "case (case l' of
        Inl _ \<Rightarrow> Inl (Wrapf f [AStr (summarizeIfaces ifs)] err)
      | Inr ifs2 \<Rightarrow> (case findByName ifs2 name of
          None \<Rightarrow> Inl (Wrapf f [AStr (summarizeIfaces ifs2)] err) | Some i \<Rightarrow> Inr i)) of
      Inl _ \<Rightarrow> bridge_failed name (t l') | Inr b \<Rightarrow> bridge_trace name b (t l')"
    if "findBridgeID ifs name = None"
      and "\<And>l'. t l' = [CIfaceList (Inr ifs), CIfaceAdd (bridge_request name) (Inl err), CIfaceList l']"
    for l' f ifs err t
    using that
    by (cases l'; cases "findByName (projr l') name") (auto simp: bridge_trace_def bridge_failed_def)
  show ?case
  proof (cases l)
    case (Inl e)
    then show ?thesis by (auto simp: bridge_failed_def intro!: emits_return)
  next
    case (Inr ifs)
    show ?thesis
    proof (cases "findBridgeID ifs name")
      case None
      with Inr show ?thesis
        by (auto simp: bridge_trace_def intro!: call_binds emits_return relisted)
    qed (use Inr in \<open>auto simp: bridge_trace_def intro!: emits_return\<close>)
  qed
qed

lemma add_gateways_emits:
  "emits log (add_gateways client b gws) (\<lambda>e tr.
     case e of None \<Rightarrow> tr = map (gateway_call b None) gws | Some _ \<Rightarrow> gateways_failed b gws tr)"
proof (induction gws)
  case Nil
  then show ?case by (simp add: emits_return)
next
  case (Cons gw gws)
  note failed = gateways_failed_now [of b gw gws] gateways_failed_later [of b gws _ gw]
  show ?case
    unfolding add_gateways.simps try_op_def
  proof (rule emits_call [OF AddrAdd], goal_cases)
    case (1 e)
    show ?case
    proof (cases e)
      case None
      then show ?thesis
        unfolding None option.case
        by (intro emits_mono [OF Cons])
          (auto simp: failed simp flip: gateway_call_def split: option.splits)
    next
      case (Some err)
      then show ?thesis
        by (simp add: emits_return failed flip: gateway_call_def)
    qed
  qed
qed

end

section \<open>The port\<close>

context add_log
begin

abbreviation injected :: "bool \<times> bool" where
  "injected \<equiv> (given (ac_MoveLink cfg), given (ac_ConfigurePodIface cfg))"

lemma setup_pod_link_emits:
  "emits log (setup_pod_link env cfg tap i res)
     (link_trace injected (ac_Config cfg) (ac_Args cfg) tap i res)"
  unfolding setup_pod_link_def Let_def
proof (rule emits_bind [OF move_emits], goal_cases)
  case (1 e mt)
  show ?case
  proof (cases e)
    case (Some err)
    have "link_trace injected (ac_Config cfg) (ac_Args cfg) tap i res
        (Err (Wrapf ''moving TAP to pod namespace: %w'' [] err)) (mt @ [CIfaceDel i d, CIPAMDel])" for d
      unfolding link_trace_def fst_conv using 1 Some by blast
    with Some show ?thesis by (auto intro!: emits_mono [OF rollback_emits])
  next
    case None
    show ?thesis
      unfolding None option.case
    proof (rule emits_bind [OF configure_emits], goal_cases)
      case (1 x ct)
      have step: "link_trace injected (ac_Config cfg) (ac_Args cfg) tap i res r tr"
        if "case x of
             Inl e \<Rightarrow> r = Err (Wrapf ''configuring pod interface: %w'' [] e) \<and>
               (\<exists>d. tr = mt @ ct @ [CIfaceDel i d, CIPAMDel])
           | Inr res' \<Rightarrow> r = Ret res' \<and> tr = mt @ ct" for r tr
        unfolding link_trace_def fst_conv snd_conv using 1 None \<open>moved _ _ _ e mt\<close> that by blast
      show ?case
        by (cases x) (auto intro!: emits_mono [OF rollback_emits] emits_return step)
    qed
  qed
qed

text \<open>What follows the creation of the port.\<close>

lemma port_created_emits:
  "emits log
     (if conf_InterfaceType (ac_Config cfg) = InterfaceTypeVirtio
      then State_Monad.return (vhostResult (ac_Args cfg) res (port_sock (ac_Config cfg) tap))
      else (case podResult (ac_Args cfg) res of
              Ret podRes \<Rightarrow>
                if args_Netns (ac_Args cfg) \<noteq> [] then setup_pod_link env cfg tap i podRes
                else State_Monad.return (Ret podRes)
            | Err err \<Rightarrow> State_Monad.return (Err err)
            | Panic \<Rightarrow> State_Monad.return Panic))
     (created_trace injected (ac_Config cfg) (ac_Args cfg) tap res i)"
  by (cases rule: podResult_cases [of "ac_Args cfg" res])
    (simp_all add: created_trace_def [abs_def] emits_return setup_pod_link_emits)

text \<open>The creation of the port, in the vhost directory or without one.\<close>

lemma port_add_emits:
  "emits log
     (do {
        addResp \<leftarrow> gc_InterfaceAdd (ac_Client cfg)
                     (port_request (ac_Config cfg) tap b (port_sock (ac_Config cfg) tap));
        case addResp of
          Inl err \<Rightarrow> do {
            _ \<leftarrow> ipamDel env (ac_IPAMDel cfg) (ac_Config cfg) (ac_Args cfg);
            State_Monad.return (Err (Wrapf ''grout interface add: %w'' [] err))
          }
        | Inr ifaceID \<Rightarrow>
            if conf_InterfaceType (ac_Config cfg) = InterfaceTypeVirtio
            then State_Monad.return (vhostResult (ac_Args cfg) res (port_sock (ac_Config cfg) tap))
            else (case podResult (ac_Args cfg) res of
                    Ret podRes \<Rightarrow>
                      if args_Netns (ac_Args cfg) \<noteq> [] then setup_pod_link env cfg tap ifaceID podRes
                      else State_Monad.return (Ret podRes)
                  | Err err \<Rightarrow> State_Monad.return (Err err)
                  | Panic \<Rightarrow> State_Monad.return Panic)
      })
     (\<lambda>r tr. port_trace injected (ac_Config cfg) (ac_Args cfg) tap b res r
        (port_dir (ac_Config cfg) tap None @ tr))"
proof (rule emits_call [OF IfaceAdd], goal_cases)
  case (1 r)
  show ?case
  proof (cases r)
    case (Inl err)
    have "port_trace injected (ac_Config cfg) (ac_Args cfg) tap b res (Err x) (port_dir (ac_Config cfg) tap None
        @ [CIfaceAdd (port_request (ac_Config cfg) tap b (port_sock (ac_Config cfg) tap)) (Inl err),
           CIPAMDel])" for x
      unfolding port_trace_def by blast
    with Inl show ?thesis by (simp add: emits_mono [OF release_emits])
  next
    case (Inr i)
    have "port_trace injected (ac_Config cfg) (ac_Args cfg) tap b res x (port_dir (ac_Config cfg) tap None
        @ CIfaceAdd (port_request (ac_Config cfg) tap b (port_sock (ac_Config cfg) tap)) (Inr i) # tr)"
      if "created_trace injected (ac_Config cfg) (ac_Args cfg) tap res i x tr" for x tr
      using that unfolding port_trace_def by blast
    then show ?thesis
      unfolding Inr sum.case by (intro emits_mono [OF port_created_emits])
  qed
qed

lemma add_port_emits:
  "emits log (add_port env cfg tap b res) (port_trace injected (ac_Config cfg) (ac_Args cfg) tap b res)"
proof (cases "conf_InterfaceType (ac_Config cfg) = InterfaceTypeVirtio")
  case True
  then have sock: "port_sock (ac_Config cfg) tap =
      vhostSocketPath (conf_GroutSocketPath (ac_Config cfg)) tap"
    "port_dir (ac_Config cfg) tap e = [CMkdirAll (filepath_Dir (port_sock (ac_Config cfg) tap)) e]" for e
    by (simp_all add: port_sock_def port_dir_def)
  have refused: "port_trace injected (ac_Config cfg) (ac_Args cfg) tap b res (Err x)
      [CMkdirAll (filepath_Dir (port_sock (ac_Config cfg) tap)) (Some e), CIPAMDel]" for e x
    using True sock unfolding port_trace_def by auto
  show ?thesis
    unfolding add_port_def Let_def if_P [OF True] sock(1) [symmetric]
  proof (rule emits_call [OF MkdirAll], goal_cases)
    case (1 e)
    show ?case
    proof (cases e)
      case None
      then show ?thesis
        using port_add_emits [of tap b res, unfolded if_P [OF True] sock(2)] by simp
    qed (simp add: emits_mono [OF release_emits] refused)
  qed
next
  case False
  then have sock: "port_sock (ac_Config cfg) tap = []" "port_dir (ac_Config cfg) tap e = []" for e
    by (simp_all add: port_sock_def port_dir_def)
  show ?thesis
    unfolding add_port_def Let_def if_not_P [OF False]
    using port_add_emits [of tap b res, unfolded if_not_P [OF False] sock] by simp
qed

lemma add_to_bridge_emits:
  "emits log (add_to_bridge env cfg tap res) (attach_trace injected (ac_Config cfg) (ac_Args cfg) tap res)"
  unfolding add_to_bridge_def Let_def
proof (rule emits_bind [OF ensureBridge_emits], goal_cases)
  case (1 r bt)
  show ?case
  proof (cases r)
    case (Inl err)
    with 1 show ?thesis by (auto simp: attach_trace_def intro!: emits_mono [OF release_emits])
  next
    case (Inr b)
    with 1 have bt: "bridge_trace (conf_Bridge (ac_Config cfg)) b bt" by simp
    show ?thesis
    proof (cases rule: gatewaysFor_cases [of res])
      case (Ret gws)
      show ?thesis
        unfolding Inr sum.case Ret outcome.case
      proof (rule emits_bind [OF add_gateways_emits], goal_cases)
        case (1 e gt)
        with bt Ret show ?case
          by (cases e)
            (auto intro!: emits_mono [OF release_emits] emits_mono [OF add_port_emits]
              attach_gateways_failed attach_port)
      qed
    next
      case Panic
      with Inr bt show ?thesis by (auto simp: attach_trace_def intro!: emits_return)
    qed
  qed
qed

lemma HandleAdd_emits:
  "emits log (HandleAdd env cfg) (\<lambda>r tr.
     (\<exists>e. r = Err e) \<and> lock_only (conf_GroutSocketPath (ac_Config cfg)) tr
     \<or> bracketed (conf_GroutSocketPath (ac_Config cfg))
          (add_trace injected (env_lib env) (ac_Config cfg) (ac_Args cfg)
          (groutPortName (env_unicode env) (args_ContainerID (ac_Args cfg))
             (args_IfName (ac_Args cfg))) r) tr)"
  unfolding HandleAdd_def Let_def try_val_def
proof (rule with_lock_emits, rule emits_bind [OF ipamAdd_emits], goal_cases)
  case (1 r tr)
  then show ?case
    by (cases r) (auto simp: add_trace_def isl_def split: sum.split
        intro!: emits_return emits_mono [OF add_to_bridge_emits])
qed

end

end
