(* ===== verification/HandlerProps.thy ===== *)
theory HandlerProps
  imports Simulation AddTrace
begin

text \<open>
  Properties of the CNI handlers that hold for every environment and every grout client: what
  the recorded calls of a run look like, whatever the environment answers.
\<close>

section \<open>What a log says\<close>

text \<open>The listing shows \<open>b\<close> as a bridge, and no interface on it.\<close>

definition bridge_empty :: "u16 \<Rightarrow> InterfaceInfo list \<Rightarrow> bool" where
  "bridge_empty b ifs \<longleftrightarrow>
     b \<in> if_ID ` set ifs \<and>
     (\<forall>i \<in> set ifs. if_ID i = b \<longrightarrow> if_Type i = InterfaceTypeBridge) \<and>
     b \<notin> if_Domain ` set ifs"

text \<open>The interfaces whose deletion was requested, in order.\<close>

fun deleted :: "'r call list \<Rightarrow> u16 list" where
  "deleted [] = []"
| "deleted (CIfaceDel i e # tr) = i # deleted tr"
| "deleted (c # tr) = deleted tr"

definition listed :: "'r call list \<Rightarrow> InterfaceInfo list \<Rightarrow> bool" where
  "listed tr ifs \<longleftrightarrow> CIfaceList (Inr ifs) \<in> set tr"

text \<open>
  Every deletion is of the port \<open>name\<close>, as the first listing shows it, or of the bridge it was
  on, which a later listing shows empty.
\<close>

definition deletes_own :: "string \<Rightarrow> 'r call list \<Rightarrow> bool" where
  "deletes_own name tr \<longleftrightarrow>
     deleted tr = []
     \<or> (\<exists>ifs port. listed tr ifs \<and> findPortByName ifs name = Some port \<and>
          (deleted tr = [if_ID port]
           \<or> (\<exists>ifs'. deleted tr = [if_ID port, if_Domain port] \<and> listed tr ifs' \<and>
                bridge_empty (if_Domain port) ifs')))"

text \<open>
  The deletions of a GC: every stale port of the listing on the network's bridge, in order,
  and after them only the bridge itself, when a later listing shows it empty.
\<close>

definition deletes_stale :: "string \<Rightarrow> string set \<Rightarrow> 'r call list \<Rightarrow> bool" where
  "deletes_stale bridge valid tr \<longleftrightarrow>
     (\<exists>ifs. listed tr ifs \<and>
        (case findBridgeID ifs bridge of
           None \<Rightarrow> deleted tr = []
         | Some b \<Rightarrow>
             deleted tr = map if_ID (filter (gc_stale b valid) ifs)
             \<or> (\<exists>ifs'. deleted tr = map if_ID (filter (gc_stale b valid) ifs) @ [b] \<and>
                  listed tr ifs' \<and> bridge_empty b ifs')))"

text \<open>
  Calls that touch neither the lock nor IPAM, and neither create nor delete a port.
\<close>

fun quiet :: "'r call \<Rightarrow> bool" where
  "quiet (CIfaceAdd rq r) = (isl r \<or> ia_Type rq \<noteq> Client.InterfaceTypeTAP)"
| "quiet (CIfaceDel _ _) = False"
| "quiet c = (\<not> is_lock c \<and> \<not> is_ipam c)"

section \<open>From the logging contract to recorded runs\<close>

lemma emits_wp: "emits snd m P \<Longrightarrow> wp m (\<lambda>r s. P r (snd s)) (w, [])"
  unfolding emits_def wp_def
  by (metis (mono_tags, lifting) append_Nil case_prod_beta snd_conv)

lemmas add_run = add.HandleAdd_emits [THEN emits_wp]
lemmas del_run = del.HandleDel_emits [THEN emits_wp]
lemmas check_run = del.HandleCheck_emits [THEN emits_wp]
lemmas gc_run = gc.HandleGC_emits [THEN emits_wp]

lemma lock_only_filters:
  assumes "lock_only sock tr"
  shows "filter is_ipam tr = []" "no_del tr" "rolled_back tr" "filter is_net tr = []"
proof -
  have tr: "is_lock c \<or> (\<exists>p e. c = CMkdirAll p e)" if "c \<in> set tr" for c
    using assms that by (auto simp: lock_only_def)
  show "filter is_ipam tr = []" "filter is_net tr = []"
    using tr by (fastforce simp: filter_empty_conv elim: is_ipam.elims is_net.elims)+
  show "no_del tr" "rolled_back tr"
    using tr by (force simp: no_del_def rolled_back_def)+
qed

lemma quiet_not: "quiet c \<Longrightarrow> \<not> is_lock c \<and> \<not> is_ipam c"
  by (cases c) auto

lemma quiet_filter [simp]:
  "only quiet a tr \<Longrightarrow> filter is_lock tr = []"
  "only quiet a tr \<Longrightarrow> filter is_ipam tr = []"
  using quiet_not by (auto simp: only_def filter_empty_conv)

lemma quiet_no_del: "only quiet a tr \<Longrightarrow> no_del tr"
  by (force simp: only_def no_del_def)

lemma quiet_rolled_back: "only quiet a tr \<Longrightarrow> rolled_back tr"
  by (force simp: only_def rolled_back_def)

lemma trace_flags_append [simp]:
  "no_del (xs @ ys) \<longleftrightarrow> no_del xs \<and> no_del ys"
  "rolled_back xs \<Longrightarrow> rolled_back ys \<Longrightarrow> rolled_back (xs @ ys)"
  by (auto simp: no_del_def rolled_back_def; blast)+

lemma net_quiet: "is_net c \<Longrightarrow> quiet c"
  by (cases c) auto

lemma attach_parts_quiet:
  "bridge_trace n b tr \<Longrightarrow> only quiet () tr"
  "bridge_failed n tr \<Longrightarrow> only quiet () tr"
  "gateways_failed b gws tr \<Longrightarrow> only quiet () tr"
  "only quiet () (map (gateway_call b e) gws)"
  "only quiet () (port_dir conf name e)"
  "only is_net () tr \<Longrightarrow> only quiet () tr"
  by (auto simp: bridge_trace_def bridge_failed_def gateways_failed_def gateway_call_def
      port_dir_def bridge_request_def InterfaceTypeBridge_def Client.InterfaceTypeTAP_def
      only_def net_quiet)

text \<open>The pod's link takes namespace and link calls only, and the removal of the port on failure.\<close>

lemma link_trace_net:
  assumes "link_trace hooks conf args name i res r tr"
  obtains nets where "net_step nets"
    and "(\<exists>x. r = Ret x) \<and> tr = nets \<or> (\<exists>e d. r = Err e \<and> tr = nets @ [CIfaceDel i d, CIPAMDel])"
  using assms unfolding link_trace_def
proof (elim disjE exE conjE, goal_cases)
  case (1 e mt d)
  then show ?thesis using moved_net [OF 1(2)] by (intro 1(1) [of mt]) auto
next
  case (2 x mt ct)
  then show ?thesis
    using net_step_append [OF moved_net [OF 2(2)] pod_configured_net [OF 2(3)]]
    by (intro 2(1) [of "mt @ ct"]) (auto split: sum.splits)
qed

text \<open>What an ADD does once IPAM has allocated an address.\<close>

definition attached :: "Result outcome \<Rightarrow> 'r call list \<Rightarrow> bool" where
  "attached r tr \<longleftrightarrow>
     filter is_lock tr = [] \<and>
     (case r of
        Err _ \<Rightarrow> filter is_ipam tr = [CIPAMDel] \<and> rolled_back tr
      | _ \<Rightarrow> filter is_ipam tr = [] \<and> no_del tr)"

lemma attached_prefix: "only quiet () pre \<Longrightarrow> attached r tr \<Longrightarrow> attached r (pre @ tr)"
  by (cases r) (auto simp: attached_def quiet_no_del quiet_rolled_back)

lemma attached_release: "attached (Err e) [CIPAMDel]"
  by (simp add: attached_def rolled_back_def)

lemma created_trace_attached:
  assumes "created_trace hooks conf args name res i r tr"
  shows "attached r (CIfaceAdd rq (Inr i) # tr)"
proof -
  have ok: "attached x [CIfaceAdd rq (Inr i)]" if "\<forall>e. x \<noteq> Err e" for x
    using that by (cases x) (auto simp: attached_def no_del_def)
  have res: "vhostResult a s p \<noteq> Err e" "podResult a s \<noteq> Err e" for a s p e
    by (auto simp: vhostResult_def podResult_def result_for_def point_ips_not_Err
        split: outcome.splits)
  have link: "attached r (CIfaceAdd rq (Inr i) # tr)"
    if link: "link_trace hooks conf args name i podRes r tr" for podRes
  proof -
    obtain nets where "net_step nets"
      "(\<exists>x. r = Ret x) \<and> tr = nets \<or> (\<exists>e d. r = Err e \<and> tr = nets @ [CIfaceDel i d, CIPAMDel])"
      using link by (rule link_trace_net)
    moreover from calculation(1) have nets: "only is_net () nets" by (simp add: net_step_def)
    moreover have "no_del nets" using nets by (auto intro: quiet_no_del attach_parts_quiet(6))
    moreover have "CIfaceAdd rq' x \<notin> set nets" for rq' x using nets by (auto simp: only_def)
    ultimately show ?thesis by (auto simp: attached_def no_del_def rolled_back_def)
  qed
  show ?thesis
    using assms ok res link by (auto simp: created_trace_def split: if_splits outcome.splits)
qed

lemma port_trace_attached: "port_trace hooks conf args name b res r tr \<Longrightarrow> attached r tr"
  unfolding port_trace_def
  by (auto intro!: attached_prefix attach_parts_quiet attached_release created_trace_attached
      attached_prefix [of "[CIfaceAdd rq (Inl e)]" _ "[CIPAMDel]" for rq e, simplified])

lemma attach_trace_attached: "attach_trace hooks conf args name res r tr \<Longrightarrow> attached r tr"
  unfolding attach_trace_def
  by (auto intro: attach_parts_quiet attached_release port_trace_attached intro!: attached_prefix)
    (auto simp: attached_def attach_parts_quiet quiet_no_del dest: attach_parts_quiet(1))

lemma add_trace_lock: "add_trace hooks lib conf args name r tr \<Longrightarrow> filter is_lock tr = []"
  by (auto simp: add_trace_def attached_def dest!: attach_trace_attached)

text \<open>The calls of a successful ADD while it holds the lock.\<close>

definition add_done ::
  "bool \<times> bool \<Rightarrow> 'r Lib \<Rightarrow> 'r PluginConf \<Rightarrow> CmdArgs \<Rightarrow> string \<Rightarrow> Result outcome \<Rightarrow> 'r call list \<Rightarrow> bool" where
  "add_done hooks lib conf args name r tr \<longleftrightarrow>
     (\<exists>ipam res b bt gws i lt.
        convertResult lib ipam = Inr res \<and> bridge_trace (conf_Bridge conf) b bt \<and>
        gatewaysFor res = Ret gws \<and> created_trace hooks conf args name res i r lt \<and>
        tr = CIPAMAdd (Inr ipam) # bt @ map (gateway_call b None) gws @ port_dir conf name None
             @ CIfaceAdd (port_request conf name b (port_sock conf name)) (Inr i) # lt)"

lemma add_trace_done:
  "add_trace hooks lib conf args name (Ret x) tr \<Longrightarrow> add_done hooks lib conf args name (Ret x) tr"
  unfolding add_trace_def attach_trace_def port_trace_def add_done_def by blast

lemma bracketed_mono:
  "bracketed sock P tr \<Longrightarrow> (\<And>tr'. P tr' \<Longrightarrow> Q tr') \<Longrightarrow> bracketed sock Q tr"
  by (auto simp: bracketed_def)

lemma gc_bridge_trace_lock: "gc_bridge_trace b tr \<Longrightarrow> filter is_lock tr = []"
  by (auto simp: gc_bridge_trace_def)

lemma del_trace_lock: "del_trace s n r tr \<Longrightarrow> filter is_lock tr = []"
  by (auto simp: del_trace_def gc_bridge_trace_lock split: if_splits)

lemma reap_trace_lock: "reap_trace s ifs b b' tr \<Longrightarrow> filter is_lock tr = []"
  by (induction rule: reap_trace.induct) auto

lemma gc_trace_lock: "gc_trace s n v r tr \<Longrightarrow> filter is_lock tr = []"
  by (auto simp: gc_trace_def gc_bridge_trace_lock reap_trace_lock split: if_splits)

lemma check_trace_lock: "check_trace lib conf args b n r tr \<Longrightarrow> filter is_lock tr = []"
  by (auto simp: check_trace_def split: if_splits sum.splits dest!: pod_verified_net simp: net_step_def)

lemma lock_only_run: "lock_only sock tr \<Longrightarrow> lock_run sock Unlocked tr = Some Unlocked"
  by (simp add: lock_only_def)

lemma deleted_append [simp]: "deleted (xs @ ys) = deleted xs @ deleted ys"
  by (induction xs rule: deleted.induct) auto

lemma listed_simps [simp]:
  "listed (c # tr) ifs \<longleftrightarrow> c = CIfaceList (Inr ifs) \<or> listed tr ifs"
  "listed (tr @ tr') ifs \<longleftrightarrow> listed tr ifs \<or> listed tr' ifs"
  "\<not> listed [] ifs"
  by (auto simp: listed_def)

text \<open>The lock's own calls neither list, nor delete, nor allocate.\<close>

lemma bracketedE:
  assumes "bracketed sock P tr"
  obtains tr' where "P tr'" "deleted tr = deleted tr'" "listed tr = listed tr'"
    "filter is_ipam tr = filter is_ipam tr'"
  using assms by (fastforce simp: bracketed_def)

section \<open>Locking\<close>

text \<open>
  C1: ADD takes the lock of its control socket before its first grout, IPAM, file or namespace
  call, the creation of the vhost directory included, releases it after the last one, and closes
  the lock file, whether it returns a result, returns an error or panics. Before that it only
  creates the directory of the lock file and opens the file; if it cannot take the lock it makes
  no other call.
\<close>

theorem add_holds_lock:
  "wp (HandleAdd (record_env env) (record_add cfg))
     (\<lambda>r s. lock_run (conf_GroutSocketPath (ac_Config cfg)) Unlocked (snd s) = Some Unlocked) (w, [])"
  by (rule wp_mono [OF add_run])
    (auto simp: lock_only_run intro: bracketed_lock_run dest: add_trace_lock)

text \<open>
  C2: DEL, CHECK and GC follow the same locking discipline as ADD.
\<close>

theorem del_check_gc_hold_lock:
  "wp (HandleDel (record_env env) (record_del dcfg))
     (\<lambda>r s. lock_run (conf_GroutSocketPath (dc_Config dcfg)) Unlocked (snd s) = Some Unlocked) (w, [])
   \<and> wp (HandleCheck (record_env env) (record_del dcfg))
     (\<lambda>r s. lock_run (conf_GroutSocketPath (dc_Config dcfg)) Unlocked (snd s) = Some Unlocked) (w, [])
   \<and> wp (HandleGC (record_env env) (record_gc gcfg))
     (\<lambda>r s. lock_run (conf_GroutSocketPath (gcc_Config gcfg)) Unlocked (snd s) = Some Unlocked) (w, [])"
  by (intro conjI wp_mono [OF del_run] wp_mono [OF check_run] wp_mono [OF gc_run])
    (auto simp: lock_only_run intro: bracketed_lock_run
      dest: del_trace_lock check_trace_lock gc_trace_lock)

section \<open>ADD\<close>

text \<open>
  C3: ADD pairs IPAM allocation and release. A successful ADD makes exactly one IPAM call, the
  allocation. A failing one either made none, or one that failed, or released the allocation
  exactly once, with one exception: when the IPAM result cannot be converted the allocation is
  not released, and only then. A panic leaves the allocation in place.
\<close>

theorem add_ipam_paired:
  "wp (HandleAdd (record_env env) (record_add cfg)) (\<lambda>r s.
     case r of
       Ret _ \<Rightarrow> (\<exists>x. filter is_ipam (snd s) = [CIPAMAdd (Inr x)])
     | Panic \<Rightarrow> (\<exists>x. filter is_ipam (snd s) = [CIPAMAdd (Inr x)])
     | Err e \<Rightarrow>
         filter is_ipam (snd s) = []
         \<or> (\<exists>e'. filter is_ipam (snd s) = [CIPAMAdd (Inl e')])
         \<or> (\<exists>x res. convertResult (env_lib env) x = Inr res \<and>
              filter is_ipam (snd s) = [CIPAMAdd (Inr x), CIPAMDel])
         \<or> (\<exists>x e'. convertResult (env_lib env) x = Inl e' \<and>
              e = Wrapf ''converting IPAM result: %w'' [] e' \<and>
              filter is_ipam (snd s) = [CIPAMAdd (Inr x)])) (w, [])"
proof (rule wp_mono [OF add_run], elim disjE bracketedE conjE exE, goal_cases)
  case (1 r s e)
  then show ?case by (simp add: lock_only_filters)
next
  case (2 r s tr)
  from 2(1) show ?case
    unfolding add_trace_def 2(4)
  proof (elim disjE exE conjE, goal_cases)
    case (3 ipam res tr')
    then show ?case
      by (auto simp: attached_def dest!: attach_trace_attached split: outcome.splits)
  qed auto
qed

text \<open>
  C4: When ADD returns an error, it has asked grout to delete every port it created in that
  call; when it succeeds it has deleted no interface.
\<close>

theorem add_rolls_back:
  "wp (HandleAdd (record_env env) (record_add cfg)) (\<lambda>r s.
     case r of Err _ \<Rightarrow> rolled_back (snd s) | _ \<Rightarrow> no_del (snd s)) (w, [])"
proof (rule wp_mono [OF add_run], elim disjE)
  fix r :: "Result outcome" and s :: "'a \<times> 'b call list"
  assume "(\<exists>e. r = Err e) \<and> lock_only (conf_GroutSocketPath (ac_Config (record_add cfg))) (snd s)"
  then show "case r of Err _ \<Rightarrow> rolled_back (snd s) | _ \<Rightarrow> no_del (snd s)"
    by (auto simp: lock_only_filters)
next
  fix r :: "Result outcome" and s :: "'a \<times> 'b call list"
  assume "bracketed (conf_GroutSocketPath (ac_Config (record_add cfg)))
    (add_trace (given (ac_MoveLink (record_add cfg)), given (ac_ConfigurePodIface (record_add cfg))) (env_lib (record_env env)) (ac_Config (record_add cfg))
    (ac_Args (record_add cfg)) (groutPortName (env_unicode (record_env env))
      (args_ContainerID (ac_Args (record_add cfg))) (args_IfName (ac_Args (record_add cfg)))) r)
    (snd s)"
  then show "case r of Err _ \<Rightarrow> rolled_back (snd s) | _ \<Rightarrow> no_del (snd s)"
    by (auto simp: bracketed_def add_trace_def attached_def rolled_back_def no_del_def
        dest!: attach_trace_attached split: outcome.splits)
qed

text \<open>
  C5: A successful ADD has made exactly these calls while it held the lock: the IPAM
  allocation; the listing that shows the network's bridge, or its creation; one \<open>AddressAdd\<close>,
  tolerating an existing address, on that bridge for each gateway of the converted answer of
  IPAM, in order; the creation of the vhost directory for virtio; the creation of the attachment's
  port as a member of that bridge, with the configured MTU. For virtio, and for TAP without a
  namespace, nothing follows, and the result is built from the answer of IPAM. For TAP with a
  namespace the link is then moved into it and configured there, by all the link operations that
  the configuration calls for, each of which succeeded, and the result is the one built from the
  answer of IPAM with the MAC address read back at the end.
\<close>

theorem add_success:
  "wp (HandleAdd (record_env env) (record_add cfg)) (\<lambda>r s.
     case r of
       Ret _ \<Rightarrow>
         bracketed (conf_GroutSocketPath (ac_Config cfg))
           (add_done (given (ac_MoveLink cfg), given (ac_ConfigurePodIface cfg)) (env_lib env)
             (ac_Config cfg) (ac_Args cfg)
             (groutPortName (env_unicode env) (args_ContainerID (ac_Args cfg))
                (args_IfName (ac_Args cfg))) r) (snd s)
     | _ \<Rightarrow> True) (w, [])"
  by (rule wp_mono [OF add_run])
    (auto elim: bracketed_mono intro: add_trace_done split: outcome.splits)

section \<open>DEL\<close>

lemma gc_scan_iff:
  "gc_scan b ifs found \<longleftrightarrow>
     (found \<or> b \<in> if_ID ` set ifs) \<and>
     (\<forall>i \<in> set ifs. if_ID i = b \<longrightarrow> if_Type i = InterfaceTypeBridge) \<and>
     b \<notin> if_Domain ` set ifs"
  by (induction ifs arbitrary: found) auto

lemma gc_scan_empty: "gc_scan b ifs False \<longleftrightarrow> bridge_empty b ifs"
  by (simp add: gc_scan_iff bridge_empty_def)

lemma deleted_lock_only: "lock_only sock tr \<Longrightarrow> deleted tr = []"
proof -
  have "deleted tr = []" if "no_del tr"
    using that by (induction tr rule: deleted.induct) (auto simp: no_del_def)
  then show "lock_only sock tr \<Longrightarrow> deleted tr = []"
    by (simp add: lock_only_filters)
qed

lemma gc_bridge_trace_deleted:
  "gc_bridge_trace b tr \<Longrightarrow>
   filter is_ipam tr = [] \<and>
   (deleted tr = [] \<or> (\<exists>ifs. deleted tr = [b] \<and> listed tr ifs \<and> bridge_empty b ifs))"
  by (auto simp: gc_bridge_trace_def gc_scan_empty)

lemma del_trace_own:
  assumes "del_trace sock name r tr"
  shows "deletes_own name tr \<and> filter is_ipam tr = (if r = Ret () then [CIPAMDel] else [])"
  using assms unfolding del_trace_def
proof (elim disjE exE conjE, goal_cases)
  case (3 ifs port e e' gc)
  show ?case
  proof (cases "if_Domain port = 0")
    case False
    then have "gc_bridge_trace (if_Domain port) gc" using 3 by simp
    from gc_bridge_trace_deleted [OF this] show ?thesis
      using 3 unfolding deletes_own_def by fastforce
  qed (use 3 in \<open>auto simp: deletes_own_def\<close>)
qed (auto simp: deletes_own_def)

text \<open>
  C6: DEL makes exactly these calls while it holds the lock. If the interface list cannot be
  read, nothing else, and it returns an error. If no listed interface has the attachment's port
  name, it only releases the address and succeeds. Otherwise it deletes that port, removes its
  vhost socket, collects the bridge if it is empty (when the port was on one), releases the
  address and succeeds, whatever the answers of the single steps.
\<close>

theorem del_exact:
  "wp (HandleDel (record_env env) (record_del cfg)) (\<lambda>r s.
     (\<exists>e. r = Err e) \<and> lock_only (conf_GroutSocketPath (dc_Config cfg)) (snd s)
     \<or> bracketed (conf_GroutSocketPath (dc_Config cfg)) (del_trace (conf_GroutSocketPath (dc_Config cfg))
          (groutPortName (env_unicode env) (args_ContainerID (dc_Args cfg))
             (args_IfName (dc_Args cfg))) r) (snd s)) (w, [])"
  using del_run [of env cfg w] by simp

text \<open>
  C7: DEL deletes nothing but the attachment's own port and, after it, the bridge that port was
  on, and the bridge only when a listing shows it as a bridge without members. A DEL that
  succeeds has released the address exactly once; one that fails has not touched IPAM.
\<close>

theorem del_deletes_own:
  "wp (HandleDel (record_env env) (record_del cfg)) (\<lambda>r s.
     deletes_own (groutPortName (env_unicode env) (args_ContainerID (dc_Args cfg))
        (args_IfName (dc_Args cfg))) (snd s) \<and>
     filter is_ipam (snd s) = (if r = Ret () then [CIPAMDel] else [])) (w, [])"
proof (rule wp_mono [OF del_run], elim disjE)
  fix r :: "unit outcome" and s :: "'a \<times> 'b call list"
  let ?goal = "deletes_own (groutPortName (env_unicode env) (args_ContainerID (dc_Args cfg))
    (args_IfName (dc_Args cfg))) (snd s) \<and>
    filter is_ipam (snd s) = (if r = Ret () then [CIPAMDel] else [])"
  {
    assume "(\<exists>e. r = Err e) \<and> lock_only (conf_GroutSocketPath (dc_Config (record_del cfg))) (snd s)"
    then show ?goal by (auto simp: deletes_own_def deleted_lock_only lock_only_filters)
  next
    assume "bracketed (conf_GroutSocketPath (dc_Config (record_del cfg)))
      (del_trace (conf_GroutSocketPath (dc_Config (record_del cfg)))
      (groutPortName (env_unicode (record_env env)) (args_ContainerID (dc_Args (record_del cfg)))
        (args_IfName (dc_Args (record_del cfg)))) r) (snd s)"
    then show ?goal
      by (elim bracketedE) (drule del_trace_own, simp add: deletes_own_def)
  }
qed

section \<open>GC\<close>

lemma reap_trace_deleted:
  "reap_trace sock ifs b b' tr \<Longrightarrow> deleted tr = map if_ID ifs \<and> filter is_ipam tr = []"
  by (induction rule: reap_trace.induct) auto

lemma deletes_stale_cong:
  "deleted tr = deleted tr' \<Longrightarrow> listed tr = listed tr' \<Longrightarrow>
   deletes_stale bridge valid tr = deletes_stale bridge valid tr'"
  by (simp only: deletes_stale_def)

lemma gc_trace_stale:
  assumes "gc_trace sock bridge valid r tr"
  shows "(case r of Ret _ \<Rightarrow> deletes_stale bridge valid tr | _ \<Rightarrow> deleted tr = []) \<and>
    filter is_ipam tr = (if r = Ret () then [CIPAMGC] else [])"
  using assms unfolding gc_trace_def
proof (elim disjE exE conjE, goal_cases)
  case (3 ifs b reaped reap gc)
  note reap = reap_trace_deleted [OF 3(3)]
  show ?case
  proof (cases reaped)
    case True
    then have "gc_bridge_trace b gc" using 3 by simp
    from gc_bridge_trace_deleted [OF this] show ?thesis
      using 3 reap unfolding deletes_stale_def by fastforce
  next
    case False
    with 3 reap show ?thesis
      unfolding deletes_stale_def by fastforce
  qed
qed (auto simp: deletes_stale_def)

text \<open>
  C8: A GC that succeeds has requested the deletion of exactly the stale ports that its listing
  shows on the network's bridge (with the plugin's name prefix, and not the name of a valid
  attachment), each once and in listing order, then possibly of the bridge itself, when a later
  listing shows it empty, and of nothing else; and it has delegated to IPAM exactly once. A GC
  that fails has deleted nothing and has not called IPAM.
\<close>

theorem gc_deletes_stale:
  "wp (HandleGC (record_env env) (record_gc cfg)) (\<lambda>r s.
     (case r of
        Ret _ \<Rightarrow> deletes_stale (conf_Bridge (gcc_Config cfg))
                   (valid_names (env_unicode env) (conf_ValidAttachments (gcc_Config cfg))) (snd s)
      | _ \<Rightarrow> deleted (snd s) = []) \<and>
     filter is_ipam (snd s) = (if r = Ret () then [CIPAMGC] else [])) (w, [])"
proof (rule wp_mono [OF gc_run], elim disjE, goal_cases)
  case (1 r s)
  then show ?case by (auto simp: deleted_lock_only lock_only_filters)
next
  case (2 r s)
  then show ?case
    by (elim bracketedE, cases r)
      (drule gc_trace_stale, simp add: deletes_stale_cong [of "snd s"])+
qed

section \<open>CHECK\<close>

lemma verified_reads: "verified path pod ips ns r tr \<Longrightarrow> filter mutates tr = []"
  by (auto simp: verified_def)

lemma pod_verified_reads: "pod_verified b path pod ips r tr \<Longrightarrow> filter mutates tr = []"
  by (auto simp: pod_verified_def in_namespace_def verified_reads split: if_splits)

lemma check_trace_reads: "check_trace lib conf args b name r tr \<Longrightarrow> filter mutates tr = []"
  by (auto simp: check_trace_def pod_verified_reads split: if_splits sum.splits)

text \<open>
  C9: CHECK changes nothing while it holds the lock, and before that nothing but the lock file and
  its directory: it creates, deletes and reconfigures no interface of grout and no link, creates
  and removes no file and never calls IPAM. It lists the interfaces once; a missing port is
  reported as drift; for a virtio attachment the verdict is whether the port's vhost socket
  exists and the pod's namespace is not entered; for a TAP without a namespace the listed port
  is enough; for a TAP with one, the expected addresses are those of the previous result, the
  interface is looked up in the pod's namespace and the verdict is whether it is found, is up
  and carries them, an unreadable previous result being an error. An injected verification
  function takes the place of the last step.
\<close>

theorem check_reads:
  "wp (HandleCheck (record_env env) (record_del cfg)) (\<lambda>r s.
     (\<exists>e. r = Err e) \<and> lock_only (conf_GroutSocketPath (dc_Config cfg)) (snd s)
     \<or> bracketed (conf_GroutSocketPath (dc_Config cfg)) (\<lambda>tr. filter mutates tr = [] \<and>
          check_trace (env_lib env) (dc_Config cfg) (dc_Args cfg) (given (dc_VerifyPodIface cfg))
            (groutPortName (env_unicode env) (args_ContainerID (dc_Args cfg))
               (args_IfName (dc_Args cfg))) r tr) (snd s)) (w, [])"
proof (rule wp_mono [OF check_run], elim disjE, goal_cases)
  case (2 r s)
  show ?case
    by (rule disjI2, rule bracketed_mono [OF 2 [simplified]]) (simp add: check_trace_reads)
qed simp

section \<open>Namespaces\<close>

lemma bracketed_ns:
  assumes "bracketed sock P tr" "\<And>tr'. P tr' \<Longrightarrow> ns_run Outside tr' = Some Outside"
  shows "ns_run Outside tr = Some Outside"
  using assms by (auto simp: bracketed_def ns_run_append)

lemma lock_only_ns: "lock_only sock tr \<Longrightarrow> ns_run Outside tr = Some Outside"
  by (rule ns_run_outside) (rule lock_only_filters)

lemma check_trace_ns: "check_trace lib conf args b name r tr \<Longrightarrow> ns_run Outside tr = Some Outside"
  by (auto simp: check_trace_def split: if_splits sum.splits dest!: pod_verified_net simp: net_step_def)

lemma attach_parts_ns:
  "bridge_trace n b tr \<Longrightarrow> filter is_net tr = []"
  "bridge_failed n tr \<Longrightarrow> filter is_net tr = []"
  "gateways_failed b gws tr \<Longrightarrow> filter is_net tr = []"
  "filter is_net (map (gateway_call b e) gws) = []"
  "filter is_net (port_dir conf name e) = []"
  by (auto simp: bridge_trace_def bridge_failed_def gateways_failed_def gateway_call_def
      port_dir_def filter_empty_conv)

lemma ns_run_skip: "filter is_net xs = [] \<Longrightarrow> ns_run Outside (xs @ ys) = ns_run Outside ys"
  by (simp add: ns_run_append ns_run_outside)

lemma created_trace_ns: "created_trace hooks conf args name res i r tr \<Longrightarrow> ns_run Outside tr = Some Outside"
  by (auto simp: created_trace_def net_step_def ns_run_append split: if_splits outcome.splits
      elim!: link_trace_net)

lemma port_trace_ns: "port_trace hooks conf args name b res r tr \<Longrightarrow> ns_run Outside tr = Some Outside"
  by (auto simp: port_trace_def ns_run_skip attach_parts_ns created_trace_ns)

lemma attach_trace_ns: "attach_trace hooks conf args name res r tr \<Longrightarrow> ns_run Outside tr = Some Outside"
  by (auto simp: attach_trace_def ns_run_skip attach_parts_ns port_trace_ns ns_run_outside)

lemma add_trace_ns: "add_trace hooks lib conf args name r tr \<Longrightarrow> ns_run Outside tr = Some Outside"
  by (auto simp: add_trace_def attach_trace_ns)


end
