(* ===== verification/Table.thy ===== *)
theory Table
  imports HandlerProps
begin

text \<open>
  The handlers against the state of grout. grout's interfaces are a table: a set of the
  entries that \<open>InterfaceList\<close> shows. \<open>table_step\<close> says how a call with its answer changes the
  table, and which answers contradict it: a listing shows the whole table, a new interface has a
  fresh id other than 0 and a fresh name (grout's interface names are globally unique, as
  \<open>src/pkg/cni/handler.go\<close> relies on), a deletion that succeeds removes its interface. The
  verbs are then specified by what they do to the table: \<open>attaches\<close>, \<open>detach\<close>, \<open>collect\<close>.
\<close>

section \<open>The table\<close>

type_synonym table = "InterfaceInfo set"

definition fresh :: "table \<Rightarrow> InterfaceInfo \<Rightarrow> bool" where
  "fresh t x \<longleftrightarrow> if_ID x \<noteq> 0 \<and> if_ID x \<notin> if_ID ` t \<and> if_Name x \<notin> if_Name ` t"

definition new_iface :: "InterfaceAddRequest \<Rightarrow> u16 \<Rightarrow> InterfaceInfo" where
  "new_iface rq i =
     \<lparr>if_ID = i, if_Type = ia_Type rq, if_Name = ia_Name rq, if_Domain = ia_DomainID rq\<rparr>"

fun table_step :: "table \<Rightarrow> 'r call \<Rightarrow> table option" where
  "table_step t (CIfaceList (Inr ifs)) = (if set ifs = t then Some t else None)"
| "table_step t (CIfaceAdd rq (Inr i)) =
     (if fresh t (new_iface rq i) then Some (insert (new_iface rq i) t) else None)"
| "table_step t (CIfaceDel i None) = Some {x \<in> t. if_ID x \<noteq> i}"
| "table_step t _ = Some t"

fun table_run :: "table \<Rightarrow> 'r call list \<Rightarrow> table option" where
  "table_run t [] = Some t"
| "table_run t (c # cs) = (case table_step t c of None \<Rightarrow> None | Some t' \<Rightarrow> table_run t' cs)"

text \<open>The plugin's own ports, by their name, and the bridges.\<close>

definition is_port :: "InterfaceInfo \<Rightarrow> bool" where
  "is_port x \<longleftrightarrow> strings_HasPrefix (if_Name x) portPrefix"

definition is_bridge :: "InterfaceInfo \<Rightarrow> bool" where
  "is_bridge x \<longleftrightarrow> if_Type x = InterfaceTypeBridge"

text \<open>
  A well-formed table: ids and names are unique, no id is 0, an interface's domain is 0 or a
  bridge of the table, and the plugin's ports are not bridges and are on one.
\<close>

definition table_ok :: "table \<Rightarrow> bool" where
  "table_ok t \<longleftrightarrow>
     inj_on if_ID t \<and> inj_on if_Name t \<and> 0 \<notin> if_ID ` t \<and>
     (\<forall>x \<in> t. if_Domain x \<noteq> 0 \<longrightarrow> (\<exists>b \<in> t. is_bridge b \<and> if_ID b = if_Domain x)) \<and>
     (\<forall>x \<in> t. is_port x \<longrightarrow> \<not> is_bridge x \<and> if_Domain x \<noteq> 0)"

text \<open>
  The configured bridge name can be used: it does not look like a port's, and no interface of
  another type has it.
\<close>

definition usable :: "string \<Rightarrow> table \<Rightarrow> bool" where
  "usable bridge t \<longleftrightarrow>
     \<not> strings_HasPrefix bridge portPrefix \<and> (\<forall>x \<in> t. if_Name x = bridge \<longrightarrow> is_bridge x)"

text \<open>No deletion and no listing was refused.\<close>

definition granted :: "'r call list \<Rightarrow> bool" where
  "granted tr \<longleftrightarrow>
     (\<forall>i e. CIfaceDel i (Some e) \<notin> set tr) \<and> (\<forall>e. CIfaceList (Inl e) \<notin> set tr)"

section \<open>What the verbs promise\<close>

text \<open>
  ADD: the port is new, on the named bridge, which was there or is new. What is known of the
  bridge is a parameter.
\<close>

definition bridges :: "string \<Rightarrow> table \<Rightarrow> InterfaceInfo \<Rightarrow> bool" where
  "bridges bridge t br \<longleftrightarrow>
     if_Name br = bridge \<and> is_bridge br \<and> (br \<in> t \<or> fresh t br \<and> if_Domain br = 0)"

definition attaches_on ::
  "(InterfaceInfo \<Rightarrow> bool) \<Rightarrow> string \<Rightarrow> table \<Rightarrow> table \<Rightarrow> bool" where
  "attaches_on B name t t' \<longleftrightarrow>
     (\<exists>br port. B br \<and> fresh (insert br t) port \<and>
        if_Name port = name \<and> if_Type port = Client.InterfaceTypeTAP \<and>
        if_Domain port = if_ID br \<and> t' = insert port (insert br t))"

abbreviation attaches :: "string \<Rightarrow> string \<Rightarrow> table \<Rightarrow> table \<Rightarrow> bool" where
  "attaches bridge name t \<equiv> attaches_on (bridges bridge t) name t"

text \<open>
  An ADD that fails leaves the table as it was, apart from a bridge it may have created; the port
  is still there only if its deletion was refused. A panic may leave either behind.
\<close>

definition prepared_on :: "(InterfaceInfo \<Rightarrow> bool) \<Rightarrow> table \<Rightarrow> table \<Rightarrow> bool" where
  "prepared_on B t t' \<longleftrightarrow> t' = t \<or> (\<exists>br. B br \<and> t' = insert br t)"

abbreviation prepared :: "string \<Rightarrow> table \<Rightarrow> table \<Rightarrow> bool" where
  "prepared bridge t \<equiv> prepared_on (bridges bridge t) t"

definition add_effect_on ::
  "(InterfaceInfo \<Rightarrow> bool) \<Rightarrow> string \<Rightarrow> Result outcome \<Rightarrow> bool \<Rightarrow> table \<Rightarrow> table \<Rightarrow> bool" where
  "add_effect_on B name r all_granted t t' \<longleftrightarrow>
     (case r of
        Ret _ \<Rightarrow> attaches_on B name t t'
      | Err _ \<Rightarrow> prepared_on B t t' \<or> \<not> all_granted \<and> attaches_on B name t t'
      | Panic \<Rightarrow> prepared_on B t t' \<or> attaches_on B name t t')"

abbreviation add_effect ::
  "string \<Rightarrow> string \<Rightarrow> Result outcome \<Rightarrow> bool \<Rightarrow> table \<Rightarrow> table \<Rightarrow> bool" where
  "add_effect bridge name r all_granted t \<equiv>
     add_effect_on (bridges bridge t) name r all_granted t"

text \<open>
  When the name is not known to be usable, less is known of the interface that ADD takes for the
  bridge: one that was there under the name is taken whatever its type, since the lookup after a
  refused creation does not ask for it.
\<close>

definition hosts :: "string \<Rightarrow> table \<Rightarrow> InterfaceInfo \<Rightarrow> bool" where
  "hosts bridge t br \<longleftrightarrow>
     if_Name br = bridge \<and> (br \<in> t \<or> fresh t br \<and> is_bridge br \<and> if_Domain br = 0)"

lemma hosts_usable: "usable bridge t \<Longrightarrow> hosts bridge t = bridges bridge t"
  by (auto simp: fun_eq_iff hosts_def bridges_def usable_def)

text \<open>The bridges of \<open>t\<close> without members that lost one of the ports \<open>P\<close>.\<close>

definition orphaned :: "(InterfaceInfo \<Rightarrow> bool) \<Rightarrow> table \<Rightarrow> table" where
  "orphaned P t =
     {b \<in> t. is_bridge b \<and> (\<exists>p \<in> t. P p \<and> if_Domain p = if_ID b) \<and>
        (\<forall>x \<in> t. if_Domain x = if_ID b \<longrightarrow> P x)}"

definition removed :: "(InterfaceInfo \<Rightarrow> bool) \<Rightarrow> table \<Rightarrow> table" where
  "removed P t = {x \<in> t. \<not> P x} - orphaned P t"

text \<open>DEL removes the port of that name, GC the ports of the bridge that are not valid.\<close>

definition detach :: "string \<Rightarrow> table \<Rightarrow> table" where
  "detach name = removed (\<lambda>x. if_Name x = name)"

definition stale :: "string \<Rightarrow> string set \<Rightarrow> table \<Rightarrow> InterfaceInfo \<Rightarrow> bool" where
  "stale bridge valid t x \<longleftrightarrow>
     is_port x \<and> if_Name x \<notin> valid \<and>
     (\<exists>b \<in> t. is_bridge b \<and> if_Name b = bridge \<and> if_Domain x = if_ID b)"

definition collect :: "string \<Rightarrow> string set \<Rightarrow> table \<Rightarrow> table" where
  "collect bridge valid t = removed (stale bridge valid t) t"

section \<open>Runs over a table\<close>

lemma table_run_append:
  "table_run t (xs @ ys) = (case table_run t xs of None \<Rightarrow> None | Some t' \<Rightarrow> table_run t' ys)"
  by (induction xs arbitrary: t) (auto split: option.split)

text \<open>Calls that do not concern the table.\<close>

fun tableless :: "'r call \<Rightarrow> bool" where
  "tableless (CIfaceList _) = False"
| "tableless (CIfaceAdd _ _) = False"
| "tableless (CIfaceDel _ _) = False"
| "tableless _ = True"

lemma table_run_tableless: "\<forall>c \<in> set tr. tableless c \<Longrightarrow> table_run t tr = Some t"
proof (induction tr)
  case (Cons c tr)
  moreover have "table_step t c = Some t" if "tableless c" using that by (cases c) auto
  ultimately show ?case by simp
qed simp

lemma net_tableless: "is_net c \<Longrightarrow> tableless c"
  by (cases c) auto

lemma lock_tableless: "is_lock c \<Longrightarrow> tableless c"
  by (cases c) auto

lemma lock_only_tableless: "lock_only sock tr \<Longrightarrow> table_run t tr = Some t"
  by (rule table_run_tableless) (auto simp: lock_only_def lock_tableless)

lemma bracketed_table:
  assumes "bracketed sock P tr"
  obtains tr' where "P tr'" "\<And>t. table_run t tr = table_run t tr'" "granted tr = granted tr'"
proof -
  from assms obtain fd tr' where "P tr'" and tr: "tr = [CMkdirAll (filepath_Dir (lockPathForSocket sock)) None,
      COpen (lockPathForSocket sock) (Inr fd), CFlockEX fd (FlockDone None)]
      @ tr' @ [CFlockUN fd, CClose fd]"
    by (auto simp: bracketed_def)
  moreover have "table_run t tr = table_run t tr'" for t
    by (simp add: tr table_run_append split: option.split)
  ultimately show thesis by (auto intro!: that [of tr'] simp: granted_def)
qed

lemma granted_simps [simp]:
  "granted []"
  "granted (c # tr) \<longleftrightarrow>
     (\<forall>i e. c \<noteq> CIfaceDel i (Some e)) \<and> (\<forall>e. c \<noteq> CIfaceList (Inl e)) \<and> granted tr"
  "granted (tr @ tr') \<longleftrightarrow> granted tr \<and> granted tr'"
  by (auto simp: granted_def)

section \<open>Finding interfaces\<close>

lemma findPortByName_table:
  assumes "table_ok (set ifs)" "findPortByName ifs name = Some p"
  shows "p \<in> set ifs" "if_Name p = name" "{x \<in> set ifs. if_ID x \<noteq> if_ID p} = {x \<in> set ifs. if_Name x \<noteq> name}"
  using findPortByName_Some [OF assms(2)] assms(1)
  by (auto simp: table_ok_def inj_on_def)

lemma findBridgeID_None:
  "findBridgeID ifs name = None \<longleftrightarrow> (\<forall>x \<in> set ifs. if_Name x = name \<longrightarrow> \<not> is_bridge x)"
  by (auto simp: findBridgeID_def find_None_iff is_bridge_def)

lemma findBridgeID_Some:
  "findBridgeID ifs name = Some b \<Longrightarrow> \<exists>x \<in> set ifs. if_Name x = name \<and> is_bridge x \<and> if_ID x = b"
  by (auto simp: findBridgeID_def find_Some_iff is_bridge_def intro!: bexI [OF _ nth_mem])

lemma findByName_Some: "findByName ifs name = Some b \<Longrightarrow> \<exists>x \<in> set ifs. if_Name x = name \<and> if_ID x = b"
  by (auto simp: findByName_def find_Some_iff intro!: bexI [OF _ nth_mem])

section \<open>The bridge that lost its last member\<close>

definition vacant :: "u16 \<Rightarrow> table \<Rightarrow> bool" where
  "vacant b t \<longleftrightarrow>
     (\<exists>x \<in> t. if_ID x = b) \<and> (\<forall>x \<in> t. if_ID x = b \<longrightarrow> is_bridge x) \<and> (\<forall>x \<in> t. if_Domain x \<noteq> b)"

definition sweep :: "u16 \<Rightarrow> table \<Rightarrow> table" where
  "sweep b t = (if vacant b t then {x \<in> t. if_ID x \<noteq> b} else t)"

lemma gc_scan_vacant: "gc_scan b ifs False \<longleftrightarrow> vacant b (set ifs)"
  unfolding gc_scan_empty bridge_empty_def vacant_def is_bridge_def by blast

lemma gc_bridge_table:
  assumes "gc_bridge_trace b tr" "table_run t tr = Some t'"
  shows "t' \<in> {t, sweep b t} \<and> (granted tr \<longrightarrow> t' = sweep b t)"
  using assms unfolding gc_bridge_trace_def gc_scan_vacant
proof (elim disjE exE conjE, goal_cases)
  case (3 ifs f e)
  then show ?case by (cases e) (auto simp: sweep_def split: if_splits)
qed (auto simp: sweep_def split: if_splits)

lemma removed_none: "\<forall>x \<in> t. \<not> P x \<Longrightarrow> removed P t = t"
  by (auto simp: removed_def orphaned_def)

lemma removed_mono: "\<forall>x \<in> t. P x \<longrightarrow> Q x \<Longrightarrow> removed Q t \<subseteq> removed P t"
  by (auto simp: removed_def orphaned_def)

lemma removed_cong: "\<forall>x \<in> t. P x \<longleftrightarrow> Q x \<Longrightarrow> removed P t = removed Q t"
  by (auto simp: removed_def orphaned_def)

lemma table_ok_unique:
  "table_ok t \<Longrightarrow> x \<in> t \<Longrightarrow> y \<in> t \<Longrightarrow> if_ID x = if_ID y \<Longrightarrow> x = y"
  "table_ok t \<Longrightarrow> x \<in> t \<Longrightarrow> y \<in> t \<Longrightarrow> if_Name x = if_Name y \<Longrightarrow> x = y"
  by (auto simp: table_ok_def inj_on_def)

lemma port_domain: "table_ok t \<Longrightarrow> x \<in> t \<Longrightarrow> is_port x \<Longrightarrow> if_Domain x \<noteq> 0"
  unfolding table_ok_def by blast

text \<open>Removing ports of one bridge is removing them and then sweeping the bridge.\<close>

lemma removed_sweep:
  assumes ok: "table_ok t" and P: "\<forall>x \<in> t. P x \<longrightarrow> is_port x \<and> if_Domain x = d" and p: "p \<in> t" "P p"
  shows "removed P t = sweep d {x \<in> t. \<not> P x}"
proof -
  obtain b where b: "b \<in> t" "is_bridge b" "if_ID b = d"
    using ok P p unfolding table_ok_def by metis
  have nb: "\<not> P b" using ok P b unfolding table_ok_def by blast
  have is_b: "x = b" if "x \<in> t" "if_ID x = d" for x
    using table_ok_unique(1) [OF ok that(1) b(1)] that b by simp
  have vac: "vacant d {x \<in> t. \<not> P x} \<longleftrightarrow> (\<forall>x \<in> t. if_Domain x = d \<longrightarrow> P x)"
  proof -
    have "\<forall>x \<in> {x \<in> t. \<not> P x}. if_ID x = d \<longrightarrow> is_bridge x" using is_b b(2) by fast
    moreover have "\<exists>x \<in> {x \<in> t. \<not> P x}. if_ID x = d" using b nb by auto
    ultimately show ?thesis unfolding vacant_def by fast
  qed
  have "x = b" if "x \<in> orphaned P t" for x
  proof (rule is_b)
    show "x \<in> t" "if_ID x = d" using that P unfolding orphaned_def by auto
  qed
  moreover have "b \<in> orphaned P t \<longleftrightarrow> (\<forall>y \<in> t. if_Domain y = d \<longrightarrow> P y)"
    using b P p unfolding orphaned_def by auto
  ultimately have "x \<in> orphaned P t \<longleftrightarrow> x = b \<and> (\<forall>y \<in> t. if_Domain y = d \<longrightarrow> P y)" for x
    by blast
  then have orph: "orphaned P t = (if \<forall>x \<in> t. if_Domain x = d \<longrightarrow> P x then {b} else {})"
    by (simp add: set_eq_iff)
  show ?thesis
  proof (cases "\<forall>x \<in> t. if_Domain x = d \<longrightarrow> P x")
    case True
    show ?thesis
      unfolding removed_def sweep_def vac orph if_P [OF True] using is_b b by blast
  next
    case False
    show ?thesis
      unfolding removed_def sweep_def vac orph if_not_P [OF False] by simp
  qed
qed

lemma sweep_subset: "sweep b t \<subseteq> t"
  by (auto simp: sweep_def)

section \<open>The invariant\<close>

lemma table_ok_subset:
  assumes "table_ok t" "t' \<subseteq> t"
    "\<And>b x. b \<in> t \<Longrightarrow> b \<notin> t' \<Longrightarrow> is_bridge b \<Longrightarrow> x \<in> t' \<Longrightarrow> if_Domain x \<noteq> if_ID b"
  shows "table_ok t'"
  using assms(1) assms(2) assms(3) unfolding table_ok_def
  by (auto intro: inj_on_subset) (metis subsetD)+

lemma table_ok_sweep: "table_ok t \<Longrightarrow> table_ok (sweep b t)"
  by (rule table_ok_subset [OF _ sweep_subset]) (auto simp: sweep_def vacant_def split: if_splits)

lemma table_ok_drop: "table_ok t \<Longrightarrow> \<forall>x \<in> t. P x \<longrightarrow> is_port x \<Longrightarrow> table_ok {x \<in> t. \<not> P x}"
  by (rule table_ok_subset) (auto simp: table_ok_def)

lemma inj_on_fresh:
  "inj_on if_ID t \<Longrightarrow> fresh t x \<Longrightarrow> inj_on if_ID (insert x t)"
  "inj_on if_Name t \<Longrightarrow> fresh t x \<Longrightarrow> inj_on if_Name (insert x t)"
  by (auto simp: fresh_def inj_on_insert)

lemma table_ok_bridge:
  "table_ok t \<Longrightarrow> fresh t x \<Longrightarrow> \<not> is_port x \<Longrightarrow> if_Domain x = 0 \<Longrightarrow> table_ok (insert x t)"
  unfolding table_ok_def by (auto simp: inj_on_fresh) (auto simp: fresh_def)

lemma table_ok_port:
  assumes "table_ok t" "fresh t x" "\<not> is_bridge x" "b \<in> t" "is_bridge b" "if_ID b = if_Domain x"
  shows "table_ok (insert x t)"
proof -
  have "if_Domain x \<noteq> 0" using assms unfolding table_ok_def by (metis image_eqI)
  with assms show ?thesis
    unfolding table_ok_def by (auto simp: inj_on_fresh) (auto simp: fresh_def)
qed

section \<open>DEL over a table\<close>

lemma del_trace_table:
  assumes tr: "del_trace sock name r tr" and ok: "table_ok t" and run: "table_run t tr = Some t'"
    and name: "strings_HasPrefix name portPrefix"
  shows "detach name t \<subseteq> t' \<and> t' \<subseteq> t \<and> table_ok t' \<and> (granted tr \<longrightarrow> t' = detach name t)"
  using tr unfolding del_trace_def
proof (elim disjE exE conjE, goal_cases)
  case (1 e e')
  then show ?case using run ok by (auto simp: detach_def removed_def)
next
  case (2 ifs)
  then have "t' = t" "\<forall>x \<in> t. if_Name x \<noteq> name"
    using run by (auto simp: findPortByName_None_iff split: if_splits)
  then show ?case using ok by (simp add: detach_def removed_none)
next
  case (3 ifs p e e' gc)
  then have t: "set ifs = t" using run by (auto split: if_splits)
  note p = findPortByName_table [of ifs, unfolded t, OF ok 3(2)]
  let ?d = "if_Domain p" and ?t1 = "{x \<in> t. if_Name x \<noteq> name}"
  have ports: "\<forall>x \<in> t. if_Name x = name \<longrightarrow> is_port x \<and> if_Domain x = ?d"
    using name p table_ok_unique(2) [OF ok] by (auto simp: is_port_def)
  have d: "?d \<noteq> 0" using port_domain [OF ok p(1)] ports p(1,2) by blast
  have det: "detach name t = sweep ?d ?t1"
    unfolding detach_def by (rule removed_sweep [OF ok ports p(1,2)])
  have "table_run (if e = None then {x \<in> t. if_ID x \<noteq> if_ID p} else t) gc = Some t'"
    using run unfolding 3(4) by (cases e) (simp_all add: table_run_append t split: option.splits)
  then have run_gc: "table_run (if e = None then ?t1 else t) gc = Some t'"
    unfolding p(3) .
  have gc: "gc_bridge_trace ?d gc" using 3(3) d by simp
  have t1: "table_ok ?t1" using table_ok_drop [OF ok, of "\<lambda>x. if_Name x = name"] ports by simp
  have full: "sweep ?d t = t" using p(1) by (auto simp: sweep_def vacant_def)
  show ?case
  proof (cases e)
    case None
    with run_gc have "table_run ?t1 gc = Some t'" by simp
    note swept = gc_bridge_table [OF gc this]
    have "granted tr \<longrightarrow> granted gc" using 3(4) by simp
    moreover have "?t1 \<subseteq> t" by auto
    ultimately show ?thesis
      using swept t1 table_ok_sweep [OF t1, of ?d] sweep_subset [of ?d ?t1] unfolding det by blast
  next
    case (Some x)
    with run_gc have "table_run t gc = Some t'" by simp
    then have "t' = t" using gc_bridge_table [OF gc, of t t'] full by simp
    moreover have "\<not> granted tr" using 3(4) Some by simp
    moreover have "?t1 \<subseteq> t" by auto
    ultimately show ?thesis using ok sweep_subset [of ?d ?t1] unfolding det by blast
  qed
qed

section \<open>GC over a table\<close>

text \<open>The reaping removes the interfaces whose deletion was not refused.\<close>

lemma reap_trace_table:
  assumes "reap_trace sock ifs b b' tr" "table_run t tr = Some t'"
  shows "\<exists>S \<subseteq> set ifs. t' = {x \<in> t. if_ID x \<notin> if_ID ` S} \<and> (b' \<longleftrightarrow> b \<or> S \<noteq> {}) \<and>
    (granted tr \<longrightarrow> S = set ifs)"
  using assms
proof (induction arbitrary: t rule: reap_trace.induct)
  case (reap_nil b)
  then show ?case by auto
next
  case (reap_failed ifs b b' tr i e)
  then have "table_run t tr = Some t'" by simp
  from reap_failed.IH [OF this] obtain S where
    "S \<subseteq> set ifs" "t' = {x \<in> t. if_ID x \<notin> if_ID ` S}" "b' \<longleftrightarrow> b \<or> S \<noteq> {}" by blast
  then show ?case by (intro exI [of _ S]) (simp add: subset_insertI2)
next
  case (reap_done ifs b' tr i b e)
  then have "table_run {x \<in> t. if_ID x \<noteq> if_ID i} tr = Some t'" by simp
  from reap_done.IH [OF this] obtain S where S: "S \<subseteq> set ifs"
    "t' = {x \<in> {x \<in> t. if_ID x \<noteq> if_ID i}. if_ID x \<notin> if_ID ` S}" "b'"
    "granted tr \<longrightarrow> S = set ifs" by blast
  have "t' = {x \<in> t. if_ID x \<notin> if_ID ` insert i S}" unfolding S(2) by auto
  moreover have "insert i S \<subseteq> set (i # ifs)" using S(1) by auto
  ultimately show ?case using S(3,4) by (intro exI [of _ "insert i S"]) simp
qed

lemma gc_stale_table:
  assumes ok: "table_ok (set ifs)" and b: "findBridgeID ifs bridge = Some b" and x: "x \<in> set ifs"
  shows "gc_stale b valid x \<longleftrightarrow> stale bridge valid (set ifs) x"
proof -
  obtain br where br: "br \<in> set ifs" "if_Name br = bridge" "is_bridge br" "if_ID br = b"
    using findBridgeID_Some [OF b] by blast
  have "y = br" if "y \<in> set ifs" "if_Name y = bridge" for y
    using table_ok_unique(2) [OF ok that(1) br(1)] that br by simp
  then have "(\<exists>y \<in> set ifs. is_bridge y \<and> if_Name y = bridge \<and> if_Domain x = if_ID y) \<longleftrightarrow>
      if_Domain x = b"
    using br by metis
  then show ?thesis by (auto simp: gc_stale_def stale_def is_port_def)
qed

lemma gc_trace_table:
  assumes tr: "gc_trace sock bridge valid r tr" and ok: "table_ok t"
    and run: "table_run t tr = Some t'"
  shows "collect bridge valid t \<subseteq> t' \<and> t' \<subseteq> t \<and> table_ok t' \<and>
    (granted tr \<longrightarrow> t' = collect bridge valid t)"
  using tr unfolding gc_trace_def
proof (elim disjE exE conjE, goal_cases)
  case (1 e e')
  then show ?case using run ok by (auto simp: collect_def removed_def)
next
  case (2 ifs)
  then have "t' = t" "\<forall>x \<in> t. \<not> stale bridge valid t x"
    using run by (auto simp: findBridgeID_None stale_def split: if_splits)
  then show ?case using ok by (simp add: collect_def removed_none)
next
  case (3 ifs b reaped reap gc)
  then have t: "set ifs = t" using run by (auto split: if_splits)
  note stale_iff = gc_stale_table [of ifs, unfolded t, OF ok 3(2)]
  obtain t1 where t1: "table_run t reap = Some t1" and t': "table_run t1 gc = Some t'"
    using run unfolding 3(5) by (auto simp: table_run_append t split: option.splits)
  have set_stale: "set (filter (gc_stale b valid) ifs) = {x \<in> t. stale bridge valid t x}"
    unfolding set_filter t using stale_iff by blast
  obtain S where S: "S \<subseteq> {x \<in> t. stale bridge valid t x}" "t1 = {x \<in> t. if_ID x \<notin> if_ID ` S}"
    "reaped \<longleftrightarrow> S \<noteq> {}" "granted reap \<longrightarrow> S = {x \<in> t. stale bridge valid t x}"
    using reap_trace_table [OF 3(3) t1] unfolding set_stale by blast
  have t1: "t1 = {x \<in> t. x \<notin> S}"
    unfolding S(2) using S(1) table_ok_unique(1) [OF ok] by (auto simp: image_iff)
  have ports: "\<forall>x \<in> t. x \<in> S \<longrightarrow> is_port x \<and> if_Domain x = b"
    using S(1) stale_iff by (auto simp: stale_def gc_stale_def)
  have ok1: "table_ok t1"
    unfolding t1 by (rule table_ok_drop [OF ok]) (use ports in blast)
  have sub: "removed (stale bridge valid t) t \<subseteq> removed (\<lambda>x. x \<in> S) t"
    by (rule removed_mono) (use S(1) in blast)
  have all: "removed (\<lambda>x. x \<in> S) t = removed (stale bridge valid t) t" if "granted reap"
    by (rule removed_cong) (use S(4) that in blast)
  have gr: "granted tr \<longrightarrow> granted reap \<and> granted gc" using 3(5) by simp
  show ?case
  proof (cases reaped)
    case True
    then obtain p where p: "p \<in> t" "p \<in> S" using S by blast
    have "removed (\<lambda>x. x \<in> S) t = sweep b t1"
      unfolding t1 by (rule removed_sweep [OF ok ports p])
    moreover have "gc_bridge_trace b gc" using 3(4) True by simp
    note gc_bridge_table [OF this t']
    moreover have "t1 \<subseteq> t" by (auto simp: t1)
    ultimately show ?thesis
      using ok1 table_ok_sweep [OF ok1, of b] sweep_subset [of b t1] sub all gr
      unfolding collect_def by blast
  next
    case False
    then have "S = {}" "t' = t" using S(3) 3(4) t' t1 by auto
    then show ?thesis
      using ok sub all gr removed_none [of t "\<lambda>x. x \<in> S"] unfolding collect_def by simp
  qed
qed

section \<open>ADD over a table\<close>

lemma bridge_trace_table:
  assumes tr: "bridge_trace bridge b tr" and run: "table_run t tr = Some t'"
  shows "\<exists>br. hosts bridge t br \<and> if_ID br = b \<and> t' = insert br t"
  using tr unfolding bridge_trace_def
proof (elim disjE exE conjE, goal_cases)
  case (1 ifs)
  then have "set ifs = t" "t' = t" using run by (auto split: if_splits)
  with findBridgeID_Some [OF 1(1)] show ?case
    unfolding hosts_def by (metis insert_absorb)
next
  case (2 ifs)
  then show ?case
    using run
    by (auto simp: hosts_def new_iface_def bridge_request_def is_bridge_def split: if_splits
        intro!: exI [of _ "new_iface (bridge_request bridge) b"])
next
  case (3 ifs e ifs2)
  then have "set ifs2 = t" "t' = t" using run by (auto split: if_splits)
  with findByName_Some [OF 3(2)] show ?case
    unfolding hosts_def by (metis insert_absorb)
qed

lemma bridge_failed_table: "bridge_failed bridge tr \<Longrightarrow> table_run t tr = Some t' \<Longrightarrow> t' = t"
  by (auto simp: bridge_failed_def split: if_splits)

lemma gateways_table:
  "table_run t (map (gateway_call b e) gws) = Some t"
  "gateways_failed b gws tr \<Longrightarrow> table_run t tr = Some t"
  "table_run t (port_dir conf name e) = Some t"
  by (auto simp: gateway_call_def gateways_failed_def port_dir_def table_run_append
      intro!: table_run_tableless)

lemma net_table: "only is_net () tr \<Longrightarrow> table_run t tr = Some t"
  by (rule table_run_tableless) (auto simp: only_def net_tableless)

lemma link_trace_table:
  assumes "link_trace hooks conf args name i res r tr" "table_run t tr = Some t'"
  shows "case r of Ret _ \<Rightarrow> t' = t
    | Err _ \<Rightarrow> t' = t \<and> \<not> granted tr \<or> t' = {x \<in> t. if_ID x \<noteq> i} | Panic \<Rightarrow> False"
proof -
  obtain nets where nets: "net_step nets" and
    r: "(\<exists>x. r = Ret x) \<and> tr = nets \<or> (\<exists>e d. r = Err e \<and> tr = nets @ [CIfaceDel i d, CIPAMDel])"
    using assms(1) by (rule link_trace_net)
  have "table_run t nets = Some t" using nets by (simp add: net_step_def net_table)
  with r assms(2) show ?thesis
    by (elim disjE exE conjE) (auto simp: table_run_append split: option.splits elim: table_step.elims)
qed

lemma created_trace_table:
  assumes "created_trace hooks conf args name res i r tr" "B br"
    and "fresh (insert br t) port" "if_Name port = name" "if_Type port = Client.InterfaceTypeTAP"
    and "if_Domain port = if_ID br" "if_ID port = i"
    and run: "table_run (insert port (insert br t)) tr = Some t'"
  shows "add_effect_on B name r (granted tr) t t'"
proof -
  have att: "attaches_on B name t (insert port (insert br t))"
    using assms unfolding attaches_on_def by blast
  have "{x \<in> insert port (insert br t). if_ID x \<noteq> i} = insert br t"
    using assms(3,7) unfolding fresh_def by (auto simp: image_iff)
  then have prep: "prepared_on B t {x \<in> insert port (insert br t). if_ID x \<noteq> i}"
    using assms(2) unfolding prepared_on_def by blast
  have res: "vhostResult a s p \<noteq> Err e" "podResult a s \<noteq> Err e" for a s p e
    by (auto simp: vhostResult_def podResult_def result_for_def point_ips_not_Err
        split: outcome.splits)
  consider "tr = []" "\<forall>e. r \<noteq> Err e" | pod where "link_trace hooks conf args name i pod r tr"
    using assms(1) res unfolding created_trace_def by (auto split: if_splits outcome.splits)
  then show ?thesis
  proof cases
    case 1
    with run att show ?thesis by (cases r) (auto simp: add_effect_on_def)
  next
    case 2
    from link_trace_table [OF this run] att prep show ?thesis
      by (cases r) (auto simp: add_effect_on_def)
  qed
qed

lemma add_effect_prepared: "B br \<Longrightarrow> add_effect_on B name (Err e) g t (insert br t)"
  "add_effect_on B name (Err e) g t t"
  by (auto simp: add_effect_on_def prepared_on_def)

lemma port_trace_table:
  assumes tr: "port_trace hooks conf args name b res r tr" and br: "B br" "if_ID br = b"
    and run: "table_run (insert br t) tr = Some t'"
  shows "add_effect_on B name r (granted tr) t t'"
  using tr unfolding port_trace_def
proof (elim disjE exE conjE, goal_cases)
  case (1 e err)
  then show ?case using run br by (auto simp: table_run_append gateways_table add_effect_prepared)
next
  case (2 e err)
  then show ?case using run br by (auto simp: table_run_append gateways_table add_effect_prepared)
next
  case (3 i tr')
  let ?port = "new_iface (port_request conf name b (port_sock conf name)) i"
  have "fresh (insert br t) ?port" "table_run (insert ?port (insert br t)) tr' = Some t'"
    using run unfolding 3(2) by (simp_all add: table_run_append gateways_table split: if_splits)
  from created_trace_table [where B = B, OF 3(1) br(1) this(1) _ _ _ _ this(2)]
  have "add_effect_on B name r (granted tr') t t'"
    using br(2) by (simp add: new_iface_def port_request_def)
  moreover have "granted (port_dir conf name None)" by (simp add: port_dir_def)
  ultimately show ?case unfolding 3(2) by simp
qed

lemma bridge_trace_granted: "bridge_trace n b tr \<Longrightarrow> granted tr"
  by (auto simp: bridge_trace_def)

lemma granted_gateways: "granted (map (gateway_call b e) gws)"
  by (auto simp: granted_def gateway_call_def)

lemma attach_trace_table:
  assumes tr: "attach_trace hooks conf args name res r tr" and run: "table_run t tr = Some t'"
  shows "add_effect_on (hosts (conf_Bridge conf) t) name r (granted tr) t t'"
  using tr unfolding attach_trace_def
proof (elim disjE exE conjE, goal_cases)
  case (1 err bt)
  then show ?case
    using run by (auto simp: table_run_append add_effect_prepared dest: bridge_failed_table
        split: option.splits)
next
  case (2 b bt)
  then show ?case
    using run bridge_trace_table [OF 2(1), of t] by (auto simp: add_effect_on_def prepared_on_def)
next
  case (3 b bt gws gt err)
  then show ?case
    using run bridge_trace_table [OF 3(1), of t]
    by (auto simp: table_run_append gateways_table add_effect_prepared split: option.splits)
next
  case (4 b bt gws pt)
  then obtain t1 where t1: "table_run t bt = Some t1" "table_run t1 pt = Some t'"
    using run by (auto simp: table_run_append gateways_table split: option.splits)
  from bridge_trace_table [OF 4(1) t1(1)] obtain br where
    "hosts (conf_Bridge conf) t br" "if_ID br = b" "t1 = insert br t" by blast
  with port_trace_table [where B = "hosts (conf_Bridge conf) t", OF 4(3) this(1,2)] t1 show ?case
    by (simp add: 4(4) bridge_trace_granted [OF 4(1)] granted_gateways)
qed

lemma add_trace_table:
  assumes "add_trace hooks lib conf args name r tr" "table_run t tr = Some t'"
  shows "add_effect_on (hosts (conf_Bridge conf) t) name r (granted tr) t t'"
  using assms by (auto simp: add_trace_def add_effect_prepared attach_trace_table)

lemma bridges_ok:
  "table_ok t \<Longrightarrow> usable bridge t \<Longrightarrow> bridges bridge t br \<Longrightarrow> table_ok (insert br t)"
  by (auto simp: bridges_def usable_def is_port_def insert_absorb intro: table_ok_bridge)

lemma prepared_ok: "table_ok t \<Longrightarrow> usable bridge t \<Longrightarrow> prepared bridge t t' \<Longrightarrow> table_ok t'"
  unfolding prepared_on_def using bridges_ok by blast

lemma attaches_ok:
  assumes "table_ok t" "usable bridge t" "attaches bridge name t t'"
  shows "table_ok t'"
proof -
  from assms(3) obtain br port where *: "bridges bridge t br" "fresh (insert br t) port"
    "if_Type port = Client.InterfaceTypeTAP" "if_Domain port = if_ID br" "t' = insert port (insert br t)"
    unfolding attaches_on_def by blast
  then have "\<not> is_bridge port" "is_bridge br"
    by (simp_all add: is_bridge_def bridges_def InterfaceTypeBridge_def Client.InterfaceTypeTAP_def)
  with * table_ok_port [OF bridges_ok [OF assms(1,2) *(1)] *(2), of br] show ?thesis by simp
qed

lemma add_effect_ok:
  "table_ok t \<Longrightarrow> usable bridge t \<Longrightarrow> add_effect bridge name r g t t' \<Longrightarrow> table_ok t'"
  by (cases r) (auto simp: add_effect_on_def intro: prepared_ok attaches_ok)

section \<open>With any names\<close>

text \<open>What needs no assumption on the names: ids and names are unique, and no id is 0.\<close>

definition unique :: "table \<Rightarrow> bool" where
  "unique t \<longleftrightarrow> inj_on if_ID t \<and> inj_on if_Name t \<and> 0 \<notin> if_ID ` t"

text \<open>The interfaces that are neither a bridge nor a port of the plugin.\<close>

definition foreign :: "table \<Rightarrow> table" where
  "foreign t = {x \<in> t. \<not> is_port x \<and> \<not> is_bridge x}"

lemma table_ok_unique_keys: "table_ok t \<Longrightarrow> unique t"
  by (simp add: table_ok_def unique_def)

lemma unique_fresh: "unique t \<Longrightarrow> fresh t x \<Longrightarrow> unique (insert x t)"
  by (auto simp: unique_def inj_on_fresh) (auto simp: fresh_def)

lemma hosts_keeps:
  "unique t \<Longrightarrow> hosts bridge t br \<Longrightarrow> unique (insert br t)"
  "hosts bridge t br \<Longrightarrow> foreign (insert br t) = foreign t"
  by (auto simp: hosts_def insert_absorb unique_fresh) (auto simp: foreign_def)

lemma attaches_on_keeps:
  assumes "attaches_on (hosts bridge t) name t t'" "strings_HasPrefix name portPrefix"
  shows "unique t \<Longrightarrow> unique t'" "foreign t' = foreign t"
proof -
  from assms(1) obtain br port where *: "hosts bridge t br" "fresh (insert br t) port"
    "if_Name port = name" "t' = insert port (insert br t)"
    unfolding attaches_on_def by blast
  show "unique t'" if "unique t"
    unfolding *(4) by (rule unique_fresh [OF hosts_keeps(1) [OF that *(1)] *(2)])
  have "foreign t' = foreign (insert br t)" using assms(2) *(3,4) by (auto simp: foreign_def is_port_def)
  then show "foreign t' = foreign t" using hosts_keeps(2) [OF *(1)] by simp
qed

lemma prepared_on_keeps:
  "prepared_on (hosts bridge t) t t' \<Longrightarrow> unique t \<Longrightarrow> unique t'"
  "prepared_on (hosts bridge t) t t' \<Longrightarrow> foreign t' = foreign t"
  by (auto simp: prepared_on_def hosts_keeps)

lemma add_effect_on_keeps:
  assumes "add_effect_on (hosts bridge t) name r g t t'" "strings_HasPrefix name portPrefix" "unique t"
  shows "unique t' \<and> foreign t' = foreign t"
  using assms by (cases r) (auto simp: add_effect_on_def attaches_on_keeps prepared_on_keeps)

text \<open>The removal of nothing but ports and bridges.\<close>

definition drops :: "table \<Rightarrow> table \<Rightarrow> bool" where
  "drops t t' \<longleftrightarrow> t' \<subseteq> t \<and> (\<forall>x \<in> t. x \<notin> t' \<longrightarrow> is_port x \<or> is_bridge x)"

lemma drops_refl [simp]: "drops t t"
  by (simp add: drops_def)

lemma drops_trans: "drops t t1 \<Longrightarrow> drops t1 t2 \<Longrightarrow> drops t t2"
  unfolding drops_def by blast

lemma drops_keeps: "drops t t' \<Longrightarrow> unique t \<Longrightarrow> unique t' \<and> foreign t' = foreign t"
  unfolding drops_def unique_def foreign_def by (auto intro: inj_on_subset)

lemma drops_sweep: "drops t (sweep b t)"
  by (auto simp: drops_def sweep_def vacant_def)

lemma gc_bridge_drops: "gc_bridge_trace b tr \<Longrightarrow> table_run t tr = Some t' \<Longrightarrow> drops t t'"
  using gc_bridge_table [of b tr t t'] drops_sweep [of t b] by auto

lemma drops_ids:
  assumes "unique t" "S \<subseteq> t" "\<forall>x \<in> S. is_port x"
  shows "drops t {x \<in> t. if_ID x \<notin> if_ID ` S}"
proof -
  have "x \<in> S" if "x \<in> t" "if_ID x \<in> if_ID ` S" for x
    using that assms(1,2) unfolding unique_def by (metis imageE inj_onD subsetD)
  with assms(3) show ?thesis unfolding drops_def by blast
qed

lemma del_trace_drops:
  assumes tr: "del_trace sock name r tr" and u: "unique t" and run: "table_run t tr = Some t'"
    and name: "strings_HasPrefix name portPrefix"
  shows "drops t t'"
  using tr unfolding del_trace_def
proof (elim disjE exE conjE, goal_cases)
  case (3 ifs p e e' gc)
  then have t: "set ifs = t" using run by (auto split: if_splits)
  have p: "p \<in> t" "is_port p"
    using findPortByName_Some [OF 3(2)] name by (auto simp: is_port_def t)
  have del: "table_run (if e = None then {x \<in> t. if_ID x \<noteq> if_ID p} else t) gc = Some t'"
    using run unfolding 3(4) by (cases e) (simp_all add: table_run_append t split: option.splits)
  have "drops t (if e = None then {x \<in> t. if_ID x \<noteq> if_ID p} else t)"
    using drops_ids [OF u, of "{p}"] p by simp
  moreover have "drops s t'" if "table_run s gc = Some t'" for s
    using 3(3) that gc_bridge_drops by (auto split: if_splits)
  ultimately show ?case using drops_trans del by blast
qed (use run in \<open>auto split: if_splits\<close>)

lemma gc_trace_drops:
  assumes tr: "gc_trace sock bridge valid r tr" and u: "unique t" and run: "table_run t tr = Some t'"
  shows "drops t t'"
  using tr unfolding gc_trace_def
proof (elim disjE exE conjE, goal_cases)
  case (3 ifs b reaped reap gc)
  then have t: "set ifs = t" using run by (auto split: if_splits)
  obtain t1 where t1: "table_run t reap = Some t1" and t': "table_run t1 gc = Some t'"
    using run unfolding 3(5) by (auto simp: table_run_append t split: option.splits)
  obtain S where S: "S \<subseteq> set (filter (gc_stale b valid) ifs)" "t1 = {x \<in> t. if_ID x \<notin> if_ID ` S}"
    using reap_trace_table [OF 3(3) t1] by blast
  have "drops t t1"
    unfolding S(2) by (rule drops_ids [OF u]) (use S(1) in \<open>auto simp: t gc_stale_def is_port_def\<close>)
  moreover have "drops t1 t'" using 3(4) t' gc_bridge_drops by (auto split: if_splits)
  ultimately show ?case by (rule drops_trans)
qed (use run in \<open>auto split: if_splits\<close>)

end
