(* ===== verification/Wire.thy ===== *)
theory Wire
  imports Client
begin

text \<open>
  What goes over the control socket: which bytes a request puts on it, which bytes
  \<open>readResponse\<close> and the response-stream loop accept, and how request ids advance. The
  statements hold for every peer.
\<close>

section \<open>Sent bytes\<close>

text \<open>One request as the client writes it.\<close>

definition request_bytes :: "u32 \<Rightarrow> u32 \<Rightarrow> bytes \<Rightarrow> bytes" where
  "request_bytes i t payload =
     encode_request_header \<lparr>req_ID = i, req_Type = t, req_PayloadLen = word_of_nat (length payload)\<rparr>
     @ payload"

text \<open>A peer that also keeps every byte written to it.\<close>

definition tap_net :: "'g Net \<Rightarrow> ('g \<times> bytes) Net" where
  "tap_net net =
     \<lparr>net_dial = (\<lambda>path (g, sent). map_sum id (\<lambda>g'. (g', sent)) (net_dial net path g)),
      peer_recv = (\<lambda>bs (g, sent). case peer_recv net bs g of (e, out, g') \<Rightarrow> (e, out, (g', sent @ bs))),
      net_close = (\<lambda>(g, sent). case net_close net g of (e, g') \<Rightarrow> (e, (g', sent)))\<rparr>"

definition sent :: "('g \<times> bytes) Client \<Rightarrow> bytes" where
  "sent c = snd (peer (conn c))"

lemma peer_recv_tap:
  "peer_recv (tap_net net) bs g =
     (case peer_recv net bs (fst g) of (e, out, g') \<Rightarrow> (e, out, (g', snd g @ bs)))"
  by (cases g) (simp add: tap_net_def)

lemma wp_on_conn [wp_simps]:
  "wp (on_conn m) Q c = wp m (\<lambda>r cn. Q r (c\<lparr>conn := cn\<rparr>)) (conn c)"
  by (simp add: wp_def on_conn_def split: prod.split)

lemma wp_nextID [wp_simps]:
  "wp nextID Q c = Q (reqID c + 1) (c\<lparr>reqID := reqID c + 1\<rparr>)"
  by (simp add: wp_def nextID_def)

text \<open>
  \<open>writeRequest\<close> writes the header, then the payload if there is one; it reports success only
  when it has written both.
\<close>

definition request_header :: "u32 \<Rightarrow> u32 \<Rightarrow> bytes \<Rightarrow> bytes" where
  "request_header i t payload = take 12 (request_bytes i t payload)"

lemma writeRequest_sends:
  "wp (writeRequest (tap_net net) i t payload) (\<lambda>e cn'.
     snd (peer cn') = snd (peer cn) @ request_bytes i t payload
     \<or> e \<noteq> None \<and> snd (peer cn') = snd (peer cn) @ request_header i t payload) cn"
  unfolding writeRequest_def Let_def
  by (auto simp: wp_simps peer_recv_tap request_bytes_def request_header_def
      split: prod.splits option.splits)

lemma wp_True: "wp m (\<lambda>_ _. True) w"
  by (simp add: wp_def split: prod.split)

lemma readResponse_keeps_peer: "wp readResponse (\<lambda>_ cn'. peer cn' = peer cn) cn"
  by (auto simp: readResponse_def wp_simps Let_def)

lemma stream_loop_keeps_peer: "peer (snd (stream_loop i items cn)) = peer cn"
proof (induction i items cn rule: stream_loop.induct)
  case (1 i items cn)
  obtain r cn' where r: "run_state readResponse cn = (r, cn')" by force
  have "peer cn' = peer cn"
    using wpD [OF readResponse_keeps_peer r] .
  then show ?case
    using 1 r by (subst stream_loop.simps) (auto split: sum.split)
qed

text \<open>
  Every exchange takes the next request id and puts one request on the wire, whatever the
  answer; it fails if the request could not be written whole.
\<close>

lemma request_sends:
  "wp (request (tap_net net) t payload resp) (\<lambda>r c'.
     reqID c' = reqID c + 1 \<and>
     (sent c' = sent c @ request_bytes (reqID c + 1) t payload
      \<or> isl r \<and> sent c' = sent c @ request_header (reqID c + 1) t payload)) c"
proof -
  let ?i = "reqID c + 1"
  show ?thesis
    unfolding request_def
  proof (simp only: wp_bind wp_nextID wp_on_conn, rule wp_mono [OF writeRequest_sends], goal_cases)
    case (1 e cn)
    then show ?case
      by (cases e)
        (auto simp: wp_simps sent_def split: sum.split
          intro!: wp_mono [OF readResponse_keeps_peer])
  qed
qed

lemma requestStream_sends:
  "wp (requestStream (tap_net net) t payload) (\<lambda>r c'.
     reqID c' = reqID c + 1 \<and>
     (sent c' = sent c @ request_bytes (reqID c + 1) t payload
      \<or> isl r \<and> sent c' = sent c @ request_header (reqID c + 1) t payload)) c"
  unfolding requestStream_def
proof (simp only: wp_bind wp_nextID wp_on_conn, rule wp_mono [OF writeRequest_sends], goal_cases)
  case (1 e cn)
  then show ?case
    using stream_loop_keeps_peer [of "reqID c + 1" "[]" cn]
    by (cases e) (auto simp: wp_simps sent_def wp_def [of "State _"] split: prod.splits)
qed

section \<open>Received bytes\<close>

lemma le32_un_le32: "length bs = 4 \<Longrightarrow> le32 (un_le32 bs) = bs"
proof -
  assume "length bs = 4"
  then obtain a b c d where bs: "bs = [a, b, c, d]"
    by (auto simp: length_Suc_conv numeral_eq_Suc)
  show ?thesis
    unfolding bs le32_def un_le32.simps list.inject
    by (intro conjI refl bit_word_eqI) (auto simp: bit_simps dest: bit_imp_le_length)
qed

lemma encode_decode_response_header:
  assumes "length bs = 12"
  shows "encode_response_header (decode_response_header bs) = bs"
proof -
  have "bs = slice 0 4 bs @ slice 4 4 bs @ slice 8 4 bs"
    using assms by (simp add: slice_def flip: take_add) (metis add.commute append_take_drop_id
      drop_drop dual_order.refl numeral_Bit0 take_add take_all)
  then show ?thesis
    using assms by (simp add: encode_response_header_def decode_response_header_def get32_def
      le32_un_le32 length_slice)
qed

text \<open>
  \<open>readResponse\<close> accepts exactly the encodings of responses whose payload is within the
  limit, and gives back the header and the payload.
\<close>

lemma readResponse_iff:
  "run_state readResponse cn = (Inr (hdr, payload), cn') \<longleftrightarrow>
     inq cn = response_bytes (rsp_ForID hdr) (rsp_Status hdr) payload @ inq cn' \<and>
     rsp_PayloadLen hdr = word_of_nat (length payload) \<and>
     length payload \<le> unat maxMsgLen \<and> peer cn' = peer cn"
  (is "?run \<longleftrightarrow> ?bytes")
proof
  assume ?run
  note r = readResponse_consumes [OF this]
  have "encode_response_header hdr = take 12 (inq cn)"
    using r encode_decode_response_header [of "take 12 (inq cn)"] by auto
  moreover have len: "rsp_PayloadLen hdr = word_of_nat (length payload)"
    using r by simp
  moreover have "hdr = \<lparr>rsp_ForID = rsp_ForID hdr, rsp_Status = rsp_Status hdr,
      rsp_PayloadLen = word_of_nat (length payload)\<rparr>"
    using len by simp
  ultimately have "inq cn = response_bytes (rsp_ForID hdr) (rsp_Status hdr) payload @ inq cn'"
    using r unfolding response_bytes_def by (metis append.assoc)
  then show ?bytes using r len by (simp add: word_le_nat_alt)
next
  assume b: ?bytes
  then have "cn = \<lparr>peer = peer cn',
      inq = response_bytes (rsp_ForID hdr) (rsp_Status hdr) payload @ inq cn'\<rparr>"
    by (cases cn) simp
  moreover have "hdr = \<lparr>rsp_ForID = rsp_ForID hdr, rsp_Status = rsp_Status hdr,
      rsp_PayloadLen = word_of_nat (length payload)\<rparr>"
    using b by simp
  ultimately show ?run
    using b readResponse_response_bytes [of payload "peer cn'" "rsp_ForID hdr" "rsp_Status hdr" "inq cn'"]
    by (metis Conn.surjective old.unit.exhaust)
qed

text \<open>A response item that does not end the stream.\<close>

definition stream_item :: "bytes \<Rightarrow> bool" where
  "stream_item p \<longleftrightarrow> p \<noteq> [] \<and> length p \<le> unat maxMsgLen"

definition stream_bytes :: "u32 \<Rightarrow> bytes list \<Rightarrow> bytes" where
  "stream_bytes i items = concat (map (response_bytes i 0) items) @ response_bytes i 0 []"

lemma stream_bytes_simps [simp]:
  "stream_bytes i [] = response_bytes i 0 []"
  "stream_bytes i (p # items) = response_bytes i 0 p @ stream_bytes i items"
  by (simp_all add: stream_bytes_def)

lemma payload_len_0: "length p \<le> unat maxMsgLen \<Longrightarrow> (word_of_nat (length p) :: u32) = 0 \<longleftrightarrow> p = []"
proof -
  assume "length p \<le> unat maxMsgLen"
  then have "unat (word_of_nat (length p) :: u32) = length p"
    by (simp add: maxMsgLen_def unat_of_nat)
  then show ?thesis
    by (metis length_0_conv unat_eq_zero)
qed

lemma stream_loop_reads:
  "inq cn = stream_bytes i items @ rest \<Longrightarrow> list_all stream_item items \<Longrightarrow>
   stream_loop i acc cn = (Inr (acc @ items), \<lparr>peer = peer cn, inq = rest\<rparr>)"
proof (induction items arbitrary: acc cn)
  case Nil
  then have "run_state readResponse cn =
      (Inr (\<lparr>rsp_ForID = i, rsp_Status = 0, rsp_PayloadLen = 0\<rparr>, []), \<lparr>peer = peer cn, inq = rest\<rparr>)"
    by (simp add: readResponse_iff)
  then show ?case by (subst stream_loop.simps) simp
next
  case (Cons p items)
  then have p: "p \<noteq> []" "length p \<le> unat maxMsgLen" by (simp_all add: stream_item_def)
  let ?cn = "\<lparr>peer = peer cn, inq = stream_bytes i items @ rest\<rparr>"
  have "run_state readResponse cn =
      (Inr (\<lparr>rsp_ForID = i, rsp_Status = 0, rsp_PayloadLen = word_of_nat (length p)\<rparr>, p), ?cn)"
    using Cons.prems p by (simp add: readResponse_iff)
  moreover have "stream_loop i (acc @ [p]) ?cn = (Inr ((acc @ [p]) @ items), \<lparr>peer = peer cn, inq = rest\<rparr>)"
    using Cons.IH [of ?cn "acc @ [p]"] Cons.prems by simp
  ultimately show ?case
    using p by (subst stream_loop.simps) (simp add: payload_len_0)
qed

lemma stream_loop_sound:
  "stream_loop i acc cn = (Inr res, cn') \<Longrightarrow>
   \<exists>items. res = acc @ items \<and> inq cn = stream_bytes i items @ inq cn' \<and>
     list_all stream_item items \<and> peer cn' = peer cn"
proof (induction i acc cn rule: stream_loop.induct)
  case (1 i acc cn)
  from "1.prems" obtain hdr p cn1 where r: "run_state readResponse cn = (Inr (hdr, p), cn1)"
    and hdr: "rsp_ForID hdr = i" "rsp_Status hdr = 0"
    and tail: "rsp_PayloadLen hdr = 0 \<and> res = acc \<and> cn' = cn1
      \<or> rsp_PayloadLen hdr \<noteq> 0 \<and> stream_loop i (acc @ [p]) cn1 = (Inr res, cn')"
    by (subst (asm) stream_loop.simps) (auto split: prod.splits sum.splits if_splits)
  have b: "inq cn = response_bytes i 0 p @ inq cn1"
    "rsp_PayloadLen hdr = word_of_nat (length p)" "length p \<le> unat maxMsgLen" "peer cn1 = peer cn"
    using r hdr by (simp_all add: readResponse_iff)
  from tail show ?case
  proof (elim disjE conjE)
    assume "rsp_PayloadLen hdr = 0" "res = acc" "cn' = cn1"
    with b have "p = []" using payload_len_0 [of p] by simp
    with b \<open>res = acc\<close> \<open>cn' = cn1\<close> show ?thesis by (intro exI [of _ "[]"]) simp
  next
    assume ne: "rsp_PayloadLen hdr \<noteq> 0" and loop: "stream_loop i (acc @ [p]) cn1 = (Inr res, cn')"
    from "1.IH" [OF r [symmetric] refl refl] hdr ne loop obtain items where
      "res = (acc @ [p]) @ items" "inq cn1 = stream_bytes i items @ inq cn'"
      "list_all stream_item items" "peer cn' = peer cn1"
      by auto
    with b ne show ?thesis
      using payload_len_0 [of p] by (intro exI [of _ "p # items"]) (simp add: stream_item_def [of p])
  qed
qed

section \<open>Properties\<close>

text \<open>
  C16: The response-stream loop of \<open>requestStream\<close> always ends, and it returns a list of items
  exactly when the unread input starts with one well-formed response per item, each for this
  request, with status 0 and a non-empty payload within the limit, followed by the empty
  response that ends the stream; the items are the payloads in order, and everything after the
  end marker stays unread.
\<close>

theorem stream_loop_iff:
  "stream_loop i [] cn = (Inr items, cn') \<longleftrightarrow>
     inq cn = stream_bytes i items @ inq cn' \<and> list_all stream_item items \<and> peer cn' = peer cn"
proof
  assume "stream_loop i [] cn = (Inr items, cn')"
  from stream_loop_sound [OF this] show "inq cn = stream_bytes i items @ inq cn' \<and>
    list_all stream_item items \<and> peer cn' = peer cn" by simp
next
  assume "inq cn = stream_bytes i items @ inq cn' \<and> list_all stream_item items \<and> peer cn' = peer cn"
  then show "stream_loop i [] cn = (Inr items, cn')"
    using stream_loop_reads [of cn i items "inq cn'" "[]"] by simp
qed

text \<open>
  C17: A request with a decoded response succeeds exactly when both its header and its payload
  could be written and the next response on the connection is for this very request id, with
  status 0 and a payload within the limit that is empty or long enough; the result is the
  leading part of that payload. Anything else is an error.
\<close>

theorem request_iff:
  "run_state (request net t p (Some n)) c = (Inr bs, c') \<longleftrightarrow>
     (\<exists>cn payload.
        run_state (writeRequest net (reqID c + 1) t p) (conn c) = (None, cn) \<and>
        inq cn = response_bytes (reqID c + 1) 0 payload @ inq (conn c') \<and>
        length payload \<le> unat maxMsgLen \<and> (payload = [] \<or> n \<le> length payload) \<and>
        peer (conn c') = peer cn \<and> reqID c' = reqID c + 1 \<and> bs = take n payload)"
  (is "?run \<longleftrightarrow> ?bytes")
proof -
  obtain e cn where w: "run_state (writeRequest net (reqID c + 1) t p) (conn c) = (e, cn)" by force
  obtain r cn1 where r: "run_state readResponse cn = (r, cn1)" by force
  have "?run \<longleftrightarrow> e = None \<and> (\<exists>hdr payload. r = Inr (hdr, payload) \<and> rsp_ForID hdr = reqID c + 1 \<and>
      rsp_Status hdr = 0 \<and> (payload = [] \<or> n \<le> length payload) \<and> bs = take n payload \<and>
      c' = \<lparr>conn = cn1, reqID = reqID c + 1\<rparr>)"
    using w r by (cases e; cases r; cases c)
      (auto simp: request_def nextID_def on_conn_def split: if_splits)
  also have "\<dots> \<longleftrightarrow> e = None \<and> (\<exists>payload. inq cn = response_bytes (reqID c + 1) 0 payload @ inq (conn c') \<and>
      length payload \<le> unat maxMsgLen \<and> peer (conn c') = peer cn \<and>
      (payload = [] \<or> n \<le> length payload) \<and> bs = take n payload \<and> reqID c' = reqID c + 1)"
  proof (intro conj_cong refl iffI, goal_cases)
    case 1
    then show ?case using r by (auto simp: readResponse_iff)
  next
    case 2
    then obtain payload where p: "inq cn = response_bytes (reqID c + 1) 0 payload @ inq (conn c')"
      "length payload \<le> unat maxMsgLen" "peer (conn c') = peer cn" "payload = [] \<or> n \<le> length payload"
      "bs = take n payload" "reqID c' = reqID c + 1" by blast
    then have "run_state readResponse cn = (Inr (\<lparr>rsp_ForID = reqID c + 1, rsp_Status = 0,
        rsp_PayloadLen = word_of_nat (length payload)\<rparr>, payload), conn c')"
      by (simp add: readResponse_iff)
    with r p show ?case by (cases c') auto
  qed
  finally show ?thesis using w by auto
qed

text \<open>
  C18: Every exchange of the client, plain or streaming, takes the next request id (modulo
  \<open>2 ^ 32\<close>) and puts exactly one request on the wire: a header with that id, the message type
  and the payload's length, then the payload; when only the header could be written it reports
  an error.
\<close>

theorem exchange_sends:
  "wp (request (tap_net net) t p resp) (\<lambda>r c'.
     reqID c' = reqID c + 1 \<and>
     (sent c' = sent c @ request_bytes (reqID c + 1) t p
      \<or> isl r \<and> sent c' = sent c @ request_header (reqID c + 1) t p)) c
   \<and> wp (requestStream (tap_net net) t p) (\<lambda>r c'.
     reqID c' = reqID c + 1 \<and>
     (sent c' = sent c @ request_bytes (reqID c + 1) t p
      \<or> isl r \<and> sent c' = sent c @ request_header (reqID c + 1) t p)) c
   \<and> decode_request_header (request_bytes i t p) =
       \<lparr>req_ID = i, req_Type = t, req_PayloadLen = word_of_nat (length p)\<rparr>
   \<and> drop 12 (request_bytes i t p) = p"
  by (intro conjI request_sends requestStream_sends) (simp_all add: request_bytes_def)

end
