(* ===== verification/Payloads.thy ===== *)
theory Payloads
  imports Wire PortName
begin

text \<open>
  The payloads of the API calls (\<open>src/pkg/groutapi/client.go\<close>): every field that a request
  carries is found again at its place in the buffer, the encodings of the operations agree with
  the decoders of the listings, and the calls that are refused send nothing.
\<close>

section \<open>Reading fields\<close>

lemma get16_slice: "get16 off buf = un_le16 (slice off 2 buf)"
  by (simp add: get16_def)

lemma get32_slice: "get32 off buf = un_le32 (slice off 4 buf)"
  by (simp add: get32_def)

lemmas get_slices = get8_slice get16_slice get32_slice

lemma un_le_zero [simp]:
  "un_le16 (replicate 2 0) = 0" "un_le32 (replicate 4 0) = 0"
  by (simp_all add: numeral_2_eq_2 numeral_eq_Suc)

lemma slice_zero_put16:
  "slice off' w' buf = replicate w' 0 \<Longrightarrow> off' + w' \<le> off \<or> off + 2 \<le> off' \<Longrightarrow>
   off + 2 \<le> length buf \<Longrightarrow> off' + w' \<le> length buf \<Longrightarrow>
   slice off' w' (put16 off v buf) = replicate w' 0"
  by (simp add: slice_put16_disjoint)

text \<open>A C string field: the bytes of the string, then zeros.\<close>

lemma cString_padded:
  assumes "CHR 0x00 \<notin> set s"
  shows "cString (bytes_of s @ replicate n 0) = s"
proof -
  have "x \<noteq> 0" if "x \<in> set (bytes_of s)" for x
    using that assms by (auto simp: bytes_of_def char_of_def)
  then have "takeWhile (\<lambda>x. x \<noteq> 0) (bytes_of s @ replicate n 0) = bytes_of s"
    by (simp add: takeWhile_append)
  then show ?thesis by (simp add: cString_def)
qed

lemma le16_0: "le16 0 = replicate 2 0"
  by (simp add: le16_def numeral_2_eq_2)

section \<open>The interface base\<close>

lemma length_iface_base:
  "ifaceSize \<le> sz \<Longrightarrow> length (iface_base sz req) = sz"
  by (simp add: iface_base_def Let_def slice_simps)

lemma iface_base_slices:
  assumes "ifaceSize \<le> sz"
  shows "slice 0 2 (iface_base sz req) = le16 0"
    and "slice 2 1 (iface_base sz req) = [ia_Type req]"
    and "slice 4 2 (iface_base sz req) = le16 grIfaceFlagUp"
    and "slice 8 2 (iface_base sz req) = le16 (ia_MTU req)"
    and "slice 12 2 (iface_base sz req) = le16 (ia_DomainID req)"
  using assms
  by (simp_all add: iface_base_def Let_def slice_simps grIfaceIDUndef_def le16_0)

lemma iface_base_name:
  assumes "ifaceSize \<le> sz" and "length (ia_Name req) \<le> ifNameSize"
  shows "slice offIfaceName ifNameSize (iface_base sz req) =
    bytes_of (ia_Name req) @ replicate (ifNameSize - length (ia_Name req)) 0"
  unfolding iface_base_def Let_def
  by (subst slice_copy_padded [where z = 0]) (use assms in \<open>auto simp: slice_simps\<close>)

text \<open>
  The payload of a request that is not refused: its size, the interface base in its first 292
  bytes, and past them the part for the interface's type.
\<close>

lemma slice_in_base:
  assumes "off + w \<le> ifaceSize" and "ifaceSize \<le> off'" and "off' + min w' (length src) \<le> length buf"
  shows "slice off w (copy_at off' w' src buf) = slice off w buf"
  using assms by (intro slice_copy_disjoint) auto

lemma putL3AddrIPv4_slices:
  assumes "putL3AddrIPv4 off ip buf = Inr buf'" and "off + l3AddrSize \<le> length buf"
  shows "length buf' = length buf"
    and "off' + w' \<le> off \<or> off + 8 \<le> off' \<Longrightarrow> off' + w' \<le> length buf \<Longrightarrow> slice off' w' buf' = slice off' w' buf"
    and "slice off 1 buf' = [afIP4]"
    and "\<exists>ip4. IP_To4 ip = Some ip4 \<and> slice (off + 4) 4 buf' = ip4"
  using assms To4_length
  by (auto simp: putL3AddrIPv4_def slice_simps split: option.splits)

lemma vxlan_not_bridge [simp]: "InterfaceTypeVXLAN \<noteq> InterfaceTypeBridge"
  by (simp add: InterfaceTypeVXLAN_def InterfaceTypeBridge_def)

definition vxlan_fields :: "VXLANConfig \<Rightarrow> bytes \<Rightarrow> bytes" where
  "vxlan_fields vx p =
     put16 (offIfaceInfo + offVxlanDstPort) (vx_DstPort vx)
       (put16 (offIfaceInfo + offVxlanEncapVRF) (vx_EncapVRFID vx)
         (put32 (offIfaceInfo + offVxlanVNI) (vx_VNI vx) p))"

lemma vxlan_payload:
  assumes "ia_Type req = InterfaceTypeVXLAN"
  shows "iface_add_payload u req = Inr p \<longleftrightarrow>
    (\<exists>vx. ia_VXLAN req = Some vx \<and>
       putL3AddrIPv4 (offIfaceInfo + offVxlanLocal) (vx_LocalAddr vx)
         (vxlan_fields vx (iface_base (iface_add_size req) req)) = Inr p)"
  using assms
  by (auto simp: iface_add_payload_def vxlan_fields_def Let_def split: option.splits sum.splits)

lemma iface_add_payload_base:
  assumes "iface_add_payload u req = Inr p" and "off + w \<le> ifaceSize"
  shows "slice off w p = slice off w (iface_base (iface_add_size req) req)"
    and "length p = iface_add_size req"
proof -
  let ?b = "iface_base (iface_add_size req) req"
  have len: "length ?b = iface_add_size req"
    by (rule length_iface_base) (simp add: iface_add_size_def)
  have "slice off w p = slice off w ?b \<and> length p = iface_add_size req"
  proof (cases "ia_Type req = InterfaceTypeVXLAN")
    case True
    then obtain vx q where q: "putL3AddrIPv4 (offIfaceInfo + offVxlanLocal) (vx_LocalAddr vx) q = Inr p"
      and q_def: "q = vxlan_fields vx ?b"
      using assms(1) by (auto simp: vxlan_payload)
    have lq: "length q = iface_add_size req"
      using True by (simp add: q_def vxlan_fields_def slice_simps length_iface_base iface_add_size_def)
    have "slice off w q = slice off w ?b"
      using True assms(2) by (simp add: q_def vxlan_fields_def slice_simps length_iface_base iface_add_size_def)
    then show ?thesis
      using putL3AddrIPv4_slices [OF q] lq True assms(2) by (simp add: iface_add_size_def)
  next
    case False
    then show ?thesis
      using assms len
      by (auto simp: iface_add_payload_def Let_def slice_simps iface_add_size_def
          bridgeMAC_def split: if_splits intro!: slice_in_base)
  qed
  then show "slice off w p = slice off w ?b" "length p = iface_add_size req" by simp_all
qed

lemma iface_add_fields:
  assumes "iface_add_payload u req = Inr p"
    and "length (ia_Name req) \<le> ifNameSize" and "CHR 0x00 \<notin> set (ia_Name req)"
  shows "decode_iface p =
      \<lparr>if_ID = grIfaceIDUndef, if_Type = ia_Type req, if_Name = ia_Name req,
       if_Domain = ia_DomainID req\<rparr> \<and>
    get16 offIfaceMTU p = ia_MTU req \<and> get16 offIfaceFlags p = grIfaceFlagUp \<and>
    length p = iface_add_size req"
proof -
  note base = iface_add_payload_base [OF assms(1)]
  have sz: "ifaceSize \<le> iface_add_size req" by (simp add: iface_add_size_def)
  note fields = iface_base_slices [OF sz, of req] iface_base_name [OF sz assms(2)]
  have name: "cString (slice offIfaceName ifNameSize p) = ia_Name req"
    using base(1) [of offIfaceName ifNameSize] fields(6) cString_padded [OF assms(3)] by simp
  have "get8 offIfaceType p = ia_Type req"
    using base(1) [of 2 1] base(2) [of 0 0] fields(2) sz by (simp add: get8_slice)
  with name show ?thesis
    using base(1) [of 0 2] base(1) [of 12 2] base(1) [of 8 2] base(1) [of 4 2] base(2) [of 0 0]
      fields
    by (simp add: decode_iface_def get16_slice grIfaceIDUndef_def)
qed

lemma port_devargs_refused:
  assumes "ia_Type req \<notin> {InterfaceTypeBridge, InterfaceTypeVXLAN}"
  shows "isl (iface_add_payload u req) \<longleftrightarrow> portDevargsSize \<le> length (port_devargs u req)"
  using assms by (auto simp: iface_add_payload_def Let_def)

section \<open>Interface requests\<close>

text \<open>
  A concrete bridge, port and VXLAN request, and Unicode tables that leave text alone: the
  inputs at which the properties below are applied.
\<close>

definition plain_tables :: unicode_tables where
  "plain_tables = \<lparr>map_lower = id, trim_func = id, trim_right_func = id\<rparr>"

definition sample_request :: "InterfaceType \<Rightarrow> InterfaceAddRequest" where
  "sample_request t =
     \<lparr>ia_Name = ''br-net1'', ia_Type = t, ia_DomainID = 7, ia_MTU = 1400, ia_VhostUserPath = [],
      ia_VXLAN = Some \<lparr>vx_VNI = 100, vx_EncapVRFID = 1, vx_DstPort = 4789, vx_LocalAddr = [10, 0, 0, 1]\<rparr>\<rparr>"

text \<open>
  C19: An interface request that is not refused is found again in its payload: decoding the
  payload the way the interface list is decoded gives the requested type, name and domain with
  the undefined id, and the up flag, the MTU and the length are those of the request and its
  type.
\<close>

theorem iface_add_roundtrip:
  assumes "iface_add_payload u req = Inr p"
    and "length (ia_Name req) \<le> ifNameSize" and "CHR 0x00 \<notin> set (ia_Name req)"
  shows "decode_iface p =
      \<lparr>if_ID = grIfaceIDUndef, if_Type = ia_Type req, if_Name = ia_Name req,
       if_Domain = ia_DomainID req\<rparr> \<and>
    get16 offIfaceMTU p = ia_MTU req \<and> get16 offIfaceFlags p = grIfaceFlagUp \<and>
    length p = iface_add_size req"
  using assms by (rule iface_add_fields)

theorem iface_add_roundtrip_witness:
  "\<exists>p. iface_add_payload plain_tables (sample_request InterfaceTypeBridge) = Inr p \<and>
     decode_iface p =
      \<lparr>if_ID = 0, if_Type = InterfaceTypeBridge, if_Name = ''br-net1'', if_Domain = 7\<rparr> \<and>
     get16 offIfaceMTU p = 1400 \<and> get16 offIfaceFlags p = 1 \<and> length p = 432"
proof -
  obtain p where p: "iface_add_payload plain_tables (sample_request InterfaceTypeBridge) = Inr p"
    by (simp add: iface_add_payload_def sample_request_def Let_def)
  then show ?thesis
    using iface_add_roundtrip [OF p]
    by (simp add: sample_request_def iface_add_size_def grIfaceIDUndef_def grIfaceFlagUp_def)
qed

text \<open>
  C20: A bridge request is never refused. Its payload is the interface's base followed by the
  bridge information, which carries the MAC address derived from the bridge's name at its MAC
  field and is zero elsewhere; the address is unicast and locally administered. (The comment on
  \<open>InterfaceAdd\<close> says that a bridge is the base only; the code sends both.)
\<close>

theorem bridge_payload_mac:
  assumes "ia_Type req = InterfaceTypeBridge"
  shows "\<exists>p. iface_add_payload u req = Inr p \<and> length p = ifaceSize + bridgeInfoSize \<and>
    slice (offIfaceInfo + offBridgeInfoMAC) 6 p = bridgeMAC (ia_Name req) \<and>
    slice offIfaceInfo offBridgeInfoMAC p = replicate offBridgeInfoMAC 0 \<and>
    slice 302 130 p = replicate 130 0 \<and>
    hd (bridgeMAC (ia_Name req)) AND 3 = 2 \<and> length (bridgeMAC (ia_Name req)) = 6"
proof -
  have len: "length (bridgeMAC n) = 6" for n by (simp add: bridgeMAC_def Let_def)
  have sz: "iface_add_size req = 432" using assms by (simp add: iface_add_size_def)
  have zero: "292 \<le> off \<Longrightarrow> off + w \<le> 432 \<Longrightarrow> slice off w (iface_base 432 req) = replicate w 0" for off w
    unfolding iface_base_def Let_def by (auto simp: slice_simps)
  let ?p = "copy_at 296 136 (bridgeMAC (ia_Name req)) (iface_base 432 req)"
  have "iface_add_payload u req = Inr ?p"
    using assms sz by (simp add: iface_add_payload_def)
  moreover have "slice 296 6 ?p = bridgeMAC (ia_Name req)"
  proof -
    have "?p = copy_at 296 6 (bridgeMAC (ia_Name req)) (iface_base 432 req)"
      by (simp add: copy_at_def len)
    then show ?thesis by (simp add: slice_copy_same len length_iface_base)
  qed
  moreover have "slice 292 4 ?p = replicate 4 0" "slice 302 130 ?p = replicate 130 0"
    by (simp_all add: slice_copy_disjoint len length_iface_base zero)
  moreover have "hd (bridgeMAC (ia_Name req)) AND 3 = 2"
    by (simp add: bridgeMAC_def Let_def)
  moreover have "length ?p = 432" by (simp add: length_iface_base length_copy_at len)
  ultimately show ?thesis by (auto simp: len)
qed

theorem bridge_payload_mac_witness:
  "\<exists>p. iface_add_payload plain_tables (sample_request InterfaceTypeBridge) = Inr p \<and>
    slice 296 6 p = bridgeMAC ''br-net1'' \<and> hd (bridgeMAC ''br-net1'') AND 3 = 2"
  using bridge_payload_mac [of "sample_request InterfaceTypeBridge" plain_tables]
  by (auto simp: sample_request_def)

text \<open>
  C21: A port request (any type but bridge and VXLAN) is refused exactly when its device
  arguments with their terminating zero do not fit into the device-arguments field; otherwise
  the field holds them, padded with zeros: \<open>net_vhost\<close> on the socket for a vhost-user path,
  \<open>net_tap\<close> on the interface name without one.
\<close>

theorem port_payload_devargs:
  assumes "ia_Type req \<notin> {InterfaceTypeBridge, InterfaceTypeVXLAN}"
  shows "if length (port_devargs u req) < portDevargsSize
    then \<exists>p. iface_add_payload u req = Inr p \<and>
      slice offPortDevargs portDevargsSize p =
        bytes_of (port_devargs u req) @ replicate (portDevargsSize - length (port_devargs u req)) 0
    else iface_add_payload u req =
      Inl (Errorf ''interface add %q: devargs too long (%d >= %d)''
            [AStr (ia_Name req), ANum (int (length (port_devargs u req))), ANum 128])"
proof -
  have sz: "iface_add_size req = 466" using assms by (simp add: iface_add_size_def)
  have zero: "slice 306 128 (iface_base 466 req) = replicate 128 0"
    unfolding iface_base_def Let_def by (auto simp: slice_simps)
  have "slice 306 128 (copy_at 306 128 (bytes_of d) (iface_base 466 req)) =
      bytes_of d @ replicate (128 - length d) 0" if "length d < 128" for d
    using that by (subst slice_copy_padded [where z = 0]) (auto simp: zero length_iface_base)
  then show ?thesis
    using assms sz by (auto simp: iface_add_payload_def Let_def not_less)
qed

theorem port_payload_devargs_witness:
  "\<exists>p. iface_add_payload plain_tables (sample_request InterfaceTypePort) = Inr p \<and>
     slice offPortDevargs portDevargsSize p =
       bytes_of ''net_tap_brnet1,iface=br-net1'' @ replicate 100 0"
proof -
  have dev: "port_devargs plain_tables (sample_request InterfaceTypePort) =
      ''net_tap_brnet1,iface=br-net1''"
    by code_simp
  have t: "ia_Type (sample_request InterfaceTypePort) \<notin> {InterfaceTypeBridge, InterfaceTypeVXLAN}"
    by (simp add: sample_request_def InterfaceTypePort_def InterfaceTypeBridge_def
        InterfaceTypeVXLAN_def)
  show ?thesis
    using port_payload_devargs [OF t, of plain_tables] unfolding dev by simp
qed

text \<open>
  C22: A VXLAN request is refused exactly when it has no VXLAN configuration or its local
  address is not IPv4; otherwise VNI, underlay VRF, UDP port, address family and local address
  are found again at their offsets in the payload.
\<close>

theorem vxlan_payload_fields:
  assumes "ia_Type req = InterfaceTypeVXLAN"
  shows "case ia_VXLAN req of
      None \<Rightarrow> isl (iface_add_payload u req)
    | Some vx \<Rightarrow>
        (case IP_To4 (vx_LocalAddr vx) of
           None \<Rightarrow> isl (iface_add_payload u req)
         | Some ip4 \<Rightarrow>
             (\<exists>p. iface_add_payload u req = Inr p \<and>
                get32 (offIfaceInfo + offVxlanVNI) p = vx_VNI vx \<and>
                get16 (offIfaceInfo + offVxlanEncapVRF) p = vx_EncapVRFID vx \<and>
                get16 (offIfaceInfo + offVxlanDstPort) p = vx_DstPort vx \<and>
                l3AddrIPv4 (slice (offIfaceInfo + offVxlanLocal) l3AddrSize p) = Some ip4))"
proof (cases "ia_VXLAN req")
  case None
  with assms show ?thesis by (simp add: iface_add_payload_def Let_def)
next
  case (Some vx)
  have sz: "iface_add_size req = 328" using assms by (simp add: iface_add_size_def)
  let ?q = "vxlan_fields vx (iface_base 328 req)"
  have lq: "length ?q = 328" by (simp add: vxlan_fields_def slice_simps length_iface_base)
  have q: "slice 292 4 ?q = le32 (vx_VNI vx)" "slice 296 2 ?q = le16 (vx_EncapVRFID vx)"
    "slice 298 2 ?q = le16 (vx_DstPort vx)"
    by (simp_all add: vxlan_fields_def slice_simps length_iface_base)
  show ?thesis
  proof (cases "IP_To4 (vx_LocalAddr vx)")
    case None
    with Some assms show ?thesis
      by (simp add: iface_add_payload_def putL3AddrIPv4_def Let_def)
  next
    case (Some ip4)
    then obtain p where p: "putL3AddrIPv4 300 (vx_LocalAddr vx) ?q = Inr p"
      by (simp add: putL3AddrIPv4_def)
    note l3 = putL3AddrIPv4_slices [OF p]
    have "l3AddrIPv4 (slice 300 20 p) = Some ip4"
      using l3(1,3,4) lq Some
      by (auto simp: l3AddrIPv4_def get8_slice slice_def take_drop hd_drop_conv_nth)
    moreover have "iface_add_payload u req = Inr p"
      using assms sz p \<open>ia_VXLAN req = Some vx\<close> by (simp add: vxlan_payload)
    ultimately show ?thesis
      using \<open>ia_VXLAN req = Some vx\<close> Some lq q l3(2) [of _ _]
      by (auto simp: get32_slice get16_slice)
  qed
qed

theorem vxlan_payload_fields_witness:
  "\<exists>p. iface_add_payload plain_tables (sample_request InterfaceTypeVXLAN) = Inr p \<and>
     get32 292 p = 100 \<and> get16 296 p = 1 \<and> get16 298 p = 4789 \<and>
     l3AddrIPv4 (slice 300 20 p) = Some [10, 0, 0, 1]"
  using vxlan_payload_fields [of "sample_request InterfaceTypeVXLAN" plain_tables]
  by (simp add: sample_request_def)

section \<open>Flood lists\<close>

text \<open>
  C23: A flood entry that is not refused is found again by the decoder of the flood list: same
  VNI, same VTEP address; it carries the entry type and the VRF, and it is refused exactly when
  the VTEP address is not IPv4.
\<close>

theorem flood_roundtrip:
  "case IP_To4 addr of
     None \<Rightarrow> isl (encodeFloodEntry (make_bytes floodReqSize) vrf vni addr)
   | Some ip4 \<Rightarrow>
       (\<exists>p. encodeFloodEntry (make_bytes floodReqSize) vrf vni addr = Inr p \<and>
          length p = floodReqSize \<and>
          decode_flood (take floodEntrySize p) = \<lparr>fv_VNI = vni, fv_Addr = Some ip4\<rparr> \<and>
          get8 offFloodType p = floodTypeVTEP \<and> get16 offFloodVRFID p = vrf \<and>
          get8 floodEntrySize p = 0)"
proof (cases "IP_To4 addr")
  case None
  then show ?thesis by (simp add: encodeFloodEntry_def putL3AddrIPv4_def)
next
  case (Some ip4)
  let ?q = "put32 4 vni (put16 2 vrf (put8 0 floodTypeVTEP (make_bytes 32)))"
  have lq: "length ?q = 32" by (simp add: slice_simps)
  have q: "slice 0 1 ?q = [floodTypeVTEP]" "slice 2 2 ?q = le16 vrf" "slice 4 4 ?q = le32 vni"
    "slice 28 1 ?q = [0]"
    by (simp_all add: slice_simps)
  obtain p where p: "putL3AddrIPv4 8 addr ?q = Inr p"
    using Some by (simp add: putL3AddrIPv4_def)
  note l3 = putL3AddrIPv4_slices [OF p]
  have lp: "length p = 32" using l3(1) lq by simp
  have "l3AddrIPv4 (slice 8 20 (take 28 p)) = Some ip4"
    using l3(3,4) lq lp Some
    by (auto simp: l3AddrIPv4_def get8_slice slice_def drop_take hd_drop_conv_nth)
  moreover have "get32 4 (take 28 p) = get32 4 p"
    using lp by (simp add: get32_def slice_def drop_take min_def)
  ultimately show ?thesis
    using Some p lp lq q l3(2) [of 0 1] l3(2) [of 2 2] l3(2) [of 4 4] l3(2) [of 28 1]
    by (auto simp: encodeFloodEntry_def decode_flood_def get_slices)
qed

section \<open>Addresses and routes\<close>

lemma get8_hd: "off < length buf \<Longrightarrow> slice off (Suc 0) buf = [v] \<Longrightarrow> get8 off buf = v"
  by (simp add: get8_slice)

lemma ip4_addr_fields:
  assumes "length ip4 = 4"
  shows "length (ip4_addr_payload i ip4 ones flag) = 16"
    and "get16 0 (ip4_addr_payload i ip4 ones flag) = i"
    and "slice 4 4 (ip4_addr_payload i ip4 ones flag) = ip4"
    and "get8 8 (ip4_addr_payload i ip4 ones flag) = word_of_nat ones"
    and "get8 12 (ip4_addr_payload i ip4 ones flag) = (if flag then 1 else 0)"
  using assms
  by (simp_all add: ip4_addr_payload_def Let_def get_slices slice_simps)

lemma ip6_addr_fields:
  assumes "length ip6 = 16"
  shows "length (ip6_addr_payload i ip6 ones flag) = 22"
    and "get16 0 (ip6_addr_payload i ip6 ones flag) = i"
    and "slice 2 16 (ip6_addr_payload i ip6 ones flag) = ip6"
    and "get8 18 (ip6_addr_payload i ip6 ones flag) = word_of_nat ones"
    and "get8 20 (ip6_addr_payload i ip6 ones flag) = (if flag then 1 else 0)"
  using assms
  by (simp_all add: ip6_addr_payload_def Let_def get_slices slice_simps)

text \<open>
  Whether \<open>c'\<close> is \<open>c\<close> after one exchange of type \<open>t\<close> with payload \<open>p\<close>: the request is on the
  wire, whole, or only its header and then the call failed.
\<close>

definition exchanged ::
  "u32 \<Rightarrow> bytes \<Rightarrow> error option \<Rightarrow> ('g \<times> bytes) Client \<Rightarrow> ('g \<times> bytes) Client \<Rightarrow> bool" where
  "exchanged t p e c c' \<longleftrightarrow>
     reqID c' = reqID c + 1 \<and>
     (sent c' = sent c @ request_bytes (reqID c + 1) t p
      \<or> e \<noteq> None \<and> sent c' = sent c @ request_header (reqID c + 1) t p)"

lemma send_exchanged: "wp (send (tap_net net) t p wrap) (\<lambda>e c'. exchanged t p e c c') c"
  unfolding send_def
  by (auto simp: wp_simps exchanged_def intro!: wp_mono [OF request_sends] split: sum.split)

text \<open>
  The address requests of one family each: interface, address, prefix length and the
  \<open>exist_ok\<close> or \<open>missing_ok\<close> flag at the offsets of the IPv4 and the IPv6 layout.
\<close>

definition carries_addr :: "u32 \<Rightarrow> u32 \<Rightarrow> IPNet \<Rightarrow> u16 \<Rightarrow> bool \<Rightarrow> u32 \<Rightarrow> bytes \<Rightarrow> bool" where
  "carries_addr t4 t6 net i flag t p \<longleftrightarrow>
     (case IP_To4 (IP net) of
        Some ip4 \<Rightarrow>
          t = t4 \<and> length p = 16 \<and> get16 0 p = i \<and> slice 4 4 p = ip4 \<and>
          get8 8 p = word_of_nat (IPMask_Size (Mask net)) \<and> get8 12 p = (if flag then 1 else 0)
      | None \<Rightarrow>
          t = t6 \<and> length p = 22 \<and> get16 0 p = i \<and> slice 2 16 p = IP net \<and>
          get8 18 p = word_of_nat (IPMask_Size (Mask net)) \<and> get8 20 p = (if flag then 1 else 0))"

lemma address_exchange:
  "wp (case IP_To4 (IP n) of
         Some ip4 \<Rightarrow> send (tap_net net) t4 (ip4_addr_payload i ip4 (IPMask_Size (Mask n)) flag) wrap
       | None \<Rightarrow> (case IP_To16 (IP n) of
           None \<Rightarrow> State_Monad.return (Some err)
         | Some ip6 \<Rightarrow> send (tap_net net) t6 (ip6_addr_payload i ip6 (IPMask_Size (Mask n)) flag) wrap))
     (\<lambda>e c'.
        if length (IP n) \<in> {4, 16}
        then \<exists>t p. carries_addr t4 t6 n i flag t p \<and> exchanged t p e c c'
        else e = Some err \<and> c' = c) c"
proof (cases "IP_To4 (IP n)")
  case (Some ip4)
  then have "length (IP n) \<in> {4, 16}" by (auto simp: IP_To4_def split: if_splits)
  moreover have "carries_addr t4 t6 n i flag t4 (ip4_addr_payload i ip4 (IPMask_Size (Mask n)) flag)"
    using Some To4_length [OF Some] by (simp add: carries_addr_def ip4_addr_fields)
  ultimately show ?thesis
    using Some by (auto intro!: wp_mono [OF send_exchanged])
next
  case None
  show ?thesis
  proof (cases "IP_To16 (IP n)")
    case None
    with \<open>IP_To4 (IP n) = None\<close> show ?thesis
      by (auto simp: wp_simps IP_To16_def IP_To4_def split: if_splits)
  next
    case (Some ip6)
    have ip6: "ip6 = IP n" "length (IP n) = 16"
      using To4_None_To16 [OF None Some] by simp_all
    then have "carries_addr t4 t6 n i flag t6 (ip6_addr_payload i ip6 (IPMask_Size (Mask n)) flag)"
      using None by (simp add: carries_addr_def ip6_addr_fields)
    with None Some ip6 show ?thesis
      by (auto intro!: wp_mono [OF send_exchanged])
  qed
qed

text \<open>
  C24: Adding or deleting an address makes one exchange, with the IPv4 message for an IPv4
  address in either of its forms and the IPv6 message for any other 16-byte address, and the
  payload carries the interface, the address, the prefix length and the idempotence flag; an
  address of any other length is refused before anything is sent.
\<close>

theorem address_calls:
  "wp (AddressAdd (tap_net net) areq) (\<lambda>e c'.
     if length (IP (aa_Address areq)) \<in> {4, 16}
     then \<exists>t p. carries_addr TypeIP4AddrAdd TypeIP6AddrAdd (aa_Address areq) (aa_IfaceID areq)
            (aa_ExistOK areq) t p \<and> exchanged t p e c c'
     else e = Some (Errorf ''address add: invalid IP address: %s'' [ABytes (IP (aa_Address areq))]) \<and>
          c' = c) c
   \<and> wp (AddressDel (tap_net net) dreq) (\<lambda>e c'.
     if length (IP (ad_Address dreq)) \<in> {4, 16}
     then \<exists>t p. carries_addr TypeIP4AddrDel TypeIP6AddrDel (ad_Address dreq) (ad_IfaceID dreq)
            (ad_MissingOK dreq) t p \<and> exchanged t p e c c'
     else e = Some (Errorf ''address del: invalid IP address: %s'' [ABytes (IP (ad_Address dreq))]) \<and>
          c' = c) c"
  unfolding AddressAdd_def AddressDel_def Let_def by (intro conjI address_exchange)

text \<open>
  C25: Flushing the addresses of an interface sends the IPv4 flush of that interface, and, if it
  succeeded, the IPv6 flush with the next request id; success means that both were sent whole.
\<close>

theorem address_flush_both:
  "wp (AddressFlush (tap_net net) i) (\<lambda>e c'.
     exchanged TypeIP4AddrFlush (le16 i) e c c'
     \<or> (\<exists>c1. exchanged TypeIP4AddrFlush (le16 i) None c c1 \<and>
          exchanged TypeIP6AddrFlush (le16 i) e c1 c')) c
   \<and> wp (AddressFlush (tap_net net) i) (\<lambda>e c'.
     case e of
       Some _ \<Rightarrow> True
     | None \<Rightarrow>
         sent c' = sent c @ request_bytes (reqID c + 1) TypeIP4AddrFlush (le16 i)
                          @ request_bytes (reqID c + 2) TypeIP6AddrFlush (le16 i)) c"
proof -
  have p: "put16 0 i (make_bytes 2) = le16 i"
    by (simp add: put16_def copy_at_def make_bytes_def)
  have both: "wp (AddressFlush (tap_net net) i) (\<lambda>e c'.
      e \<noteq> None \<and> exchanged TypeIP4AddrFlush (le16 i) e c c'
      \<or> (\<exists>c1. exchanged TypeIP4AddrFlush (le16 i) None c c1 \<and>
           exchanged TypeIP6AddrFlush (le16 i) e c1 c')) c"
    unfolding AddressFlush_def p wp_bind
  proof (rule wp_mono [OF send_exchanged], goal_cases)
    case (1 e c1)
    then show ?case
      by (cases e) (auto simp: wp_simps intro!: wp_mono [OF send_exchanged])
  qed
  show ?thesis
  proof (intro conjI wp_mono [OF both], goal_cases)
    case (2 e c')
    then show ?case
      by (cases e) (auto simp: exchanged_def add.assoc)
  qed auto
qed

lemma ip4_route_fields:
  assumes "length dest = 4" and "length nh = 4"
  shows "length (ip4_route_add_payload vrf dest ones nh flag) = 24"
    and "get16 0 (ip4_route_add_payload vrf dest ones nh flag) = vrf"
    and "slice 4 4 (ip4_route_add_payload vrf dest ones nh flag) = dest"
    and "get8 8 (ip4_route_add_payload vrf dest ones nh flag) = word_of_nat ones"
    and "slice 12 4 (ip4_route_add_payload vrf dest ones nh flag) = nh"
    and "get8 20 (ip4_route_add_payload vrf dest ones nh flag) = 4"
    and "get8 21 (ip4_route_add_payload vrf dest ones nh flag) = (if flag then 1 else 0)"
  using assms
  by (simp_all add: ip4_route_add_payload_def Let_def get_slices slice_simps)

lemma ip6_route_fields:
  assumes "length dest = 16" and "length nh = 16"
  shows "length (ip6_route_add_payload vrf dest ones nh flag) = 44"
    and "get16 0 (ip6_route_add_payload vrf dest ones nh flag) = vrf"
    and "slice 2 16 (ip6_route_add_payload vrf dest ones nh flag) = dest"
    and "get8 18 (ip6_route_add_payload vrf dest ones nh flag) = word_of_nat ones"
    and "slice 19 16 (ip6_route_add_payload vrf dest ones nh flag) = nh"
    and "get8 40 (ip6_route_add_payload vrf dest ones nh flag) = 4"
    and "get8 41 (ip6_route_add_payload vrf dest ones nh flag) = (if flag then 1 else 0)"
  using assms
  by (simp_all add: ip6_route_add_payload_def Let_def get_slices slice_simps)

lemma route_del_fields:
  "length dest = 4 \<Longrightarrow> length (ip4_route_del_payload vrf dest ones flag) = 16 \<and>
     get16 0 (ip4_route_del_payload vrf dest ones flag) = vrf \<and>
     slice 4 4 (ip4_route_del_payload vrf dest ones flag) = dest \<and>
     get8 8 (ip4_route_del_payload vrf dest ones flag) = word_of_nat ones \<and>
     get8 12 (ip4_route_del_payload vrf dest ones flag) = (if flag then 1 else 0)"
  "length dest = 16 \<Longrightarrow> length (ip6_route_del_payload vrf dest ones flag) = 20 \<and>
     get16 0 (ip6_route_del_payload vrf dest ones flag) = vrf \<and>
     slice 2 16 (ip6_route_del_payload vrf dest ones flag) = dest \<and>
     get8 18 (ip6_route_del_payload vrf dest ones flag) = word_of_nat ones \<and>
     get8 19 (ip6_route_del_payload vrf dest ones flag) = (if flag then 1 else 0)"
  by (simp_all add: ip4_route_del_payload_def ip6_route_del_payload_def Let_def get_slices
      slice_simps)

definition carries_route :: "RouteAddRequest \<Rightarrow> u32 \<Rightarrow> bytes \<Rightarrow> bool" where
  "carries_route req t p \<longleftrightarrow>
     (let ones = word_of_nat (IPMask_Size (Mask (ra_Destination req)));
          flag = (if ra_ExistOK req then 1 else 0);
          vrf = (if ra_VRFID req = 0 then 1 else ra_VRFID req)
      in case IP_To4 (IP (ra_Destination req)) of
           Some dest \<Rightarrow>
             t = TypeIP4RouteAdd \<and> length p = 24 \<and> get16 0 p = vrf \<and> slice 4 4 p = dest \<and>
             get8 8 p = ones \<and> Some (slice 12 4 p) = IP_To4 (ra_NextHop req) \<and>
             get8 20 p = 4 \<and> get8 21 p = flag
         | None \<Rightarrow>
             t = TypeIP6RouteAdd \<and> length p = 44 \<and> get16 0 p = vrf \<and>
             slice 2 16 p = IP (ra_Destination req) \<and> get8 18 p = ones \<and>
             Some (slice 19 16 p) = IP_To16 (ra_NextHop req) \<and> get8 40 p = 4 \<and> get8 41 p = flag)"

text \<open>An IPv4 destination needs an IPv4 next hop, any other destination a valid address.\<close>

definition route_ok :: "IP \<Rightarrow> IP \<Rightarrow> bool" where
  "route_ok dest nh \<longleftrightarrow>
     (if IP_To4 dest \<noteq> None then IP_To4 nh \<noteq> None else length dest = 16 \<and> length nh \<in> {4, 16})"

lemma RouteAdd_exchange:
  "wp (RouteAdd (tap_net net) req) (\<lambda>e c'.
     if route_ok (IP (ra_Destination req)) (ra_NextHop req)
     then \<exists>t p. carries_route req t p \<and> exchanged t p e c c'
     else (\<exists>err. e = Some err) \<and> c' = c) c"
proof (cases "IP_To4 (IP (ra_Destination req))")
  case (Some dest)
  note dest = this
  show ?thesis
  proof (cases "IP_To4 (ra_NextHop req)")
    case None
    with dest show ?thesis by (simp add: RouteAdd_def Let_def wp_simps route_ok_def)
  next
    case (Some nh)
    have "carries_route req TypeIP4RouteAdd (ip4_route_add_payload (vrf_or_default (ra_VRFID req))
        dest (IPMask_Size (Mask (ra_Destination req))) nh (ra_ExistOK req))"
      using dest Some To4_length [OF dest] To4_length [OF Some]
      by (simp add: carries_route_def Let_def ip4_route_fields vrf_or_default_def grVRFDefaultID_def)
    with dest Some show ?thesis
      by (auto simp: RouteAdd_def Let_def route_ok_def intro!: wp_mono [OF send_exchanged])
  qed
next
  case None
  note no4 = this
  show ?thesis
  proof (cases "IP_To16 (IP (ra_Destination req))")
    case None
    with no4 show ?thesis
      by (auto simp: RouteAdd_def Let_def wp_simps route_ok_def IP_To16_def split: if_splits)
  next
    case (Some dest)
    note d6 = To4_None_To16 [OF no4 Some]
    show ?thesis
    proof (cases "IP_To16 (ra_NextHop req)")
      case None
      with no4 Some show ?thesis
        by (auto simp: RouteAdd_def Let_def wp_simps route_ok_def IP_To16_def split: if_splits)
    next
      case (Some nh)
      have "carries_route req TypeIP6RouteAdd (ip6_route_add_payload (vrf_or_default (ra_VRFID req))
          (IP (ra_Destination req)) (IPMask_Size (Mask (ra_Destination req))) nh (ra_ExistOK req))"
        using no4 d6 Some To16_length [OF Some]
        by (simp add: carries_route_def Let_def ip6_route_fields vrf_or_default_def grVRFDefaultID_def)
      moreover have "length (ra_NextHop req) \<in> {4, 16}"
        using Some by (auto simp: IP_To16_def split: if_splits)
      ultimately show ?thesis
        using no4 Some d6 \<open>IP_To16 (IP (ra_Destination req)) = Some dest\<close>
        by (auto simp: RouteAdd_def Let_def route_ok_def intro!: wp_mono [OF send_exchanged])
    qed
  qed
qed

text \<open>
  C26: Adding a route makes one exchange, whose payload carries the VRF (the default VRF when
  none is given), destination, prefix length, next hop, the static origin and the idempotence
  flag at the offsets of the destination's family; a destination that is not an address, or a
  next hop that does not fit the destination's family, is refused before anything is sent. The
  remaining field of the request, the interface id, is not used: requests that differ only in it
  are the same call.
\<close>

theorem route_add_call:
  "wp (RouteAdd (tap_net net) req) (\<lambda>e c'.
     if route_ok (IP (ra_Destination req)) (ra_NextHop req)
     then \<exists>t p. carries_route req t p \<and> exchanged t p e c c'
     else (\<exists>err. e = Some err) \<and> c' = c) c
   \<and> RouteAdd (tap_net net) (req\<lparr>ra_IfaceID := i\<rparr>) = RouteAdd (tap_net net) req"
proof
  have fields: "ra_VRFID (req\<lparr>ra_IfaceID := i\<rparr>) = ra_VRFID req"
    "ra_Destination (req\<lparr>ra_IfaceID := i\<rparr>) = ra_Destination req"
    "ra_NextHop (req\<lparr>ra_IfaceID := i\<rparr>) = ra_NextHop req"
    "ra_ExistOK (req\<lparr>ra_IfaceID := i\<rparr>) = ra_ExistOK req" by simp_all
  show "RouteAdd (tap_net net) (req\<lparr>ra_IfaceID := i\<rparr>) = RouteAdd (tap_net net) req"
    unfolding RouteAdd_def fields ..
qed (rule RouteAdd_exchange)

section \<open>Message types\<close>

text \<open>
  The message types of the API are pairwise distinct, each in the 16-bit number space of
  its module, so that no request can be taken for another.
\<close>

lemma message_types_distinct:
  "distinct [TypeHello, TypeIfaceAdd, TypeIfaceDel, TypeIfaceList, TypeIP4RouteAdd, TypeIP4RouteDel,
     TypeIP4AddrAdd, TypeIP4AddrDel, TypeIP4AddrFlush, TypeIP6RouteAdd, TypeIP6RouteDel,
     TypeIP6AddrAdd, TypeIP6AddrDel, TypeIP6AddrFlush, TypeFloodAdd, TypeFloodDel, TypeFloodList]
   \<and> map (drop_bit 16) [TypeHello, TypeIfaceAdd, TypeIP4AddrAdd, TypeIP6AddrAdd, TypeFloodAdd] =
     [moduleMain, moduleInfra, moduleIP4, moduleIP6, moduleL2]"
  by (simp add: msg_type_defs)

end
