(* ===== verification/TableProps.thy ===== *)
theory TableProps
  imports Table Payloads
begin

text \<open>
  What the verbs do to grout's interface table, as run from the handlers' entry points: ADD, DEL
  and GC implement their specifications, DEL undoes ADD, and every table that a sequence of verbs
  reaches is well-formed.
\<close>

section \<open>Recorded runs\<close>

lemma add_run_log:
  assumes "run_state (HandleAdd (record_env env) (record_add cfg)) (w, []) = (r, (w', tr))"
  shows "(\<exists>e. r = Err e) \<and> lock_only (conf_GroutSocketPath (ac_Config cfg)) tr
    \<or> bracketed (conf_GroutSocketPath (ac_Config cfg)) 
        (add_trace (given (ac_MoveLink cfg), given (ac_ConfigurePodIface cfg)) (env_lib env) (ac_Config cfg) (ac_Args cfg)
        (groutPortName (env_unicode env) (args_ContainerID (ac_Args cfg)) (args_IfName (ac_Args cfg))) r) tr"
  using wpD [OF add_run assms] by simp

lemma del_run_log:
  assumes "run_state (HandleDel (record_env env) (record_del cfg)) (w, []) = (r, (w', tr))"
  shows "(\<exists>e. r = Err e) \<and> lock_only (conf_GroutSocketPath (dc_Config cfg)) tr
    \<or> bracketed (conf_GroutSocketPath (dc_Config cfg)) (del_trace (conf_GroutSocketPath (dc_Config cfg))
        (groutPortName (env_unicode env) (args_ContainerID (dc_Args cfg)) (args_IfName (dc_Args cfg))) r) tr"
  using wpD [OF del_run assms] by simp

lemma check_run_log:
  assumes "run_state (HandleCheck (record_env env) (record_del cfg)) (w, []) = (r, (w', tr))"
  shows "(\<exists>e. r = Err e) \<and> lock_only (conf_GroutSocketPath (dc_Config cfg)) tr
    \<or> bracketed (conf_GroutSocketPath (dc_Config cfg)) 
        (check_trace (env_lib env) (dc_Config cfg) (dc_Args cfg) (given (dc_VerifyPodIface cfg))
        (groutPortName (env_unicode env) (args_ContainerID (dc_Args cfg)) (args_IfName (dc_Args cfg))) r) tr"
  using wpD [OF check_run assms] by simp

lemma gc_run_log:
  assumes "run_state (HandleGC (record_env env) (record_gc cfg)) (w, []) = (r, (w', tr))"
  shows "(\<exists>e. r = Err e) \<and> lock_only (conf_GroutSocketPath (gcc_Config cfg)) tr
    \<or> bracketed (conf_GroutSocketPath (gcc_Config cfg)) (gc_trace (conf_GroutSocketPath (gcc_Config cfg))
        (conf_Bridge (gcc_Config cfg))
        (valid_names (env_unicode env) (conf_ValidAttachments (gcc_Config cfg))) r) tr"
  using wpD [OF gc_run assms] by simp

section \<open>The table after a verb\<close>

abbreviation add_name :: "('w, 'r) Env \<Rightarrow> ('w, 'r) AddConfig \<Rightarrow> string" where
  "add_name env cfg \<equiv>
     groutPortName (env_unicode env) (args_ContainerID (ac_Args cfg)) (args_IfName (ac_Args cfg))"

abbreviation del_name :: "('w, 'r) Env \<Rightarrow> ('w, 'r) DelConfig \<Rightarrow> string" where
  "del_name env cfg \<equiv>
     groutPortName (env_unicode env) (args_ContainerID (dc_Args cfg)) (args_IfName (dc_Args cfg))"

abbreviation gc_valid :: "('w, 'r) Env \<Rightarrow> ('w, 'r) GCConfig \<Rightarrow> string set" where
  "gc_valid env cfg \<equiv> valid_names (env_unicode env) (conf_ValidAttachments (gcc_Config cfg))"

lemma groutPortName_prefix: "strings_HasPrefix (groutPortName u c i) portPrefix"
  by (simp add: groutPortName_def Let_def)

lemma add_run_table_any:
  assumes "run_state (HandleAdd (record_env env) (record_add cfg)) (w, []) = (r, (w', tr))"
    and "table_run t tr = Some t'"
  shows "add_effect_on (hosts (conf_Bridge (ac_Config cfg)) t) (add_name env cfg) r (granted tr) t t'"
  using add_run_log [OF assms(1)]
proof (elim disjE conjE exE bracketed_table, goal_cases)
  case (1 e)
  then show ?case using assms(2) by (auto simp: lock_only_tableless add_effect_prepared)
next
  case (2 tr')
  then show ?case using add_trace_table [OF 2(1), of t t'] assms(2) by simp
qed

lemma add_run_table:
  assumes "run_state (HandleAdd (record_env env) (record_add cfg)) (w, []) = (r, (w', tr))"
    and "usable (conf_Bridge (ac_Config cfg)) t" "table_run t tr = Some t'"
  shows "add_effect (conf_Bridge (ac_Config cfg)) (add_name env cfg) r (granted tr) t t'"
  using add_run_table_any [OF assms(1,3)] by (simp add: hosts_usable [OF assms(2)])

lemma del_run_table:
  assumes "run_state (HandleDel (record_env env) (record_del cfg)) (w, []) = (r, (w', tr))"
    and "table_ok t" "table_run t tr = Some t'"
  shows "detach (del_name env cfg) t \<subseteq> t' \<and> t' \<subseteq> t \<and> table_ok t' \<and>
    (r = Ret () \<and> granted tr \<longrightarrow> t' = detach (del_name env cfg) t)"
  using del_run_log [OF assms(1)]
proof (elim disjE conjE exE bracketed_table, goal_cases)
  case (1 e)
  then show ?case using assms(2,3) by (auto simp: lock_only_tableless detach_def removed_def)
next
  case (2 tr')
  then show ?case using del_trace_table [OF 2(1) assms(2), of t'] assms(3) groutPortName_prefix by simp
qed

lemma gc_run_table:
  assumes "run_state (HandleGC (record_env env) (record_gc cfg)) (w, []) = (r, (w', tr))"
    and "table_ok t" "table_run t tr = Some t'"
  shows "collect (conf_Bridge (gcc_Config cfg)) (gc_valid env cfg) t \<subseteq> t' \<and> t' \<subseteq> t \<and> table_ok t' \<and>
    (r = Ret () \<and> granted tr \<longrightarrow> t' = collect (conf_Bridge (gcc_Config cfg)) (gc_valid env cfg) t)"
  using gc_run_log [OF assms(1)]
proof (elim disjE conjE exE bracketed_table, goal_cases)
  case (1 e)
  then show ?case using assms(2,3) by (auto simp: lock_only_tableless collect_def removed_def)
next
  case (2 tr')
  then show ?case using gc_trace_table [OF 2(1) assms(2), of t'] assms(3) by simp
qed

lemma check_trace_table:
  "check_trace lib conf args injected name r tr \<Longrightarrow> table_run t tr = Some t' \<Longrightarrow> t' = t"
  by (auto simp: check_trace_def net_table net_step_def dest!: pod_verified_net
      split: if_splits sum.splits)

lemma check_run_table:
  assumes "run_state (HandleCheck (record_env env) (record_del cfg)) (w, []) = (r, (w', tr))"
    and "table_run t tr = Some t'"
  shows "t' = t"
  using check_run_log [OF assms(1)]
proof (elim disjE conjE exE bracketed_table, goal_cases)
  case (2 tr')
  then show ?case using check_trace_table [OF 2(1), of t t'] assms(2) by simp
qed (use assms(2) in \<open>simp add: lock_only_tableless\<close>)

text \<open>
  What DEL leaves of a table that ADD made: of the port and its bridge \<open>br\<close>, only the bridge can
  be orphaned by the port's removal.
\<close>

lemma attached_orphaned:
  assumes ok: "table_ok t" and br: "bridges bridge t br" and f: "fresh (insert br t) port"
    and port: "if_Name port = name" "if_Domain port = if_ID br"
  shows "{x \<in> insert port (insert br t). if_Name x \<noteq> name} = insert br t"
    and "orphaned (\<lambda>x. if_Name x = name) (insert port (insert br t)) =
      {x. x = br \<and> (\<forall>y \<in> insert br t. if_Domain y \<noteq> if_ID br)}"
proof -
  let ?P = "\<lambda>x. if_Name x = name" and ?t1 = "insert port (insert br t)"
  have other: "if_Name x \<noteq> name" "if_ID x \<noteq> if_ID port" if "x \<in> insert br t" for x
    using f that port unfolding fresh_def by (metis image_eqI)+
  have is_br: "x = br" if "x \<in> insert br t" "if_ID x = if_ID br" for x
    using that br table_ok_unique(1) [OF ok] unfolding bridges_def fresh_def by (metis image_eqI insertE)
  show "{x \<in> ?t1. if_Name x \<noteq> name} = insert br t"
    using other(1) port(1) by blast
  have "x \<in> orphaned ?P ?t1 \<longleftrightarrow> x = br \<and> (\<forall>y \<in> insert br t. if_Domain y \<noteq> if_ID br)" for x
  proof
    assume x: "x \<in> orphaned ?P ?t1"
    then obtain p where p: "p \<in> ?t1" "?P p" "if_Domain p = if_ID x" unfolding orphaned_def by blast
    then have "p = port" using other(1) by blast
    with p port(2) have id: "if_ID x = if_ID br" by simp
    have "x \<noteq> port" using id other(2) [of br] by auto
    then have "x \<in> insert br t" using x unfolding orphaned_def by blast
    then have "x = br" using id by (rule is_br)
    moreover have "if_Domain y \<noteq> if_ID br" if "y \<in> insert br t" for y
    proof -
      have "\<forall>y \<in> ?t1. if_Domain y = if_ID x \<longrightarrow> if_Name y = name" 
        using x unfolding orphaned_def mem_Collect_eq by (elim conjE)
      then have "if_Domain y = if_ID x \<longrightarrow> if_Name y = name" using that by blast
      then show ?thesis using other(1) [OF that] id by simp
    qed
    ultimately show "x = br \<and> (\<forall>y \<in> insert br t. if_Domain y \<noteq> if_ID br)" by blast
  next
    assume "x = br \<and> (\<forall>y \<in> insert br t. if_Domain y \<noteq> if_ID br)"
    then show "x \<in> orphaned ?P ?t1"
      using br port by (simp add: orphaned_def bridges_def)
  qed
  then show "orphaned ?P ?t1 = {x. x = br \<and> (\<forall>y \<in> insert br t. if_Domain y \<noteq> if_ID br)}"
    by blast
qed

lemma detach_attaches:
  assumes ok: "table_ok t" and att: "attaches bridge name t t1"
  shows "detach name t1 =
    t - {b \<in> t. is_bridge b \<and> if_Name b = bridge \<and> (\<forall>x \<in> t. if_Domain x \<noteq> if_ID b)}"
proof -
  from att obtain br port where br: "bridges bridge t br" and f: "fresh (insert br t) port"
    and port: "if_Name port = name" "if_Domain port = if_ID br" and t1: "t1 = insert port (insert br t)"
    unfolding attaches_on_def by blast
  have b: "is_bridge br" "if_Name br = bridge" using br by (simp_all add: bridges_def)
  have det: "detach name t1 = insert br t - {x. x = br \<and> (\<forall>y \<in> insert br t. if_Domain y \<noteq> if_ID br)}"
    unfolding detach_def removed_def t1 attached_orphaned [OF ok br f port] ..
  show ?thesis
  proof (cases "br \<in> t")
    case True
    then have "x = br" if "x \<in> t" "if_Name x = bridge" for x
      using table_ok_unique(2) [OF ok that(1) True] that b(2) by simp
    then show ?thesis unfolding det insert_absorb [OF True] using b True by blast
  next
    case False
    then have new: "fresh t br" "if_Domain br = 0" using br by (auto simp: bridges_def)
    have "if_Domain y \<noteq> if_ID br" if "y \<in> t" for y
      using ok new(1) that unfolding table_ok_def fresh_def by (metis image_eqI)
    with new have "\<forall>y \<in> insert br t. if_Domain y \<noteq> if_ID br" by (simp add: fresh_def)
    moreover have "if_Name x \<noteq> bridge" if "x \<in> t" for x
      using new(1) b(2) that unfolding fresh_def by (metis image_eqI)
    ultimately show ?thesis unfolding det using False by blast
  qed
qed

lemma del_run_drops:
  assumes "run_state (HandleDel (record_env env) (record_del cfg)) (w, []) = (r, (w', tr))"
    and "unique t" "table_run t tr = Some t'"
  shows "drops t t'"
  using del_run_log [OF assms(1)]
proof (elim disjE conjE exE bracketed_table, goal_cases)
  case (2 tr')
  then show ?case using del_trace_drops [OF 2(1) assms(2), of t'] assms(3) groutPortName_prefix by simp
qed (use assms(3) in \<open>simp add: lock_only_tableless\<close>)

lemma gc_run_drops:
  assumes "run_state (HandleGC (record_env env) (record_gc cfg)) (w, []) = (r, (w', tr))"
    and "unique t" "table_run t tr = Some t'"
  shows "drops t t'"
  using gc_run_log [OF assms(1)]
proof (elim disjE conjE exE bracketed_table, goal_cases)
  case (2 tr')
  then show ?case using gc_trace_drops [OF 2(1) assms(2), of t'] assms(3) by simp
qed (use assms(3) in \<open>simp add: lock_only_tableless\<close>)

section \<open>Reachable tables\<close>

text \<open>
  The tables that runs of the verbs lead to, one after the other, from the table \<open>t0\<close>: each with
  its own configuration, and in a world that anything else may have changed in between. ADD runs
  only with a bridge name that \<open>A\<close> admits for the table it finds.
\<close>

inductive reachable :: "('w, 'r) Env \<Rightarrow> (string \<Rightarrow> table \<Rightarrow> bool) \<Rightarrow> table \<Rightarrow> table \<Rightarrow> bool"
  for env A t0 where
  start: "reachable env A t0 t0"
| add: "reachable env A t0 t \<Longrightarrow>
    run_state (HandleAdd (record_env env) (record_add acfg)) (w, []) = (ra, (w', tr)) \<Longrightarrow>
    A (conf_Bridge (ac_Config acfg)) t \<Longrightarrow> table_run t tr = Some t' \<Longrightarrow> reachable env A t0 t'"
| del: "reachable env A t0 t \<Longrightarrow>
    run_state (HandleDel (record_env env) (record_del dcfg)) (w, []) = (r, (w', tr)) \<Longrightarrow>
    table_run t tr = Some t' \<Longrightarrow> reachable env A t0 t'"
| check: "reachable env A t0 t \<Longrightarrow>
    run_state (HandleCheck (record_env env) (record_del dcfg)) (w, []) = (r, (w', tr)) \<Longrightarrow>
    table_run t tr = Some t' \<Longrightarrow> reachable env A t0 t'"
| gc: "reachable env A t0 t \<Longrightarrow>
    run_state (HandleGC (record_env env) (record_gc gcfg)) (w, []) = (r, (w', tr)) \<Longrightarrow>
    table_run t tr = Some t' \<Longrightarrow> reachable env A t0 t'"

lemma reachable_keeps:
  assumes "unique t0" "reachable env A t0 t"
  shows "unique t \<and> foreign t = foreign t0"
  using assms(2,1)
proof (induction rule: reachable.induct)
  case (add t acfg w ra w' tr t')
  then show ?case
    using add_effect_on_keeps [OF add_run_table_any [OF add(2,4)] groutPortName_prefix] by simp
next
  case (del t dcfg w r w' tr t')
  then show ?case using drops_keeps [OF del_run_drops [OF del(2) _ del(3)]] by simp
next
  case (check t dcfg w r w' tr t')
  then show ?case using check_run_table [OF check(2,3)] by simp
next
  case (gc t gcfg w r w' tr t')
  then show ?case using drops_keeps [OF gc_run_drops [OF gc(2) _ gc(3)]] by simp
qed simp

lemma reachable_ok:
  assumes "table_ok t0" "reachable env A t0 t" "\<forall>bridge s. A bridge s \<longrightarrow> usable bridge s"
  shows "table_ok t"
  using assms(2,1)
proof (induction rule: reachable.induct)
  case (add t acfg w ra w' tr t')
  then have "usable (conf_Bridge (ac_Config acfg)) t" using assms(3) by blast
  from add_effect_ok [OF _ this add_run_table [OF add(2) this add(4)]] add show ?case by simp
next
  case (del t dcfg w r w' tr t')
  then show ?case using del_run_table [OF del(2) _ del(3)] by simp
next
  case (check t dcfg w r w' tr t')
  then show ?case using check_run_table [OF check(2,3)] by simp
next
  case (gc t gcfg w r w' tr t')
  then show ?case using gc_run_table [OF gc(2) _ gc(3)] by simp
qed simp

section \<open>A grout that keeps its table\<close>

text \<open>
  A concrete environment for the witnesses: every call succeeds, and the grout client works on
  the list of its interfaces.
\<close>

definition table_client :: "InterfaceInfo list GroutClient" where
  "table_client =
     \<lparr>gc_InterfaceList = (\<lambda>_. State (\<lambda>l. (Inr l, l))),
      gc_InterfaceAdd = (\<lambda>rq. State (\<lambda>l. (Inr (word_of_nat (length l) + 1),
                                            l @ [new_iface rq (word_of_nat (length l) + 1)]))),
      gc_InterfaceDel = (\<lambda>i. State (\<lambda>l. (None, filter (\<lambda>x. if_ID x \<noteq> i) l))),
      gc_AddressAdd = (\<lambda>_. State_Monad.return None),
      gc_AddressFlush = (\<lambda>_. State_Monad.return None)\<rparr>"

definition plain_result :: Result where
  "plain_result =
     \<lparr>res_CNIVersion = ''1.0.0'', res_Interfaces = [], res_IPs = [], res_Routes = [], res_DNS = []\<rparr>"

definition calm_env :: "('w, Result) Env" where
  "calm_env =
     \<lparr>env_lib = \<lparr>json_Unmarshal = (\<lambda>_ c. Inr c), IPAM_IsEmpty = (\<lambda>_. False),
                 NewResultFromResult = Inr, ParsePrevResult = Inr\<rparr>,
      env_unicode = plain_tables,
      os_MkdirAll = (\<lambda>_. State_Monad.return None), os_Remove = (\<lambda>_. State_Monad.return None),
      os_Stat = (\<lambda>_. State_Monad.return None), unix_Open = (\<lambda>_. State_Monad.return (Inr 3)),
      unix_Flock_EX = (\<lambda>_. State_Monad.return (FlockDone None)),
      unix_Flock_UN = (\<lambda>_. State_Monad.return None), unix_Close = (\<lambda>_. State_Monad.return None),
      DelegateAdd = (\<lambda>_ _. State_Monad.return (Inr plain_result)),
      DelegateDel = (\<lambda>_ _. State_Monad.return None), DelegateGC = (\<lambda>_ _. State_Monad.return None),
      ns_GetNS = (\<lambda>_. State_Monad.return (Inr 4)), ns_Close = (\<lambda>_. State_Monad.return None),
      ns_Enter = (\<lambda>_. State_Monad.return None), ns_Leave = (\<lambda>_. State_Monad.return ()),
      LinkByName = (\<lambda>_ _. State_Monad.return
        (Inr \<lparr>link_Index = 1, link_Up = True, link_HardwareAddr = []\<rparr>)),
      LinkSetNsFd = (\<lambda>_ _. State_Monad.return None), LinkSetDown = (\<lambda>_ _. State_Monad.return None),
      LinkSetName = (\<lambda>_ _ _. State_Monad.return None), LinkSetMTU = (\<lambda>_ _ _. State_Monad.return None),
      LinkSetHardwareAddr = (\<lambda>_ _ _. State_Monad.return None),
      ConfigureIface = (\<lambda>_ _ _. State_Monad.return None),
      AddrList = (\<lambda>_ _. State_Monad.return (Inr [])),
      slog_SetDefault = (\<lambda>_. State_Monad.return ())\<rparr>"

definition sample_conf :: "Result PluginConf" where
  "sample_conf =
     zero_conf\<lparr>conf_Bridge := ''br-net'', conf_MTU := 1500, conf_InterfaceType := InterfaceTypeVirtio\<rparr>"

definition sample_args :: CmdArgs where
  "sample_args = \<lparr>args_ContainerID = ''pod'', args_Netns = [], args_IfName = ''eth0'', args_StdinData = []\<rparr>"

definition sample_add :: "(InterfaceInfo list, Result) AddConfig" where
  "sample_add =
     \<lparr>ac_Client = table_client, ac_Config = sample_conf, ac_Args = sample_args, ac_IPAMAdd = None,
      ac_IPAMDel = None, ac_MoveLink = None, ac_ConfigurePodIface = None\<rparr>"

definition sample_del :: "(InterfaceInfo list, Result) DelConfig" where
  "sample_del =
     \<lparr>dc_Client = table_client, dc_Config = sample_conf, dc_Args = sample_args, dc_IPAMDel = None,
      dc_VerifyPodIface = None\<rparr>"

definition sample_gc :: "(InterfaceInfo list, Result) GCConfig" where
  "sample_gc =
     \<lparr>gcc_Client = table_client, gcc_Config = sample_conf, gcc_Args = sample_args, gcc_IPAMGC = None\<rparr>"

definition sample_name :: string where
  "sample_name = groutPortName plain_tables ''pod'' ''eth0''"

definition sample_bridge :: InterfaceInfo where
  "sample_bridge = \<lparr>if_ID = 1, if_Type = InterfaceTypeBridge, if_Name = ''br-net'', if_Domain = 0\<rparr>"

definition sample_port :: InterfaceInfo where
  "sample_port =
     \<lparr>if_ID = 2, if_Type = Client.InterfaceTypeTAP, if_Name = sample_name, if_Domain = 1\<rparr>"

lemmas sample_defs =
  table_client_def plain_result_def calm_env_def sample_conf_def sample_args_def
  zero_conf_def sample_add_def sample_del_def sample_gc_def sample_bridge_def sample_port_def
  record_env_def record_add_def record_del_def record_gc_def logged_def

lemma sample_name_prefix: "strings_HasPrefix sample_name portPrefix"
  by (simp add: sample_name_def groutPortName_def Let_def)

lemma sample_name_neq: "sample_name \<noteq> ''br-net''"
proof
  assume "sample_name = ''br-net''"
  with sample_name_prefix have "strings_HasPrefix ''br-net'' portPrefix" by metis
  then show False by (simp add: strings_HasPrefix_def portPrefix_def)
qed

lemma lockPath_nonempty: "lockPathForSocket s \<noteq> []"
  by (simp add: lockPathForSocket_def)

lemma sample_lock:
  "run_state (with_lock (record_env calm_env) s body) (w, tr) =
     (case run_state body (w, tr @ [CMkdirAll (filepath_Dir (lockPathForSocket s)) None,
        COpen (lockPathForSocket s) (Inr 3), CFlockEX 3 (FlockDone None)]) of
      (r, (w', tr')) \<Rightarrow> (r, (w', tr' @ [CFlockUN 3, CClose 3])))"
  by (simp add: with_lock_def try_val_def try_op_def NewFileLock_def FileLock_Lock_def FileLock_Unlock_def
      FileLock_Close_def record_env_def calm_env_def logged_def lockPath_nonempty Let_def split: prod.split)

definition sample_add_log :: "Result call list" where
  "sample_add_log =
     [CMkdirAll (filepath_Dir (lockPathForSocket [])) None,
      COpen (lockPathForSocket []) (Inr 3), CFlockEX 3 (FlockDone None), CIPAMAdd (Inr plain_result),
      CIfaceList (Inr []), CIfaceAdd (bridge_request ''br-net'') (Inr 1)]
     @ port_dir sample_conf sample_name None
     @ [CIfaceAdd (port_request sample_conf sample_name 1 (port_sock sample_conf sample_name)) (Inr 2),
      CFlockUN 3, CClose 3]"

lemma sample_add_run:
  "\<exists>res. run_state (HandleAdd (record_env calm_env) (record_add sample_add)) ([], []) =
     (Ret res, ([sample_bridge, sample_port], sample_add_log))"
  unfolding HandleAdd_def Let_def sample_lock
  apply (simp add: sample_add_log_def port_dir_def port_sock_def try_val_def try_op_def sample_defs delegateIPAMAdd_def convertResult_def
    add_to_bridge_def ensureBridge_def findBridgeID_def gatewaysFor_def add_port_def InterfaceTypeVirtio_def
    vhostResult_def result_for_def Let_def sample_name_def new_iface_def port_request_def bridge_request_def)
  done

definition sample_del_log :: "Result call list" where
  "sample_del_log =
     [CMkdirAll (filepath_Dir (lockPathForSocket [])) None,
      COpen (lockPathForSocket []) (Inr 3), CFlockEX 3 (FlockDone None),
      CIfaceList (Inr [sample_bridge, sample_port]), CIfaceDel 2 None,
      CRemove (vhostSocketPath [] sample_name) None, CIfaceList (Inr [sample_bridge]),
      CAddrFlush 1 None, CIfaceDel 1 None, CIPAMDel, CFlockUN 3, CClose 3]"

lemma sample_del_run:
  "run_state (HandleDel (record_env calm_env) (record_del sample_del)) ([sample_bridge, sample_port], []) =
     (Ret (), ([], sample_del_log))"
  unfolding HandleDel_def Let_def sample_lock
  using sample_name_neq
  by (simp add: sample_del_log_def try_val_def sample_defs ipamDel_def delegateIPAMDel_def
    findPortByName_def gcBridgeIfEmpty_def removeVhostSocket_def sample_name_def
    Client.InterfaceTypeTAP_def InterfaceTypeBridge_def)

definition sample_gc_log :: "Result call list" where
  "sample_gc_log =
     [CMkdirAll (filepath_Dir (lockPathForSocket [])) None,
      COpen (lockPathForSocket []) (Inr 3), CFlockEX 3 (FlockDone None),
      CIfaceList (Inr [sample_bridge, sample_port]), CIfaceDel 2 None,
      CRemove (vhostSocketPath [] sample_name) None, CIfaceList (Inr [sample_bridge]),
      CAddrFlush 1 None, CIfaceDel 1 None, CIPAMGC, CFlockUN 3, CClose 3]"

lemma sample_gc_run:
  "run_state (HandleGC (record_env calm_env) (record_gc sample_gc)) ([sample_bridge, sample_port], []) =
     (Ret (), ([], sample_gc_log))"
  unfolding HandleGC_def Let_def sample_lock
  using sample_name_neq sample_name_prefix
  by (simp add: sample_gc_log_def try_val_def try_op_def sample_defs gcIPAM_def delegateIPAMGC_def
    findBridgeID_def gcBridgeIfEmpty_def removeVhostSocket_def valid_names_def gc_stale_def
    Client.InterfaceTypeTAP_def InterfaceTypeBridge_def)

lemma sample_fields [simp]:
  "if_ID sample_bridge = 1" "if_Name sample_bridge = ''br-net''" "if_Domain sample_bridge = 0"
  "is_bridge sample_bridge" "\<not> is_port sample_bridge"
  "if_ID sample_port = 2" "if_Name sample_port = sample_name" "if_Domain sample_port = 1"
  "\<not> is_bridge sample_port" "is_port sample_port"
  using sample_name_prefix
  by (simp_all add: sample_bridge_def sample_port_def is_bridge_def is_port_def portPrefix_def
      strings_HasPrefix_def Client.InterfaceTypeTAP_def InterfaceTypeBridge_def)

lemma sample_new:
  "new_iface (bridge_request ''br-net'') 1 = sample_bridge"
  "new_iface (port_request sample_conf sample_name 1 p) 2 = sample_port"
  by (simp_all add: new_iface_def bridge_request_def port_request_def sample_bridge_def sample_port_def)

lemma sample_ok: "table_ok {}" "table_ok {sample_bridge, sample_port}" "usable ''br-net'' {}"
  using sample_name_neq
  by (auto simp: table_ok_def usable_def strings_HasPrefix_def portPrefix_def inj_on_insert)

lemma sample_add_table: "table_run {} sample_add_log = Some {sample_bridge, sample_port}"
  using sample_name_neq
  by (simp add: sample_add_log_def port_dir_def sample_new fresh_def insert_commute)

lemma sample_left: "{x. (x = sample_bridge \<or> x = sample_port) \<and> if_ID x \<noteq> 2} = {sample_bridge}"
  by auto

lemma sample_del_table:
  "table_run {sample_bridge, sample_port} sample_del_log = Some {}" "granted sample_del_log"
  by (simp_all add: sample_del_log_def sample_left)

lemma sample_gc_table:
  "table_run {sample_bridge, sample_port} sample_gc_log = Some {}" "granted sample_gc_log"
  by (simp_all add: sample_gc_log_def sample_left)

section \<open>The verbs implement their specification\<close>

text \<open>
  C12: ADD against grout's interface table. If the answers of grout during an ADD agree with a
  table in which the configured bridge name is usable, then a successful ADD has added to the
  table exactly the attachment's port, as a member of the bridge of that name, and that bridge
  if it was not there. A failing ADD leaves the table as it was, apart from a bridge it may have
  created; only if grout refused the rollback is the port still there.
\<close>

theorem add_table:
  assumes "run_state (HandleAdd (record_env env) (record_add cfg)) (w, []) = (r, (w', tr))"
    and "usable (conf_Bridge (ac_Config cfg)) t" "table_run t tr = Some t'"
  shows "add_effect (conf_Bridge (ac_Config cfg)) (add_name env cfg) r (granted tr) t t'"
  using assms by (rule add_run_table)

theorem add_table_witness:
  "usable ''br-net'' {} \<and> table_run {} sample_add_log = Some {sample_bridge, sample_port} \<and>
   attaches ''br-net'' sample_name {} {sample_bridge, sample_port}"
proof -
  obtain res where "run_state (HandleAdd (record_env calm_env) (record_add sample_add)) ([], []) =
      (Ret res, ([sample_bridge, sample_port], sample_add_log))"
    using sample_add_run by blast
  from add_table [OF this _ sample_add_table] show ?thesis
    by (simp add: sample_ok sample_add_table sample_add_def sample_conf_def sample_args_def
        calm_env_def add_effect_on_def sample_name_def)
qed

text \<open>
  C13: DEL against grout's interface table. DEL removes nothing but the attachment's port and
  the bridge that this port was on, and the bridge only if no other interface is a member of it;
  a successful DEL in which grout refused nothing has removed exactly these.
\<close>

theorem del_table:
  assumes "run_state (HandleDel (record_env env) (record_del cfg)) (w, []) = (r, (w', tr))"
    and "table_ok t" "table_run t tr = Some t'"
  shows "detach (del_name env cfg) t \<subseteq> t' \<and> t' \<subseteq> t \<and>
    (r = Ret () \<and> granted tr \<longrightarrow> t' = detach (del_name env cfg) t)"
  using del_run_table [OF assms] by simp

theorem del_table_witness:
  "table_ok {sample_bridge, sample_port} \<and> granted sample_del_log \<and>
   table_run {sample_bridge, sample_port} sample_del_log = Some {} \<and>
   detach sample_name {sample_bridge, sample_port} = {}"
  using del_table [OF sample_del_run sample_ok(2) sample_del_table(1)] sample_del_table sample_ok(2)
  by (simp add: sample_del_def sample_args_def calm_env_def sample_name_def)

text \<open>
  C14: GC against grout's interface table. GC removes nothing but the ports on the network's
  bridge, recognised by their name prefix, that are not in the list of valid attachments, and
  the bridge itself if these were its last members; a successful GC in which grout refused
  nothing has removed exactly these. The scope is the bridge: a live port that another network
  put on the same bridge is removed as well.
\<close>

theorem gc_table:
  assumes "run_state (HandleGC (record_env env) (record_gc cfg)) (w, []) = (r, (w', tr))"
    and "table_ok t" "table_run t tr = Some t'"
  shows "collect (conf_Bridge (gcc_Config cfg)) (gc_valid env cfg) t \<subseteq> t' \<and> t' \<subseteq> t \<and>
    (r = Ret () \<and> granted tr \<longrightarrow> t' = collect (conf_Bridge (gcc_Config cfg)) (gc_valid env cfg) t)"
  using gc_run_table [OF assms] by simp

theorem gc_table_witness:
  "table_ok {sample_bridge, sample_port} \<and> granted sample_gc_log \<and>
   table_run {sample_bridge, sample_port} sample_gc_log = Some {} \<and>
   collect ''br-net'' {} {sample_bridge, sample_port} = {}"
  using gc_table [OF sample_gc_run sample_ok(2) sample_gc_table(1)] sample_gc_table sample_ok(2)
  by (simp add: sample_gc_def sample_conf_def zero_conf_def valid_names_def)

text \<open>
  C15: DEL undoes ADD. After a successful ADD and then a DEL of the same container and interface
  in which grout refused nothing, the table is what it was before the ADD, except that the
  network's bridge is gone if it was there without any member.
\<close>

theorem add_del_roundtrip:
  assumes "run_state (HandleAdd (record_env env) (record_add acfg)) (w, []) = (Ret res, (w', tr))"
    and "run_state (HandleDel (record_env env) (record_del dcfg)) (v, []) = (Ret (), (v', tr'))"
    and "args_ContainerID (dc_Args dcfg) = args_ContainerID (ac_Args acfg)"
    and "args_IfName (dc_Args dcfg) = args_IfName (ac_Args acfg)"
    and "table_ok t" "usable (conf_Bridge (ac_Config acfg)) t"
    and "table_run t (tr @ tr') = Some t2" "granted tr'"
  shows "t2 = t - {b \<in> t. is_bridge b \<and> if_Name b = conf_Bridge (ac_Config acfg) \<and>
                     (\<forall>x \<in> t. if_Domain x \<noteq> if_ID b)}"
proof -
  obtain t1 where t1: "table_run t tr = Some t1" "table_run t1 tr' = Some t2"
    using assms(7) by (auto simp: table_run_append split: option.splits)
  have att: "attaches (conf_Bridge (ac_Config acfg)) (add_name env acfg) t t1"
    using add_run_table [OF assms(1,6) t1(1)] by (simp add: add_effect_on_def)
  have "table_ok t1" by (rule attaches_ok [OF assms(5,6) att])
  from del_run_table [OF assms(2) this t1(2)] assms(3,4,8)
  have "t2 = detach (add_name env acfg) t1" by simp
  with detach_attaches [OF assms(5) att] show ?thesis by simp
qed

theorem add_del_roundtrip_witness:
  "table_run {} (sample_add_log @ sample_del_log) = Some {} \<and>
   ({} :: table) = {} - {b \<in> {}. is_bridge b \<and> if_Name b = ''br-net'' \<and> (\<forall>x \<in> {}. if_Domain x \<noteq> if_ID b)}"
proof -
  obtain res where run: "run_state (HandleAdd (record_env calm_env) (record_add sample_add)) ([], []) =
      (Ret res, ([sample_bridge, sample_port], sample_add_log))"
    using sample_add_run by blast
  have "table_run {} (sample_add_log @ sample_del_log) = Some {}"
    by (simp add: table_run_append sample_add_table sample_del_table)
  with add_del_roundtrip [OF run sample_del_run _ _ sample_ok(1) _ this sample_del_table(2)]
  show ?thesis
    by (simp add: sample_add_def sample_del_def sample_conf_def sample_ok(3))
qed



end
