(* ===== verification/Serial.thy ===== *)
theory Serial
  imports TableProps
begin

text \<open>
  Handlers that run at the same time. A schedule is the sequence of the calls that several
  processes make, each tagged with its process; \<open>flock_run\<close> follows the open files of the
  processes and the exclusive locks of \<open>flock(2)\<close> on them, one for each file. Each handler takes
  the lock of its control socket's lock file once and keeps its other calls inside, so in every
  schedule that the locks permit the handlers that share a lock file run as if one after the
  other. Handlers of different lock files are not ordered.
\<close>

section \<open>Schedules\<close>

type_synonym ('p, 'r) schedule = "('p \<times> 'r call) list"

definition calls_of :: "'p \<Rightarrow> ('p, 'r) schedule \<Rightarrow> 'r call list" where
  "calls_of p L = map snd (filter (\<lambda>x. fst x = p) L)"

definition acquires :: "'r call \<Rightarrow> bool" where
  "acquires c \<longleftrightarrow> (\<exists>fd. c = CFlockEX fd (FlockDone None))"

text \<open>
  What the kernel keeps: the path of each open descriptor of each process, and the owner of the
  lock of each file. Files are told apart by their path.
\<close>

record 'p kernel =
  files :: "'p \<times> int \<Rightarrow> string option"
  owner :: "string \<Rightarrow> ('p \<times> int) option"

definition idle :: "'p kernel" where
  "idle = \<lparr>files = (\<lambda>_. None), owner = (\<lambda>_. None)\<rparr>"

definition release :: "'p \<times> int \<Rightarrow> 'p kernel \<Rightarrow> 'p kernel" where
  "release d k = k\<lparr>owner := (\<lambda>path. if owner k path = Some d then None else owner k path)\<rparr>"

text \<open>
  A new descriptor is one that is not in use. An exclusive lock is granted only on an open
  descriptor and only when no other descriptor owns the lock of that file; it is given up with
  \<open>LOCK_UN\<close> on the descriptor or by closing it.
\<close>

fun flock_step :: "'p kernel \<Rightarrow> 'p \<times> 'r call \<Rightarrow> 'p kernel option" where
  "flock_step k (p, COpen path (Inr fd)) =
     (if files k (p, fd) = None then Some (k\<lparr>files := (files k)((p, fd) \<mapsto> path)\<rparr>) else None)"
| "flock_step k (p, CFlockEX fd (FlockDone None)) =
     (case files k (p, fd) of
        None \<Rightarrow> None
      | Some path \<Rightarrow>
          if owner k path = None \<or> owner k path = Some (p, fd)
          then Some (k\<lparr>owner := (owner k)(path \<mapsto> (p, fd))\<rparr>) else None)"
| "flock_step k (p, CFlockUN fd) = Some (release (p, fd) k)"
| "flock_step k (p, CClose fd) =
     Some ((release (p, fd) k)\<lparr>files := (files k)((p, fd) := None)\<rparr>)"
| "flock_step k (p, c) = Some k"

fun flock_run :: "'p kernel \<Rightarrow> ('p, 'r) schedule \<Rightarrow> 'p kernel option" where
  "flock_run k [] = Some k"
| "flock_run k (x # L) = (case flock_step k x of None \<Rightarrow> None | Some k' \<Rightarrow> flock_run k' L)"

text \<open>The part of a schedule that belongs to the processes with the lock file \<open>path\<close>.\<close>

definition sharing :: "('p \<Rightarrow> string) \<Rightarrow> string \<Rightarrow> ('p, 'r) schedule \<Rightarrow> ('p, 'r) schedule" where
  "sharing sock path L = filter (\<lambda>x. lockPathForSocket (sock (fst x)) = path) L"

text \<open>
  The calls that need the lock of \<open>path\<close>: all but those on the lock file and the creation of its
  directory.
\<close>

fun guarded :: "string \<Rightarrow> 'r call \<Rightarrow> bool" where
  "guarded path (CMkdirAll p _) = (p \<noteq> filepath_Dir path)"
| "guarded path c = (\<not> is_lock c)"

definition guarded_of :: "string \<Rightarrow> ('p, 'r) schedule \<Rightarrow> ('p, 'r) schedule" where
  "guarded_of path L = filter (\<lambda>x. guarded path (snd x)) L"

text \<open>The order in which the processes got the lock.\<close>

definition order :: "('p, 'r) schedule \<Rightarrow> 'p list" where
  "order L = map fst (filter (\<lambda>x. acquires (snd x)) L)"

text \<open>
  The schedule without interleaving: what the processes did, one after the other.
\<close>

definition serial :: "string \<Rightarrow> 'p list \<Rightarrow> ('p, 'r) schedule \<Rightarrow> ('p, 'r) schedule" where
  "serial path ps L = concat (map (\<lambda>p. filter (\<lambda>x. fst x = p) (guarded_of path L)) ps)"

section \<open>Lemmas\<close>

lemma flock_run_append:
  "flock_run h (xs @ ys) = (case flock_run h xs of None \<Rightarrow> None | Some h' \<Rightarrow> flock_run h' ys)"
  by (induction xs arbitrary: h) (auto split: option.split)

lemma calls_of_simps [simp]:
  "calls_of p [] = []"
  "calls_of p (L @ [x]) = calls_of p L @ (if fst x = p then [snd x] else [])"
  by (simp_all add: calls_of_def)

lemma order_simps [simp]:
  "order [] = []" "order (L @ [x]) = order L @ (if acquires (snd x) then [fst x] else [])"
  by (simp_all add: order_def)

lemma guarded_of_simps [simp]:
  "guarded_of path [] = []"
  "guarded_of path (L @ [x]) = guarded_of path L @ (if guarded path (snd x) then [x] else [])"
  by (simp_all add: guarded_of_def)

lemma sharing_simps [simp]:
  "sharing sock path [] = []"
  "sharing sock path (L @ [x]) =
     sharing sock path L @ (if lockPathForSocket (sock (fst x)) = path then [x] else [])"
  by (simp_all add: sharing_def)

lemma guarded_not_acquires: "guarded path c \<Longrightarrow> \<not> acquires c"
  by (auto simp: acquires_def)

lemma guarded_held:
  "guarded (lockPathForSocket sock) c \<Longrightarrow> lock_step sock st c = Some st' \<Longrightarrow>
   \<exists>fd. st = Held fd \<and> st' = Held fd"
  by (cases st; cases c) (auto split: if_splits sum.splits)

text \<open>
  The kernel's view of a process agrees with the process's own: it has no file open but its lock
  file, and owns no lock but that one.
\<close>

fun open_at :: "lock_state \<Rightarrow> int \<Rightarrow> bool" where
  "open_at Unlocked _ = False"
| "open_at (Opened fd) fd' = (fd' = fd)"
| "open_at (Held fd) fd' = (fd' = fd)"

definition agrees :: "string \<Rightarrow> 'p kernel \<Rightarrow> 'p \<Rightarrow> lock_state \<Rightarrow> bool" where
  "agrees path k p st \<longleftrightarrow>
     (\<forall>fd. files k (p, fd) = (if open_at st fd then Some path else None)) \<and>
     (\<forall>path' fd. owner k path' = Some (p, fd) \<longleftrightarrow> path' = path \<and> st = Held fd)"

lemma agrees_idle: "agrees path idle p Unlocked"
  by (simp add: agrees_def idle_def)

lemma flock_refused: "r \<noteq> FlockDone None \<Longrightarrow> flock_step k (p, CFlockEX fd r) = Some k"
  by (cases r; cases "case r of FlockDone e \<Rightarrow> e | _ \<Rightarrow> None") auto

lemma agrees_step:
  assumes "agrees (lockPathForSocket sock) k q st" "lock_step sock st c = Some st'"
    and "flock_step k (q, c) = Some k'"
  shows "agrees (lockPathForSocket sock) k' q st'"
  using assms
  by (cases st; cases c)
    (auto simp: agrees_def release_def flock_refused split: if_splits sum.splits)

text \<open>A call of one process changes nothing of another.\<close>

lemma flock_other:
  assumes "flock_step k (q, c) = Some k'" "p \<noteq> q"
  shows "files k' (p, fd) = files k (p, fd)"
    and "owner k' path = Some (p, fd) \<longleftrightarrow> owner k path = Some (p, fd)"
  using assms
  by (cases "(k, (q, c))" rule: flock_step.cases; auto simp: release_def split: if_splits option.splits)+

lemma agrees_other:
  "agrees path k p st \<Longrightarrow> flock_step k (q, c) = Some k' \<Longrightarrow> p \<noteq> q \<Longrightarrow> agrees path k' p st"
  by (simp add: agrees_def flock_other)

lemma order_acquires: "q \<in> set (order L) \<Longrightarrow> filter acquires (calls_of q L) \<noteq> []"
  by (auto simp: order_def calls_of_def filter_empty_conv)

lemma order_sharing: "set (order (sharing sock path L)) \<subseteq> set (order L)"
  by (auto simp: order_def sharing_def)

lemma serial_snoc_unguarded: "\<not> guarded path (snd x) \<Longrightarrow> serial path ps (L @ [x]) = serial path ps L"
  by (simp add: serial_def)

lemma serial_turn:
  "serial path (ps @ [p]) L = serial path ps L @ filter (\<lambda>y. fst y = p) (guarded_of path L)"
  by (simp add: serial_def)

lemma serial_snoc_guarded:
  assumes "guarded path (snd x)" "distinct (ps @ [fst x])"
  shows "serial path (ps @ [fst x]) (L @ [x]) = serial path (ps @ [fst x]) L @ [x]"
proof -
  have "map (\<lambda>p. filter (\<lambda>y. fst y = p) (guarded_of path (L @ [x]))) ps =
      map (\<lambda>p. filter (\<lambda>y. fst y = p) (guarded_of path L)) ps"
    using assms by (intro map_cong) auto
  then have "serial path ps (L @ [x]) = serial path ps L" by (simp only: serial_def)
  then show ?thesis using assms by (simp add: serial_turn)
qed

text \<open>The turns so far: nobody had two, the holder has the last, and they are not interleaved.\<close>

definition turns :: "string \<Rightarrow> 'p option \<Rightarrow> ('p, 'r) schedule \<Rightarrow> bool" where
  "turns path h L \<longleftrightarrow>
     distinct (order L) \<and> (\<forall>p. h = Some p \<longrightarrow> (\<exists>ps. order L = ps @ [p])) \<and>
     fst ` set (guarded_of path L) \<subseteq> set (order L) \<and> guarded_of path L = serial path (order L) L"

lemma turnsD:
  assumes "turns path h L"
  shows "distinct (order L)" "h = Some p \<Longrightarrow> \<exists>ps. order L = ps @ [p]"
    "fst ` set (guarded_of path L) \<subseteq> set (order L)" "guarded_of path L = serial path (order L) L"
  using assms unfolding turns_def by blast+

lemma turns_acquire:
  assumes t: "turns path h L" and c: "acquires c" "q \<notin> set (order L)"
  shows "turns path (Some q) (L @ [(q, c)])"
proof -
  have ng: "\<not> guarded path c" using c(1) guarded_not_acquires by blast
  have "q \<notin> fst ` set (guarded_of path L)" using turnsD(3) [OF t] c(2) by blast
  then have none: "filter (\<lambda>y. fst y = q) (guarded_of path L) = []" by (auto simp: filter_empty_conv)
  have "serial path (order L @ [q]) (L @ [(q, c)]) = serial path (order L @ [q]) L"
    by (rule serial_snoc_unguarded) (simp add: ng)
  also have "\<dots> = serial path (order L) L" by (simp add: serial_def none)
  finally have "serial path (order L @ [q]) (L @ [(q, c)]) = guarded_of path L"
    using turnsD(4) [OF t] by simp
  moreover have "fst ` set (guarded_of path L) \<subseteq> insert q (set (order L))"
    using turnsD(3) [OF t] by blast
  ultimately show ?thesis
    using turnsD(1) [OF t] c ng by (simp add: turns_def)
qed

lemma turns_guarded:
  assumes t: "turns path (Some q) L" and c: "guarded path c"
  shows "turns path (Some q) (L @ [(q, c)])"
proof -
  obtain ps where ps: "order L = ps @ [q]" using turnsD(2) [OF t] by blast
  then have "serial path (order L) (L @ [(q, c)]) = guarded_of path L @ [(q, c)]"
    using serial_snoc_guarded [of path "(q, c)" ps L] c turnsD(1,4) [OF t] by simp
  then show ?thesis
    using turnsD(1,3) [OF t] c guarded_not_acquires [OF c] ps by (simp add: turns_def)
qed

lemma turns_other:
  assumes "turns path h L" "\<not> acquires c" "\<not> guarded path c" "\<And>p. h' = Some p \<Longrightarrow> h = Some p"
  shows "turns path h' (L @ [(q, c)])"
  unfolding turns_def
proof (intro conjI allI impI)
  show "\<exists>ps. order (L @ [(q, c)]) = ps @ [p]" if "h' = Some p" for p
    using turnsD(2) [OF assms(1) assms(4) [OF that]] assms(2) by simp
qed (use turnsD [OF assms(1)] assms(2,3) in \<open>simp_all add: serial_snoc_unguarded\<close>)

text \<open>The process that owns the lock of a file.\<close>

definition holder :: "'p kernel \<Rightarrow> string \<Rightarrow> 'p option" where
  "holder k path = map_option fst (owner k path)"

lemma holder_agrees:
  "agrees path k q st \<Longrightarrow> holder k path = Some q \<longleftrightarrow> (\<exists>fd. st = Held fd)"
  by (auto simp: agrees_def holder_def)

lemma holder_other:
  assumes "agrees path' k q st" "agrees path' k' q st'" "flock_step k (q, c) = Some k'" "path \<noteq> path'"
  shows "holder k' path = holder k path"
  using assms
  by (cases "(k, (q, c))" rule: flock_step.cases)
    (auto simp: agrees_def holder_def release_def split: if_splits option.splits)

lemma holder_kept:
  assumes "flock_step k (q, c) = Some k'" "\<not> acquires c" "holder k' path = Some p"
  shows "holder k path = Some p"
  using assms
  by (cases "(k, (q, c))" rule: flock_step.cases)
    (auto simp: holder_def release_def acquires_def split: if_splits)

lemma turns_step:
  assumes t: "turns path (holder k path) L" and path: "lockPathForSocket s = path"
    and ag: "agrees path k q st" "agrees path k' q st'"
    and st: "lock_step s st c = Some st'" and k': "flock_step k (q, c) = Some k'"
    and once: "acquires c \<longrightarrow> q \<notin> set (order L)"
  shows "turns path (holder k' path) (L @ [(q, c)])"
proof -
  consider (acq) "acquires c" | (grd) "guarded path c" | (oth) "\<not> acquires c" "\<not> guarded path c"
    by blast
  then show ?thesis
  proof cases
    case acq
    then have "\<exists>fd. st' = Held fd"
      using st by (cases st) (auto simp: acquires_def split: if_splits)
    then have "holder k' path = Some q" using holder_agrees [OF ag(2)] by simp
    then show ?thesis using turns_acquire [OF t acq] once acq by simp
  next
    case grd
    then have "\<exists>fd. st = Held fd \<and> st' = Held fd" using guarded_held [OF _ st] path by simp
    then have "holder k path = Some q" "holder k' path = Some q"
      using holder_agrees [OF ag(1)] holder_agrees [OF ag(2)] by auto
    then show ?thesis using turns_guarded [OF _ grd] t by simp
  next
    case oth
    then show ?thesis using turns_other [OF t oth] holder_kept [OF k'] by blast
  qed
qed

text \<open>A schedule whose processes all keep the discipline of their lock file, each with one turn.\<close>

definition orderly :: "('p \<Rightarrow> string) \<Rightarrow> ('p, 'r) schedule \<Rightarrow> bool" where
  "orderly sock L \<longleftrightarrow>
     (\<forall>p. lock_run (sock p) Unlocked (calls_of p L) \<noteq> None \<and> length (filter acquires (calls_of p L)) \<le> 1)"

lemma orderly_snoc:
  assumes "orderly sock (L @ [(q, c)])"
  shows "orderly sock L"
    "\<exists>st st'. lock_run (sock q) Unlocked (calls_of q L) = Some st \<and> lock_step (sock q) st c = Some st'"
    "acquires c \<longrightarrow> q \<notin> set (order L)"
proof -
  have run: "lock_run (sock p) Unlocked (calls_of p (L @ [(q, c)])) \<noteq> None"
    and once: "length (filter acquires (calls_of p (L @ [(q, c)]))) \<le> 1" for p
    using assms unfolding orderly_def by blast+
  show "orderly sock L"
    unfolding orderly_def
  proof (intro allI conjI)
    show "lock_run (sock p) Unlocked (calls_of p L) \<noteq> None" for p
      using run [of p] by (auto simp: lock_run_append split: if_splits option.splits)
    show "length (filter acquires (calls_of p L)) \<le> 1" for p
      using once [of p] by (simp split: if_splits)
  qed
  show "\<exists>st st'. lock_run (sock q) Unlocked (calls_of q L) = Some st \<and> lock_step (sock q) st c = Some st'"
    using run [of q] by (auto simp: lock_run_append split: option.splits)
  show "acquires c \<longrightarrow> q \<notin> set (order L)"
    using once [of q] order_acquires [of q L] by auto
qed

lemma orderly_agrees:
  assumes "orderly sock L" "flock_run idle L = Some k" "lock_run (sock p) Unlocked (calls_of p L) = Some st"
  shows "agrees (lockPathForSocket (sock p)) k p st"
  using assms
proof (induction L arbitrary: k p st rule: rev_induct)
  case Nil
  then show ?case by (auto simp: agrees_idle)
next
  case (snoc x L)
  obtain q c where x: "x = (q, c)" by force
  obtain k0 where k0: "flock_run idle L = Some k0" "flock_step k0 (q, c) = Some k"
    using snoc.prems(2) by (auto simp: flock_run_append x split: option.splits)
  note IH = snoc.IH [OF orderly_snoc(1) [OF snoc.prems(1) [unfolded x]] k0(1)]
  show ?case
  proof (cases "p = q")
    case True
    with snoc.prems(3) obtain st0 where
      "lock_run (sock q) Unlocked (calls_of q L) = Some st0" "lock_step (sock q) st0 c = Some st"
      by (auto simp: lock_run_append x split: option.splits)
    with True agrees_step [OF IH _ k0(2)] show ?thesis by blast
  next
    case False
    then show ?thesis using agrees_other [OF IH k0(2)] snoc.prems(3) by (simp add: x)
  qed
qed

lemma orderly_turns:
  assumes "orderly sock L" "flock_run idle L = Some k"
  shows "turns path (holder k path) (sharing sock path L)"
  using assms
proof (induction L arbitrary: k rule: rev_induct)
  case Nil
  then show ?case by (auto simp: turns_def serial_def idle_def holder_def)
next
  case (snoc x L)
  obtain q c where x: "x = (q, c)" by force
  obtain k0 where k0: "flock_run idle L = Some k0" "flock_step k0 (q, c) = Some k"
    using snoc.prems(2) by (auto simp: flock_run_append x split: option.splits)
  note ord = orderly_snoc [OF snoc.prems(1) [unfolded x]]
  obtain st st' where st: "lock_run (sock q) Unlocked (calls_of q L) = Some st"
    "lock_step (sock q) st c = Some st'" using ord(2) by blast
  have ag: "agrees (lockPathForSocket (sock q)) k0 q st" "agrees (lockPathForSocket (sock q)) k q st'"
    using orderly_agrees [OF ord(1) k0(1) st(1)] orderly_agrees [OF snoc.prems, of q st'] st
    by (auto simp: x lock_run_append)
  have t: "turns path (holder k0 path) (sharing sock path L)" by (rule snoc.IH [OF ord(1) k0(1)])
  show ?case
  proof (cases "lockPathForSocket (sock q) = path")
    case True
    have "acquires c \<longrightarrow> q \<notin> set (order (sharing sock path L))"
      using ord(3) order_sharing [of sock path L] by blast
    with turns_step [OF t True ag [unfolded True] st(2) k0(2)] True show ?thesis by (simp add: x)
  next
    case False
    then have "holder k path = holder k0 path" using holder_other [OF ag k0(2)] by simp
    then show ?thesis using t False by (simp add: x)
  qed
qed

section \<open>Runs of the handlers\<close>

text \<open>The log of one run of a handler that is configured with the control socket \<open>sock\<close>.\<close>

definition handler_log :: "('w, 'r) Env \<Rightarrow> string \<Rightarrow> 'r call list \<Rightarrow> bool" where
  "handler_log env sock tr \<longleftrightarrow>
     (\<exists>cfg w r w'. conf_GroutSocketPath (ac_Config cfg) = sock \<and>
        run_state (HandleAdd (record_env env) (record_add cfg)) (w, []) = (r, (w', tr)))
     \<or> (\<exists>cfg w r w'. conf_GroutSocketPath (dc_Config cfg) = sock \<and>
        (run_state (HandleDel (record_env env) (record_del cfg)) (w, []) = (r, (w', tr))
         \<or> run_state (HandleCheck (record_env env) (record_del cfg)) (w, []) = (r, (w', tr))))
     \<or> (\<exists>cfg w r w'. conf_GroutSocketPath (gcc_Config cfg) = sock \<and>
        run_state (HandleGC (record_env env) (record_gc cfg)) (w, []) = (r, (w', tr)))"

text \<open>A handler takes the lock at most once, and is done with it at the end.\<close>

definition one_section :: "string \<Rightarrow> 'r call list \<Rightarrow> bool" where
  "one_section sock tr \<longleftrightarrow> lock_run sock Unlocked tr = Some Unlocked \<and> length (filter acquires tr) \<le> 1"

lemma lock_only_section: "lock_only sock tr \<Longrightarrow> one_section sock tr"
proof -
  assume *: "lock_only sock tr"
  then have "filter acquires tr = []" by (auto simp: lock_only_def acquires_def filter_empty_conv)
  with * show ?thesis by (simp add: lock_only_def one_section_def)
qed

lemma bracketed_section:
  assumes "bracketed sock P tr" "\<And>tr'. P tr' \<Longrightarrow> filter is_lock tr' = []"
  shows "one_section sock tr"
proof -
  have none: "filter acquires tr' = []" if "P tr'" for tr'
    using assms(2) [OF that] by (auto simp: acquires_def filter_empty_conv)
  have "length (filter acquires tr) \<le> 1"
    using assms(1) none unfolding bracketed_def by (auto simp: acquires_def)
  with bracketed_lock_run [OF assms] show ?thesis by (simp add: one_section_def)
qed

lemma handler_log_section: "handler_log env sock tr \<Longrightarrow> one_section sock tr"
  unfolding handler_log_def
  by (elim disjE exE conjE; drule add_run_log del_run_log check_run_log gc_run_log)
    (auto intro: lock_only_section elim!: bracketed_section
      dest: add_trace_lock del_trace_lock check_trace_lock gc_trace_lock)

lemma one_section_prefix:
  "one_section sock (xs @ ys) \<Longrightarrow> lock_run sock Unlocked xs \<noteq> None \<and> length (filter acquires xs) \<le> 1"
  by (auto simp: one_section_def lock_run_append split: option.splits)

section \<open>Two checks at once\<close>

definition sample_check_log :: "Result call list" where
  "sample_check_log =
     [CMkdirAll (filepath_Dir (lockPathForSocket [])) None,
      COpen (lockPathForSocket []) (Inr 3), CFlockEX 3 (FlockDone None),
      CIfaceList (Inr []), CFlockUN 3, CClose 3]"

lemma sample_check_run:
  "\<exists>e. run_state (HandleCheck (record_env calm_env) (record_del sample_del)) ([], []) =
     (Err e, ([], sample_check_log))"
  unfolding HandleCheck_def Let_def sample_lock
  by (simp add: sample_check_log_def try_val_def sample_defs findPortByName_def)

lemma sample_check_handler: "handler_log (calm_env :: (InterfaceInfo list, Result) Env) [] sample_check_log"
proof -
  obtain e where "run_state (HandleCheck (record_env calm_env) (record_del sample_del)) ([], []) =
      (Err e, ([], sample_check_log))"
    using sample_check_run by blast
  moreover have "conf_GroutSocketPath (dc_Config sample_del) = []"
    by (simp add: sample_del_def sample_conf_def zero_conf_def)
  ultimately show ?thesis unfolding handler_log_def by blast
qed

text \<open>
  Both of the socket's processes have opened the lock file before the first takes the lock.
\<close>

definition sample_schedule :: "(bool, Result) schedule" where
  "sample_schedule =
     map (Pair True) (take 2 sample_check_log) @ map (Pair False) (take 2 sample_check_log)
     @ map (Pair False) (drop 2 sample_check_log) @ map (Pair True) (drop 2 sample_check_log)"

section \<open>Serialisation\<close>

text \<open>
  C10: The handlers that share a lock file are serialised. Take any schedule of the calls of any
  number of processes, each with its own control socket, that the locks of \<open>flock(2)\<close> permit,
  and in which every process has made the calls of a run of some handler, or a part of them. Then
  the processes whose sockets have the lock file \<open>path\<close> have distinct turns, in the order in
  which they got its lock, and those of their calls that need the lock happened as if the handlers
  had run one after the other in these turns.
\<close>

theorem handlers_serialised:
  assumes "\<forall>p. \<exists>rest. handler_log (env p) (sock p) (calls_of p L @ rest)"
    and "flock_run idle L = Some k"
  shows "distinct (order (sharing sock path L)) \<and>
    guarded_of path (sharing sock path L) =
      serial path (order (sharing sock path L)) (sharing sock path L)"
proof -
  have "orderly sock L"
    unfolding orderly_def
  proof
    fix p
    from assms(1) obtain rest where "handler_log (env p) (sock p) (calls_of p L @ rest)" by blast
    then show "lock_run (sock p) Unlocked (calls_of p L) \<noteq> None \<and>
        length (filter acquires (calls_of p L)) \<le> 1"
      by (intro one_section_prefix) (rule handler_log_section)
  qed
  from orderly_turns [OF this assms(2), of path] show ?thesis
    by (auto dest: turnsD)
qed

theorem handlers_serialised_witness:
  "(\<exists>k. flock_run idle sample_schedule = Some k) \<and>
   sharing (\<lambda>_. []) (lockPathForSocket []) sample_schedule = sample_schedule \<and>
   order sample_schedule = [False, True] \<and> distinct (order sample_schedule) \<and>
   guarded_of (lockPathForSocket []) sample_schedule =
     serial (lockPathForSocket []) (order sample_schedule) sample_schedule"
proof -
  have "calls_of p sample_schedule @ [] = sample_check_log" for p
    by (cases p) (simp_all add: calls_of_def sample_schedule_def sample_check_log_def)
  then have "handler_log (calm_env :: (InterfaceInfo list, Result) Env) []
      (calls_of p sample_schedule @ [])" for p
    using sample_check_handler by simp
  then have runs: "\<forall>p. \<exists>rest. handler_log (calm_env :: (InterfaceInfo list, Result) Env) ((\<lambda>_. []) p)
      (calls_of p sample_schedule @ rest)"
    by blast
  have all: "sharing (\<lambda>_. []) (lockPathForSocket []) sample_schedule = sample_schedule"
    by (simp add: sharing_def)
  have "\<exists>k. flock_run idle sample_schedule = Some k"
    by (simp add: sample_schedule_def sample_check_log_def idle_def release_def)
  moreover from this obtain k where "flock_run idle sample_schedule = Some k" by blast
  note handlers_serialised [OF runs this, of "lockPathForSocket []", unfolded all]
  moreover have "order sample_schedule = [False, True]"
    by (simp add: sample_schedule_def sample_check_log_def order_def acquires_def)
  ultimately show ?thesis using all by blast
qed

end
