(* ===== verification/Plugin.thy ===== *)
theory Plugin
  imports HandlerProps Payloads
begin

text \<open>
  The plugin binary (\<open>src/cmd/grout-cni/main.go\<close>) and the installation of the logger
  (\<open>src/pkg/cni/logging.go\<close>): each verb loads its configuration, connects to grout, runs its
  handler over that connection and closes it.

  The world of the process is everything outside it: grout and the operating system, one state
  \<open>'g\<close>. While a verb is connected, its world is a \<open>Client\<close>: the connection, whose peer is that
  outside world, and the request counter. The environment's operations act on the peer
  (\<open>lift_env\<close>), the API calls go through the connection (\<open>groutClient\<close>).
\<close>

section \<open>The connected process\<close>

definition on_peer :: "('g, 'a) state \<Rightarrow> ('g Client, 'a) state" where
  "on_peer m = State (\<lambda>c.
     case run_state m (peer (conn c)) of (a, g) \<Rightarrow> (a, c\<lparr>conn := (conn c)\<lparr>peer := g\<rparr>\<rparr>))"

definition lift_env :: "('g, 'r) Env \<Rightarrow> ('g Client, 'r) Env" where
  "lift_env env =
     \<lparr>env_lib = env_lib env,
      env_unicode = env_unicode env,
      os_MkdirAll = (\<lambda>p. on_peer (os_MkdirAll env p)),
      os_Remove = (\<lambda>p. on_peer (os_Remove env p)),
      os_Stat = (\<lambda>p. on_peer (os_Stat env p)),
      unix_Open = (\<lambda>p. on_peer (unix_Open env p)),
      unix_Flock_EX = (\<lambda>fd. on_peer (unix_Flock_EX env fd)),
      unix_Flock_UN = (\<lambda>fd. on_peer (unix_Flock_UN env fd)),
      unix_Close = (\<lambda>fd. on_peer (unix_Close env fd)),
      DelegateAdd = (\<lambda>t d. on_peer (DelegateAdd env t d)),
      DelegateDel = (\<lambda>t d. on_peer (DelegateDel env t d)),
      DelegateGC = (\<lambda>t d. on_peer (DelegateGC env t d)),
      ns_GetNS = (\<lambda>p. on_peer (ns_GetNS env p)),
      ns_Close = (\<lambda>h. on_peer (ns_Close env h)),
      ns_Enter = (\<lambda>h. on_peer (ns_Enter env h)),
      ns_Leave = (\<lambda>h. on_peer (ns_Leave env h)),
      LinkByName = (\<lambda>ns n. on_peer (LinkByName env ns n)),
      LinkSetNsFd = (\<lambda>l h. on_peer (LinkSetNsFd env l h)),
      LinkSetDown = (\<lambda>ns l. on_peer (LinkSetDown env ns l)),
      LinkSetName = (\<lambda>ns l n. on_peer (LinkSetName env ns l n)),
      LinkSetMTU = (\<lambda>ns l m. on_peer (LinkSetMTU env ns l m)),
      LinkSetHardwareAddr = (\<lambda>ns l a. on_peer (LinkSetHardwareAddr env ns l a)),
      ConfigureIface = (\<lambda>ns n r. on_peer (ConfigureIface env ns n r)),
      AddrList = (\<lambda>ns l. on_peer (AddrList env ns l)),
      slog_SetDefault = (\<lambda>l. on_peer (slog_SetDefault env l))\<rparr>"

text \<open>\<open>*groutapi.Client\<close> as the handlers' \<open>GroutClient\<close>.\<close>

definition groutClient :: "'g Net \<Rightarrow> unicode_tables \<Rightarrow> 'g Client GroutClient" where
  "groutClient net u =
     \<lparr>gc_InterfaceList = InterfaceList net,
      gc_InterfaceAdd = InterfaceAdd net u,
      gc_InterfaceDel = InterfaceDel net,
      gc_AddressAdd = AddressAdd net,
      gc_AddressFlush = AddressFlush net\<rparr>"

section \<open>The verbs\<close>

definition supportedVersions :: "string list" where
  "supportedVersions = [''0.3.1'', ''0.4.0'', ''1.0.0'', ''1.1.0'']"

definition ConfigureLogging :: "('w, 'r) Env \<Rightarrow> 'r PluginConf \<Rightarrow> ('w, unit) state" where
  "ConfigureLogging env conf =
     slog_SetDefault env (parseLogLevel (env_unicode env) (conf_LogLevel conf))"

text \<open>The package's function variables, nil in production.\<close>

record ('w, 'r) Hooks =
  ipamAddFunc :: "('w, 'r) IPAMAddFunc option"
  ipamDelFunc :: "('w, 'r) IPAMDelFunc option"
  moveLinkFunc :: "'w MoveLinkFunc option"
  configurePodIfaceFunc :: "'w ConfigurePodIfaceFunc option"

definition production :: "('w, 'r) Hooks" where
  "production = \<lparr>ipamAddFunc = None, ipamDelFunc = None, moveLinkFunc = None,
                 configurePodIfaceFunc = None\<rparr>"

text \<open>
  The common start of every verb: load the configuration and install the logger, or return the
  error.
\<close>

definition with_config ::
  "('g, 'r) Env \<Rightarrow> CmdArgs \<Rightarrow> ('r PluginConf \<Rightarrow> ('g, 'a outcome) state) \<Rightarrow> ('g, 'a outcome) state" where
  "with_config env args k =
     (case LoadConfig (env_unicode env) (env_lib env) (args_StdinData args) of
        Inl err \<Rightarrow> State_Monad.return (Err (Wrapf ''loading config: %w'' [] err))
      | Inr config \<Rightarrow> do {
          _ \<leftarrow> ConfigureLogging env config;
          k config
        })"

text \<open>
  Connect, run the verb's work on the connection, and close it: the deferred \<open>Close\<close> runs when
  the work returns and when it panics. \<open>onerr\<close> is the error of a failed connection.
\<close>

definition with_client ::
  "'g Net \<Rightarrow> string \<Rightarrow> (error \<Rightarrow> error) \<Rightarrow> ('g Client, 'a outcome) state \<Rightarrow> ('g, 'a outcome) state" where
  "with_client net path onerr m = State (\<lambda>g.
     case Dial net path g of
       Inl (err, g') \<Rightarrow> (Err (onerr err), g')
     | Inr c \<Rightarrow> (case run_state m c of (r, c') \<Rightarrow> (r, snd (Client_Close net c'))))"

definition connecting :: "error \<Rightarrow> error" where
  "connecting err = Wrapf ''connecting to grout: %w'' [] err"

text \<open>\<open>Print\<close> is the result's method of the CNI library.\<close>

definition cmdAdd ::
  "'g Net \<Rightarrow> ('g, 'r) Env \<Rightarrow> ('g Client, 'r) Hooks \<Rightarrow> (Result \<Rightarrow> ('g, error option) state) \<Rightarrow> CmdArgs
   \<Rightarrow> ('g, unit outcome) state" where
  "cmdAdd net env hooks Print args =
     with_config env args (\<lambda>config.
       with_client net (conf_GroutSocketPath config) connecting (do {
         r \<leftarrow> HandleAdd (lift_env env)
                \<lparr>ac_Client = groutClient net (env_unicode env), ac_Config = config, ac_Args = args,
                 ac_IPAMAdd = ipamAddFunc hooks, ac_IPAMDel = ipamDelFunc hooks,
                 ac_MoveLink = moveLinkFunc hooks,
                 ac_ConfigurePodIface = configurePodIfaceFunc hooks\<rparr>;
         case r of
           Err err \<Rightarrow> State_Monad.return (Err (Wrapf ''CNI ADD: %w'' [] err))
         | Panic \<Rightarrow> State_Monad.return Panic
         | Ret result \<Rightarrow> do {
             e \<leftarrow> on_peer (Print result);
             State_Monad.return (case e of None \<Rightarrow> Ret () | Some err \<Rightarrow> Err err)
           }
       }))"

definition cmdDel ::
  "'g Net \<Rightarrow> ('g, 'r) Env \<Rightarrow> ('g Client, 'r) Hooks \<Rightarrow> CmdArgs \<Rightarrow> ('g, unit outcome) state" where
  "cmdDel net env hooks args =
     with_config env args (\<lambda>config.
       with_client net (conf_GroutSocketPath config) connecting
         (HandleDel (lift_env env)
            \<lparr>dc_Client = groutClient net (env_unicode env), dc_Config = config, dc_Args = args,
             dc_IPAMDel = ipamDelFunc hooks, dc_VerifyPodIface = None\<rparr>))"

definition cmdCheck ::
  "'g Net \<Rightarrow> ('g, 'r) Env \<Rightarrow> CmdArgs \<Rightarrow> ('g, unit outcome) state" where
  "cmdCheck net env args =
     with_config env args (\<lambda>config.
       with_client net (conf_GroutSocketPath config) connecting
         (HandleCheck (lift_env env)
            \<lparr>dc_Client = groutClient net (env_unicode env), dc_Config = config, dc_Args = args,
             dc_IPAMDel = None, dc_VerifyPodIface = None\<rparr>))"

definition cmdGC ::
  "'g Net \<Rightarrow> ('g, 'r) Env \<Rightarrow> CmdArgs \<Rightarrow> ('g, unit outcome) state" where
  "cmdGC net env args =
     with_config env args (\<lambda>config.
       with_client net (conf_GroutSocketPath config) connecting
         (HandleGC (lift_env env)
            \<lparr>gcc_Client = groutClient net (env_unicode env), gcc_Config = config, gcc_Args = args,
             gcc_IPAMGC = None\<rparr>))"

definition cmdStatus ::
  "'g Net \<Rightarrow> ('g, 'r) Env \<Rightarrow> CmdArgs \<Rightarrow> ('g, unit outcome) state" where
  "cmdStatus net env args =
     with_config env args (\<lambda>config.
       with_client net (conf_GroutSocketPath config)
         (\<lambda>err. NewError ErrPluginNotAvailable
            (Wrapf ''grout not reachable at %s: %v'' [AStr (conf_GroutSocketPath config)] err) [])
         (State_Monad.return (Ret ())))"

text \<open>The table that \<open>main\<close> hands to the CNI library, by verb.\<close>

datatype verb = ADD | DEL | CHECK | GC | STATUS

definition main ::
  "'g Net \<Rightarrow> ('g, 'r) Env \<Rightarrow> (Result \<Rightarrow> ('g, error option) state) \<Rightarrow> verb \<Rightarrow> CmdArgs
   \<Rightarrow> ('g, unit outcome) state" where
  "main net env Print v =
     (case v of
        ADD \<Rightarrow> cmdAdd net env production Print
      | DEL \<Rightarrow> cmdDel net env production
      | CHECK \<Rightarrow> cmdCheck net env
      | GC \<Rightarrow> cmdGC net env
      | STATUS \<Rightarrow> cmdStatus net env)"

end
