(* ===== verification/PluginProps.thy ===== *)
theory PluginProps
  imports Plugin
begin

text \<open>
  Properties of the plugin's verbs: what they do when the configuration or the connection
  fails, and that every connection is closed. For the latter the outside world is extended by
  the number of open connections (\<open>track_net\<close>, \<open>pair_env\<close>); a simulation, the second
  interpretation of \<open>env_sim\<close>, shows that the extension changes nothing and that no handler
  touches the number.
\<close>

section \<open>Counting connections\<close>

definition on_fst :: "('g, 'a) state \<Rightarrow> ('g \<times> int, 'a) state" where
  "on_fst m = State (\<lambda>(g, k). case run_state m g of (a, g') \<Rightarrow> (a, (g', k)))"

definition track_net :: "'g Net \<Rightarrow> ('g \<times> int) Net" where
  "track_net net =
     \<lparr>net_dial = (\<lambda>path (g, k). map_sum id (\<lambda>g'. (g', k + 1)) (net_dial net path g)),
      peer_recv = (\<lambda>bs (g, k). case peer_recv net bs g of (e, out, g') \<Rightarrow> (e, out, (g', k))),
      net_close = (\<lambda>(g, k). case net_close net g of (e, g') \<Rightarrow> (e, (g', k - 1)))\<rparr>"

definition pair_env :: "('g, 'r) Env \<Rightarrow> ('g \<times> int, 'r) Env" where
  "pair_env env =
     \<lparr>env_lib = env_lib env,
      env_unicode = env_unicode env,
      os_MkdirAll = (\<lambda>p. on_fst (os_MkdirAll env p)),
      os_Remove = (\<lambda>p. on_fst (os_Remove env p)),
      os_Stat = (\<lambda>p. on_fst (os_Stat env p)),
      unix_Open = (\<lambda>p. on_fst (unix_Open env p)),
      unix_Flock_EX = (\<lambda>fd. on_fst (unix_Flock_EX env fd)),
      unix_Flock_UN = (\<lambda>fd. on_fst (unix_Flock_UN env fd)),
      unix_Close = (\<lambda>fd. on_fst (unix_Close env fd)),
      DelegateAdd = (\<lambda>t d. on_fst (DelegateAdd env t d)),
      DelegateDel = (\<lambda>t d. on_fst (DelegateDel env t d)),
      DelegateGC = (\<lambda>t d. on_fst (DelegateGC env t d)),
      ns_GetNS = (\<lambda>p. on_fst (ns_GetNS env p)),
      ns_Close = (\<lambda>h. on_fst (ns_Close env h)),
      ns_Enter = (\<lambda>h. on_fst (ns_Enter env h)),
      ns_Leave = (\<lambda>h. on_fst (ns_Leave env h)),
      LinkByName = (\<lambda>ns n. on_fst (LinkByName env ns n)),
      LinkSetNsFd = (\<lambda>l h. on_fst (LinkSetNsFd env l h)),
      LinkSetDown = (\<lambda>ns l. on_fst (LinkSetDown env ns l)),
      LinkSetName = (\<lambda>ns l n. on_fst (LinkSetName env ns l n)),
      LinkSetMTU = (\<lambda>ns l m. on_fst (LinkSetMTU env ns l m)),
      LinkSetHardwareAddr = (\<lambda>ns l a. on_fst (LinkSetHardwareAddr env ns l a)),
      ConfigureIface = (\<lambda>ns n r. on_fst (ConfigureIface env ns n r)),
      AddrList = (\<lambda>ns l. on_fst (AddrList env ns l)),
      slog_SetDefault = (\<lambda>l. on_fst (slog_SetDefault env l))\<rparr>"

section \<open>The simulation\<close>

definition tracked_conn :: "int \<Rightarrow> ('g \<times> int) Conn \<Rightarrow> 'g Conn \<Rightarrow> bool" where
  "tracked_conn k cn cn' \<longleftrightarrow> inq cn = inq cn' \<and> peer cn = (peer cn', k)"

definition tracked :: "int \<Rightarrow> ('g \<times> int) Client \<Rightarrow> 'g Client \<Rightarrow> bool" where
  "tracked k c c' \<longleftrightarrow> tracked_conn k (conn c) (conn c') \<and> reqID c = reqID c'"

lemma sim_conn_Write [sim_rules]:
  "sim (tracked_conn k) (conn_Write (track_net net) bs) (conn_Write net bs)"
  by (auto simp: sim_def tracked_conn_def conn_Write_def track_net_def split: prod.splits)

lemma sim_io_ReadFull [sim_rules]: "sim (tracked_conn k) (io_ReadFull n) (io_ReadFull n)"
  by (auto simp: sim_def tracked_conn_def io_ReadFull_def)

lemma sim_writeRequest [sim_rules]:
  "sim (tracked_conn k) (writeRequest (track_net net) i t p) (writeRequest net i t p)"
  unfolding writeRequest_def Let_def by (intro sim_rules)

lemma sim_readResponse [sim_rules]: "sim (tracked_conn k) readResponse readResponse"
  unfolding readResponse_def Let_def by (intro sim_rules)

lemma stream_loop_tracked:
  "tracked_conn k cn cn' \<Longrightarrow>
   fst (stream_loop i items cn) = fst (stream_loop i items cn') \<and>
   tracked_conn k (snd (stream_loop i items cn)) (snd (stream_loop i items cn'))"
proof (induction i items cn' arbitrary: cn rule: stream_loop.induct)
  case (1 i items cn')
  obtain a cn1 where r: "run_state readResponse cn = (a, cn1)" by force
  obtain b cn1' where r': "run_state readResponse cn' = (b, cn1')" by force
  have ab: "a = b" "tracked_conn k cn1 cn1'"
    using simD [OF sim_readResponse "1.prems" r r'] by simp_all
  show ?case
  proof (cases b)
    case (Inl e)
    with r r' ab show ?thesis by (simp add: stream_loop.simps)
  next
    case (Inr hp)
    obtain hdr p where hp: "hp = (hdr, p)" by force
    show ?thesis
      using "1.IH" [OF r' [symmetric]] r r' ab Inr hp
      by (subst (1 2 3 4) stream_loop.simps) auto
  qed
qed

lemma sim_stream_loop [sim_rules]:
  "sim (tracked_conn k) (State (stream_loop i items)) (State (stream_loop i items))"
  by (auto simp: sim_def dest: stream_loop_tracked)

lemma sim_on_conn [sim_rules]: "sim (tracked_conn k) m m' \<Longrightarrow> sim (tracked k) (on_conn m) (on_conn m')"
  by (fastforce simp: sim_def tracked_def on_conn_def split: prod.splits)

lemma sim_nextID [sim_rules]: "sim (tracked k) nextID nextID"
  by (auto simp: sim_def tracked_def nextID_def)

lemma sim_prod [sim_rules]:
  "(\<And>x y. sim R (f x y) (g x y)) \<Longrightarrow> sim R (case p of (x, y) \<Rightarrow> f x y) (case p of (x, y) \<Rightarrow> g x y)"
  by (simp split: prod.split)

lemma sim_exchanges [sim_rules]:
  "sim (tracked k) (request (track_net net) t p n) (request net t p n)"
  "sim (tracked k) (requestStream (track_net net) t p) (requestStream net t p)"
  unfolding request_def requestStream_def by (intro sim_rules)+

lemma sim_send [sim_rules]: "sim (tracked k) (send (track_net net) t p wr) (send net t p wr)"
  unfolding send_def by (intro sim_rules)

lemma sim_on_peer: "sim (tracked k) (on_peer (on_fst m)) (on_peer m)"
  by (auto simp: sim_def tracked_def tracked_conn_def on_peer_def on_fst_def split: prod.splits)

lemma lift_env_simps [simp]:
  "env_lib (lift_env env) = env_lib env" "env_unicode (lift_env env) = env_unicode env"
  "env_lib (pair_env env) = env_lib env" "env_unicode (pair_env env) = env_unicode env"
  by (simp_all add: lift_env_def pair_env_def)

lemma lift_env_ops:
  "os_MkdirAll (lift_env env) p = on_peer (os_MkdirAll env p)"
  "os_Remove (lift_env env) p = on_peer (os_Remove env p)"
  "os_Stat (lift_env env) p = on_peer (os_Stat env p)"
  "unix_Open (lift_env env) p = on_peer (unix_Open env p)"
  "unix_Flock_EX (lift_env env) fd = on_peer (unix_Flock_EX env fd)"
  "unix_Flock_UN (lift_env env) fd = on_peer (unix_Flock_UN env fd)"
  "unix_Close (lift_env env) fd = on_peer (unix_Close env fd)"
  "DelegateAdd (lift_env env) t d = on_peer (DelegateAdd env t d)"
  "DelegateDel (lift_env env) t d = on_peer (DelegateDel env t d)"
  "DelegateGC (lift_env env) t d = on_peer (DelegateGC env t d)"
  "ns_GetNS (lift_env env) p = on_peer (ns_GetNS env p)"
  "ns_Close (lift_env env) h = on_peer (ns_Close env h)"
  "ns_Enter (lift_env env) h = on_peer (ns_Enter env h)"
  "ns_Leave (lift_env env) h = on_peer (ns_Leave env h)"
  "LinkByName (lift_env env) ns n = on_peer (LinkByName env ns n)"
  "LinkSetNsFd (lift_env env) l h = on_peer (LinkSetNsFd env l h)"
  "LinkSetDown (lift_env env) ns l = on_peer (LinkSetDown env ns l)"
  "LinkSetName (lift_env env) ns l n = on_peer (LinkSetName env ns l n)"
  "LinkSetMTU (lift_env env) ns l m = on_peer (LinkSetMTU env ns l m)"
  "LinkSetHardwareAddr (lift_env env) ns l a = on_peer (LinkSetHardwareAddr env ns l a)"
  "ConfigureIface (lift_env env) ns n r = on_peer (ConfigureIface env ns n r)"
  "AddrList (lift_env env) ns l = on_peer (AddrList env ns l)"
  by (simp_all add: lift_env_def)

lemma pair_env_ops:
  "os_MkdirAll (pair_env env) p = on_fst (os_MkdirAll env p)"
  "os_Remove (pair_env env) p = on_fst (os_Remove env p)"
  "os_Stat (pair_env env) p = on_fst (os_Stat env p)"
  "unix_Open (pair_env env) p = on_fst (unix_Open env p)"
  "unix_Flock_EX (pair_env env) fd = on_fst (unix_Flock_EX env fd)"
  "unix_Flock_UN (pair_env env) fd = on_fst (unix_Flock_UN env fd)"
  "unix_Close (pair_env env) fd = on_fst (unix_Close env fd)"
  "DelegateAdd (pair_env env) t d = on_fst (DelegateAdd env t d)"
  "DelegateDel (pair_env env) t d = on_fst (DelegateDel env t d)"
  "DelegateGC (pair_env env) t d = on_fst (DelegateGC env t d)"
  "ns_GetNS (pair_env env) p = on_fst (ns_GetNS env p)"
  "ns_Close (pair_env env) h = on_fst (ns_Close env h)"
  "ns_Enter (pair_env env) h = on_fst (ns_Enter env h)"
  "ns_Leave (pair_env env) h = on_fst (ns_Leave env h)"
  "LinkByName (pair_env env) ns n = on_fst (LinkByName env ns n)"
  "LinkSetNsFd (pair_env env) l h = on_fst (LinkSetNsFd env l h)"
  "LinkSetDown (pair_env env) ns l = on_fst (LinkSetDown env ns l)"
  "LinkSetName (pair_env env) ns l n = on_fst (LinkSetName env ns l n)"
  "LinkSetMTU (pair_env env) ns l m = on_fst (LinkSetMTU env ns l m)"
  "LinkSetHardwareAddr (pair_env env) ns l a = on_fst (LinkSetHardwareAddr env ns l a)"
  "ConfigureIface (pair_env env) ns n r = on_fst (ConfigureIface env ns n r)"
  "AddrList (pair_env env) ns l = on_fst (AddrList env ns l)"
  by (simp_all add: pair_env_def)

lemma groutClient_ops:
  "gc_InterfaceList (groutClient net u) = InterfaceList net"
  "gc_InterfaceAdd (groutClient net u) = InterfaceAdd net u"
  "gc_InterfaceDel (groutClient net u) = InterfaceDel net"
  "gc_AddressAdd (groutClient net u) = AddressAdd net"
  "gc_AddressFlush (groutClient net u) = AddressFlush net"
  by (simp_all add: groutClient_def)

lemma sim_api:
  "sim (tracked k) (InterfaceList (track_net net) t) (InterfaceList net t)"
  "sim (tracked k) (InterfaceAdd (track_net net) u rq) (InterfaceAdd net u rq)"
  "sim (tracked k) (InterfaceDel (track_net net) i) (InterfaceDel net i)"
  "sim (tracked k) (AddressAdd (track_net net) ra) (AddressAdd net ra)"
  "sim (tracked k) (AddressFlush (track_net net) i) (AddressFlush net i)"
  unfolding InterfaceList_def InterfaceAdd_def InterfaceDel_def AddressAdd_def AddressFlush_def Let_def
  by (intro sim_rules)+

interpretation tr: env_sim "tracked k" "lift_env (pair_env env)" "lift_env env"
  "groutClient (track_net net) u" "groutClient net u"
  for k and env :: "('g, 'r) Env" and net :: "'g Net" and u
  by unfold_locales
    (simp_all only: lift_env_simps lift_env_ops pair_env_ops groutClient_ops sim_on_peer sim_api)

text \<open>A verb's work, over the tracked and over the plain world.\<close>

definition verb_work ::
  "'g Net \<Rightarrow> ('g, 'r) Env \<Rightarrow> (Result \<Rightarrow> ('g, error option) state) \<Rightarrow> CmdArgs \<Rightarrow> verb
   \<Rightarrow> 'r PluginConf \<Rightarrow> ('g Client, unit outcome) state" where
  "verb_work net env Print args v config =
     (case v of
        ADD \<Rightarrow> do {
          r \<leftarrow> HandleAdd (lift_env env)
                 \<lparr>ac_Client = groutClient net (env_unicode env), ac_Config = config, ac_Args = args,
                  ac_IPAMAdd = None, ac_IPAMDel = None, ac_MoveLink = None,
                  ac_ConfigurePodIface = None\<rparr>;
          case r of
            Err err \<Rightarrow> State_Monad.return (Err (Wrapf ''CNI ADD: %w'' [] err))
          | Panic \<Rightarrow> State_Monad.return Panic
          | Ret result \<Rightarrow> do {
              e \<leftarrow> on_peer (Print result);
              State_Monad.return (case e of None \<Rightarrow> Ret () | Some err \<Rightarrow> Err err)
            }
        }
      | DEL \<Rightarrow> HandleDel (lift_env env)
          \<lparr>dc_Client = groutClient net (env_unicode env), dc_Config = config, dc_Args = args,
           dc_IPAMDel = None, dc_VerifyPodIface = None\<rparr>
      | CHECK \<Rightarrow> HandleCheck (lift_env env)
          \<lparr>dc_Client = groutClient net (env_unicode env), dc_Config = config, dc_Args = args,
           dc_IPAMDel = None, dc_VerifyPodIface = None\<rparr>
      | GC \<Rightarrow> HandleGC (lift_env env)
          \<lparr>gcc_Client = groutClient net (env_unicode env), gcc_Config = config, gcc_Args = args,
           gcc_IPAMGC = None\<rparr>
      | STATUS \<Rightarrow> State_Monad.return (Ret ()))"

definition dial_error :: "verb \<Rightarrow> string \<Rightarrow> error \<Rightarrow> error" where
  "dial_error v path err =
     (if v = STATUS
      then NewError ErrPluginNotAvailable (Wrapf ''grout not reachable at %s: %v'' [AStr path] err) []
      else connecting err)"

lemma main_work:
  "main net env Print v args =
     with_config env args (\<lambda>config.
       with_client net (conf_GroutSocketPath config) (dial_error v (conf_GroutSocketPath config))
         (verb_work net env Print args v config))"
  by (cases v)
    (simp_all add: main_def cmdAdd_def cmdDel_def cmdCheck_def cmdGC_def cmdStatus_def production_def
      verb_work_def dial_error_def [abs_def])

lemma verb_work_sim:
  "sim (tracked k) (verb_work (track_net net) (pair_env env) (\<lambda>r. on_fst (Print r)) args v config)
     (verb_work net env Print args v config)"
proof (cases v)
  case ADD
  have "sim (tracked k)
    (HandleAdd (lift_env (pair_env env)) \<lparr>ac_Client = groutClient (track_net net) (env_unicode env),
       ac_Config = config, ac_Args = args, ac_IPAMAdd = None, ac_IPAMDel = None, ac_MoveLink = None,
       ac_ConfigurePodIface = None\<rparr>)
    (HandleAdd (lift_env env) \<lparr>ac_Client = groutClient net (env_unicode env), ac_Config = config,
       ac_Args = args, ac_IPAMAdd = None, ac_IPAMDel = None, ac_MoveLink = None,
       ac_ConfigurePodIface = None\<rparr>)"
    by (intro add_sim.HandleAdd_sim add_sim.intro add_sim_axioms.intro)
      (simp_all add: tr.env_sim_axioms)
  then show ?thesis
    unfolding verb_work_def ADD verb.case lift_env_simps
    by (intro sim_rules sim_on_peer)
next
  case GC
  show ?thesis
    unfolding verb_work_def GC verb.case lift_env_simps
    by (intro gc_sim.HandleGC_sim gc_sim.intro gc_sim_axioms.intro) (simp_all add: tr.env_sim_axioms)
next
  case STATUS
  show ?thesis unfolding verb_work_def STATUS verb.case by (intro sim_rules)
next
  case DEL
  show ?thesis
    unfolding verb_work_def DEL verb.case lift_env_simps
    by (intro del_sim.HandleDel_sim del_sim.intro del_sim_axioms.intro) (simp_all add: tr.env_sim_axioms)
next
  case CHECK
  show ?thesis
    unfolding verb_work_def CHECK verb.case lift_env_simps
    by (intro del_sim.HandleCheck_sim del_sim.intro del_sim_axioms.intro) (simp_all add: tr.env_sim_axioms)
qed

lemma sim_hello: "sim (tracked k) (hello (track_net net)) (hello net)"
  unfolding hello_def by (rule sim_exchanges)

text \<open>Dialling opens one connection, and closes it again when the handshake fails.\<close>

lemma Dial_tracked:
  "case Dial net path g of
     Inl (err, g') \<Rightarrow> Dial (track_net net) path (g, k) = Inl (err, (g', k))
   | Inr c' \<Rightarrow> (\<exists>c. Dial (track_net net) path (g, k) = Inr c \<and> tracked (k + 1) c c')"
proof (cases "net_dial net path g")
  case (Inl err)
  then show ?thesis by (simp add: Dial_def track_net_def)
next
  case (Inr g1)
  let ?c = "\<lparr>conn = \<lparr>peer = (g1, k + 1), inq = []\<rparr>, reqID = 0\<rparr>"
  let ?c' = "\<lparr>conn = \<lparr>peer = g1, inq = []\<rparr>, reqID = 0\<rparr>"
  obtain a c1 where r: "run_state (hello (track_net net)) ?c = (a, c1)" by force
  obtain b c1' where r': "run_state (hello net) ?c' = (b, c1')" by force
  have "tracked (k + 1) ?c ?c'" by (simp add: tracked_def tracked_conn_def)
  then have ab: "a = b" "tracked (k + 1) c1 c1'"
    using simD [OF sim_hello _ r r'] by blast+
  have d: "net_dial (track_net net) path (g, k) = Inr (g1, k + 1)"
    using Inr by (simp add: track_net_def)
  have cl: "snd (net_close (track_net net) (peer (conn c1))) = (snd (net_close net (peer (conn c1'))), k)"
    using ab by (simp add: tracked_def tracked_conn_def track_net_def split: prod.split)
  show ?thesis
    using Inr d r r' ab cl by (cases b) (simp_all add: Dial_def)
qed

lemma with_client_tracked:
  assumes "\<And>k. sim (tracked k) m m'"
  shows "run_state (with_client (track_net net) path onerr m) (g, k) =
    (case run_state (with_client net path onerr m') g of (r, g') \<Rightarrow> (r, (g', k)))"
proof (cases "Dial net path g")
  case (Inl x)
  then show ?thesis
    using Dial_tracked [of net path g k] by (cases x) (simp add: with_client_def)
next
  case (Inr c')
  then obtain c where c: "Dial (track_net net) path (g, k) = Inr c" "tracked (k + 1) c c'"
    using Dial_tracked [of net path g k] by auto
  obtain a c1 where r: "run_state m c = (a, c1)" by force
  obtain b c1' where r': "run_state m' c' = (b, c1')" by force
  have ab: "a = b" "tracked (k + 1) c1 c1'"
    using simD [OF assms c(2) r r'] by blast+
  have "snd (Client_Close (track_net net) c1) = (snd (Client_Close net c1'), k)"
    using ab by (simp add: Client_Close_def tracked_def tracked_conn_def track_net_def split: prod.split)
  with Inr c r r' ab show ?thesis by (simp add: with_client_def)
qed

section \<open>Properties\<close>

text \<open>
  C39: Every verb closes every connection it opens, on success, on every error (of the
  handshake, of the handler, of printing the result) and on a panic: with the number of open
  connections added to the world, a verb returns what it returns without it, does the same to
  the rest of the world, and leaves that number as it was.
\<close>

theorem verbs_close_connection:
  "run_state (main (track_net net) (pair_env env) (\<lambda>r. on_fst (Print r)) v args) (g, k) =
     (case run_state (main net env Print v args) g of (r, g') \<Rightarrow> (r, (g', k)))"
proof (cases "LoadConfig (env_unicode env) (env_lib env) (args_StdinData args)")
  case (Inl err)
  then show ?thesis by (simp add: main_work with_config_def)
next
  case (Inr config)
  obtain u g1 where log: "run_state (ConfigureLogging env config) g = (u, g1)"
    by (cases "run_state (ConfigureLogging env config) g")
  then have "run_state (ConfigureLogging (pair_env env) config) (g, k) = (u, (g1, k))"
    by (simp add: ConfigureLogging_def pair_env_def on_fst_def)
  with Inr log show ?thesis
    by (simp add: main_work with_config_def with_client_tracked [OF verb_work_sim])
qed

text \<open>
  C40: A verb whose configuration is refused fails with the loading error and touches nothing,
  not even the socket. A verb that cannot connect to grout, or whose handshake fails, stops
  there: STATUS reports the CNI error code 50 (plugin not available), every other verb its
  connection error, and no handler runs. When it can connect, STATUS succeeds and only closes
  the connection again.
\<close>

theorem verbs_fail_early:
  "case LoadConfig (env_unicode env) (env_lib env) (args_StdinData args) of
     Inl err \<Rightarrow>
       run_state (main net env Print v args) g = (Err (Wrapf ''loading config: %w'' [] err), g)
   | Inr config \<Rightarrow>
       (let path = conf_GroutSocketPath config;
            g1 = snd (run_state (ConfigureLogging env config) g)
        in case Dial net path g1 of
             Inl (err, g2) \<Rightarrow>
               run_state (main net env Print v args) g =
                 (Err (if v = STATUS
                       then NewError 50 (Wrapf ''grout not reachable at %s: %v'' [AStr path] err) []
                       else Wrapf ''connecting to grout: %w'' [] err), g2)
           | Inr c \<Rightarrow>
               run_state (main net env Print STATUS args) g = (Ret (), snd (Client_Close net c)))"
proof (cases "LoadConfig (env_unicode env) (env_lib env) (args_StdinData args)")
  case (Inl err)
  then show ?thesis by (simp add: main_work with_config_def)
next
  case (Inr config)
  obtain u g1 where "run_state (ConfigureLogging env config) g = (u, g1)"
    by (cases "run_state (ConfigureLogging env config) g")
  with Inr show ?thesis
    by (auto simp: main_work with_config_def with_client_def dial_error_def verb_work_def
        connecting_def ErrPluginNotAvailable_def split: sum.split)
qed

end
