(* ===== verification/Naming.thy ===== *)
theory Naming
  imports Payloads Handler
begin

text \<open>
  Configuration and names: what \<open>LoadConfig\<close> accepts and returns, the bridge, port, device
  and socket names derived from networks and attachments, and that the requests the handlers
  build from them fit the wire format.
\<close>

section \<open>Configuration\<close>

text \<open>The configurations that \<open>LoadConfig\<close> accepts, as unmarshalled.\<close>

definition acceptable :: "unicode_tables \<Rightarrow> 'r Lib \<Rightarrow> 'r PluginConf \<Rightarrow> bool" where
  "acceptable u lib conf \<longleftrightarrow>
     \<not> IPAM_IsEmpty lib (conf_IPAM conf) \<and> conf_Name conf \<noteq> [] \<and>
     0 \<le> conf_MTU conf \<and> conf_MTU conf \<le> 65535 \<and> length (conf_Bridge conf) \<le> 15 \<and>
     conf_InterfaceType conf \<in> {[], Config.InterfaceTypeTAP, InterfaceTypeVirtio} \<and>
     (conf_LogLevel conf = [] \<or> validLogLevel u (conf_LogLevel conf))"

text \<open>The defaults that \<open>LoadConfig\<close> fills in.\<close>

definition with_defaults :: "'r PluginConf \<Rightarrow> 'r PluginConf" where
  "with_defaults conf =
     conf\<lparr>conf_Bridge := if conf_Bridge conf = [] then bridgeNameFor (conf_Name conf)
                         else conf_Bridge conf,
          conf_InterfaceType := if conf_InterfaceType conf = [] then Config.InterfaceTypeTAP
                                else conf_InterfaceType conf\<rparr>"

text \<open>
  C27: \<open>LoadConfig\<close> succeeds exactly when the input parses and the parsed configuration has an
  IPAM section, a network name, an MTU between 0 and 65535, a bridge name of at most 15 bytes,
  a known interface type and a known log level. It then returns that configuration with only
  the bridge name and the interface type defaulted; the result always names a bridge that fits
  grout's name field, has one of the two interface types, and its MTU survives the conversion
  to 16 bits.
\<close>

theorem LoadConfig_exact:
  "case json_Unmarshal lib stdin (zero_conf\<lparr>conf_GroutSocketPath := DefaultSocketPath\<rparr>) of
     Inl err \<Rightarrow> LoadConfig u lib stdin = Inl (Wrapf ''parsing CNI config: %w'' [] err)
   | Inr conf \<Rightarrow>
       (if acceptable u lib conf
        then LoadConfig u lib stdin = Inr (with_defaults conf) \<and>
          conf_ok u lib (with_defaults conf) \<and>
          uint (word_of_int (conf_MTU (with_defaults conf)) :: u16) = conf_MTU conf
        else isl (LoadConfig u lib stdin))"
proof (cases "json_Unmarshal lib stdin (zero_conf\<lparr>conf_GroutSocketPath := DefaultSocketPath\<rparr>)")
  case (Inl err)
  then show ?thesis by (simp add: LoadConfig_def)
next
  case (Inr conf)
  have types: "Config.InterfaceTypeTAP \<noteq> []" "InterfaceTypeVirtio \<noteq> []"
    by (simp_all add: Config.InterfaceTypeTAP_def InterfaceTypeVirtio_def)
  show ?thesis
  proof (cases "acceptable u lib conf")
    case True
    then have load: "LoadConfig u lib stdin = Inr (with_defaults conf)"
      using Inr types
      by (auto simp: LoadConfig_def acceptable_def with_defaults_def Let_def)
    moreover have "uint (word_of_int (conf_MTU conf) :: u16) = conf_MTU conf"
      using True by (simp add: acceptable_def uint_word_of_int)
    ultimately show ?thesis
      using Inr True LoadConfig_ok [OF load] by (simp add: with_defaults_def)
  next
    case False
    with Inr show ?thesis
      by (auto simp: LoadConfig_def acceptable_def Let_def not_le)
  qed
qed

section \<open>Bridge names\<close>

text \<open>
  C29: Every network gets a bridge name that starts with \<open>br-\<close> and fits grout's name field
  with its terminating zero; a network name of at most 12 bytes is kept whole, so two such
  networks share a bridge only if they are the same network.
\<close>

theorem bridge_name_shape:
  "strings_HasPrefix (bridgeNameFor n) ''br-'' \<and> length (bridgeNameFor n) < grIfaceNameSize \<and>
   (if length n \<le> 12
    then bridgeNameFor n = ''br-'' @ n
    else take 10 (bridgeNameFor n) = ''br-'' @ take 7 n \<and> length (bridgeNameFor n) = 15) \<and>
   inj_on bridgeNameFor {m. length m \<le> 12}"
  using length_bridgeNameFor_le [of n]
  by (cases "length n \<le> 12")
    (auto simp: bridgeNameFor_short bridgeNameFor_long inj_on_def HasPrefix_iff)

text \<open>
  C30: Bridge names of different networks can collide: for every network with a name of more
  than 12 bytes there is a different network, with the 12-byte name that follows \<open>br-\<close> in its
  bridge name, that is mapped to the same bridge.
\<close>

theorem bridge_name_collision:
  assumes "12 < length n"
  shows "\<exists>m. m \<noteq> n \<and> length m = 12 \<and> bridgeNameFor m = bridgeNameFor n"
proof (intro exI conjI)
  let ?m = "drop 3 (bridgeNameFor n)"
  show len: "length ?m = 12" using assms by (simp add: bridgeNameFor_long)
  then show "?m \<noteq> n" using assms by (metis less_irrefl)
  have "bridgeNameFor ?m = ''br-'' @ ?m" using len by (simp add: bridgeNameFor_short)
  then show "bridgeNameFor ?m = bridgeNameFor n" using assms by (simp add: bridgeNameFor_long)
qed

theorem bridge_name_collision_witness:
  "12 < length ''production-network'' \<and>
   (\<exists>m. m \<noteq> ''production-network'' \<and> bridgeNameFor m = bridgeNameFor ''production-network'')"
  using bridge_name_collision [of "''production-network''"] by auto

section \<open>Port names\<close>

lemma lower_or_digit_not:
  "lower_or_digit c \<Longrightarrow> c \<noteq> CHR ''/'' \<and> c \<noteq> CHR ''.'' \<and> c \<noteq> CHR ''-'' \<and> c \<noteq> CHR 0x00"
  by (auto simp: lower_or_digit_def)

lemma portName_chars:
  "c \<in> set (groutPortName u cid ifn) \<Longrightarrow> is_ascii c \<and> (lower_or_digit c \<or> c = CHR ''-'')"
proof -
  obtain t where "groutPortName u cid ifn = portPrefix @ t"
    "\<forall>x \<in> set t. is_ascii x \<and> lower_or_digit x"
    using groutPortName_shape by blast
  then show "c \<in> set (groutPortName u cid ifn) \<Longrightarrow> is_ascii c \<and> (lower_or_digit c \<or> c = CHR ''-'')"
    by (auto simp: portPrefix_def is_ascii_def lower_or_digit_def)
qed

lemma portName_plain:
  "CHR ''/'' \<notin> set (groutPortName u cid ifn)" "CHR 0x00 \<notin> set (groutPortName u cid ifn)"
  using portName_chars lower_or_digit_not by fastforce+

lemma vdevID_portName:
  assumes "groutPortName u cid ifn = portPrefix @ t" and "\<forall>x \<in> set t. is_ascii x \<and> lower_or_digit x"
  shows "vdevID u' (groutPortName u cid ifn) = ''grk'' @ t"
proof -
  have "strings_ToLower u' (portPrefix @ t) = portPrefix @ t"
  proof (rule ToLower_lower_id)
    have "\<forall>c \<in> set portPrefix. is_ascii c \<and> ascii_lower c = c" by code_simp
    with assms(2) show "\<forall>c \<in> set (portPrefix @ t). is_ascii c \<and> ascii_lower c = c"
      by (auto simp: ascii_lower_id)
  qed
  moreover have "filter lower_or_digit t = t"
    using assms(2) by (simp add: filter_id_conv)
  moreover have "filter lower_or_digit portPrefix = ''grk''"
    by code_simp
  ultimately show ?thesis using assms(1) by (simp add: vdevID_def)
qed

text \<open>
  C31: The port name of an attachment is 15 bytes, the prefix and 11 lower-case letters and
  digits, whatever the container id and the interface name: it fits grout's name field and the
  kernel's limit, needs no escaping in a path or a device string, and does not depend on Unicode
  tables. Its DPDK device id is 14 bytes, and two port names have the same device id only if
  they are equal.
\<close>

theorem port_name_shape:
  "length (groutPortName u cid ifn) = 15 \<and> strings_HasPrefix (groutPortName u cid ifn) portPrefix \<and>
   list_all (\<lambda>c. is_ascii c \<and> lower_or_digit c) (drop 4 (groutPortName u cid ifn)) \<and>
   groutPortName u' cid ifn = groutPortName u cid ifn \<and>
   length (vdevID u (groutPortName u cid ifn)) = 14 \<and>
   (vdevID u (groutPortName u cid ifn) = vdevID u (groutPortName u cid' ifn') \<longleftrightarrow>
      groutPortName u cid ifn = groutPortName u cid' ifn')"
proof -
  obtain t where t: "groutPortName u cid ifn = portPrefix @ t" "length t = 11"
    "\<forall>x \<in> set t. is_ascii x \<and> lower_or_digit x"
    using groutPortName_shape by blast
  obtain t' where t': "groutPortName u cid' ifn' = portPrefix @ t'"
    "\<forall>x \<in> set t'. is_ascii x \<and> lower_or_digit x"
    using groutPortName_shape by blast
  show ?thesis
    using t t' vdevID_portName [OF t(1,3), of u] vdevID_portName [OF t', of u]
      groutPortName_tables [of u' cid ifn u]
    by (simp add: list_all_iff) (simp add: portPrefix_def)
qed

section \<open>Socket paths\<close>

definition vhost_prefix :: "string \<Rightarrow> string" where
  "vhost_prefix sock =
     (let d = filepath_Dir sock
      in (if hd d = CHR ''/'' then ''/'' else []) @ strings_Join (rev (clean_stack d) @ [''vhost'']) ''/''
         @ ''/'')"

lemma vhostSocketPath_prefix:
  assumes "CHR ''/'' \<notin> set name"
  shows "vhostSocketPath sock name = vhost_prefix sock @ name @ ''.sock''"
proof -
  let ?d = "filepath_Dir sock"
  let ?x = "name @ ''.sock''"
  have x: "CHR ''/'' \<notin> set ?x" "?x \<noteq> []" "?x \<noteq> ''.''" "?x \<noteq> ''..''"
    using assms by (auto simp: append_eq_Cons_conv)
  have "clean_stack (?d @ ''/'' @ ''vhost'') = ''vhost'' # clean_stack ?d"
    by (rule clean_stack_snoc) simp_all
  moreover have "clean_stack ((?d @ ''/'' @ ''vhost'') @ ''/'' @ ?x) = ?x # clean_stack (?d @ ''/'' @ ''vhost'')"
    using x by (intro clean_stack_snoc) simp_all
  ultimately have "clean_stack (?d @ ''/vhost/'' @ ?x) = ?x # ''vhost'' # clean_stack ?d"
    by simp
  moreover have "vhostSocketPath sock name = filepath_Clean (?d @ ''/vhost/'' @ ?x)"
    by (simp add: vhostSocketPath_def filepath_Join_def)
  moreover have "strings_Join (rev (clean_stack ?d) @ [''vhost'', ?x]) ''/'' =
      strings_Join (rev (clean_stack ?d) @ [''vhost'']) ''/'' @ ''/'' @ ?x"
    using strings_Join_snoc [of "rev (clean_stack ?d) @ [''vhost'']" ?x "''/''"] by simp
  ultimately show ?thesis
    by (simp add: filepath_Clean_def vhost_prefix_def Let_def)
qed

text \<open>
  C32: The vhost-user socket of a port lies in the \<open>vhost\<close> directory next to grout's control
  socket and is named after the port; ports with different names have different sockets, so
  removing one attachment's socket never removes another's. With the default control socket the
  directory is \<open>/run/grout/vhost\<close>.
\<close>

theorem vhost_socket_paths:
  "vhostSocketPath sock (groutPortName u cid ifn) =
     vhost_prefix sock @ groutPortName u cid ifn @ ''.sock'' \<and>
   (vhostSocketPath sock (groutPortName u cid ifn) = vhostSocketPath sock (groutPortName u cid' ifn')
      \<longleftrightarrow> groutPortName u cid ifn = groutPortName u cid' ifn') \<and>
   vhost_prefix DefaultSocketPath = ''/run/grout/vhost/''"
proof -
  have "vhost_prefix DefaultSocketPath = ''/run/grout/vhost/''" by code_simp
  then show ?thesis by (simp add: vhostSocketPath_prefix portName_plain)
qed

section \<open>The handlers' requests fit the wire format\<close>

lemma length_port_devargs:
  "length (port_devargs u (port_request conf (groutPortName u cid ifn) b sock)) =
     (if sock = [] then 44 else 31 + length sock)"
proof -
  obtain t where t: "groutPortName u cid ifn = portPrefix @ t" "length t = 11"
    "\<forall>x \<in> set t. is_ascii x \<and> lower_or_digit x"
    using groutPortName_shape by blast
  have "length (vdevID u (groutPortName u cid ifn)) = 14"
    using t vdevID_portName [OF t(1,3), of u] by simp
  then show ?thesis
    by (simp add: port_devargs_def port_request_def tapDevargs_def vhostDevargs_def)
qed

text \<open>
  C33: The port request that ADD builds is encoded without loss: it is refused only for a
  vhost-user socket path of more than 96 bytes, and otherwise its payload decodes to a port
  with the attachment's name on the given bridge, with the configured MTU. A TAP port is never
  refused, nor is a virtio port under the default control socket.
\<close>

theorem port_request_encodes:
  "(if length sock \<le> 96
   then \<exists>p. iface_add_payload u (port_request conf (groutPortName u cid ifn) b sock) = Inr p \<and>
     decode_iface p =
       \<lparr>if_ID = 0, if_Type = Client.InterfaceTypeTAP, if_Name = groutPortName u cid ifn, if_Domain = b\<rparr> \<and>
     get16 offIfaceMTU p = word_of_int (conf_MTU conf)
   else isl (iface_add_payload u (port_request conf (groutPortName u cid ifn) b sock))) \<and>
   length (vhostSocketPath DefaultSocketPath (groutPortName u cid ifn)) = 37"
proof -
  have "vhost_prefix DefaultSocketPath = ''/run/grout/vhost/''" by code_simp
  then have default: "length (vhostSocketPath DefaultSocketPath (groutPortName u cid ifn)) = 37"
    by (simp add: vhostSocketPath_prefix portName_plain)
  let ?r = "port_request conf (groutPortName u cid ifn) b sock"
  have t: "ia_Type ?r \<notin> {InterfaceTypeBridge, InterfaceTypeVXLAN}"
    by (simp add: port_request_def Client.InterfaceTypeTAP_def InterfaceTypeBridge_def
        InterfaceTypeVXLAN_def)
  have dec: "decode_iface p =
       \<lparr>if_ID = 0, if_Type = Client.InterfaceTypeTAP, if_Name = groutPortName u cid ifn, if_Domain = b\<rparr> \<and>
     get16 offIfaceMTU p = word_of_int (conf_MTU conf)" if "iface_add_payload u ?r = Inr p" for p
    using iface_add_fields [OF that] portName_plain
    by (simp add: port_request_def grIfaceIDUndef_def)
  show ?thesis
    using default port_devargs_refused [OF t, of u] dec length_port_devargs [of u conf cid ifn b sock]
    by (cases "iface_add_payload u ?r") (auto split: if_splits)
qed

end
