(* ===== verification/Results.thy ===== *)
theory Results
  imports Handler
begin

text \<open>
  What the handlers compute from an IPAM result: the gateways of the bridge, the result
  returned to the runtime, the pod's MAC address, and the verdict on a pod's interface.
\<close>

section \<open>Gateways\<close>

definition is_v4 :: "IPConfig \<Rightarrow> bool" where
  "is_v4 ip \<longleftrightarrow> IP_To4 (IP (ipc_Address ip)) \<noteq> None"

text \<open>The addresses whose family has not occurred before, in order.\<close>

definition family_heads :: "IPConfig list \<Rightarrow> IPConfig list" where
  "family_heads ips =
     map (\<lambda>i. ips ! i) (filter (\<lambda>i. list_all (\<lambda>j. is_v4 (ips ! j) \<noteq> is_v4 (ips ! i)) [0..<i]) [0..<length ips])"

definition gateway_net :: "IPConfig \<Rightarrow> IPNet" where
  "gateway_net ip =
     \<lparr>IP = (case gateway_of ip of Ret gw \<Rightarrow> gw | _ \<Rightarrow> []), Mask = Mask (ipc_Address ip)\<rparr>"

text \<open>The recursion of the loop, on plain lists: what is still to come for each family.\<close>

fun unseen :: "bool \<Rightarrow> bool \<Rightarrow> IPConfig list \<Rightarrow> IPConfig list" where
  "unseen seen4 seen6 [] = []"
| "unseen seen4 seen6 (ip # ips) =
     (if (if is_v4 ip then seen4 else seen6) then unseen seen4 seen6 ips
      else ip # unseen (seen4 \<or> is_v4 ip) (seen6 \<or> \<not> is_v4 ip) ips)"

lemma gateway_of_not_Err: "gateway_of ip \<noteq> Err e"
  by (auto simp: gateway_of_def split: option.splits)

lemma gateways_loop_Some:
  "gateways_loop (Some ip # ips) s4 s6 gws =
     (if (if is_v4 ip then s4 else s6) then gateways_loop ips s4 s6 gws
      else case gateway_of ip of
        Panic \<Rightarrow> Panic
      | _ \<Rightarrow> gateways_loop ips (s4 \<or> is_v4 ip) (s6 \<or> \<not> is_v4 ip) (gws @ [gateway_net ip]))"
  by (cases "gateway_of ip"; cases "IP_To4 (IP (ipc_Address ip))")
    (simp_all add: Let_def is_v4_def gateway_net_def gateway_of_not_Err)

lemma gateways_loop_unseen:
  "gateways_loop (map Some ips) s4 s6 gws =
     (if \<exists>ip \<in> set (unseen s4 s6 ips). gateway_of ip = Panic then Panic
      else Ret (gws @ map gateway_net (unseen s4 s6 ips)))"
proof (induction ips arbitrary: s4 s6 gws)
  case (Cons ip ips)
  show ?case
    unfolding list.map gateways_loop_Some
    by (cases "gateway_of ip") (simp_all add: Cons gateway_of_not_Err)
qed simp

lemma gateways_loop_nil:
  "None \<in> set ips \<Longrightarrow> gateways_loop ips seen4 seen6 gws = Panic"
proof (induction ips seen4 seen6 gws rule: gateways_loop.induct)
  case (3 ip ips seen4 seen6 gws)
  then show ?case
    by (cases "gateway_of ip") (auto simp: Let_def gateway_of_not_Err)
qed simp_all

text \<open>The recursion finds the first address of each family.\<close>

lemma unseen_snoc:
  "unseen s4 s6 (ips @ [ip]) =
     unseen s4 s6 ips @
     (if (if is_v4 ip then s4 \<or> list_ex is_v4 ips else s6 \<or> list_ex (\<lambda>i. \<not> is_v4 i) ips)
      then [] else [ip])"
  by (induction ips arbitrary: s4 s6) auto

lemma family_heads_snoc:
  "family_heads (ips @ [ip]) =
     family_heads ips @ (if list_all (\<lambda>i. is_v4 i \<noteq> is_v4 ip) ips then [ip] else [])"
proof -
  have nth: "map (\<lambda>i. (ips @ [ip]) ! i) (filter (\<lambda>i. list_all (\<lambda>j. is_v4 ((ips @ [ip]) ! j) \<noteq>
      is_v4 ((ips @ [ip]) ! i)) [0..<i]) [0..<length ips]) = family_heads ips"
    unfolding family_heads_def
    by (intro map_cong filter_cong refl) (auto simp: nth_append list_all_iff)
  show ?thesis
    using nth by (auto simp: family_heads_def nth_append list_all_iff all_set_conv_all_nth)
qed

lemma unseen_heads: "unseen False False ips = family_heads ips"
proof (induction ips rule: rev_induct)
  case Nil
  then show ?case by (simp add: family_heads_def)
next
  case (snoc ip ips)
  then show ?case
    by (auto simp: unseen_snoc family_heads_snoc list_all_iff list_ex_iff)
qed

text \<open>
  C34: The gateways assigned to the bridge are one per address family of the IPAM result: of
  the first address of each family, in order, with that address's mask. The computation panics
  exactly when an address is nil, or when one of these first addresses has no gateway and its
  masked form is nil or empty.
\<close>

theorem gatewaysFor_heads:
  "gatewaysFor result =
     (if None \<in> set (res_IPs result)
         \<or> (\<exists>ip \<in> set (family_heads (map the (res_IPs result))).
              ipc_Gateway ip = None \<and>
              IP_Mask (IP (ipc_Address ip)) (Mask (ipc_Address ip)) \<in> {None, Some []})
      then Panic
      else Ret (map gateway_net (family_heads (map the (res_IPs result)))))"
proof (cases "None \<in> set (res_IPs result)")
  case True
  then show ?thesis by (simp add: gatewaysFor_def gateways_loop_nil)
next
  case False
  then have some: "res_IPs result = map Some (map the (res_IPs result))"
    by (metis (no_types, lifting) list.map_comp map_idI comp_apply option.collapse)
  have panic: "gateway_of ip = Panic \<longleftrightarrow> ipc_Gateway ip = None \<and>
      IP_Mask (IP (ipc_Address ip)) (Mask (ipc_Address ip)) \<in> {None, Some []}" for ip
    by (auto simp: gateway_of_def split: option.splits)
  show ?thesis
    using False gateways_loop_unseen [of "map the (res_IPs result)" False False "[]"]
    by (subst gatewaysFor_def, subst some) (simp add: unseen_heads panic)
qed

text \<open>
  \<open>IP.Mask\<close> with the same mask, on every address of the masked address's length.
\<close>

lemma IP_Mask_cases:
  "length m = 16 \<Longrightarrow> length x = 4 \<Longrightarrow> take 12 m = replicate 12 0xff \<Longrightarrow>
     IP_Mask x m = Some (map2 (AND) x (drop 12 m))"
  "length m = 4 \<Longrightarrow> length x = 16 \<Longrightarrow> take 12 x = v4InV6Prefix \<Longrightarrow>
     IP_Mask x m = Some (map2 (AND) (drop 12 x) m)"
  "length x = length m \<Longrightarrow> IP_Mask x m = Some (map2 (AND) x m)"
proof -
  show "length m = 16 \<Longrightarrow> length x = 4 \<Longrightarrow> take 12 m = replicate 12 0xff \<Longrightarrow>
      IP_Mask x m = Some (map2 (AND) x (drop 12 m))"
    and "length m = 4 \<Longrightarrow> length x = 16 \<Longrightarrow> take 12 x = v4InV6Prefix \<Longrightarrow>
      IP_Mask x m = Some (map2 (AND) (drop 12 x) m)"
    by (simp_all only: IP_Mask_def Let_def if_True length_drop simp_thms) simp_all
  assume len: "length x = length m"
  then have "\<not> (length m = 16 \<and> length x = 4 \<and> take 12 m = replicate 12 0xff)"
    "\<not> (length m = 4 \<and> length x = 16 \<and> take 12 x = v4InV6Prefix)"
    by linarith+
  then show "IP_Mask x m = Some (map2 (AND) x m)"
    using len by (simp only: IP_Mask_def Let_def if_False if_True simp_thms)
qed

lemma IP_Mask_same:
  assumes "IP_Mask ip m = Some n"
  shows "\<exists>ip' m'. length ip' = length m' \<and> n = map2 (AND) ip' m' \<and> m' \<in> {m, drop 12 m} \<and>
    (\<forall>x. length x = length n \<longrightarrow> IP_Mask x m = Some (map2 (AND) x m'))"
proof -
  consider "length m = 16" "length ip = 4" "take 12 m = replicate 12 0xff"
    | "length m = 4" "length ip = 16" "take 12 ip = v4InV6Prefix"
    | "length ip = length m"
  proof (cases "length m = 16 \<and> length ip = 4 \<and> take 12 m = replicate 12 0xff")
    case False
    then show ?thesis
      using assms that
      by (cases "length m = 4 \<and> length ip = 16 \<and> take 12 ip = v4InV6Prefix")
        (simp_all only: IP_Mask_def Let_def if_False if_True simp_thms option.distinct split: if_splits)
  qed (use that in simp)
  then show ?thesis
  proof cases
    case 1
    then have "n = map2 (AND) ip (drop 12 m)" using assms IP_Mask_cases(1) by simp
    with 1 show ?thesis
      by (intro exI [of _ ip] exI [of _ "drop 12 m"]) (simp add: IP_Mask_cases(1))
  next
    case 2
    then have "n = map2 (AND) (drop 12 ip) m" using assms IP_Mask_cases(2) by simp
    with 2 show ?thesis
      by (intro exI [of _ "drop 12 ip"] exI [of _ m]) (simp add: IP_Mask_cases(3))
  next
    case 3
    then have "n = map2 (AND) ip m" using assms IP_Mask_cases(3) by simp
    with 3 show ?thesis
      by (intro exI [of _ ip] exI [of _ m]) (simp add: IP_Mask_cases(3))
  qed
qed

lemma map2_and_idem:
  "length xs = length ys \<Longrightarrow> map2 (AND) (map2 (AND) xs ys) ys = map2 (AND) xs (ys :: bytes)"
  by (induction xs ys rule: list_induct2) (simp_all add: and.assoc)

lemma host_bit_and:
  fixes x y :: u8
  assumes "\<not> bit y 0"
  shows "((x AND y) + 1) AND y = x AND y" and "(x AND y) + 1 = (x AND y) OR 1"
proof -
  have "(x AND y) AND 1 = 0"
    using assms by (intro bit_word_eqI) (auto simp: bit_simps bit_1_iff intro: gr0I)
  then show plus: "(x AND y) + 1 = (x AND y) OR 1"
    by (rule disjunctive_add_eq_or)
  show "((x AND y) + 1) AND y = x AND y"
    unfolding plus using assms by (intro bit_word_eqI) (auto simp: bit_simps bit_1_iff intro: gr0I)
qed

text \<open>
  C35: When IPAM supplies no gateway, the one derived from the address lies in the address's
  own subnet, is different from the subnet's address and only adds the lowest bit to it,
  provided the mask leaves at least the lowest bit to hosts.
\<close>

theorem gateway_in_subnet:
  assumes "ipc_Gateway ip = None"
    and "IP_Mask (IP (ipc_Address ip)) (Mask (ipc_Address ip)) = Some n"
    and "n \<noteq> []" and "\<not> bit (last (Mask (ipc_Address ip))) 0"
  shows "\<exists>gw. gateway_of ip = Ret gw \<and> IP_Mask gw (Mask (ipc_Address ip)) = Some n \<and>
    gw = butlast n @ [last n OR 1] \<and> gw \<noteq> n"
proof -
  let ?m = "Mask (ipc_Address ip)"
  obtain ip' m' where im: "length ip' = length m'" "n = map2 (AND) ip' m'" "m' \<in> {?m, drop 12 ?m}"
    and mask: "\<And>x. length x = length n \<Longrightarrow> IP_Mask x ?m = Some (map2 (AND) x m')"
    using IP_Mask_same [OF assms(2)] by blast
  have "m' \<noteq> []" using assms(3) im by auto
  then have bit: "\<not> bit (last m') 0"
    using assms(4) im(3) by (auto simp: last_drop)
  obtain a x b y where ab: "ip' = a @ [x]" "m' = b @ [y]"
    using \<open>m' \<noteq> []\<close> im(1) by (metis append_butlast_last_id length_0_conv)
  have len: "length a = length b" using im(1) ab by simp
  have y: "\<not> bit y 0" using bit ab by simp
  have n: "n = map2 (AND) a b @ [x AND y]" using im(2) ab len by simp
  let ?gw = "map2 (AND) a b @ [(x AND y) + 1]"
  have "gateway_of ip = Ret ?gw"
    using assms(1,2) n by (simp add: gateway_of_def)
  moreover have "IP_Mask ?gw ?m = Some n"
    using mask [of ?gw] n len ab host_bit_and(1) [OF y, of x] by (simp add: map2_and_idem)
  moreover have "?gw = butlast n @ [last n OR 1]"
    using n host_bit_and(2) [OF y, of x] by simp
  moreover have "?gw \<noteq> n" using n by simp
  ultimately show ?thesis by blast
qed

definition sample_ip :: IPConfig where
  "sample_ip = \<lparr>ipc_Interface = None,
     ipc_Address = \<lparr>IP = [10, 0, 0, 5], Mask = [255, 255, 255, 0]\<rparr>, ipc_Gateway = None\<rparr>"

theorem gateway_in_subnet_witness:
  "ipc_Gateway sample_ip = None \<and>
   gateway_of sample_ip = Ret [10, 0, 0, 1] \<and>
   IP_Mask [10, 0, 0, 1] (Mask (ipc_Address sample_ip)) = Some [10, 0, 0, 0]"
proof -
  have "IP_Mask (IP (ipc_Address sample_ip)) (Mask (ipc_Address sample_ip)) = Some [10, 0, 0, 0]"
    by code_simp
  moreover have "\<not> bit (last (Mask (ipc_Address sample_ip))) 0"
    by (simp add: sample_ip_def)
  ultimately show ?thesis
    using gateway_in_subnet [of sample_ip "[10, 0, 0, 0]"] by (simp add: sample_ip_def)
qed

section \<open>The CNI result\<close>

lemma point_ips_map:
  "point_ips ips =
     (if None \<in> set ips then Panic
      else Ret (map (map_option (\<lambda>ipc. ipc\<lparr>ipc_Interface := Some 0\<rparr>)) ips))"
  by (induction ips rule: point_ips.induct) auto

text \<open>
  C36: The result of an ADD names one interface, the pod's, and points every allocated address
  at it; addresses, gateways, routes, DNS settings and version are those of the IPAM result. A
  TAP's interface has the pod's namespace as its sandbox and no socket; a virtio interface has
  the socket and no sandbox. A nil address makes either one panic.
\<close>

theorem result_contents:
  "podResult args res =
     (if None \<in> set (res_IPs res) then Panic
      else Ret (res\<lparr>
        res_Interfaces := [\<lparr>int_Name = args_IfName args, int_Mac = [],
          int_Sandbox = args_Netns args, int_SocketPath = []\<rparr>],
        res_IPs := map (map_option (\<lambda>ipc. ipc\<lparr>ipc_Interface := Some 0\<rparr>)) (res_IPs res)\<rparr>))
   \<and> vhostResult args res sock =
     (if None \<in> set (res_IPs res) then Panic
      else Ret (res\<lparr>
        res_Interfaces := [\<lparr>int_Name = args_IfName args, int_Mac = [],
          int_Sandbox = [], int_SocketPath = sock\<rparr>],
        res_IPs := map (map_option (\<lambda>ipc. ipc\<lparr>ipc_Interface := Some 0\<rparr>)) (res_IPs res)\<rparr>))"
  by (simp add: podResult_def vhostResult_def result_for_def point_ips_map)

section \<open>The pod's MAC address\<close>

lemma first_ip_None_iff:
  "first_ip conv ips = None \<longleftrightarrow> (\<forall>ipc. Some ipc \<in> set ips \<longrightarrow> conv (IP (ipc_Address ipc)) = None)"
proof (induction conv ips rule: first_ip.induct)
  case (3 conv ipc ips)
  then show ?case by (cases "conv (IP (ipc_Address ipc))") auto
qed auto

lemma first_ip_Some: "first_ip conv ips = Some ip \<Longrightarrow> \<exists>x. conv x = Some ip"
proof (induction conv ips rule: first_ip.induct)
  case (3 conv ipc ips)
  then show ?case by (cases "conv (IP (ipc_Address ipc))") auto
qed auto

lemma first_ip_lengths:
  "first_ip IP_To4 ips = Some ip \<Longrightarrow> length ip = 4"
  "first_ip IP_To16 ips = Some ip6 \<Longrightarrow> length ip6 = 16"
  by (auto dest!: first_ip_Some To4_length To16_length)

text \<open>None of the addresses has the form.\<close>

definition lacks :: "(IP \<Rightarrow> IP option) \<Rightarrow> IPConfig option list \<Rightarrow> bool" where
  "lacks conv ips \<longleftrightarrow>
     list_all (\<lambda>x. case x of None \<Rightarrow> True | Some ipc \<Rightarrow> conv (IP (ipc_Address ipc)) = None) ips"

lemma first_ip_lacks: "first_ip conv ips = None \<longleftrightarrow> lacks conv ips"
  unfolding first_ip_None_iff lacks_def list_all_iff by (auto split: option.splits)

lemma first_ip_split:
  "first_ip conv ips = Some ip \<Longrightarrow>
   \<exists>pre ipc post. ips = pre @ Some ipc # post \<and> lacks conv pre \<and> conv (IP (ipc_Address ipc)) = Some ip"
proof (induction conv ips rule: first_ip.induct)
  case (2 conv ips)
  then obtain pre ipc post where "ips = pre @ Some ipc # post" "lacks conv pre"
    "conv (IP (ipc_Address ipc)) = Some ip" by auto
  then show ?case by (intro exI [of _ "None # pre"]) (auto simp: lacks_def)
next
  case (3 conv ipc ips)
  show ?case
  proof (cases "conv (IP (ipc_Address ipc))")
    case None
    with 3 obtain pre ipc' post where "ips = pre @ Some ipc' # post" "lacks conv pre"
      "conv (IP (ipc_Address ipc')) = Some ip" by auto
    with None show ?thesis by (intro exI [of _ "Some ipc # pre"]) (auto simp: lacks_def)
  next
    case (Some x)
    with 3 show ?thesis by (intro exI [of _ "[]"]) (auto simp: lacks_def)
  qed
qed simp

lemma four_bytes: "length ip = 4 \<Longrightarrow> [ip ! 0, ip ! 1, ip ! 2, ip ! 3] = ip"
  by (auto simp: numeral_eq_Suc length_Suc_conv)

lemma last_four: "length ip = 16 \<Longrightarrow> [ip ! 12, ip ! 13, ip ! 14, ip ! 15] = drop 12 ip"
  using four_bytes [of "drop 12 ip"] by simp

text \<open>
  C37: The pod's MAC address is a function of its addresses: the locally administered unicast
  prefix \<open>02:00\<close>, then the four bytes of the first address with an IPv4 form, wherever it is in
  the list, or, when there is none, the last four bytes of the first IPv6 address; pods whose
  first IPv4 addresses differ therefore have different MAC addresses. It is missing exactly when
  no address is valid.
\<close>

theorem pod_mac:
  "case podMACFromResult (Some res) of
     None \<Rightarrow> lacks IP_To4 (res_IPs res) \<and> lacks IP_To16 (res_IPs res)
   | Some mac \<Rightarrow>
       length mac = 6 \<and> take 2 mac = [0x02, 0x00] \<and> hd mac AND 3 = 2 \<and>
       ((\<exists>pre ipc post. res_IPs res = pre @ Some ipc # post \<and> lacks IP_To4 pre \<and>
           IP_To4 (IP (ipc_Address ipc)) = Some (drop 2 mac))
        \<or> lacks IP_To4 (res_IPs res) \<and>
          (\<exists>pre ipc post ip6. res_IPs res = pre @ Some ipc # post \<and> lacks IP_To16 pre \<and>
             IP_To16 (IP (ipc_Address ipc)) = Some ip6 \<and> drop 2 mac = drop 12 ip6))"
proof (cases "first_ip IP_To4 (res_IPs res)")
  case (Some ip4)
  then have "podMACFromResult (Some res) = Some (0x02 # 0x00 # ip4)"
    using first_ip_lengths(1) [OF Some] four_bytes by (simp add: podMACFromResult_def)
  then show ?thesis
    using first_ip_split [OF Some] first_ip_lengths(1) [OF Some] by simp
next
  case None
  note no4 = this
  show ?thesis
  proof (cases "first_ip IP_To16 (res_IPs res)")
    case (Some ip6)
    then have "podMACFromResult (Some res) = Some (0x02 # 0x00 # drop 12 ip6)"
      using no4 first_ip_lengths(2) [OF Some] last_four by (simp add: podMACFromResult_def)
    then show ?thesis
      using first_ip_split [OF Some] first_ip_lengths(2) [OF Some] no4
      by (simp add: first_ip_lacks) blast
  next
    case None
    then have "podMACFromResult (Some res) = None" using no4 by (simp add: podMACFromResult_def)
    then show ?thesis using None no4 by (simp add: first_ip_lacks)
  qed
qed

text \<open>So an IPv6 address that comes first is passed over for a later IPv4 address.\<close>

lemma pod_mac_passes_over:
  assumes "res_IPs res = [Some c6, Some c4]" "IP_To4 (IP (ipc_Address c6)) = None"
    and "IP_To4 (IP (ipc_Address c4)) = Some ip4"
  shows "podMACFromResult (Some res) = Some (0x02 # 0x00 # ip4)"
  using assms To4_length [OF assms(3)] four_bytes by (simp add: podMACFromResult_def)

section \<open>Verifying the pod's interface\<close>

lemma missing_addr_None:
  "missing_addr addrs wants = None \<longleftrightarrow> list_all (\<lambda>want. addrPresent addrs (IP want)) wants"
  by (induction wants) auto

text \<open>
  C38: The verification of a pod's interface succeeds exactly when the interface is found in
  the pod's namespace, is up, and, if addresses are expected, its addresses can be listed and
  each expected one is among them, in its 4-byte or 16-byte form.
\<close>

theorem verify_iff:
  "fst (run_state (verify_in_ns env ns path name wants) w) = Inr None \<longleftrightarrow>
     (case run_state (LinkByName env ns name) w of
        (Inl _, _) \<Rightarrow> False
      | (Inr link, w') \<Rightarrow>
          link_Up link \<and>
          (wants = [] \<or>
           (case fst (run_state (AddrList env ns link) w') of
              Inl _ \<Rightarrow> False
            | Inr addrs \<Rightarrow>
                list_all (\<lambda>want. \<exists>n. Some n \<in> set addrs \<and> IP_Equal (IP n) (IP want)) wants)))"
proof -
  have present: "addrPresent addrs ip \<longleftrightarrow> (\<exists>n. Some n \<in> set addrs \<and> IP_Equal (IP n) ip)" for addrs ip
    by (force simp: addrPresent_def list_ex_iff split: option.splits)
  show ?thesis
    unfolding present [symmetric] missing_addr_None [symmetric]
    by (auto simp: verify_in_ns_def try_val_def
        split: prod.splits sum.splits option.splits)
qed

end
