(* ===== verification/Spec2Isabelle.thy ===== *)
theory Spec2Isabelle
  imports Serial PluginProps Naming Results
begin

text \<open>
  A verification of grout-cni, a CNI plugin that attaches pods to the grout software router.

  \<^bold>\<open>The program.\<close> The container runtime calls the plugin binary (\<open>src/cmd/grout-cni/main.go\<close>)
  with one of the verbs ADD, DEL, CHECK, GC, STATUS and a configuration. The binary parses the
  configuration (\<open>src/pkg/cni/config.go\<close>), installs a logger (\<open>src/pkg/cni/logging.go\<close>),
  dials grout's control socket (\<open>src/pkg/groutapi\<close>) and calls the handler of the verb
  (\<open>src/pkg/cni/handler.go\<close>). A handler works under a file lock that it shares
  with the handlers of the same control socket (\<open>src/pkg/cni/lock.go\<close>): ADD allocates an address through the IPAM plugin, finds or creates the
  network's bridge, gives it its gateway addresses, creates the pod's port as a member of the
  bridge and, for a TAP port, moves and configures the link in the pod's namespace
  (\<open>src/pkg/cni/netns.go\<close>). The plugin keeps no state: every verb finds the port again by a name
  that is computed from the container id and the interface name (\<open>src/pkg/cni/portname.go\<close>).

  \<^bold>\<open>The model.\<close> Go strings are character lists, byte slices lists of 8-bit words, integers keep
  their width as words where the code relies on it (ids, lengths, MTU, the wire format). Errors
  are values (\<open>error\<close>, with the format string and what it wraps); a function that returns an
  error is of a sum or option type, one that may panic of type \<open>outcome\<close>. Stateful code is in
  the state monad over a world of arbitrary type. What is not in the repository is a parameter:
  the operating system, netlink, namespaces and IPAM delegation are the operations of the record
  \<open>Env\<close>, the CNI library the record \<open>Lib\<close>, the peer of the control socket the record \<open>Net\<close>,
  the grout client of the handlers the record \<open>GroutClient\<close> (a Go interface), Unicode tables
  the record \<open>unicode_tables\<close>. The theorems hold for all of them. \<open>NetNS.Do\<close> of the CNI
  plugin library runs a closure of the program inside a namespace; its documented contract is
  written out (\<open>ns_Do\<close>): it enters the namespace, runs the closure and leaves again, with
  \<open>ns_Enter\<close> and \<open>ns_Leave\<close> as operations of \<open>Env\<close>.

  \<^item> \<open>Prelude\<close>, \<open>GoStrings\<close>, \<open>GoHash\<close>, \<open>GoNet\<close>: words and bytes, errors and outcomes, weakest
    preconditions (\<open>wp\<close>), and the parts of Go's library the program uses (paths, trimming,
    hexadecimal and base32, FNV-1a, SHA-256, IP addresses and masks).
  \<^item> \<open>Protocol\<close>, \<open>Client\<close>: \<open>protocol.go\<close>, \<open>types.go\<close> and \<open>client.go\<close> of \<open>src/pkg/groutapi\<close>:
    headers, requests and responses on a connection, the response-stream loop, the payload of
    every API call with the offsets of its fields, the handshake.
  \<^item> \<open>Config\<close>, \<open>PortName\<close>, \<open>System\<close>, \<open>Lock\<close>, \<open>Netns\<close>, \<open>Handler\<close>: the files of \<open>src/pkg/cni\<close>, one
    definition for each function, the longer ones cut where the source has a step of its own
    (\<open>add_to_bridge\<close>, \<open>add_port\<close>, \<open>setup_pod_link\<close> are the body of \<open>HandleAdd\<close>).
  \<^item> \<open>Plugin\<close>: \<open>main.go\<close>, with the handlers run on a client over a connection.

  \<^bold>\<open>What is shown.\<close>

  \<^item> \<open>Trace\<close>, \<open>NetTrace\<close>, \<open>HandlerTrace\<close>, \<open>AddTrace\<close>: the calls of the handlers with their
    arguments and answers, exactly and on every branch, down to the single link operations in the
    pod's namespace (\<open>NetTrace\<close>); only the functions that a caller injects for these are one call
    each. \<open>record_env\<close> adds a log to any environment; the locale \<open>call_log\<close> and its
    extensions \<open>add_log\<close>, \<open>del_log\<close>, \<open>gc_log\<close> are the contract of an environment that logs,
    and the recorded environments are their interpretations. \<open>Simulation\<close>: related environments
    give related runs (locale \<open>env_sim\<close> and its extensions), so recording is transparent.
  \<^item> \<open>HandlerProps\<close> (C1 to C9, C28): the locking discipline; IPAM allocation and release are paired;
    rollback; what ADD, DEL, CHECK and GC do and what they never touch; every namespace that is
    entered is left and its handle closed.
  \<^item> \<open>Table\<close>, \<open>TableProps\<close> (C11 to C15): grout's interfaces as a table. ADD, DEL and GC implement
    abstract specifications on it, DEL undoes ADD; whatever verbs run, ids and names stay
    unique and the interfaces of others are left alone, and if ADD runs only with bridge names
    that are usable (\<open>usable\<close>), the table stays well-formed. The hypothesis is that grout's
    answers agree with a table (\<open>table_run\<close>): listings are complete, names and ids of new
    interfaces fresh, deletions effective.
  \<^item> \<open>Serial\<close> (C10): handlers that run at the same time, each with its own control socket; those
    that share a lock file are serialised by its lock, as in the sequences of verbs that
    \<open>TableProps\<close> considers. The locks are those of \<open>flock(2)\<close>, one for each path; that a lock
    file is not replaced while it is in use is part of this model.
  \<^item> \<open>Wire\<close> (C16 to C18) and \<open>Payloads\<close> (C19 to C26): which bytes are sent and which are accepted;
    every field of every request is found again at its offset; refusals send nothing.
  \<^item> \<open>Naming\<close> (C27, C29 to C33): configuration, bridge, port and device names, socket paths.
  \<^item> \<open>Results\<close> (C34 to C38): gateways, CNI results, MAC addresses, the verdict on a pod's interface.
  \<^item> \<open>PluginProps\<close> (C39, C40): every connection is closed; how the verbs fail.

  \<^bold>\<open>Termination.\<close> No definition uses fuel. The loops over slices are structural recursions. The
  response-stream loop reads a finite queue of received bytes and its termination is proved:
  every response consumes its header, and an exhausted queue is the end of the stream.

  \<^bold>\<open>Not modelled.\<close> Log output (the calls have no effect on the modelled state; the level that is
  installed is modelled). Time: a read that blocks without end, and the timer of the lock, which
  is the environment's answer \<open>FlockTimeout\<close>. The client's mutex: an exchange is one step of
  the model. The order of a Go map is never observed. The kernel, grout, the IPAM plugins and
  the CNI library are parameters. Tests, container images and manifests are not program code.
\<close>

end
